(* ===== verification/Go_Prelude.thy ===== *)
theory Go_Prelude
  imports Main "HOL-Library.AList" "HOL-Library.Word" "HOL-Library.Finite_Map"
    "HOL-Library.Char_ord" "HOL-Library.List_Lexorder" "HOL-Library.Sublist"
begin

text \<open>
  Shared vocabulary of the development: the Go notions the SDK is written with.
  Strings are byte strings (\<open>char list\<close>), as in Go. A Go map whose iteration order the
  code observes is an association list with distinct keys (\<open>gomap\<close>): the list order
  stands for the order \<open>range\<close> happens to take, so a theorem for every such list holds for
  every iteration order. Maps that carry data only are finite maps. Durations are
  nanoseconds, with the wrap-around of \<open>int64\<close> written out by \<open>wrap64\<close>. Decimal printing
  (\<open>%d\<close> of \<open>fmt.Sprintf\<close>) and its inverse are here as well, with the lemma collections used
  by the component theories.
\<close>

named_theorems go_maps \<open>lookup laws of association-list maps\<close>
named_theorems go_strings \<open>string helpers\<close>

type_synonym 'v gomap = "(string \<times> 'v) list"

definition gomap_ok :: "'v gomap \<Rightarrow> bool" where
  "gomap_ok m \<longleftrightarrow> distinct (map fst m)"

abbreviation gomap_keys :: "'v gomap \<Rightarrow> string list" where
  "gomap_keys m \<equiv> map fst m"

abbreviation gomap_put :: "string \<Rightarrow> 'v \<Rightarrow> 'v gomap \<Rightarrow> 'v gomap" where
  "gomap_put \<equiv> AList.update"

lemma map_of_gomap_put [simp, go_maps]: "map_of (gomap_put k v m) = (map_of m)(k \<mapsto> v)"
  by (rule ext) (simp add: update_conv')

lemma gomap_ok_put [simp, intro]: "gomap_ok m \<Longrightarrow> gomap_ok (gomap_put k v m)"
  by (simp add: gomap_ok_def distinct_update)

lemma gomap_ok_Nil [simp, intro]: "gomap_ok []"
  by (simp add: gomap_ok_def)

lemma gomap_ok_Cons [simp]:
  "gomap_ok ((k, v) # m) \<longleftrightarrow> k \<notin> set (gomap_keys m) \<and> gomap_ok m"
  by (simp add: gomap_ok_def)

lemma map_of_in_keys [go_maps]: "map_of m k = Some v \<Longrightarrow> k \<in> set (gomap_keys m)"
  by (force dest: map_of_SomeD)

lemma gomap_ok_map_of_iff [go_maps]:
  "gomap_ok m \<Longrightarrow> map_of m k = Some v \<longleftrightarrow> (k, v) \<in> set m"
  by (simp add: gomap_ok_def)

lemma map_of_keys_iff [go_maps]: "map_of m k \<noteq> None \<longleftrightarrow> k \<in> set (gomap_keys m)"
  by (simp add: map_of_eq_None_iff)

subsection \<open>64-bit integers\<close>

definition wrap64 :: "int \<Rightarrow> int" where
  "wrap64 x = (x + 2 ^ 63) mod 2 ^ 64 - 2 ^ 63"

definition in_int64 :: "int \<Rightarrow> bool" where
  "in_int64 x \<longleftrightarrow> - (2 ^ 63) \<le> x \<and> x < 2 ^ 63"

lemma wrap64_id [simp]: "in_int64 x \<Longrightarrow> wrap64 x = x"
  by (simp add: wrap64_def in_int64_def)

lemma in_int64_wrap64 [simp, intro]: "in_int64 (wrap64 x)"
proof -
  have "0 \<le> (x + 2 ^ 63) mod 2 ^ 64" "(x + 2 ^ 63) mod 2 ^ 64 < (2 ^ 64 :: int)"
    by (rule pos_mod_sign, simp) (rule pos_mod_bound, simp)
  then show ?thesis by (simp add: wrap64_def in_int64_def)
qed

text \<open>Division of Go integers truncates towards zero.\<close>

definition go_div :: "int \<Rightarrow> int \<Rightarrow> int" where
  "go_div a b = sgn a * sgn b * (\<bar>a\<bar> div \<bar>b\<bar>)"

lemma go_div_nonneg: "0 \<le> a \<Longrightarrow> 0 < b \<Longrightarrow> go_div a b = a div b"
  by (cases "a = 0") (auto simp: go_div_def)

lemma go_div_neg: "a < 0 \<Longrightarrow> 0 < b \<Longrightarrow> go_div a b = - ((- a) div b)"
  by (simp add: go_div_def)

lemma go_div_abs_le: "0 < b \<Longrightarrow> \<bar>go_div a b\<bar> * b \<le> \<bar>a\<bar>"
proof (cases "0 \<le> a")
  case True
  assume "0 < b"
  with True show ?thesis
    by (simp add: go_div_nonneg pos_imp_zdiv_nonneg_iff div_mult2_eq) (metis div_mod_decomp_int le_add_same_cancel1 pos_mod_sign)
next
  case False
  assume b: "0 < b"
  then have "(- a) div b * b \<le> - a"
    by (metis div_mod_decomp_int le_add_same_cancel1 pos_mod_sign)
  moreover have "0 \<le> (- a) div b"
    using False b by (simp add: pos_imp_zdiv_nonneg_iff)
  ultimately show ?thesis using False b by (simp add: go_div_neg)
qed

lemma go_div_mult_cancel: "0 < b \<Longrightarrow> go_div (a * b) b = a"
  by (cases "0 \<le> a")
    (auto simp: go_div_nonneg go_div_neg mult_less_0_iff simp flip: mult_minus_left)

lemma go_div_mult_bounds:
  assumes "0 < b"
  shows "\<bar>a - go_div a b * b\<bar> < b" and "\<bar>go_div a b * b\<bar> \<le> \<bar>a\<bar>" and "0 \<le> a \<Longrightarrow> 0 \<le> go_div a b * b"
    and "a < 0 \<Longrightarrow> a \<le> go_div a b * b \<and> go_div a b * b \<le> 0"
proof -
  have pos: "\<bar>x - x div b * b\<bar> < b" "0 \<le> x div b * b" "x div b * b \<le> x" if "0 \<le> x" for x
    using assms that pos_mod_bound [OF assms, of x] pos_mod_sign [OF assms, of x]
    by (simp_all add: minus_div_mult_eq_mod pos_imp_zdiv_nonneg_iff) (metis div_mod_decomp_int le_add_same_cancel1)
  show "\<bar>a - go_div a b * b\<bar> < b"
    using pos [of a] pos [of "- a"] assms by (cases "0 \<le> a") (simp_all add: go_div_nonneg go_div_neg)
  show "\<bar>go_div a b * b\<bar> \<le> \<bar>a\<bar>"
    using go_div_abs_le [OF assms, of a] assms by (simp add: abs_mult)
  show "0 \<le> a \<Longrightarrow> 0 \<le> go_div a b * b"
    using pos [of a] assms by (simp add: go_div_nonneg)
  show "a < 0 \<Longrightarrow> a \<le> go_div a b * b \<and> go_div a b * b \<le> 0"
    using pos [of "- a"] assms by (simp add: go_div_neg)
qed
lemma in_int64_go_div_mult: "0 < b \<Longrightarrow> in_int64 a \<Longrightarrow> in_int64 (go_div a b * b)"
  using go_div_mult_bounds [of b a] by (cases "0 \<le> a") (auto simp: in_int64_def)

subsection \<open>Strings: decimal numbers, joining, prefixes\<close>

text \<open>The decimal digits that the format verb \<open>%d\<close> prints, and a reader for them.\<close>

definition digit_char :: "nat \<Rightarrow> char" where
  "digit_char d = ''0123456789'' ! d"

definition char_digit :: "char \<Rightarrow> nat" where
  "char_digit c = of_char c - 48"

fun show_nat :: "nat \<Rightarrow> string" where
  "show_nat n = (if n < 10 then [digit_char n] else show_nat (n div 10) @ [digit_char (n mod 10)])"

declare show_nat.simps [simp del]

definition read_nat :: "string \<Rightarrow> nat" where
  "read_nat s = foldl (\<lambda>n c. 10 * n + char_digit c) 0 s"

lemma char_digit_digit_char [simp]: "d < 10 \<Longrightarrow> char_digit (digit_char d) = d"
proof -
  assume "d < 10"
  then have "d \<in> set [0..<10]" by simp
  then show ?thesis by (auto simp: upt_rec char_digit_def digit_char_def)
qed

lemma read_show_nat [simp]: "read_nat (show_nat n) = n"
proof (induction n rule: show_nat.induct)
  case (1 n)
  then show ?case
    by (cases "n < 10") (simp_all add: show_nat.simps [of n] read_nat_def)
qed

lemma show_nat_inj [simp, go_strings]: "show_nat m = show_nat n \<longleftrightarrow> m = n"
  by (metis read_show_nat)

lemma show_nat_nonempty [simp]: "show_nat n \<noteq> []"
  by (subst show_nat.simps) simp

lemma read_nat_zeros [simp]: "read_nat (replicate k (digit_char 0) @ s) = read_nat s"
  by (induction k) (simp_all add: read_nat_def)

text \<open>\<open>%d\<close> of a signed integer, and \<open>%0wd\<close> of a count.\<close>

definition show_int :: "int \<Rightarrow> string" where
  "show_int i = (if i < 0 then ''-'' @ show_nat (nat (- i)) else show_nat (nat i))"

definition show_padded :: "nat \<Rightarrow> nat \<Rightarrow> string" where
  "show_padded w n = (let s = show_nat n in replicate (w - length s) (digit_char 0) @ s)"

lemma show_padded_inj [simp, go_strings]: "show_padded w m = show_padded w n \<longleftrightarrow> m = n"
proof
  assume "show_padded w m = show_padded w n"
  then have "read_nat (show_padded w m) = read_nat (show_padded w n)" by simp
  then show "m = n" by (simp add: show_padded_def Let_def)
qed simp

text \<open>\<open>strings.Join\<close>, \<open>strings.HasPrefix\<close> with \<open>strings.TrimPrefix\<close>, and \<open>strings.TrimRight\<close>.\<close>

fun join :: "string \<Rightarrow> string list \<Rightarrow> string" where
  "join sep [] = []"
| "join sep [s] = s"
| "join sep (s # t # ss) = s @ sep @ join sep (t # ss)"

fun strip_prefix :: "string \<Rightarrow> string \<Rightarrow> string option" where
  "strip_prefix [] s = Some s"
| "strip_prefix (p # ps) [] = None"
| "strip_prefix (p # ps) (c # cs) = (if p = c then strip_prefix ps cs else None)"

lemma strip_prefix_iff [go_strings]: "strip_prefix p s = Some r \<longleftrightarrow> s = p @ r"
  by (induction p s rule: strip_prefix.induct) auto

definition trim_right :: "char \<Rightarrow> string \<Rightarrow> string" where
  "trim_right c s = rev (dropWhile (\<lambda>x. x = c) (rev s))"

lemma trim_right_last [go_strings]: "trim_right c s \<noteq> [] \<Longrightarrow> last (trim_right c s) \<noteq> c"
  using hd_dropWhile [of "\<lambda>x. x = c" "rev s"]
  by (simp add: trim_right_def last_rev)

subsection \<open>Lists\<close>

lemma foldl_append_snoc: "foldl (\<lambda>acc x. acc @ [f x]) ys xs = ys @ map f xs"
  by (induction xs arbitrary: ys) auto

lemma nth_enumerate_fst: "i < length xs \<Longrightarrow> fst (enumerate n xs ! i) = n + i"
  by (simp add: nth_enumerate_eq)

lemma distinct_map_inj: "inj f \<Longrightarrow> distinct xs \<Longrightarrow> distinct (map f xs)"
  by (auto simp: distinct_map intro: inj_on_subset)

end
