(* ===== verification/Float64.thy ===== *)
theory Float64
  imports Complex_Main "HOL-Library.Log_Nat" Go_Prelude
begin

text \<open>
  Go's \<open>float64\<close>: IEEE binary64 with round-to-nearest-even, on rationals, so that it computes.
  \<open>f64_round\<close> rounds a rational to the nearest representable one (53 significant bits,
  smallest quantum \<open>2 powi -1074\<close>); \<open>f64\<close> adds the infinities and NaN. Only the sign of zero
  is not represented. The lemmas say that rounding is monotone, keeps what is representable
  and produces what is representable; the retry backoff rests on them.
\<close>

subsection \<open>Rounding to the nearest integer, ties to even\<close>

definition rne :: "rat \<Rightarrow> int" where
  "rne x = (let f = \<lfloor>x\<rfloor>; r = x - of_int f
            in if r < 1 / 2 then f else if 1 / 2 < r then f + 1 else if even f then f else f + 1)"

lemma rne_of_int [simp]: "rne (of_int n) = n"
  by (simp add: rne_def)

lemma rne_bounds: "\<lfloor>x\<rfloor> \<le> rne x \<and> rne x \<le> \<lfloor>x\<rfloor> + 1"
  by (simp add: rne_def Let_def)

lemma rne_mono: "x \<le> y \<Longrightarrow> rne x \<le> rne y"
proof -
  assume xy: "x \<le> y"
  show ?thesis
  proof (cases "\<lfloor>x\<rfloor> = \<lfloor>y\<rfloor>")
    case True
    with xy have "x - of_int \<lfloor>y\<rfloor> \<le> y - of_int \<lfloor>y\<rfloor>" by simp
    with True show ?thesis by (auto simp: rne_def Let_def)
  next
    case False
    with xy have "\<lfloor>x\<rfloor> + 1 \<le> \<lfloor>y\<rfloor>" using floor_mono [OF xy] by simp
    then show ?thesis using rne_bounds [of x] rne_bounds [of y] by linarith
  qed
qed

lemma rne_nonneg: "0 \<le> x \<Longrightarrow> 0 \<le> rne x"
  using rne_mono [of 0 x] rne_of_int [of 0] by simp

subsection \<open>The binary exponent of a positive rational\<close>

definition f64_expo :: "rat \<Rightarrow> int" where
  "f64_expo x = (let (n, d) = quotient_of x; e = bitlen n - bitlen d
                 in if 2 powi e \<le> x then e else e - 1)"

lemma bitlen_rat_bounds:
  assumes "0 < n"
  shows "2 powi (bitlen n - 1) \<le> (of_int n :: rat)" and "(of_int n :: rat) < 2 powi bitlen n"
proof -
  from assms have b: "1 \<le> bitlen n" by (simp add: bitlen_alt_def)
  have "(of_int (2 ^ nat (bitlen n - 1)) :: rat) \<le> of_int n"
    using bitlen_bounds [OF assms] by (simp only: of_int_le_iff)
  moreover have "(of_int n :: rat) < of_int (2 ^ nat (bitlen n))"
    using bitlen_bounds [OF assms] by (simp only: of_int_less_iff)
  ultimately show "2 powi (bitlen n - 1) \<le> (of_int n :: rat)" "(of_int n :: rat) < 2 powi bitlen n"
    using b by (simp_all add: power_int_def)
qed

lemma f64_expo_bounds:
  assumes "0 < x"
  shows "2 powi f64_expo x \<le> x \<and> x < 2 powi (f64_expo x + 1)"
proof -
  obtain n d where q: "quotient_of x = (n, d)" by fastforce
  have d: "0 < d" using quotient_of_denom_pos [OF q] .
  have x: "x = of_int n / of_int d" using quotient_of_div [OF q] .
  have n: "0 < n" using assms d unfolding x by (simp add: zero_less_divide_iff)
  let ?e = "bitlen n - bitlen d"
  note bn = bitlen_rat_bounds [OF n] and bd = bitlen_rat_bounds [OF d]
  have lo: "2 powi (?e - 1) < x"
  proof -
    have "2 powi (?e - 1) * of_int d < 2 powi (?e - 1) * (2 powi bitlen d :: rat)"
      using bd by (intro mult_strict_left_mono) auto
    also have "\<dots> = 2 powi (bitlen n - 1)"
      by (simp add: power_int_add [symmetric])
    also have "\<dots> \<le> of_int n" by (rule bn(1))
    finally show ?thesis using d unfolding x by (simp add: pos_less_divide_eq)
  qed
  have hi: "x < 2 powi (?e + 1)"
  proof -
    have "of_int n < (2 powi bitlen n :: rat)" by (rule bn(2))
    also have "\<dots> = 2 powi (?e + 1) * 2 powi (bitlen d - 1)"
      by (simp add: power_int_add [symmetric])
    also have "\<dots> \<le> 2 powi (?e + 1) * of_int d"
      using bd by (intro mult_left_mono) auto
    finally show ?thesis using d unfolding x by (simp add: pos_divide_less_eq)
  qed
  show ?thesis using lo hi by (simp add: f64_expo_def q Let_def)
qed

lemma powi2_less_iff: "(2 :: rat) powi a < 2 powi b \<longleftrightarrow> a < b"
  by (metis linorder_less_linear not_less_iff_gr_or_eq one_less_numeral_iff power_int_strict_increasing semiring_norm(76))

lemma powi2_le_iff: "(2 :: rat) powi a \<le> 2 powi b \<longleftrightarrow> a \<le> b"
  by (meson linorder_not_less powi2_less_iff)

lemma f64_expo_mono: "0 < x \<Longrightarrow> x \<le> y \<Longrightarrow> f64_expo x \<le> f64_expo y"
proof -
  assume "0 < x" "x \<le> y"
  then have "2 powi f64_expo x < (2 :: rat) powi (f64_expo y + 1)"
    using f64_expo_bounds [of x] f64_expo_bounds [of y] by linarith
  then show ?thesis by (simp add: powi2_less_iff)
qed

subsection \<open>Rounding to binary64\<close>

definition f64_qexp :: "rat \<Rightarrow> int" where
  "f64_qexp x = max (f64_expo x - 52) (-1074)"

definition f64_round_pos :: "rat \<Rightarrow> rat" where
  "f64_round_pos x = of_int (rne (x / 2 powi f64_qexp x)) * 2 powi f64_qexp x"

definition f64_round :: "rat \<Rightarrow> rat" where
  "f64_round x = (if x = 0 then 0 else if 0 < x then f64_round_pos x else - f64_round_pos (- x))"

definition f64_rep :: "rat \<Rightarrow> bool" where
  "f64_rep x \<longleftrightarrow> (\<exists>m k. x = of_int m * 2 powi k \<and> \<bar>m\<bar> \<le> 2 ^ 53 \<and> -1074 \<le> k)"

lemma f64_scaled_bound:
  assumes "0 < x"
  shows "x / 2 powi f64_qexp x \<le> 2 ^ 53"
proof -
  have "x < 2 powi (f64_expo x + 1)" using f64_expo_bounds [OF assms] by simp
  also have "\<dots> \<le> 2 powi (f64_qexp x + 53)"
    by (simp add: powi2_le_iff f64_qexp_def)
  also have "\<dots> = 2 ^ 53 * 2 powi f64_qexp x"
    by (simp add: power_int_add)
  finally show ?thesis by (simp add: pos_divide_le_eq)
qed

lemma f64_rep_round_pos: "0 < x \<Longrightarrow> f64_rep (f64_round_pos x)"
proof -
  assume x: "0 < x"
  have "rne (x / 2 powi f64_qexp x) \<le> 2 ^ 53"
    using rne_mono [OF f64_scaled_bound [OF x]] rne_of_int [of "2 ^ 53"] by simp
  moreover have "0 \<le> rne (x / 2 powi f64_qexp x)"
    using x by (intro rne_nonneg) simp
  ultimately show ?thesis
    unfolding f64_rep_def f64_round_pos_def
    by (intro exI conjI) (auto simp: f64_qexp_def)
qed

lemma f64_round_pos_rep:
  assumes x: "0 < x" and rep: "f64_rep x"
  shows "f64_round_pos x = x"
proof -
  from rep obtain m k where m: "x = of_int m * 2 powi k" "\<bar>m\<bar> \<le> 2 ^ 53" "-1074 \<le> k"
    by (auto simp: f64_rep_def)
  let ?q = "f64_qexp x"
  have "\<exists>n. x / 2 powi ?q = of_int n"
  proof (cases "?q \<le> k")
    case True
    then have j: "k = ?q + int (nat (k - ?q))" by simp
    define j where "j = nat (k - ?q)"
    note j = j [folded j_def]
    have "x / 2 powi ?q = of_int m * (2 powi (?q + int j) / 2 powi ?q)"
      using m(1) j by simp
    also have "\<dots> = of_int (m * 2 ^ j)" by (simp add: power_int_add)
    finally show ?thesis ..
  next
    case False
    then have e: "k + 53 \<le> f64_expo x" and q: "?q = f64_expo x - 52"
      using m(3) by (auto simp: f64_qexp_def)
    have "2 powi (k + 53) \<le> x"
      using e f64_expo_bounds [OF x] powi2_le_iff [of "k + 53" "f64_expo x"] by simp
    moreover have "x \<le> 2 ^ 53 * 2 powi k"
    proof -
      have "(of_int m :: rat) \<le> of_int (2 ^ 53)"
        using m(2) by (simp only: of_int_le_iff)
      then show ?thesis unfolding m(1) by simp
    qed
    ultimately have xe: "x = 2 powi (k + 53)" by (simp add: power_int_add)
    then have "2 powi f64_expo x \<le> (2 :: rat) powi (k + 53)"
      using f64_expo_bounds [OF x] by simp
    then have "f64_expo x = k + 53" using e by (simp add: powi2_le_iff)
    then have "?q = k + 1" using q by simp
    then have "x / 2 powi ?q = of_int (2 ^ 52)"
      using xe by (simp add: power_int_add)
    then show ?thesis ..
  qed
  then obtain n where n: "x / 2 powi ?q = of_int n" ..
  then have "f64_round_pos x = of_int n * 2 powi ?q" by (simp add: f64_round_pos_def)
  also have "\<dots> = x" by (simp flip: n)
  finally show ?thesis .
qed

lemma f64_round_pos_nonneg: "0 < x \<Longrightarrow> 0 \<le> f64_round_pos x"
  by (simp add: f64_round_pos_def rne_nonneg)

lemma f64_round_pos_mono:
  assumes x: "0 < x" and xy: "x \<le> y"
  shows "f64_round_pos x \<le> f64_round_pos y"
proof (cases "f64_qexp x = f64_qexp y")
  case True
  have "rne (x / 2 powi f64_qexp x) \<le> rne (y / 2 powi f64_qexp y)"
    using xy True by (intro rne_mono) (simp add: divide_right_mono)
  with True show ?thesis by (simp add: f64_round_pos_def)
next
  case False
  have y: "0 < y" using x xy by simp
  have le: "f64_expo x \<le> f64_expo y" by (rule f64_expo_mono [OF x xy])
  with False have lt: "f64_qexp x < f64_qexp y" and qy: "f64_qexp y = f64_expo y - 52"
    by (auto simp: f64_qexp_def)
  have "(of_int (rne (x / 2 powi f64_qexp x)) :: rat) \<le> of_int (2 ^ 53)"
    using rne_mono [OF f64_scaled_bound [OF x]] rne_of_int [of "2 ^ 53"]
    by (simp only: of_int_le_iff) simp
  then have "f64_round_pos x \<le> 2 ^ 53 * 2 powi f64_qexp x"
    unfolding f64_round_pos_def by (intro mult_right_mono) auto
  also have "\<dots> = 2 powi (f64_qexp x + 53)" by (simp add: power_int_add)
  also have "\<dots> \<le> 2 powi f64_expo y" using lt qy by (simp add: powi2_le_iff)
  also have "\<dots> = f64_round_pos (2 powi f64_expo y)"
  proof (rule f64_round_pos_rep [symmetric])
    have "-1074 \<le> f64_expo y - 52" using lt qy by (auto simp: f64_qexp_def)
    then show "f64_rep (2 powi f64_expo y)"
      unfolding f64_rep_def by (intro exI [of _ 1] exI [of _ "f64_expo y"]) simp
  qed simp
  also have "\<dots> \<le> f64_round_pos y"
  proof -
    let ?z = "2 powi f64_expo y :: rat"
    have "?z \<le> y" using f64_expo_bounds [OF y] by simp
    moreover have "f64_expo ?z = f64_expo y"
      using f64_expo_bounds [of ?z] f64_expo_mono [of ?z y] \<open>?z \<le> y\<close>
      by (simp add: powi2_less_iff)
    ultimately have "rne (?z / 2 powi f64_qexp y) \<le> rne (y / 2 powi f64_qexp y)"
      by (intro rne_mono) (simp add: divide_right_mono)
    with \<open>f64_expo ?z = f64_expo y\<close> show ?thesis
      by (simp add: f64_round_pos_def f64_qexp_def)
  qed
  finally show ?thesis .
qed

lemma f64_round_0 [simp]: "f64_round 0 = 0"
  by (simp add: f64_round_def)

lemma f64_round_nonneg [simp, intro]: "0 \<le> x \<Longrightarrow> 0 \<le> f64_round x"
  by (auto simp: f64_round_def f64_round_pos_nonneg)

lemma f64_round_mono: "0 \<le> x \<Longrightarrow> x \<le> y \<Longrightarrow> f64_round x \<le> f64_round y"
  by (auto simp: f64_round_def f64_round_pos_mono f64_round_pos_nonneg)

lemma f64_rep_uminusI: "f64_rep x \<Longrightarrow> f64_rep (- x)"
proof -
  assume "f64_rep x"
  then obtain m k where "x = of_int m * 2 powi k" "\<bar>m\<bar> \<le> 2 ^ 53" "-1074 \<le> k"
    by (auto simp: f64_rep_def)
  then show ?thesis
    unfolding f64_rep_def by (intro exI [of _ "- m"] exI [of _ k]) simp
qed

lemma f64_rep_uminus [simp]: "f64_rep (- x) \<longleftrightarrow> f64_rep x"
  using f64_rep_uminusI [of x] f64_rep_uminusI [of "- x"] by auto

lemma f64_round_rep [simp]: "f64_rep x \<Longrightarrow> f64_round x = x"
  by (auto simp: f64_round_def f64_round_pos_rep)

lemma f64_rep_0 [simp]: "f64_rep 0"
  unfolding f64_rep_def by (intro exI [of _ 0]) simp

lemma f64_rep_round [simp]: "f64_rep (f64_round x)"
  by (auto simp: f64_round_def f64_rep_round_pos)

lemma f64_rep_int: "\<bar>n\<bar> \<le> 2 ^ 53 \<Longrightarrow> f64_rep (of_int n)"
  unfolding f64_rep_def by (intro exI [of _ n] exI [of _ 0]) simp

lemma f64_rep_scale: "f64_rep x \<Longrightarrow> f64_rep (x * 2 ^ n)"
proof -
  assume "f64_rep x"
  then obtain m k where m: "x = of_int m * 2 powi k" "\<bar>m\<bar> \<le> 2 ^ 53" "-1074 \<le> k"
    by (auto simp: f64_rep_def)
  have "x * 2 ^ n = of_int m * 2 powi (k + int n)"
    using m(1) by (simp add: power_int_add)
  then show ?thesis
    using m unfolding f64_rep_def by (intro exI [of _ m] exI [of _ "k + int n"]) simp
qed

lemma f64_rep_half_int: "\<bar>n\<bar> \<le> 2 ^ 53 \<Longrightarrow> f64_rep (of_int n / 2)"
  unfolding f64_rep_def by (intro exI [of _ n] exI [of _ "-1"]) (simp add: power_int_def)

subsection \<open>The type float64\<close>

datatype f64 = Fin rat | PInf | NInf | NaN

definition f64_limit :: rat where
  "f64_limit = 2 ^ 1024"

definition f64_of_rat :: "rat \<Rightarrow> f64" where
  "f64_of_rat x = (let r = f64_round x
     in if f64_limit \<le> r then PInf else if r \<le> - f64_limit then NInf else Fin r)"

text \<open>Comparisons with NaN are false.\<close>

fun f64_less :: "f64 \<Rightarrow> f64 \<Rightarrow> bool" where
  "f64_less (Fin a) (Fin b) = (a < b)"
| "f64_less (Fin a) PInf = True"
| "f64_less NInf (Fin b) = True"
| "f64_less NInf PInf = True"
| "f64_less _ _ = False"

fun f64_neg :: "f64 \<Rightarrow> f64" where
  "f64_neg (Fin a) = Fin (- a)"
| "f64_neg PInf = NInf"
| "f64_neg NInf = PInf"
| "f64_neg NaN = NaN"

text \<open>An infinity times a finite value takes the sign of the product, and is NaN for zero.\<close>

definition inf_times :: "rat \<Rightarrow> f64" where
  "inf_times a = (if a = 0 then NaN else if 0 < a then PInf else NInf)"

fun f64_mul :: "f64 \<Rightarrow> f64 \<Rightarrow> f64" where
  "f64_mul (Fin a) (Fin b) = f64_of_rat (a * b)"
| "f64_mul PInf (Fin a) = inf_times a"
| "f64_mul (Fin a) PInf = inf_times a"
| "f64_mul NInf (Fin a) = inf_times (- a)"
| "f64_mul (Fin a) NInf = inf_times (- a)"
| "f64_mul PInf PInf = PInf"
| "f64_mul NInf NInf = PInf"
| "f64_mul PInf NInf = NInf"
| "f64_mul NInf PInf = NInf"
| "f64_mul _ _ = NaN"

fun f64_add :: "f64 \<Rightarrow> f64 \<Rightarrow> f64" where
  "f64_add (Fin a) (Fin b) = f64_of_rat (a + b)"
| "f64_add PInf NInf = NaN"
| "f64_add NInf PInf = NaN"
| "f64_add NaN _ = NaN"
| "f64_add _ NaN = NaN"
| "f64_add PInf _ = PInf"
| "f64_add _ PInf = PInf"
| "f64_add NInf _ = NInf"
| "f64_add _ NInf = NInf"

text \<open>\<open>math.Pow(2, n)\<close> for a count \<open>n\<close>.\<close>

definition f64_pow2 :: "nat \<Rightarrow> f64" where
  "f64_pow2 n = (if n < 1024 then Fin (2 ^ n) else PInf)"

text \<open>
  \<open>int64(f)\<close>: truncation towards zero. Go leaves the result for NaN and for values out of
  range to the implementation; the model takes amd64's, the least \<open>int64\<close>.
\<close>

definition rat_trunc :: "rat \<Rightarrow> int" where
  "rat_trunc x = (if 0 \<le> x then \<lfloor>x\<rfloor> else \<lceil>x\<rceil>)"

fun f64_to_int64 :: "f64 \<Rightarrow> int" where
  "f64_to_int64 (Fin x) = (if in_int64 (rat_trunc x) then rat_trunc x else - (2 ^ 63))"
| "f64_to_int64 _ = - (2 ^ 63)"

definition f64_of_int :: "int \<Rightarrow> f64" where
  "f64_of_int n = f64_of_rat (of_int n)"

lemma f64_of_rat_rep:
  assumes "f64_rep x" "\<bar>x\<bar> < f64_limit"
  shows "f64_of_rat x = Fin x"
  using assms by (simp add: f64_of_rat_def Let_def abs_less_iff)

lemma f64_of_int_small: "\<bar>n\<bar> \<le> 2 ^ 53 \<Longrightarrow> f64_of_int n = Fin (of_int n)"
proof -
  assume n: "\<bar>n\<bar> \<le> 2 ^ 53"
  then have "\<bar>of_int n :: rat\<bar> \<le> of_int (2 ^ 53)"
    by (simp only: of_int_abs [symmetric] of_int_le_iff)
  also have "\<dots> < f64_limit" by (simp add: f64_limit_def)
  finally show ?thesis
    using n unfolding f64_of_int_def by (intro f64_of_rat_rep f64_rep_int)
qed

lemma f64_limit_pos: "0 < f64_limit"
  by (simp only: f64_limit_def zero_less_power zero_less_numeral)

lemma f64_of_rat_nonneg:
  "0 \<le> x \<Longrightarrow> f64_of_rat x = (if f64_limit \<le> f64_round x then PInf else Fin (f64_round x))"
proof -
  assume "0 \<le> x"
  then have "\<not> f64_round x \<le> - f64_limit"
    using f64_limit_pos f64_round_nonneg [of x] by linarith
  then show ?thesis by (simp add: f64_of_rat_def Let_def)
qed

lemma f64_less_irrefl [simp]: "\<not> f64_less x x"
  by (cases x) auto

lemma f64_less_NaN [simp]: "\<not> f64_less NaN x" "\<not> f64_less x NaN"
  by (cases x; simp)+

lemma f64_round_uminus: "f64_round (- x) = - f64_round x"
  by (simp add: f64_round_def)

text \<open>Every 64-bit integer is rounded to a finite number.\<close>

lemma f64_of_int64_finite:
  assumes "in_int64 n"
  obtains x where "f64_of_rat (of_int n) = Fin x"
proof -
  have bound: "0 \<le> f64_round (of_int m) \<and> f64_round (of_int m) \<le> 2 ^ 63" if m: "0 \<le> m" "m \<le> 2 ^ 63" for m :: int
  proof -
    have "f64_rep (1 * 2 ^ 63)" using f64_rep_int [of 1] by (intro f64_rep_scale) simp
    then have "f64_round (2 ^ 63) = 2 ^ 63" by simp
    moreover have "(of_int m :: rat) \<le> 2 ^ 63"
      using m(2) by (metis of_int_le_iff of_int_numeral of_int_power)
    ultimately show ?thesis using f64_round_mono [of "of_int m" "2 ^ 63"] m(1) by simp
  qed
  have "\<bar>f64_round (of_int n)\<bar> \<le> 2 ^ 63"
  proof (cases "0 \<le> n")
    case True
    then show ?thesis using bound [of n] assms by (simp add: in_int64_def)
  next
    case False
    then show ?thesis using bound [of "- n"] assms f64_round_uminus [of "of_int n"] by (simp add: in_int64_def)
  qed
  moreover have "(2 :: rat) ^ 63 < f64_limit"
    unfolding f64_limit_def by (rule power_strict_increasing) simp_all
  ultimately have "f64_of_rat (of_int n) = Fin (f64_round (of_int n))"
    unfolding f64_of_rat_def Let_def by (simp add: abs_le_iff)
  then show ?thesis by (rule that)
qed

end
