(* ===== verification/Json.thy ===== *)
theory Json
  imports Float64
begin

text \<open>
  Go's dynamic values and their JSON images. \<open>any\<close> holds the dynamic types the SDK stores in
  an \<open>any\<close>: what \<open>encoding/json\<close> decodes into one, and the \<open>int\<close> and \<open>[]string\<close> values the code
  itself puts there. A \<open>map[string]any\<close> is a finite map, in which a nil map and an empty one
  are the same value. \<open>json\<close> is the tree of a JSON text: the order and
  repetition of object keys, the spelling of numbers and the escapes of strings are not kept,
  and object keys are matched exactly. A string is a sequence of bytes of valid UTF-8:
  \<open>encoding/json\<close> keeps such a string (\<open>enc_string\<close>, \<open>JStr\<close>), and only a string that is not valid
  UTF-8, which it rewrites with U+FFFD, is outside the model. Decoders take the member of an object, absent or not,
  as \<open>encoding/json\<close> does: an absent member and \<open>null\<close> leave the zero value.
\<close>

datatype any =
    VNil
  | VBool bool
  | VInt int
  | VFloat f64
  | VStr string
  | VStrs "string list"
  | VList "any list"
  | VMap "(string, any) fmap"

type_synonym anymap = "(string, any) fmap"

datatype json =
    JNull
  | JBool bool
  | JNum rat
  | JStr string
  | JArr "json list"
  | JObj "(string, json) fmap"

subsection \<open>Encoding\<close>

text \<open>Only a number that is not finite cannot be marshalled.\<close>

primrec marshalable :: "any \<Rightarrow> bool" where
  "marshalable VNil = True"
| "marshalable (VBool b) = True"
| "marshalable (VInt i) = True"
| "marshalable (VFloat f) = (case f of Fin _ \<Rightarrow> True | _ \<Rightarrow> False)"
| "marshalable (VStr s) = True"
| "marshalable (VStrs ss) = True"
| "marshalable (VList vs) = list_all (\<lambda>b. b) (map marshalable vs)"
| "marshalable (VMap m) = fmpred (\<lambda>_ b. b) (fmmap marshalable m)"

primrec to_json :: "any \<Rightarrow> json" where
  "to_json VNil = JNull"
| "to_json (VBool b) = JBool b"
| "to_json (VInt i) = JNum (of_int i)"
| "to_json (VFloat f) = (case f of Fin x \<Rightarrow> JNum x | _ \<Rightarrow> JNull)"
| "to_json (VStr s) = JStr s"
| "to_json (VStrs ss) = JArr (map JStr ss)"
| "to_json (VList vs) = JArr (map to_json vs)"
| "to_json (VMap m) = JObj (fmmap to_json m)"

definition marshal :: "any \<Rightarrow> json option" where
  "marshal v = (if marshalable v then Some (to_json v) else None)"

subsection \<open>Decoding into \<open>any\<close>\<close>

text \<open>A number is decoded into a \<open>float64\<close>; one that overflows it is an error.\<close>

primrec decodable :: "json \<Rightarrow> bool" where
  "decodable JNull = True"
| "decodable (JBool b) = True"
| "decodable (JNum q) = (case f64_of_rat q of Fin _ \<Rightarrow> True | _ \<Rightarrow> False)"
| "decodable (JStr s) = True"
| "decodable (JArr js) = list_all (\<lambda>b. b) (map decodable js)"
| "decodable (JObj m) = fmpred (\<lambda>_ b. b) (fmmap decodable m)"

primrec from_json :: "json \<Rightarrow> any" where
  "from_json JNull = VNil"
| "from_json (JBool b) = VBool b"
| "from_json (JNum q) = VFloat (f64_of_rat q)"
| "from_json (JStr s) = VStr s"
| "from_json (JArr js) = VList (map from_json js)"
| "from_json (JObj m) = VMap (fmmap from_json m)"

definition unmarshal_any :: "json \<Rightarrow> any option" where
  "unmarshal_any j = (if decodable j then Some (from_json j) else None)"

subsection \<open>Decoding struct fields\<close>

fun dec_string :: "json option \<Rightarrow> string option" where
  "dec_string None = Some []"
| "dec_string (Some JNull) = Some []"
| "dec_string (Some (JStr s)) = Some s"
| "dec_string (Some _) = None"

fun dec_bool :: "json option \<Rightarrow> bool option" where
  "dec_bool None = Some False"
| "dec_bool (Some JNull) = Some False"
| "dec_bool (Some (JBool b)) = Some b"
| "dec_bool (Some _) = None"

text \<open>An \<open>int\<close> field takes integers in range only.\<close>

fun dec_int :: "json option \<Rightarrow> int option" where
  "dec_int None = Some 0"
| "dec_int (Some JNull) = Some 0"
| "dec_int (Some (JNum q)) =
     (if of_int \<lfloor>q\<rfloor> = q \<and> in_int64 \<lfloor>q\<rfloor> then Some \<lfloor>q\<rfloor> else None)"
| "dec_int (Some _) = None"

fun dec_list :: "(json option \<Rightarrow> 'a option) \<Rightarrow> json option \<Rightarrow> 'a list option" where
  "dec_list d None = Some []"
| "dec_list d (Some JNull) = Some []"
| "dec_list d (Some (JArr js)) = those (map (\<lambda>j. d (Some j)) js)"
| "dec_list d (Some _) = None"

fun dec_anymap :: "json option \<Rightarrow> anymap option" where
  "dec_anymap None = Some fmempty"
| "dec_anymap (Some JNull) = Some fmempty"
| "dec_anymap (Some (JObj m)) = (if decodable (JObj m) then Some (fmmap from_json m) else None)"
| "dec_anymap (Some _) = None"

fun dec_any :: "json option \<Rightarrow> any option" where
  "dec_any None = Some VNil"
| "dec_any (Some j) = unmarshal_any j"

text \<open>A pointer field is nil when the member is absent or \<open>null\<close>.\<close>

fun dec_ptr :: "(json option \<Rightarrow> 'a option) \<Rightarrow> json option \<Rightarrow> 'a option option" where
  "dec_ptr d None = Some None"
| "dec_ptr d (Some JNull) = Some None"
| "dec_ptr d (Some j) = map_option Some (d (Some j))"

text \<open>The members of a JSON object; \<open>null\<close> is an object without members.\<close>

fun obj_members :: "json option \<Rightarrow> (string, json) fmap option" where
  "obj_members None = Some fmempty"
| "obj_members (Some JNull) = Some fmempty"
| "obj_members (Some (JObj m)) = Some m"
| "obj_members (Some _) = None"

text \<open>
  A struct is encoded from its members: \<open>None\<close> is a member that cannot be encoded,
  \<open>Some None\<close> one left out by \<open>omitempty\<close>, \<open>Some (Some j)\<close> one with the value \<open>j\<close>.
\<close>

type_synonym member = "string \<times> json option option"

definition struct_json :: "member list \<Rightarrow> json option" where
  "struct_json fs = (if list_all (\<lambda>(k, r). r \<noteq> None) fs
     then Some (JObj (fmap_of_list
       (concat (map (\<lambda>(k, r). case r of Some (Some j) \<Rightarrow> [(k, j)] | _ \<Rightarrow> []) fs))))
     else None)"

definition enc_string :: "string \<Rightarrow> json option option" where
  "enc_string s = Some (Some (JStr s))"

definition enc_bool :: "bool \<Rightarrow> json option option" where
  "enc_bool b = Some (Some (JBool b))"

definition enc_int :: "int \<Rightarrow> json option option" where
  "enc_int i = Some (Some (JNum (of_int i)))"

definition enc_json :: "json option \<Rightarrow> json option option" where
  "enc_json r = map_option Some r"

definition omit_string :: "string \<Rightarrow> json option option" where
  "omit_string s = Some (if s = [] then None else Some (JStr s))"

definition omit_int :: "int \<Rightarrow> json option option" where
  "omit_int i = Some (if i = 0 then None else Some (JNum (of_int i)))"

definition omit_strings :: "string list \<Rightarrow> json option option" where
  "omit_strings ss = Some (if ss = [] then None else Some (JArr (map JStr ss)))"

definition omit_map :: "anymap \<Rightarrow> json option option" where
  "omit_map m = (if m = fmempty then Some None else enc_json (marshal (VMap m)))"

fun omit_ptr :: "('a \<Rightarrow> json option) \<Rightarrow> 'a option \<Rightarrow> json option option" where
  "omit_ptr e None = Some None"
| "omit_ptr e (Some x) = enc_json (e x)"

subsection \<open>What survives a round trip\<close>

text \<open>
  A value that has the shape and the numbers JSON decoding produces: no \<open>int\<close>, no
  \<open>[]string\<close>, and finite representable numbers.
\<close>

primrec json_native :: "any \<Rightarrow> bool" where
  "json_native VNil = True"
| "json_native (VBool b) = True"
| "json_native (VInt i) = False"
| "json_native (VFloat f) = (case f of Fin x \<Rightarrow> f64_of_rat x = Fin x | _ \<Rightarrow> False)"
| "json_native (VStr s) = True"
| "json_native (VStrs ss) = False"
| "json_native (VList vs) = list_all (\<lambda>b. b) (map json_native vs)"
| "json_native (VMap m) = fmpred (\<lambda>_ b. b) (fmmap json_native m)"

lemma fmpred_fmupd [simp]: "fmpred P (fmupd k v m) \<longleftrightarrow> P k v \<and> fmpred P (fmdrop k m)"
  by (auto simp: fmpred_iff split: if_splits)

lemma fmpred_ran: "fmpred (\<lambda>k. f) m \<longleftrightarrow> (\<forall>v \<in> fmran' m. f v)"
  by (auto simp: fmpred_iff intro: fmran'I elim: fmran'E)

lemma list_all_map_id: "list_all (\<lambda>b. b) (map f xs) \<longleftrightarrow> (\<forall>x \<in> set xs. f x)"
  by (simp add: list_all_iff)

lemma json_native_marshalable: "json_native v \<Longrightarrow> marshalable v"
proof (induction v)
  case (VMap m)
  then show ?case by (auto simp: fmpred_ran)
qed (auto simp: list_all_iff split: f64.splits)

lemma json_native_decodable: "json_native v \<Longrightarrow> decodable (to_json v)"
proof (induction v)
  case (VMap m)
  then show ?case by (auto simp: fmpred_ran)
qed (auto simp: list_all_iff split: f64.splits)

lemma fmap_map_ident: "(\<And>v. v \<in> fmran' m \<Longrightarrow> f v = v) \<Longrightarrow> fmmap f m = m"
  by (rule fmap_ext) (auto intro!: option.map_ident_strong intro: fmran'I)

lemma from_to_json: "json_native v \<Longrightarrow> from_json (to_json v) = v"
proof (induction v)
  case (VMap m)
  then have "fmmap (\<lambda>v. from_json (to_json v)) m = m"
    by (intro fmap_map_ident) (auto simp: fmpred_ran)
  then show ?case by (simp add: fmap.map_comp comp_def)
next
  case (VList vs)
  then show ?case by (simp add: list_all_iff map_idI)
qed (auto split: f64.splits)

lemma f64_of_rat_idem: "f64_of_rat q = Fin x \<Longrightarrow> f64_of_rat x = Fin x"
  by (auto simp: f64_of_rat_def Let_def split: if_splits)

text \<open>Everything that decoding produces survives.\<close>

lemma json_native_from_json: "decodable j \<Longrightarrow> json_native (from_json j)"
proof (induction j)
  case (JObj m)
  then show ?case by (auto simp: fmpred_ran)
qed (auto simp: list_all_iff f64_of_rat_idem split: f64.splits)

lemmas json_roundtrip = json_native_marshalable json_native_decodable from_to_json

lemma unmarshal_marshal: "json_native v \<Longrightarrow> Option.bind (marshal v) unmarshal_any = Some v"
  by (simp add: marshal_def unmarshal_any_def json_roundtrip)

definition native_map :: "anymap \<Rightarrow> bool" where
  "native_map m \<longleftrightarrow> json_native (VMap m)"

lemma dec_anymap_to_json:
  "native_map m \<Longrightarrow> dec_anymap (Some (JObj (fmmap to_json m))) = Some m"
  using from_to_json [of "VMap m"] json_native_decodable [of "VMap m"]
  by (simp add: native_map_def)

lemma native_map_marshalable: "native_map m \<Longrightarrow> marshalable (VMap m)"
  by (simp only: native_map_def json_native_marshalable)

lemma native_map_empty [simp]: "native_map fmempty"
  by (simp add: native_map_def)

text \<open>
  A value as a Go program can hold it: an \<open>int\<close> has 64 bits and a float is one of the numbers of
  \<open>float64\<close>. What decoding makes of its JSON: an \<open>int\<close> comes back as the nearest \<open>float64\<close>, a
  \<open>[]string\<close> as a list, everything else as it was.
\<close>

primrec go_value :: "any \<Rightarrow> bool" where
  "go_value VNil = True"
| "go_value (VBool b) = True"
| "go_value (VInt i) = in_int64 i"
| "go_value (VFloat f) = (case f of Fin x \<Rightarrow> f64_of_rat x = Fin x | _ \<Rightarrow> True)"
| "go_value (VStr s) = True"
| "go_value (VStrs ss) = True"
| "go_value (VList vs) = list_all (\<lambda>b. b) (map go_value vs)"
| "go_value (VMap m) = fmpred (\<lambda>_ b. b) (fmmap go_value m)"

primrec as_decoded :: "any \<Rightarrow> any" where
  "as_decoded VNil = VNil"
| "as_decoded (VBool b) = VBool b"
| "as_decoded (VInt i) = VFloat (f64_of_int i)"
| "as_decoded (VFloat f) = VFloat f"
| "as_decoded (VStr s) = VStr s"
| "as_decoded (VStrs ss) = VList (map VStr ss)"
| "as_decoded (VList vs) = VList (map as_decoded vs)"
| "as_decoded (VMap m) = VMap (fmmap as_decoded m)"

lemma go_value_decodable: "go_value v \<Longrightarrow> marshalable v \<Longrightarrow> decodable (to_json v)"
proof (induction v)
  case (VInt i)
  then obtain x where "f64_of_rat (of_int i) = Fin x" using f64_of_int64_finite by auto
  then show ?case by simp
next
  case (VMap m)
  then show ?case by (auto simp: fmpred_ran)
qed (auto simp: list_all_iff split: f64.splits)

lemma from_to_json_go: "go_value v \<Longrightarrow> marshalable v \<Longrightarrow> from_json (to_json v) = as_decoded v"
proof (induction v)
  case (VMap m)
  then have "fmmap (\<lambda>v. from_json (to_json v)) m = fmmap as_decoded m"
    by (intro fmap.map_cong0) (auto simp: fmpred_ran fmran'_alt_def)
  then show ?case by (simp add: fmap.map_comp comp_def)
qed (auto simp: list_all_iff f64_of_int_def split: f64.splits)

text \<open>What has the shape of decoded JSON is such a value, and stays as it is.\<close>

lemma json_native_go_value: "json_native v \<Longrightarrow> go_value v"
proof (induction v)
  case (VMap m)
  then show ?case by (auto simp: fmpred_ran)
qed (auto simp: list_all_iff split: f64.splits)

lemma json_native_as_decoded: "json_native v \<Longrightarrow> as_decoded v = v"
  using from_to_json_go [OF json_native_go_value json_native_marshalable, of v] from_to_json [of v] by simp

lemma as_decoded_native: "go_value v \<Longrightarrow> marshalable v \<Longrightarrow> json_native (as_decoded v)"
  using json_native_from_json [OF go_value_decodable, of v] from_to_json_go [of v] by simp

definition go_map :: "anymap \<Rightarrow> bool" where
  "go_map m \<longleftrightarrow> go_value (VMap m)"

definition as_decoded_map :: "anymap \<Rightarrow> anymap" where
  "as_decoded_map m = fmmap as_decoded m"

lemma as_decoded_map_empty [simp]: "as_decoded_map fmempty = fmempty" "go_map fmempty"
  by (simp_all add: as_decoded_map_def go_map_def)

lemma as_decoded_map_eq_empty [simp]: "as_decoded_map m = fmempty \<longleftrightarrow> m = fmempty"
  unfolding as_decoded_map_def by (metis fmap_ext fmempty_lookup fmlookup_map fmmap_empty option.map_disc_iff)

lemma native_go_map: "native_map m \<Longrightarrow> go_map m"
  and native_map_as_decoded: "native_map m \<Longrightarrow> as_decoded_map m = m"
  using json_native_go_value [of "VMap m"] json_native_as_decoded [of "VMap m"]
  by (simp_all add: native_map_def go_map_def as_decoded_map_def del: json_native.simps go_value.simps)

lemma dec_anymap_go:
  "go_map m \<Longrightarrow> marshalable (VMap m) \<Longrightarrow> dec_anymap (Some (JObj (fmmap to_json m))) = Some (as_decoded_map m)"
  using from_to_json_go [of "VMap m"] go_value_decodable [of "VMap m"]
  by (simp add: go_map_def as_decoded_map_def)

lemma dec_int_of_int [simp]: "in_int64 i \<Longrightarrow> dec_int (Some (JNum (of_int i))) = Some i"
  by simp

lemma dec_list_strings [simp]: "dec_list dec_string (Some (JArr (map JStr ss))) = Some ss"
  by (induction ss) (auto simp: comp_def)

lemma those_map_Some: "(\<And>x. x \<in> set xs \<Longrightarrow> f x = Some (g x)) \<Longrightarrow> those (map f xs) = Some (map g xs)"
  by (induction xs) auto

lemma dec_list_map:
  "(\<And>x. x \<in> set xs \<Longrightarrow> d (Some (e x)) = Some x) \<Longrightarrow> dec_list d (Some (JArr (map e xs))) = Some xs"
  using those_map_Some [of xs "\<lambda>x. d (Some (e x))" id] by (simp add: comp_def)

lemma map_of_member_values:
  "distinct (map fst fs) \<Longrightarrow> (k, Some v) \<in> set fs \<Longrightarrow>
   map_of (concat (map (\<lambda>(k, r). case r of Some (Some j) \<Rightarrow> [(k, j)] | _ \<Rightarrow> []) fs)) k = v"
proof (induction fs)
  case (Cons f fs)
  have other: "map_of (concat (map (\<lambda>(k, r). case r of Some (Some j) \<Rightarrow> [(k, j)] | _ \<Rightarrow> []) fs)) k = None"
    if "k \<notin> fst ` set fs"
    using that by (force simp: map_of_eq_None_iff split: option.splits)
  from Cons.prems consider "f = (k, Some v)" "k \<notin> fst ` set fs"
    | "(k, Some v) \<in> set fs" "fst f \<noteq> k" "distinct (map fst fs)"
    by (cases f) force
  then show ?case
    by cases (use Cons.IH in \<open>auto simp: other map_add_def split: option.splits prod.splits\<close>)
qed simp

text \<open>Encoded members are found again under their keys.\<close>

lemma struct_json_lookup:
  assumes "struct_json fs = Some j" "distinct (map fst fs)"
  obtains m where "j = JObj m" "list_all (\<lambda>(k, r). r = Some (fmlookup m k)) fs"
proof
  let ?m = "fmap_of_list (concat (map (\<lambda>(k, r). case r of Some (Some j) \<Rightarrow> [(k, j)] | _ \<Rightarrow> []) fs))"
  show "j = JObj ?m"
    using assms(1) by (auto simp: struct_json_def split: if_splits)
  have "r = Some (fmlookup ?m k)" if kr: "(k, r) \<in> set fs" for k r
  proof -
    have "r \<noteq> None"
      using assms(1) kr by (auto simp: struct_json_def list_all_iff split: if_splits)
    then obtain v where v: "r = Some v" by blast
    with map_of_member_values [OF assms(2), of k v] kr show ?thesis
      by (simp add: fmlookup_of_list)
  qed
  then show "list_all (\<lambda>(k, r). r = Some (fmlookup ?m k)) fs"
    by (auto simp: list_all_iff)
qed

lemma struct_json_absent:
  assumes "struct_json fs = Some (JObj m)" "k \<notin> fst ` set fs"
  shows "fmlookup m k = None"
proof -
  have "m = fmap_of_list (concat (map (\<lambda>(k, r). case r of Some (Some j) \<Rightarrow> [(k, j)] | _ \<Rightarrow> []) fs))"
    using assms(1) by (simp add: struct_json_def split: if_splits)
  moreover have "map_of (concat (map (\<lambda>(k, r). case r of Some (Some j) \<Rightarrow> [(k, j)] | _ \<Rightarrow> []) fs)) k = None"
    using assms(2) by (force simp: map_of_eq_None_iff split: option.splits)
  ultimately show ?thesis by (simp add: fmlookup_of_list)
qed

text \<open>Each field encoder is undone by the decoder of its type.\<close>

lemma dec_enc_string: "enc_string s = Some r \<Longrightarrow> dec_string r = Some s"
  by (auto simp: enc_string_def)

lemma dec_enc_bool: "enc_bool b = Some r \<Longrightarrow> dec_bool r = Some b"
  by (auto simp: enc_bool_def)

lemma dec_enc_int: "enc_int i = Some r \<Longrightarrow> in_int64 i \<Longrightarrow> dec_int r = Some i"
  by (auto simp: enc_int_def)

lemma dec_omit_string: "omit_string s = Some r \<Longrightarrow> dec_string r = Some s"
  by (auto simp: omit_string_def split: if_splits)

lemma dec_omit_int: "omit_int i = Some r \<Longrightarrow> in_int64 i \<Longrightarrow> dec_int r = Some i"
  by (auto simp: omit_int_def split: if_splits)

lemma dec_omit_strings: "omit_strings ss = Some r \<Longrightarrow> dec_list dec_string r = Some ss"
  by (auto simp: omit_strings_def simp del: dec_list.simps(3) split: if_splits)

lemma dec_omit_map: "omit_map m = Some r \<Longrightarrow> native_map m \<Longrightarrow> dec_anymap r = Some m"
  using dec_anymap_to_json [of m]
  by (auto simp: omit_map_def enc_json_def marshal_def simp del: dec_anymap.simps(3) split: if_splits)

lemma dec_omit_map_go: "omit_map m = Some r \<Longrightarrow> go_map m \<Longrightarrow> dec_anymap r = Some (as_decoded_map m)"
  using dec_anymap_go [of m]
  by (auto simp: omit_map_def enc_json_def marshal_def simp del: dec_anymap.simps(3) split: if_splits)

text \<open>A pointer is nil again, or holds what decoding makes of its target.\<close>

lemma dec_omit_ptr_map:
  assumes "omit_ptr e p = Some r" "\<And>x j. p = Some x \<Longrightarrow> e x = Some j \<Longrightarrow> j \<noteq> JNull \<and> d (Some j) = Some (f x)"
  shows "dec_ptr d r = Some (map_option f p)"
proof (cases p)
  case None
  with assms(1) show ?thesis by auto
next
  case (Some x)
  with assms(1) obtain j where j: "e x = Some j" "r = Some j" by (auto simp: enc_json_def)
  with assms(2) Some have "j \<noteq> JNull" "d (Some j) = Some (f x)" by blast+
  with j Some show ?thesis by (cases j) auto
qed

lemma dec_omit_ptr:
  assumes "omit_ptr e p = Some r" "\<And>x j. p = Some x \<Longrightarrow> e x = Some j \<Longrightarrow> j \<noteq> JNull \<and> d (Some j) = Some x"
  shows "dec_ptr d r = Some p"
  using dec_omit_ptr_map [of e p r d "\<lambda>x. x"] assms by (simp add: option.map_ident)

lemmas dec_enc = dec_enc_string dec_enc_bool dec_enc_int dec_omit_string dec_omit_int
  dec_omit_strings dec_omit_map

end
