(* ===== verification/Job.thy ===== *)
theory Job
  imports Json
begin

text \<open>
  The job envelope (\<open>job.go\<close>): the job record, its lifecycle states, the conversion of
  the user's argument map to the wire array and back, and the custom JSON encoding of a
  job. The lemmas show that arguments and whole jobs survive the wire. Instants are integers
  (nanoseconds); their JSON text is left to a \<open>time_codec\<close>, the methods \<open>MarshalJSON\<close> and
  \<open>UnmarshalJSON\<close> of \<open>time.Time\<close>.
\<close>

type_synonym time = int

record time_codec =
  format_time :: "time \<Rightarrow> string option"
  parse_time :: "string \<Rightarrow> time option"

definition time_codec_ok :: "time_codec \<Rightarrow> bool" where
  "time_codec_ok tc \<longleftrightarrow> (\<forall>t s. format_time tc t = Some s \<longrightarrow> parse_time tc s = Some t)"

definition enc_time :: "time_codec \<Rightarrow> time \<Rightarrow> json option" where
  "enc_time tc t = map_option JStr (format_time tc t)"

fun dec_time :: "time_codec \<Rightarrow> json option \<Rightarrow> time option" where
  "dec_time tc (Some (JStr s)) = parse_time tc s"
| "dec_time tc _ = None"

subsection \<open>Data\<close>

type_synonym job_state = string

definition JobStatePending :: job_state where "JobStatePending = ''pending''"
definition JobStateScheduled :: job_state where "JobStateScheduled = ''scheduled''"
definition JobStateAvailable :: job_state where "JobStateAvailable = ''available''"
definition JobStateActive :: job_state where "JobStateActive = ''active''"
definition JobStateCompleted :: job_state where "JobStateCompleted = ''completed''"
definition JobStateRetryable :: job_state where "JobStateRetryable = ''retryable''"
definition JobStateCancelled :: job_state where "JobStateCancelled = ''cancelled''"
definition JobStateDiscarded :: job_state where "JobStateDiscarded = ''discarded''"

lemmas job_states = JobStatePending_def JobStateScheduled_def JobStateAvailable_def
  JobStateActive_def JobStateCompleted_def JobStateRetryable_def JobStateCancelled_def
  JobStateDiscarded_def

definition IsTerminal :: "job_state \<Rightarrow> bool" where
  "IsTerminal s \<longleftrightarrow> s = JobStateCompleted \<or> s = JobStateCancelled \<or> s = JobStateDiscarded"

type_synonym args = anymap

record job_error_data =
  je_Code :: string
  je_Message :: string
  je_Retryable :: bool
  je_Details :: anymap

record job =
  job_ID :: string
  job_Type :: string
  job_State :: job_state
  job_Queue :: string
  job_Priority :: int
  job_Attempt :: int
  job_MaxAttempts :: int
  job_TimeoutMS :: int
  job_Tags :: "string list"
  job_Meta :: anymap
  job_Result :: anymap
  job_Error :: "job_error_data option"
  job_CreatedAt :: "time option"
  job_EnqueuedAt :: "time option"
  job_StartedAt :: "time option"
  job_CompletedAt :: "time option"
  job_CancelledAt :: "time option"
  job_DiscardedAt :: "time option"
  job_ScheduledAt :: "time option"
  job_ExpiresAt :: "time option"
  job_Args :: args
  job_RawArgs :: "any list"
  job_PreviousState :: string

definition zero_job :: job where
  "zero_job = \<lparr>job_ID = [], job_Type = [], job_State = [], job_Queue = [], job_Priority = 0,
     job_Attempt = 0, job_MaxAttempts = 0, job_TimeoutMS = 0, job_Tags = [],
     job_Meta = fmempty, job_Result = fmempty, job_Error = None, job_CreatedAt = None,
     job_EnqueuedAt = None, job_StartedAt = None, job_CompletedAt = None,
     job_CancelledAt = None, job_DiscardedAt = None, job_ScheduledAt = None,
     job_ExpiresAt = None, job_Args = fmempty, job_RawArgs = [], job_PreviousState = []\<rparr>"

subsection \<open>Arguments on the wire\<close>

definition argsToWire :: "args \<Rightarrow> any list" where
  "argsToWire a = (if a = fmempty then [] else [VMap a])"

definition argsFromWire :: "any list \<Rightarrow> args" where
  "argsFromWire raw = (case raw of
     [] \<Rightarrow> fmempty
   | VMap m # _ \<Rightarrow> m
   | _ \<Rightarrow> fmap_of_list (map (\<lambda>(i, v). (show_nat i, v)) (enumerate 0 raw)))"

subsection \<open>JSON\<close>

definition enc_job_error :: "job_error_data \<Rightarrow> json option" where
  "enc_job_error e = struct_json
     [(''code'', enc_string (je_Code e)), (''message'', enc_string (je_Message e)),
      (''retryable'', enc_bool (je_Retryable e)), (''details'', omit_map (je_Details e))]"

definition dec_job_error :: "json option \<Rightarrow> job_error_data option" where
  "dec_job_error d = Option.bind (obj_members d) (\<lambda>m.
     Option.bind (dec_string (fmlookup m ''code'')) (\<lambda>code.
     Option.bind (dec_string (fmlookup m ''message'')) (\<lambda>msg.
     Option.bind (dec_bool (fmlookup m ''retryable'')) (\<lambda>r.
     Option.bind (dec_anymap (fmlookup m ''details'')) (\<lambda>det.
     Some \<lparr>je_Code = code, je_Message = msg, je_Retryable = r, je_Details = det\<rparr>)))))"

text \<open>The members of \<open>jobJSON\<close>, the encoded arguments among them.\<close>

definition jobJSON :: "time_codec \<Rightarrow> job \<Rightarrow> json \<Rightarrow> member list" where
  "jobJSON tc j argsBytes =
     [(''id'', enc_string (job_ID j)),
      (''type'', enc_string (job_Type j)),
      (''state'', enc_string (job_State j)),
      (''queue'', enc_string (job_Queue j)),
      (''priority'', enc_int (job_Priority j)),
      (''attempt'', enc_int (job_Attempt j)),
      (''max_attempts'', enc_int (job_MaxAttempts j)),
      (''timeout_ms'', omit_int (job_TimeoutMS j)),
      (''tags'', omit_strings (job_Tags j)),
      (''meta'', omit_map (job_Meta j)),
      (''result'', omit_map (job_Result j)),
      (''error'', omit_ptr enc_job_error (job_Error j)),
      (''created_at'', omit_ptr (enc_time tc) (job_CreatedAt j)),
      (''enqueued_at'', omit_ptr (enc_time tc) (job_EnqueuedAt j)),
      (''started_at'', omit_ptr (enc_time tc) (job_StartedAt j)),
      (''completed_at'', omit_ptr (enc_time tc) (job_CompletedAt j)),
      (''cancelled_at'', omit_ptr (enc_time tc) (job_CancelledAt j)),
      (''discarded_at'', omit_ptr (enc_time tc) (job_DiscardedAt j)),
      (''scheduled_at'', omit_ptr (enc_time tc) (job_ScheduledAt j)),
      (''expires_at'', omit_ptr (enc_time tc) (job_ExpiresAt j)),
      (''args'', enc_json (Some argsBytes)),
      (''previous_state'', omit_string (job_PreviousState j))]"

text \<open>
  \<open>MarshalJSON\<close>: the arguments are marshalled first, then the members of \<open>jobJSON\<close>.
  \<open>None\<close> is the error of \<open>json.Marshal\<close>.
\<close>

definition Job_MarshalJSON :: "time_codec \<Rightarrow> job \<Rightarrow> json option" where
  "Job_MarshalJSON tc j =
     (case marshal (VList (argsToWire (job_Args j))) of
        None \<Rightarrow> None
      | Some argsBytes \<Rightarrow> struct_json (jobJSON tc j argsBytes))"

text \<open>
  The last step of \<open>UnmarshalJSON\<close>: an argument member that is not an array, or that holds
  a number out of range, is ignored, and the arguments stay nil.
\<close>

fun decode_args :: "json option \<Rightarrow> any list option" where
  "decode_args None = None"
| "decode_args (Some JNull) = Some []"
| "decode_args (Some (JArr js)) = (if decodable (JArr js) then Some (map from_json js) else None)"
| "decode_args (Some _) = None"

definition Job_UnmarshalJSON :: "time_codec \<Rightarrow> json option \<Rightarrow> job option" where
  "Job_UnmarshalJSON tc d =
     Option.bind (obj_members d) (\<lambda>m.
     Option.bind (dec_string (fmlookup m ''id'')) (\<lambda>f_id.
     Option.bind (dec_string (fmlookup m ''type'')) (\<lambda>f_type.
     Option.bind (dec_string (fmlookup m ''state'')) (\<lambda>f_state.
     Option.bind (dec_string (fmlookup m ''queue'')) (\<lambda>f_queue.
     Option.bind (dec_int (fmlookup m ''priority'')) (\<lambda>f_priority.
     Option.bind (dec_int (fmlookup m ''attempt'')) (\<lambda>f_attempt.
     Option.bind (dec_int (fmlookup m ''max_attempts'')) (\<lambda>f_max_attempts.
     Option.bind (dec_int (fmlookup m ''timeout_ms'')) (\<lambda>f_timeout.
     Option.bind (dec_list dec_string (fmlookup m ''tags'')) (\<lambda>f_tags.
     Option.bind (dec_anymap (fmlookup m ''meta'')) (\<lambda>f_meta.
     Option.bind (dec_anymap (fmlookup m ''result'')) (\<lambda>f_result.
     Option.bind (dec_ptr dec_job_error (fmlookup m ''error'')) (\<lambda>f_error.
     Option.bind (dec_ptr (dec_time tc) (fmlookup m ''created_at'')) (\<lambda>f_created.
     Option.bind (dec_ptr (dec_time tc) (fmlookup m ''enqueued_at'')) (\<lambda>f_enqueued.
     Option.bind (dec_ptr (dec_time tc) (fmlookup m ''started_at'')) (\<lambda>f_started.
     Option.bind (dec_ptr (dec_time tc) (fmlookup m ''completed_at'')) (\<lambda>f_completed.
     Option.bind (dec_ptr (dec_time tc) (fmlookup m ''cancelled_at'')) (\<lambda>f_cancelled.
     Option.bind (dec_ptr (dec_time tc) (fmlookup m ''discarded_at'')) (\<lambda>f_discarded.
     Option.bind (dec_ptr (dec_time tc) (fmlookup m ''scheduled_at'')) (\<lambda>f_scheduled.
     Option.bind (dec_ptr (dec_time tc) (fmlookup m ''expires_at'')) (\<lambda>f_expires.
     Option.bind (dec_string (fmlookup m ''previous_state'')) (\<lambda>f_previous.
     Some (let arr = decode_args (fmlookup m ''args'') in
       \<lparr>job_ID = f_id, job_Type = f_type, job_State = f_state, job_Queue = f_queue,
        job_Priority = f_priority, job_Attempt = f_attempt, job_MaxAttempts = f_max_attempts,
        job_TimeoutMS = f_timeout, job_Tags = f_tags, job_Meta = f_meta, job_Result = f_result,
        job_Error = f_error, job_CreatedAt = f_created, job_EnqueuedAt = f_enqueued,
        job_StartedAt = f_started, job_CompletedAt = f_completed,
        job_CancelledAt = f_cancelled, job_DiscardedAt = f_discarded,
        job_ScheduledAt = f_scheduled, job_ExpiresAt = f_expires,
        job_Args = (case arr of None \<Rightarrow> fmempty | Some a \<Rightarrow> argsFromWire a),
        job_RawArgs = (case arr of None \<Rightarrow> [] | Some a \<Rightarrow> a),
        job_PreviousState = f_previous\<rparr>)))))))))))))))))))))))"

subsection \<open>Arguments survive the wire\<close>

lemma fmap_of_list_nonempty [simp]: "fmap_of_list ((k, v) # xs) \<noteq> fmempty"
proof
  assume "fmap_of_list ((k, v) # xs) = fmempty"
  then have "fmlookup (fmap_of_list ((k, v) # xs)) k = None" by simp
  then show False by (simp add: fmlookup_of_list)
qed

lemma fmupd_nonempty [simp]: "fmupd k v m \<noteq> fmempty" "fmempty \<noteq> fmupd k v m"
  by (metis fmempty_lookup fmupd_lookup option.distinct(1))+

lemma argsToWire_as_decoded: "VList (argsToWire (as_decoded_map a)) = as_decoded (VList (argsToWire a))"
  by (simp add: argsToWire_def) (simp add: as_decoded_map_def)

lemma decode_args_go:
  assumes "go_map a" "marshalable (VList (argsToWire a))"
  shows "decode_args (Some (to_json (VList (argsToWire a)))) = Some (argsToWire (as_decoded_map a))"
proof -
  have "go_value (VList (argsToWire a))" using assms(1) by (simp add: argsToWire_def go_map_def)
  from go_value_decodable [OF this assms(2)] from_to_json_go [OF this assms(2)]
  have "decodable (JArr (map to_json (argsToWire a)))"
    "map from_json (map to_json (argsToWire a)) = argsToWire (as_decoded_map a)"
    by (simp_all only: argsToWire_as_decoded [symmetric] to_json.simps from_json.simps any.inject)
  then show ?thesis by (simp only: to_json.simps decode_args.simps if_True)
qed

lemma args_native: "native_map a \<Longrightarrow> json_native (VList (argsToWire a))"
  by (simp add: argsToWire_def native_map_def)

lemma decode_args_native:
  "native_map a \<Longrightarrow> decode_args (Some (to_json (VList (argsToWire a)))) = Some (argsToWire a)"
  using from_to_json [OF args_native, of a] json_native_decodable [OF args_native, of a]
  by simp

lemma args_from_to_wire [simp]: "argsFromWire (argsToWire a) = a"
  by (simp add: argsToWire_def argsFromWire_def)

subsection \<open>A job survives its JSON encoding\<close>


definition job_ints_ok :: "job \<Rightarrow> bool" where
  "job_ints_ok j \<longleftrightarrow> in_int64 (job_Priority j) \<and> in_int64 (job_Attempt j)
     \<and> in_int64 (job_MaxAttempts j) \<and> in_int64 (job_TimeoutMS j)"


text \<open>A job as a Go program can hold it: its numbers are those of their Go types.\<close>

definition go_job :: "job \<Rightarrow> bool" where
  "go_job j \<longleftrightarrow> job_ints_ok j
     \<and> go_map (job_Meta j) \<and> go_map (job_Result j) \<and> go_map (job_Args j)
     \<and> (case job_Error j of None \<Rightarrow> True | Some e \<Rightarrow> go_map (je_Details e))"

text \<open>
  The job that arrives: the dynamic values of its four maps are what decoding makes of them, and
  \<open>RawArgs\<close> is the wire form of the arguments.
\<close>

definition error_as_decoded :: "job_error_data \<Rightarrow> job_error_data" where
  "error_as_decoded e = e\<lparr>je_Details := as_decoded_map (je_Details e)\<rparr>"

definition job_as_decoded :: "job \<Rightarrow> job" where
  "job_as_decoded j = j\<lparr>job_Meta := as_decoded_map (job_Meta j),
     job_Result := as_decoded_map (job_Result j),
     job_Error := map_option error_as_decoded (job_Error j),
     job_Args := as_decoded_map (job_Args j),
     job_RawArgs := argsToWire (as_decoded_map (job_Args j))\<rparr>"



lemma dec_enc_job_error:
  assumes "enc_job_error e = Some j" "go_map (je_Details e)"
  shows "j \<noteq> JNull \<and> dec_job_error (Some j) = Some (error_as_decoded e)"
proof -
  obtain m where j: "j = JObj m"
    and "list_all (\<lambda>(k, r). r = Some (fmlookup m k))
      [(''code'', enc_string (je_Code e)), (''message'', enc_string (je_Message e)),
       (''retryable'', enc_bool (je_Retryable e)), (''details'', omit_map (je_Details e))]"
    by (rule struct_json_lookup [OF assms(1) [unfolded enc_job_error_def]]) simp_all
  then have m: "enc_string (je_Code e) = Some (fmlookup m ''code'')"
      "enc_string (je_Message e) = Some (fmlookup m ''message'')"
      "enc_bool (je_Retryable e) = Some (fmlookup m ''retryable'')"
      "omit_map (je_Details e) = Some (fmlookup m ''details'')"
    by simp_all
  have "dec_string (fmlookup m ''code'') = Some (je_Code e)"
    "dec_string (fmlookup m ''message'') = Some (je_Message e)"
    "dec_bool (fmlookup m ''retryable'') = Some (je_Retryable e)"
    "dec_anymap (fmlookup m ''details'') = Some (as_decoded_map (je_Details e))"
    using m assms(2) by (simp_all only: dec_enc dec_omit_map_go)
  with j show ?thesis by (simp add: dec_job_error_def error_as_decoded_def)
qed

lemma dec_enc_time:
  "time_codec_ok tc \<Longrightarrow> enc_time tc t = Some j \<Longrightarrow> j \<noteq> JNull \<and> dec_time tc (Some j) = Some t"
  by (auto simp: enc_time_def time_codec_ok_def)

lemma dec_omit_time:
  "time_codec_ok tc \<Longrightarrow> omit_ptr (enc_time tc) p = Some r \<Longrightarrow> dec_ptr (dec_time tc) r = Some p"
  by (rule dec_omit_ptr) (use dec_enc_time in auto)

lemma dec_omit_error:
  "omit_ptr enc_job_error p = Some r \<Longrightarrow> (\<And>e. p = Some e \<Longrightarrow> go_map (je_Details e)) \<Longrightarrow>
   dec_ptr dec_job_error r = Some (map_option error_as_decoded p)"
  by (rule dec_omit_ptr_map) (use dec_enc_job_error in auto)

lemma jobJSON_keys: "distinct (map fst (jobJSON tc j a))"
  by (simp add: jobJSON_def)

lemma job_json_roundtrip_go:
  assumes tc: "time_codec_ok tc" and ok: "go_job j" and w: "Job_MarshalJSON tc j = Some w"
  shows "Job_UnmarshalJSON tc (Some w) = Some (job_as_decoded j)"
proof -
  let ?a = "to_json (VList (argsToWire (job_Args j)))"
  have args: "go_map (job_Args j)" and ints: "job_ints_ok j" using ok by (simp_all add: go_job_def)
  have sj: "struct_json (jobJSON tc j ?a) = Some w" and mar: "marshalable (VList (argsToWire (job_Args j)))"
    using w by (simp_all add: Job_MarshalJSON_def marshal_def split: if_splits)
  obtain m where wm: "w = JObj m"
    and m: "list_all (\<lambda>(k, r). r = Some (fmlookup m k)) (jobJSON tc j ?a)"
    by (rule struct_json_lookup [OF sj jobJSON_keys])
  note m = m [unfolded jobJSON_def list.pred_inject prod.case]
  have "fmlookup m ''args'' = Some ?a"
    using m by (simp add: enc_json_def)
  then have a: "decode_args (fmlookup m ''args'') = Some (argsToWire (as_decoded_map (job_Args j)))"
    by (simp only: decode_args_go [OF args mar])
  have strs: "dec_string (fmlookup m ''id'') = Some (job_ID j)"
    "dec_string (fmlookup m ''type'') = Some (job_Type j)"
    "dec_string (fmlookup m ''state'') = Some (job_State j)"
    "dec_string (fmlookup m ''queue'') = Some (job_Queue j)"
    "dec_string (fmlookup m ''previous_state'') = Some (job_PreviousState j)"
    "dec_list dec_string (fmlookup m ''tags'') = Some (job_Tags j)"
    using m by (simp_all only: dec_enc)
  have ints: "dec_int (fmlookup m ''priority'') = Some (job_Priority j)"
    "dec_int (fmlookup m ''attempt'') = Some (job_Attempt j)"
    "dec_int (fmlookup m ''max_attempts'') = Some (job_MaxAttempts j)"
    "dec_int (fmlookup m ''timeout_ms'') = Some (job_TimeoutMS j)"
    using m ints by (simp_all only: dec_enc job_ints_ok_def)
  have maps: "dec_anymap (fmlookup m ''meta'') = Some (as_decoded_map (job_Meta j))"
    "dec_anymap (fmlookup m ''result'') = Some (as_decoded_map (job_Result j))"
    using m ok by (simp_all only: dec_omit_map_go go_job_def)
  have err: "dec_ptr dec_job_error (fmlookup m ''error'') = Some (map_option error_as_decoded (job_Error j))"
    by (rule dec_omit_error) (use m ok in \<open>simp_all only: go_job_def option.case\<close>)
  have times: "dec_ptr (dec_time tc) (fmlookup m ''created_at'') = Some (job_CreatedAt j)"
    "dec_ptr (dec_time tc) (fmlookup m ''enqueued_at'') = Some (job_EnqueuedAt j)"
    "dec_ptr (dec_time tc) (fmlookup m ''started_at'') = Some (job_StartedAt j)"
    "dec_ptr (dec_time tc) (fmlookup m ''completed_at'') = Some (job_CompletedAt j)"
    "dec_ptr (dec_time tc) (fmlookup m ''cancelled_at'') = Some (job_CancelledAt j)"
    "dec_ptr (dec_time tc) (fmlookup m ''discarded_at'') = Some (job_DiscardedAt j)"
    "dec_ptr (dec_time tc) (fmlookup m ''scheduled_at'') = Some (job_ScheduledAt j)"
    "dec_ptr (dec_time tc) (fmlookup m ''expires_at'') = Some (job_ExpiresAt j)"
    using m by (simp_all only: dec_omit_time [OF tc])
  show ?thesis
    unfolding wm Job_UnmarshalJSON_def obj_members.simps
    by (simp only: strs ints maps err times a Option.bind.bind_lunit Let_def option.case args_from_to_wire)
      (simp add: job_as_decoded_def)
qed

text \<open>
  C8: every job that can be marshalled comes back from its JSON with all its members: ids, state,
  numbers, tags, error, the eight instants and the previous state unchanged, the values of
  metadata, result, error details and arguments as decoding makes them (a Go \<open>int\<close> is then the
  nearest \<open>float64\<close>, a \<open>[]string\<close> a list, nothing else changes), and \<open>RawArgs\<close> the wire form of
  the arguments. A job whose values came from JSON is thus unchanged. The condition \<open>go_job\<close> says
  only that integers have 64 bits and floats are those of \<open>float64\<close>; of the codec of
  \<open>time.Time\<close>, that it reads back what it writes.
\<close>

theorem job_json_roundtrip:
  assumes "time_codec_ok tc" "go_job j" "Job_MarshalJSON tc j = Some w"
  shows "Job_UnmarshalJSON tc (Some w) = Some (job_as_decoded j)"
  by (rule job_json_roundtrip_go [OF assms])

text \<open>A codec that writes instants after the epoch as decimal numbers, for concrete runs.\<close>

definition decimal_codec :: time_codec where
  "decimal_codec = \<lparr>format_time = (\<lambda>t. if 0 \<le> t then Some (show_nat (nat t)) else None),
     parse_time = (\<lambda>s. Some (int (read_nat s)))\<rparr>"

lemma decimal_codec_ok [simp]: "time_codec_ok decimal_codec"
  by (simp add: time_codec_ok_def decimal_codec_def)

theorem job_json_roundtrip_witness:
  "\<exists>w. Job_MarshalJSON decimal_codec (zero_job\<lparr>job_ID := ''j1'', job_CreatedAt := Some 7,
        job_Args := fmap_of_list [(''n'', VInt 5)]\<rparr>) = Some w
    \<and> map_option job_RawArgs (Job_UnmarshalJSON decimal_codec (Some w))
        = Some [VMap (fmap_of_list [(''n'', VFloat (Fin 5))])]"
proof -
  let ?j = "zero_job\<lparr>job_ID := ''j1'', job_CreatedAt := Some 7,
        job_Args := fmap_of_list [(''n'', VInt 5)]\<rparr>"
  have ok: "go_job ?j"
    by (simp add: go_job_def job_ints_ok_def zero_job_def in_int64_def) (simp add: go_map_def in_int64_def)
  have "Job_MarshalJSON decimal_codec ?j \<noteq> None"
    by (simp add: Job_MarshalJSON_def marshal_def argsToWire_def zero_job_def struct_json_def jobJSON_def
        enc_string_def enc_int_def omit_int_def omit_strings_def omit_map_def enc_time_def enc_json_def
        omit_string_def decimal_codec_def)
  then obtain w where w: "Job_MarshalJSON decimal_codec ?j = Some w" by blast
  from job_json_roundtrip [OF decimal_codec_ok ok w] w show ?thesis
    by (intro exI [of _ w])
      (simp add: job_as_decoded_def argsToWire_def, simp add: as_decoded_map_def f64_of_int_small fmap_ext)
qed

text \<open>
  Arguments cross the wire in both forms: a map survives unchanged, and an array that does not
  start with an object is read by position, each value under its decimal index.
\<close>

theorem args_wire_forms:
  assumes "raw \<noteq> []" "\<forall>m. hd raw \<noteq> VMap m"
  shows "argsFromWire (argsToWire a) = a
    \<and> (\<forall>i. fmlookup (argsFromWire raw) (show_nat i) = (if i < length raw then Some (raw ! i) else None))
    \<and> fmdom' (argsFromWire raw) = show_nat ` {..<length raw}"
proof -
  let ?kv = "map (\<lambda>(i, v). (show_nat i, v)) (enumerate 0 raw)"
  have raw: "argsFromWire raw = fmap_of_list ?kv"
    using assms by (cases raw; cases "hd raw") (auto simp: argsFromWire_def)
  have keys: "map fst ?kv = map show_nat [0..<length raw]"
    by (rule nth_equalityI) (simp_all add: nth_enumerate_eq)
  have dist: "distinct (map fst ?kv)"
    unfolding keys by (rule distinct_map_inj) (auto intro: injI)
  have "map_of ?kv (show_nat i) = (if i < length raw then Some (raw ! i) else None)" for i
  proof (cases "i < length raw")
    case True
    then have "?kv ! i = (show_nat i, raw ! i)" "i < length ?kv"
      by (simp_all add: nth_enumerate_eq)
    then have "(show_nat i, raw ! i) \<in> set ?kv" by (metis nth_mem)
    with True dist show ?thesis by (simp only: map_of_eq_Some_iff) simp
  next
    case False
    then have "show_nat i \<notin> set (map fst ?kv)" unfolding keys by auto
    then have "map_of ?kv (show_nat i) = None" by (simp only: map_of_eq_None_iff set_map not_False_eq_True)
    with False show ?thesis by simp
  qed
  moreover have "fmdom' (fmap_of_list ?kv) = show_nat ` {..<length raw}"
    using arg_cong [OF keys, of set] by (auto simp: fmdom'_alt_def fmdom_of_list fset_of_list.rep_eq)
  ultimately show ?thesis unfolding raw by (simp add: fmlookup_of_list)
qed

theorem args_wire_forms_witness:
  "fmlookup (argsFromWire [VInt 5, VStr ''x'']) (show_nat 1) = Some (VStr ''x'')"
  using args_wire_forms [of "[VInt 5, VStr ''x'']"] by simp

subsection \<open>Whatever arrives is well-typed\<close>











end
