(* ===== verification/Go_Errors.thy ===== *)
theory Go_Errors
  imports Job
begin

text \<open>
  Errors (\<open>errors.go\<close>): the codes and sentinels, the structured \<open>Error\<close> of the API with its
  \<open>Is\<close> and \<open>Unwrap\<close> methods, the wrapper of \<open>NonRetryable\<close>, and the questions the SDK asks of
  an error (\<open>errors.Is\<close>, \<open>errors.As\<close>, \<open>IsRetryable\<close>, \<open>ErrorCode\<close>). A Go \<open>error\<close> that may be nil is
  a \<open>go_error option\<close>. \<open>errors.Is\<close> and \<open>errors.As\<close> of the standard library are written out: they
  walk the chain that \<open>Unwrap\<close> spans.
\<close>

subsection \<open>Data\<close>

definition ErrCodeHandlerError :: string where "ErrCodeHandlerError = ''handler_error''"
definition ErrCodeTimeout :: string where "ErrCodeTimeout = ''timeout''"
definition ErrCodeCancelled :: string where "ErrCodeCancelled = ''cancelled''"
definition ErrCodeInvalidPayload :: string where "ErrCodeInvalidPayload = ''invalid_payload''"
definition ErrCodeInvalidRequest :: string where "ErrCodeInvalidRequest = ''invalid_request''"
definition ErrCodeNotFound :: string where "ErrCodeNotFound = ''not_found''"
definition ErrCodeBackendError :: string where "ErrCodeBackendError = ''backend_error''"
definition ErrCodeRateLimited :: string where "ErrCodeRateLimited = ''rate_limited''"
definition ErrCodeDuplicate :: string where "ErrCodeDuplicate = ''duplicate''"
definition ErrCodeQueuePaused :: string where "ErrCodeQueuePaused = ''queue_paused''"
definition ErrCodeSchemaValidation :: string where "ErrCodeSchemaValidation = ''schema_validation''"
definition ErrCodeUnsupported :: string where "ErrCodeUnsupported = ''unsupported''"

lemmas err_codes = ErrCodeHandlerError_def ErrCodeTimeout_def ErrCodeCancelled_def
  ErrCodeInvalidPayload_def ErrCodeInvalidRequest_def ErrCodeNotFound_def ErrCodeBackendError_def
  ErrCodeRateLimited_def ErrCodeDuplicate_def ErrCodeQueuePaused_def ErrCodeSchemaValidation_def
  ErrCodeUnsupported_def

text \<open>The sentinel values: those of the SDK and those of \<open>context\<close>.\<close>

datatype sentinel =
    ErrNotFound | ErrDuplicate | ErrQueuePaused | ErrRateLimited | ErrConflict | ErrBackend
  | ErrTimeout
  | ContextCanceled | ContextDeadlineExceeded

fun sentinel_msg :: "sentinel \<Rightarrow> string" where
  "sentinel_msg ErrNotFound = ''ojs: resource not found''"
| "sentinel_msg ErrDuplicate = ''ojs: duplicate job''"
| "sentinel_msg ErrQueuePaused = ''ojs: queue is paused''"
| "sentinel_msg ErrRateLimited = ''ojs: rate limit exceeded''"
| "sentinel_msg ErrConflict = ''ojs: conflict''"
| "sentinel_msg ErrBackend = ''ojs: backend error''"
| "sentinel_msg ErrTimeout = ''ojs: timeout''"
| "sentinel_msg ContextCanceled = ''context canceled''"
| "sentinel_msg ContextDeadlineExceeded = ''context deadline exceeded''"

record rate_limit_info =
  rl_Limit :: int
  rl_Remaining :: int
  rl_Reset :: int
  rl_RetryAfter :: int

record api_error =
  ae_Code :: string
  ae_Message :: string
  ae_Retryable :: bool
  ae_Details :: anymap
  ae_RequestID :: string
  ae_HTTPStatus :: int
  ae_RetryAfter :: int
  ae_RateLimit :: "rate_limit_info option"

text \<open>
  \<open>Wrapf p e\<close> is \<open>fmt.Errorf\<close> with the text \<open>p\<close> in front of a final \<open>%w\<close>; \<open>PlainErr\<close> is an error
  without a cause.
\<close>

datatype go_error =
    Sentinel sentinel
  | PlainErr string
  | Wrapf string go_error
  | ApiError api_error
  | NonRetryableErr go_error
  | BatchPartialErr int int "job list"

subsection \<open>Methods\<close>

definition Error_Error :: "api_error \<Rightarrow> string" where
  "Error_Error e =
     (if ae_RequestID e \<noteq> []
      then ''ojs: '' @ ae_Code e @ '': '' @ ae_Message e @ '' (request_id='' @ ae_RequestID e @ '')''
      else ''ojs: '' @ ae_Code e @ '': '' @ ae_Message e)"

definition Error_Is :: "api_error \<Rightarrow> sentinel \<Rightarrow> bool" where
  "Error_Is e target =
     (if ae_Code e = ErrCodeNotFound then target = ErrNotFound
      else if ae_Code e = ErrCodeDuplicate then target = ErrDuplicate
      else if ae_Code e = ErrCodeQueuePaused then target = ErrQueuePaused
      else if ae_Code e = ErrCodeRateLimited then target = ErrRateLimited
      else if ae_Code e = ErrCodeBackendError then target = ErrBackend
      else if ae_Code e = ErrCodeTimeout then target = ErrTimeout
      else if ae_HTTPStatus e = 409 then target = ErrConflict
      else False)"

definition Error_Unwrap :: "api_error \<Rightarrow> sentinel option" where
  "Error_Unwrap e =
     (if ae_Code e = ErrCodeNotFound then Some ErrNotFound
      else if ae_Code e = ErrCodeDuplicate then Some ErrDuplicate
      else if ae_Code e = ErrCodeQueuePaused then Some ErrQueuePaused
      else if ae_Code e = ErrCodeRateLimited then Some ErrRateLimited
      else if ae_Code e = ErrCodeBackendError then Some ErrBackend
      else if ae_Code e = ErrCodeTimeout then Some ErrTimeout
      else if ae_HTTPStatus e = 409 then Some ErrConflict
      else None)"

definition BatchPartialError_Error :: "int \<Rightarrow> int \<Rightarrow> string" where
  "BatchPartialError_Error submitted succeeded =
     ''ojs: batch partial failure: '' @ show_int succeeded @ ''/'' @ show_int submitted
       @ '' jobs enqueued''"

primrec err_msg :: "go_error \<Rightarrow> string" where
  "err_msg (Sentinel s) = sentinel_msg s"
| "err_msg (PlainErr m) = m"
| "err_msg (Wrapf p e) = p @ err_msg e"
| "err_msg (ApiError e) = Error_Error e"
| "err_msg (NonRetryableErr e) = err_msg e"
| "err_msg (BatchPartialErr submitted succeeded jobs) = BatchPartialError_Error submitted succeeded"

fun unwrap :: "go_error \<Rightarrow> go_error option" where
  "unwrap (Wrapf p e) = Some e"
| "unwrap (ApiError e) = map_option Sentinel (Error_Unwrap e)"
| "unwrap (NonRetryableErr e) = Some e"
| "unwrap _ = None"

fun is_method :: "go_error \<Rightarrow> sentinel \<Rightarrow> bool" where
  "is_method (ApiError e) target = Error_Is e target"
| "is_method _ target = False"

subsection \<open>Walking the chain: errors.Is and errors.As\<close>

primrec err_depth :: "go_error \<Rightarrow> nat" where
  "err_depth (Sentinel s) = 0"
| "err_depth (PlainErr m) = 0"
| "err_depth (Wrapf p e) = Suc (err_depth e)"
| "err_depth (ApiError e) = 1"
| "err_depth (NonRetryableErr e) = Suc (err_depth e)"
| "err_depth (BatchPartialErr n k js) = 0"

lemma unwrap_depth [simp]: "unwrap e = Some e' \<Longrightarrow> err_depth e' < err_depth e"
  by (cases e) auto

function chain :: "go_error \<Rightarrow> go_error list" where
  "chain e = e # (case unwrap e of None \<Rightarrow> [] | Some e' \<Rightarrow> chain e')"
  by auto
termination by (relation "measure err_depth") auto

declare chain.simps [simp del]

definition errors_Is :: "go_error \<Rightarrow> sentinel \<Rightarrow> bool" where
  "errors_Is e target = list_ex (\<lambda>x. x = Sentinel target \<or> is_method x target) (chain e)"

fun is_non_retryable :: "go_error \<Rightarrow> bool" where
  "is_non_retryable (NonRetryableErr e) = True"
| "is_non_retryable _ = False"

fun as_api :: "go_error \<Rightarrow> api_error option" where
  "as_api (ApiError e) = Some e"
| "as_api _ = None"

definition errors_As_nonRetryable :: "go_error \<Rightarrow> bool" where
  "errors_As_nonRetryable e = list_ex is_non_retryable (chain e)"

definition errors_As_Error :: "go_error \<Rightarrow> api_error option" where
  "errors_As_Error e = (case List.map_filter as_api (chain e) of [] \<Rightarrow> None | a # _ \<Rightarrow> Some a)"

definition IsRetryable :: "go_error option \<Rightarrow> bool" where
  "IsRetryable err = (case err of
     None \<Rightarrow> False
   | Some e \<Rightarrow> if errors_As_nonRetryable e then False
       else (case errors_As_Error e of Some a \<Rightarrow> ae_Retryable a | None \<Rightarrow> False))"

definition isHandlerRetryable :: "go_error \<Rightarrow> bool" where
  "isHandlerRetryable e = (if errors_As_nonRetryable e then False else True)"

definition NonRetryable :: "go_error option \<Rightarrow> go_error option" where
  "NonRetryable err = (case err of None \<Rightarrow> None | Some e \<Rightarrow> Some (NonRetryableErr e))"

definition ErrorCode :: "go_error option \<Rightarrow> string" where
  "ErrorCode err = (case err of
     None \<Rightarrow> []
   | Some e \<Rightarrow> (case errors_As_Error e of Some a \<Rightarrow> ae_Code a | None \<Rightarrow> []))"

subsection \<open>How the questions see wrapped errors\<close>

lemma chain_simps [simp]:
  "chain (Sentinel s) = [Sentinel s]"
  "chain (PlainErr m) = [PlainErr m]"
  "chain (Wrapf p e) = Wrapf p e # chain e"
  "chain (NonRetryableErr e) = NonRetryableErr e # chain e"
  "chain (BatchPartialErr n k js) = [BatchPartialErr n k js]"
  "chain (ApiError a) = ApiError a # (case Error_Unwrap a of None \<Rightarrow> [] | Some s \<Rightarrow> [Sentinel s])"
  by (simp_all add: chain.simps split: option.splits)

lemma errors_Is_simps [simp]:
  "errors_Is (Sentinel s) t \<longleftrightarrow> s = t"
  "errors_Is (PlainErr m) t \<longleftrightarrow> False"
  "errors_Is (Wrapf p e) t \<longleftrightarrow> errors_Is e t"
  "errors_Is (NonRetryableErr e) t \<longleftrightarrow> errors_Is e t"
  "errors_Is (BatchPartialErr n k js) t \<longleftrightarrow> False"
  by (simp_all add: errors_Is_def)

lemma errors_As_nonRetryable_simps [simp]:
  "errors_As_nonRetryable (Sentinel s) \<longleftrightarrow> False"
  "errors_As_nonRetryable (PlainErr m) \<longleftrightarrow> False"
  "errors_As_nonRetryable (Wrapf p e) \<longleftrightarrow> errors_As_nonRetryable e"
  "errors_As_nonRetryable (NonRetryableErr e) \<longleftrightarrow> True"
  "errors_As_nonRetryable (BatchPartialErr n k js) \<longleftrightarrow> False"
  "errors_As_nonRetryable (ApiError a) \<longleftrightarrow> False"
  by (simp_all add: errors_As_nonRetryable_def split: option.splits)

lemma errors_As_Error_simps [simp]:
  "errors_As_Error (Sentinel s) = None"
  "errors_As_Error (PlainErr m) = None"
  "errors_As_Error (Wrapf p e) = errors_As_Error e"
  "errors_As_Error (NonRetryableErr e) = errors_As_Error e"
  "errors_As_Error (BatchPartialErr n k js) = None"
  "errors_As_Error (ApiError a) = Some a"
  by (simp_all add: errors_As_Error_def List.map_filter_simps)

lemma Error_Is_iff_Unwrap: "Error_Is e t \<longleftrightarrow> Error_Unwrap e = Some t"
  by (auto simp: Error_Is_def Error_Unwrap_def)

lemma errors_Is_ApiError [simp]: "errors_Is (ApiError a) t \<longleftrightarrow> Error_Unwrap a = Some t"
  by (auto simp: errors_Is_def Error_Is_iff_Unwrap split: option.splits)

text \<open>
  An error as the layers of the SDK and its users see it: a cause under any number of
  \<open>fmt.Errorf("...: %w", ...)\<close> prefixes.
\<close>

definition wrapped :: "string list \<Rightarrow> go_error \<Rightarrow> go_error" where
  "wrapped ps e = foldr Wrapf ps e"

lemma wrapped_simps [simp]:
  "errors_Is (wrapped ps e) t \<longleftrightarrow> errors_Is e t"
  "errors_As_nonRetryable (wrapped ps e) \<longleftrightarrow> errors_As_nonRetryable e"
  "errors_As_Error (wrapped ps e) = errors_As_Error e"
  by (induction ps) (simp_all add: wrapped_def)

text \<open>The wrappers an error may be under, outermost first: \<open>fmt.Errorf\<close> with \<open>%w\<close>, and \<open>NonRetryable\<close>.\<close>

datatype wrapper = WithPrefix string | MarkedNonRetryable

primrec wrap_in :: "wrapper \<Rightarrow> go_error \<Rightarrow> go_error" where
  "wrap_in (WithPrefix p) e = Wrapf p e"
| "wrap_in MarkedNonRetryable e = NonRetryableErr e"

definition under :: "wrapper list \<Rightarrow> go_error \<Rightarrow> go_error" where
  "under ws e = foldr wrap_in ws e"

lemma under_simps [simp]:
  "errors_Is (under ws e) t \<longleftrightarrow> errors_Is e t"
  "errors_As_nonRetryable (under ws e) \<longleftrightarrow> MarkedNonRetryable \<in> set ws \<or> errors_As_nonRetryable e"
  "errors_As_Error (under ws e) = errors_As_Error e"
proof (induction ws)
  case (Cons w ws)
  { case 1 show ?case using Cons by (cases w) (simp_all add: under_def) next
    case 2 show ?case using Cons by (cases w) (simp_all add: under_def) next
    case 3 show ?case using Cons by (cases w) (simp_all add: under_def) }
qed (simp_all add: under_def)

text \<open>
  C20: an API error is recognised under any number of \<open>fmt.Errorf\<close> prefixes and \<open>NonRetryable\<close> marks.
  \<open>errors.Is\<close> tells not-found, duplicate, paused queue, rate limit, backend failure and timeout by the
  error's code, a conflict by the status 409 when the code is none of these, and nothing else;
  \<open>ErrorCode\<close> reads the code, and \<open>IsRetryable\<close> the error's own flag unless a mark is on it.
\<close>

theorem api_error_classified:
  "let e = under ws (ApiError a);
       coded = {''not_found'', ''duplicate'', ''queue_paused'', ''rate_limited'', ''backend_error'', ''timeout''}
   in (errors_Is e ErrNotFound \<longleftrightarrow> ae_Code a = ''not_found'')
    \<and> (errors_Is e ErrDuplicate \<longleftrightarrow> ae_Code a = ''duplicate'')
    \<and> (errors_Is e ErrQueuePaused \<longleftrightarrow> ae_Code a = ''queue_paused'')
    \<and> (errors_Is e ErrRateLimited \<longleftrightarrow> ae_Code a = ''rate_limited'')
    \<and> (errors_Is e ErrBackend \<longleftrightarrow> ae_Code a = ''backend_error'')
    \<and> (errors_Is e ErrTimeout \<longleftrightarrow> ae_Code a = ''timeout'')
    \<and> (errors_Is e ErrConflict \<longleftrightarrow> ae_HTTPStatus a = 409 \<and> ae_Code a \<notin> coded)
    \<and> \<not> errors_Is e ContextCanceled \<and> \<not> errors_Is e ContextDeadlineExceeded
    \<and> (Error_Is a t \<longleftrightarrow> errors_Is e t) \<and> (Error_Unwrap a = Some t \<longleftrightarrow> errors_Is e t)
    \<and> ErrorCode (Some e) = ae_Code a
    \<and> IsRetryable (Some e) = (ae_Retryable a \<and> MarkedNonRetryable \<notin> set ws)"
  by (simp add: Let_def Error_Is_iff_Unwrap IsRetryable_def ErrorCode_def)
    (simp add: Error_Unwrap_def err_codes)

text \<open>\<open>NonRetryable\<close> survives wrapping on both sides: the worker and \<open>IsRetryable\<close> refuse a retry, the message and the sentinel of the cause stay visible; a handler error with no such mark is retryable.\<close>

theorem non_retryable_respected:
  "isHandlerRetryable (wrapped ps (NonRetryableErr (wrapped qs e))) = False
   \<and> IsRetryable (Some (wrapped ps (NonRetryableErr (wrapped qs e)))) = False
   \<and> errors_Is (wrapped ps (NonRetryableErr (wrapped qs e))) t = errors_Is e t
   \<and> err_msg (NonRetryableErr e) = err_msg e
   \<and> isHandlerRetryable (wrapped ps (ApiError a))
   \<and> isHandlerRetryable (wrapped ps (PlainErr m))
   \<and> isHandlerRetryable (wrapped ps (Sentinel s))"
  by (simp add: isHandlerRetryable_def IsRetryable_def)

end
