(* ===== verification/Middleware_Chain.thy ===== *)
theory Middleware_Chain
  imports Go_Errors
begin

text \<open>
  Handlers and the middleware chain (\<open>middleware.go\<close>), the context a handler receives
  (\<open>JobContext\<close> of \<open>worker.go\<close>), and the Recovery and Metrics middleware of the package
  \<open>middleware\<close>. A handler is arbitrary user code: it maps a context and the state of the world
  to a result and a new state, and it may panic (\<open>Panicked\<close>, with the panic value as \<open>%v\<close>
  prints it). The lemmas fix the order in which the chain runs, the positions at which
  middleware is inserted and removed, and what Recovery and Metrics see.
\<close>

record job_context =
  jc_Job :: job
  jc_Attempt :: int
  jc_Queue :: string
  jc_WorkflowID :: string
  jc_ParentResults :: anymap
  jc_has_resultRef :: bool
  jc_has_worker :: bool

definition NewJobContextForTest :: "job \<Rightarrow> job_context" where
  "NewJobContextForTest j = \<lparr>jc_Job = j, jc_Attempt = job_Attempt j, jc_Queue = job_Queue j,
     jc_WorkflowID = [], jc_ParentResults = fmempty, jc_has_resultRef = False,
     jc_has_worker = False\<rparr>"

datatype hresult = Returned "go_error option" | Panicked string

type_synonym 'w handler = "job_context \<Rightarrow> 'w \<Rightarrow> hresult \<times> 'w"
type_synonym 'w middleware = "job_context \<Rightarrow> 'w handler \<Rightarrow> 'w \<Rightarrow> hresult \<times> 'w"

subsection \<open>The chain\<close>

record 'w named_middleware =
  nm_name :: string
  nm_fn :: "'w middleware"

type_synonym 'w middleware_chain = "'w named_middleware list"

definition newMiddlewareChain :: "'w middleware_chain" where
  "newMiddlewareChain = []"

definition chain_Add :: "string \<Rightarrow> 'w middleware \<Rightarrow> 'w middleware_chain \<Rightarrow> 'w middleware_chain" where
  "chain_Add name fn c = c @ [\<lparr>nm_name = name, nm_fn = fn\<rparr>]"

definition chain_Prepend :: "string \<Rightarrow> 'w middleware \<Rightarrow> 'w middleware_chain \<Rightarrow> 'w middleware_chain" where
  "chain_Prepend name fn c = \<lparr>nm_name = name, nm_fn = fn\<rparr> # c"

text \<open>The loops stop at the first middleware with the name; without one the new one goes last.\<close>

fun chain_InsertBefore ::
  "string \<Rightarrow> string \<Rightarrow> 'w middleware \<Rightarrow> 'w middleware_chain \<Rightarrow> 'w middleware_chain" where
  "chain_InsertBefore existing name fn [] = chain_Add name fn []"
| "chain_InsertBefore existing name fn (m # ms) =
     (if nm_name m = existing then \<lparr>nm_name = name, nm_fn = fn\<rparr> # m # ms
      else m # chain_InsertBefore existing name fn ms)"

fun chain_InsertAfter ::
  "string \<Rightarrow> string \<Rightarrow> 'w middleware \<Rightarrow> 'w middleware_chain \<Rightarrow> 'w middleware_chain" where
  "chain_InsertAfter existing name fn [] = chain_Add name fn []"
| "chain_InsertAfter existing name fn (m # ms) =
     (if nm_name m = existing then m # \<lparr>nm_name = name, nm_fn = fn\<rparr> # ms
      else m # chain_InsertAfter existing name fn ms)"

fun chain_Remove :: "string \<Rightarrow> 'w middleware_chain \<Rightarrow> 'w middleware_chain" where
  "chain_Remove name [] = []"
| "chain_Remove name (m # ms) = (if nm_name m = name then ms else m # chain_Remove name ms)"

text \<open>\<open>then\<close>: built from the inside out, the last middleware around the handler first.\<close>

definition chain_then :: "'w middleware_chain \<Rightarrow> 'w handler \<Rightarrow> 'w handler" where
  "chain_then c h = foldr (\<lambda>m next. (\<lambda>ctx. nm_fn m ctx next)) c h"

subsection \<open>The package \<open>middleware\<close>\<close>

definition Recovery :: "'w middleware" where
  "Recovery ctx next w = (case next ctx w of
     (Panicked r, w') \<Rightarrow>
       (Returned (Some (PlainErr (''panic in job '' @ job_Type (jc_Job ctx) @ '' (id=''
          @ job_ID (jc_Job ctx) @ ''): '' @ r))), w')
   | (Returned e, w') \<Rightarrow> (Returned e, w'))"

text \<open>The interface \<open>MetricsRecorder\<close>, with the clock the middleware reads.\<close>

record 'w metrics_recorder =
  mr_JobStarted :: "string \<Rightarrow> string \<Rightarrow> 'w \<Rightarrow> 'w"
  mr_JobCompleted :: "string \<Rightarrow> string \<Rightarrow> int \<Rightarrow> 'w \<Rightarrow> 'w"
  mr_JobFailed :: "string \<Rightarrow> string \<Rightarrow> int \<Rightarrow> 'w \<Rightarrow> 'w"
  mr_now :: "'w \<Rightarrow> time"

definition Metrics :: "'w metrics_recorder \<Rightarrow> 'w middleware" where
  "Metrics rec ctx next w =
     (let w1 = mr_JobStarted rec (job_Type (jc_Job ctx)) (jc_Queue ctx) w;
          start = mr_now rec w1
      in case next ctx w1 of
           (Panicked r, w2) \<Rightarrow> (Panicked r, w2)
         | (Returned (Some e), w2) \<Rightarrow>
             (Returned (Some e), mr_JobFailed rec (job_Type (jc_Job ctx)) (jc_Queue ctx)
                (mr_now rec w2 - start) w2)
         | (Returned None, w2) \<Rightarrow>
             (Returned None, mr_JobCompleted rec (job_Type (jc_Job ctx)) (jc_Queue ctx)
                (mr_now rec w2 - start) w2))"

subsection \<open>Order and positions\<close>

lemma chain_then_append: "chain_then (c @ d) h = chain_then c (chain_then d h)"
  by (simp add: chain_then_def)

lemma chain_then_simps [simp]:
  "chain_then [] h = h"
  "chain_then (m # c) h = (\<lambda>ctx. nm_fn m ctx (chain_then c h))"
  by (simp_all add: chain_then_def)

abbreviation chain_names :: "'w middleware_chain \<Rightarrow> string list" where
  "chain_names c \<equiv> map nm_name c"

lemma chain_edit_found:
  "x \<notin> set (chain_names pre) \<Longrightarrow> nm_name m = x \<Longrightarrow>
   chain_InsertBefore x n f (pre @ m # post) = pre @ \<lparr>nm_name = n, nm_fn = f\<rparr> # m # post
   \<and> chain_InsertAfter x n f (pre @ m # post) = pre @ m # \<lparr>nm_name = n, nm_fn = f\<rparr> # post
   \<and> chain_Remove x (pre @ m # post) = pre @ post"
  by (induction pre) auto

lemma chain_edit_absent:
  "x \<notin> set (chain_names c) \<Longrightarrow>
   chain_InsertBefore x n f c = chain_Add n f c \<and> chain_InsertAfter x n f c = chain_Add n f c
   \<and> chain_Remove x c = c"
  by (induction c) (auto simp: chain_Add_def)

text \<open>
  \<open>InsertBefore\<close>, \<open>InsertAfter\<close> and \<open>Remove\<close> act at the first middleware of the given name and
  nowhere else; when there is none, the insertions append and \<open>Remove\<close> does nothing.
\<close>

theorem middleware_edit_positions:
  assumes "c = pre @ m # post" "nm_name m = x" "x \<notin> set (chain_names pre)"
    "y \<notin> set (chain_names c)"
  shows "chain_InsertBefore x n f c = pre @ \<lparr>nm_name = n, nm_fn = f\<rparr> # m # post
    \<and> chain_InsertAfter x n f c = pre @ m # \<lparr>nm_name = n, nm_fn = f\<rparr> # post
    \<and> chain_Remove x c = pre @ post
    \<and> chain_InsertBefore y n f c = chain_Add n f c
    \<and> chain_InsertAfter y n f c = chain_Add n f c
    \<and> chain_Remove y c = c"
  using chain_edit_found [OF assms(3,2)] chain_edit_absent [OF assms(4)] assms(1) by simp

text \<open>
  A middleware that marks its passage: by the context it refuses the job, without calling the next
  one, or it calls it and marks the way in and the way out.
\<close>

datatype mark = Enter string | Leave string | Refuse string

type_synonym gate = "string \<times> (job_context \<Rightarrow> go_error option)"

definition marking :: "gate \<Rightarrow> mark list middleware" where
  "marking g ctx next w = (case snd g ctx of
     Some e \<Rightarrow> (Returned (Some e), w @ [Refuse (fst g)])
   | None \<Rightarrow> (case next ctx (w @ [Enter (fst g)]) of (r, w') \<Rightarrow> (r, w' @ [Leave (fst g)])))"

definition marked_chain :: "gate list \<Rightarrow> mark list middleware_chain" where
  "marked_chain gs = map (\<lambda>g. \<lparr>nm_name = fst g, nm_fn = marking g\<rparr>) gs"

text \<open>
  C38: the chain is an onion. Whatever the middleware do, the next handler that one of them is given is
  the rest of the chain around the job's handler, nothing else. So middleware that mark their
  passage and either call the next one or refuse the job are entered in the order of the chain up to
  the first that refuses, and those entered are left in the reverse order; when none refuses, the
  handler, whatever it does, runs once inside them all, and its result is the chain's.
\<close>

theorem middleware_onion:
  "chain_then (c @ m # d) h' = chain_then c (\<lambda>ctx. nm_fn m ctx (chain_then d h'))
   \<and> chain_then (marked_chain gs) h ctx w =
      (let pass = map fst (takeWhile (\<lambda>g. snd g ctx = None) gs) in
       case dropWhile (\<lambda>g. snd g ctx = None) gs of
         [] \<Rightarrow> (case h ctx (w @ map Enter pass) of (r, w') \<Rightarrow> (r, w' @ map Leave (rev pass)))
       | g # _ \<Rightarrow> (Returned (snd g ctx), w @ map Enter pass @ [Refuse (fst g)] @ map Leave (rev pass)))"
proof
  show "chain_then (c @ m # d) h' = chain_then c (\<lambda>ctx. nm_fn m ctx (chain_then d h'))"
    by (simp add: chain_then_append)
  show "chain_then (marked_chain gs) h ctx w =
      (let pass = map fst (takeWhile (\<lambda>g. snd g ctx = None) gs) in
       case dropWhile (\<lambda>g. snd g ctx = None) gs of
         [] \<Rightarrow> (case h ctx (w @ map Enter pass) of (r, w') \<Rightarrow> (r, w' @ map Leave (rev pass)))
       | g # _ \<Rightarrow> (Returned (snd g ctx), w @ map Enter pass @ [Refuse (fst g)] @ map Leave (rev pass)))"
    by (induction gs arbitrary: w)
      (auto simp: marked_chain_def marking_def Let_def simp del: dropWhile_eq_Nil_conv
        split: list.split option.split prod.split)
qed

text \<open>
  With Recovery outermost no panic of the middleware inside or of the handler gets out: it
  becomes the error that names the job, and a result that is not a panic is left alone.
\<close>

theorem recovery_contains_panics:
  "chain_then (chain_Prepend nm Recovery c) h ctx w =
     (case chain_then c h ctx w of
        (Panicked r, w') \<Rightarrow> (Returned (Some (PlainErr (''panic in job '' @ job_Type (jc_Job ctx)
           @ '' (id='' @ job_ID (jc_Job ctx) @ ''): '' @ r))), w')
      | (Returned e, w') \<Rightarrow> (Returned e, w'))"
  by (simp add: chain_Prepend_def Recovery_def)

theorem middleware_edit_positions_witness:
  "chain_Remove ''b'' (marked_chain [(''a'', \<lambda>_. None), (''b'', \<lambda>_. None), (''c'', \<lambda>_. None), (''b'', \<lambda>_. None)])
     = marked_chain [(''a'', \<lambda>_. None), (''c'', \<lambda>_. None), (''b'', \<lambda>_. None)]"
  using middleware_edit_positions [where c = "marked_chain [(''a'', \<lambda>_. None), (''b'', \<lambda>_. None), (''c'', \<lambda>_. None), (''b'', \<lambda>_. None)]"
      and pre = "marked_chain [(''a'', \<lambda>_. None)]" and m = "\<lparr>nm_name = ''b'', nm_fn = marking (''b'', \<lambda>_. None)\<rparr>"
      and post = "marked_chain [(''c'', \<lambda>_. None), (''b'', \<lambda>_. None)]" and x = "''b''" and y = "''z''"]
  by (simp add: marked_chain_def)

text \<open>A recorder that counts, on a world without a clock of its own.\<close>

record counts =
  ct_started :: nat
  ct_completed :: nat
  ct_failed :: nat

definition counting_recorder :: "counts metrics_recorder" where
  "counting_recorder = \<lparr>mr_JobStarted = (\<lambda>t q w. w\<lparr>ct_started := ct_started w + 1\<rparr>),
     mr_JobCompleted = (\<lambda>t q d w. w\<lparr>ct_completed := ct_completed w + 1\<rparr>),
     mr_JobFailed = (\<lambda>t q d w. w\<lparr>ct_failed := ct_failed w + 1\<rparr>), mr_now = (\<lambda>w. 0)\<rparr>"

text \<open>
  Metrics outside Recovery counts every job once as started and once as completed or failed,
  a panicking one as failed; inside Recovery a panicking job is counted as started and never
  as finished.
\<close>

theorem metrics_recovery_order:
  "chain_then [\<lparr>nm_name = a, nm_fn = Metrics counting_recorder\<rparr>, \<lparr>nm_name = b, nm_fn = Recovery\<rparr>]
     (\<lambda>ctx w. (res, w)) ctx w =
   (case res of
      Returned None \<Rightarrow> (Returned None,
        w\<lparr>ct_started := ct_started w + 1, ct_completed := ct_completed w + 1\<rparr>)
    | _ \<Rightarrow> (fst (Recovery ctx (\<lambda>ctx w. (res, w)) w),
        w\<lparr>ct_started := ct_started w + 1, ct_failed := ct_failed w + 1\<rparr>))
   \<and> snd (chain_then [\<lparr>nm_name = b, nm_fn = Recovery\<rparr>, \<lparr>nm_name = a, nm_fn = Metrics counting_recorder\<rparr>]
       (\<lambda>ctx w. (Panicked r, w)) ctx w) = w\<lparr>ct_started := ct_started w + 1\<rparr>"
  by (auto simp: Recovery_def Metrics_def counting_recorder_def Let_def
      split: hresult.splits option.splits)

end
