(* ===== verification/Durable_Store.thy ===== *)
theory Durable_Store
  imports Middleware_Chain
begin

text \<open>
  The package \<open>middleware/durable\<close> (\<open>middleware/durable/durable.go\<close>): checkpoints kept in a
  store, the in-memory store, the context a handler saves and restores through, and the
  middleware that registers it under the job's ID. The Go interface \<open>Store\<close> is the record
  \<open>store\<close> of its three methods over a state \<open>'s\<close>; its contract is the locale
  \<open>checkpoint_store\<close>, interpreted on \<open>MemoryStore\<close>. The clock is an argument of the methods
  that read it, and printing and parsing of JSON are parameters.
\<close>

subsection \<open>Stores\<close>

definition MaxCheckpointSize :: nat where
  "MaxCheckpointSize = 2 ^ 20"

record checkpoint =
  cp_JobID :: string
  cp_Version :: int
  cp_State :: string
  cp_StepIndex :: int
  cp_CreatedAt :: time

record 's store =
  st_Save :: "time \<Rightarrow> string \<Rightarrow> string \<Rightarrow> int \<Rightarrow> 's \<Rightarrow> (go_error + checkpoint option) \<times> 's"
  st_Get :: "time \<Rightarrow> string \<Rightarrow> 's \<Rightarrow> checkpoint option"
  st_Delete :: "string \<Rightarrow> 's \<Rightarrow> go_error option \<times> 's"

record memory_store =
  ms_data :: "(string, checkpoint) fmap"
  ms_ttl :: int

definition NewMemoryStore :: "int \<Rightarrow> memory_store" where
  "NewMemoryStore ttl = \<lparr>ms_data = fmempty,
     ms_ttl = (if ttl \<le> 0 then 24 * 3600 * 1000000000 else ttl)\<rparr>"

definition MemoryStore_Save ::
  "time \<Rightarrow> string \<Rightarrow> string \<Rightarrow> int \<Rightarrow> memory_store \<Rightarrow> (go_error + checkpoint option) \<times> memory_store" where
  "MemoryStore_Save now jobID state stepIndex s =
     (if MaxCheckpointSize < length state then
        (Inl (PlainErr (''checkpoint exceeds '' @ show_nat MaxCheckpointSize @ '' bytes'')), s)
      else
        let version = (case fmlookup (ms_data s) jobID of
              Some existing \<Rightarrow> wrap64 (cp_Version existing + 1) | None \<Rightarrow> 1);
            cp = \<lparr>cp_JobID = jobID, cp_Version = version, cp_State = state,
              cp_StepIndex = stepIndex, cp_CreatedAt = now\<rparr>
        in (Inr (Some cp), s\<lparr>ms_data := fmupd jobID cp (ms_data s)\<rparr>))"

definition MemoryStore_Get :: "time \<Rightarrow> string \<Rightarrow> memory_store \<Rightarrow> checkpoint option" where
  "MemoryStore_Get now jobID s = (case fmlookup (ms_data s) jobID of
     None \<Rightarrow> None
   | Some cp \<Rightarrow> (if ms_ttl s < now - cp_CreatedAt cp then None else Some cp))"

definition MemoryStore_Delete :: "string \<Rightarrow> memory_store \<Rightarrow> go_error option \<times> memory_store" where
  "MemoryStore_Delete jobID s = (None, s\<lparr>ms_data := fmdrop jobID (ms_data s)\<rparr>)"

definition MemoryStore :: "memory_store store" where
  "MemoryStore = \<lparr>st_Save = MemoryStore_Save, st_Get = MemoryStore_Get, st_Delete = MemoryStore_Delete\<rparr>"

definition noopStore :: "'s store" where
  "noopStore = \<lparr>st_Save = (\<lambda>_ _ _ _ s. (Inr None, s)), st_Get = (\<lambda>_ _ _. None),
     st_Delete = (\<lambda>_ s. (None, s))\<rparr>"

subsection \<open>The context of a handler\<close>

record 's durable_handle =
  dh_store :: "'s store"
  dh_jobID :: string

definition DC_Save ::
  "(json \<Rightarrow> string) \<Rightarrow> go_error \<Rightarrow> time \<Rightarrow> any \<Rightarrow> int \<Rightarrow> 's durable_handle \<Rightarrow> 's
     \<Rightarrow> go_error option \<times> 's" where
  "DC_Save print merr now state stepIndex dc s = (case marshal state of
     None \<Rightarrow> (Some (Wrapf ''marshaling checkpoint: '' merr), s)
   | Some j \<Rightarrow> (case st_Save (dh_store dc) now (dh_jobID dc) (print j) stepIndex s of
       (Inl e, s') \<Rightarrow> (Some e, s')
     | (Inr _, s') \<Rightarrow> (None, s')))"

text \<open>The target is what \<open>decode\<close> makes of the saved bytes (\<open>json.Unmarshal\<close> into its type).\<close>

definition DC_Restore ::
  "(string \<Rightarrow> 'a option) \<Rightarrow> time \<Rightarrow> 's durable_handle \<Rightarrow> 's \<Rightarrow> int \<times> bool \<times> 'a option" where
  "DC_Restore decode now dc s = (case st_Get (dh_store dc) now (dh_jobID dc) s of
     None \<Rightarrow> (0, False, None)
   | Some cp \<Rightarrow> (case decode (cp_State cp) of
       None \<Rightarrow> (0, False, None)
     | Some v \<Rightarrow> (cp_StepIndex cp, True, Some v)))"

definition DC_Clear :: "'s durable_handle \<Rightarrow> 's \<Rightarrow> go_error option \<times> 's" where
  "DC_Clear dc s = st_Delete (dh_store dc) (dh_jobID dc) s"

subsection \<open>The registry and the middleware\<close>

text \<open>The world of a handler: the package's registry, the state of the stores, the user's own.\<close>

record ('s, 'u) durable_world =
  dw_registry :: "string \<rightharpoonup> 's durable_handle"
  dw_store :: 's
  dw_user :: 'u

definition Durable_Middleware :: "'s store \<Rightarrow> ('s, 'u) durable_world middleware" where
  "Durable_Middleware st ctx next w =
     (let jobID = job_ID (jc_Job ctx);
          dc = \<lparr>dh_store = st, dh_jobID = jobID\<rparr>
      in case next ctx (w\<lparr>dw_registry := (dw_registry w)(jobID \<mapsto> dc)\<rparr>) of
           (r, w') \<Rightarrow> (r, w'\<lparr>dw_registry := (dw_registry w')(jobID := None)\<rparr>))"

definition FromContext :: "job_context \<Rightarrow> ('s, 'u) durable_world \<Rightarrow> 's durable_handle" where
  "FromContext ctx w = (case dw_registry w (job_ID (jc_Job ctx)) of
     Some dc \<Rightarrow> dc
   | None \<Rightarrow> \<lparr>dh_store = noopStore, dh_jobID = []\<rparr>)"

subsection \<open>The contract of a store\<close>

text \<open>
  What a handler may rely on: an accepted checkpoint is read back for as long as it lives and no
  longer, a refused one changes nothing, a deleted one is gone, and other jobs are not touched.
\<close>

text \<open>What the handlers of other jobs do to the same store in the meantime.\<close>

datatype handle_op = SaveOp string time any int | ClearOp string

primrec op_job :: "handle_op \<Rightarrow> string" where
  "op_job (SaveOp i t v k) = i"
| "op_job (ClearOp i) = i"

primrec run_op :: "(json \<Rightarrow> string) \<Rightarrow> go_error \<Rightarrow> 's store \<Rightarrow> handle_op \<Rightarrow> 's \<Rightarrow> 's" where
  "run_op print merr st (SaveOp i t v k) s = snd (DC_Save print merr t v k \<lparr>dh_store = st, dh_jobID = i\<rparr> s)"
| "run_op print merr st (ClearOp i) s = snd (DC_Clear \<lparr>dh_store = st, dh_jobID = i\<rparr> s)"

definition run_ops :: "(json \<Rightarrow> string) \<Rightarrow> go_error \<Rightarrow> 's store \<Rightarrow> handle_op list \<Rightarrow> 's \<Rightarrow> 's" where
  "run_ops print merr st ops s = fold (run_op print merr st) ops s"

locale checkpoint_store =
  fixes st :: "'s store" and lives :: "'s \<Rightarrow> int"
  assumes save_get: "st_Save st t i d k s = (Inr c, s') \<Longrightarrow> t' - t \<le> lives s \<Longrightarrow>
      \<exists>cp. st_Get st t' i s' = Some cp \<and> cp_State cp = d \<and> cp_StepIndex cp = k"
    and save_expires: "st_Save st t i d k s = (Inr c, s') \<Longrightarrow> lives s < t' - t \<Longrightarrow> st_Get st t' i s' = None"
    and save_refused: "st_Save st t i d k s = (Inl e, s') \<Longrightarrow> s' = s"
    and save_other: "i' \<noteq> i \<Longrightarrow> st_Get st t' i' (snd (st_Save st t i d k s)) = st_Get st t' i' s"
    and delete_get: "st_Get st t i (snd (st_Delete st i s)) = None"
    and delete_other: "i' \<noteq> i \<Longrightarrow> st_Get st t i' (snd (st_Delete st i s)) = st_Get st t i' s"
begin

abbreviation handle :: "string \<Rightarrow> 's durable_handle" where
  "handle i \<equiv> \<lparr>dh_store = st, dh_jobID = i\<rparr>"

lemma restore_saved:
  assumes "DC_Save print merr t v k (handle i) s = (None, s')" "marshal v = Some j"
  shows "DC_Restore decode t' (handle i) s' = (if lives s < t' - t then (0, False, None)
    else case decode (print j) of None \<Rightarrow> (0, False, None) | Some x \<Rightarrow> (k, True, Some x))"
proof -
  obtain c where c: "st_Save st t i (print j) k s = (Inr c, s')"
    using assms by (auto simp: DC_Save_def split: prod.splits sum.splits)
  show ?thesis
  proof (cases "lives s < t' - t")
    case True
    with save_expires [OF c] show ?thesis by (simp add: DC_Restore_def)
  next
    case False
    with save_get [OF c, of t'] show ?thesis by (auto simp: DC_Restore_def)
  qed
qed

lemma failed_save_keeps:
  "DC_Save print merr t v k (handle i) s = (Some e, s') \<Longrightarrow> s' = s"
  by (auto simp: DC_Save_def split: option.splits prod.splits sum.splits dest: save_refused)

lemma restore_other:
  "i' \<noteq> i \<Longrightarrow> DC_Restore decode t' (handle i') (snd (DC_Save print merr t v k (handle i) s))
     = DC_Restore decode t' (handle i') s"
  using save_other [of i' i t' t]
  by (auto simp: DC_Restore_def DC_Save_def split: option.splits prod.splits sum.splits) (metis snd_conv option.distinct(1) option.inject)+

lemma restore_cleared:
  "DC_Restore decode t (handle i) (snd (DC_Clear (handle i) s)) = (0, False, None)"
  by (simp add: DC_Restore_def DC_Clear_def delete_get)

lemma clear_other:
  "i' \<noteq> i \<Longrightarrow> DC_Restore decode t (handle i') (snd (DC_Clear (handle i) s)) = DC_Restore decode t (handle i') s"
  by (simp add: DC_Restore_def DC_Clear_def delete_other)

lemma restore_after_others:
  "\<forall>op \<in> set ops. op_job op \<noteq> i \<Longrightarrow>
   DC_Restore decode t (handle i) (run_ops print merr st ops s) = DC_Restore decode t (handle i) s"
proof (induction ops arbitrary: s)
  case (Cons op ops)
  have "DC_Restore decode t (handle i) (run_op print merr st op s) = DC_Restore decode t (handle i) s"
    using Cons.prems by (cases op) (auto simp: restore_other clear_other not_sym)
  with Cons show ?case by (simp add: run_ops_def)
qed (simp add: run_ops_def)

end

interpretation mem: checkpoint_store MemoryStore ms_ttl
  by unfold_locales
    (auto simp: MemoryStore_def MemoryStore_Save_def MemoryStore_Get_def MemoryStore_Delete_def
      Let_def split: if_splits option.splits)

text \<open>
  C17: with the in-memory store, \<open>Save\<close> succeeds exactly when the state marshals to at most one
  megabyte; otherwise it is an error and the store, with the checkpoint saved before, stays as it is.
  Whatever other jobs save and clear afterwards, \<open>Restore\<close> returns the step of the save and what
  \<open>json.Unmarshal\<close> makes of the saved text, for as long as the store's lifetime and no longer, and
  after \<open>Clear\<close> it returns nothing.
\<close>

theorem memory_checkpoint_roundtrip:
  assumes "\<forall>op \<in> set ops. op_job op \<noteq> i"
  shows "let dc = \<lparr>dh_store = MemoryStore, dh_jobID = i\<rparr> in
    case marshal v of
      None \<Rightarrow> \<exists>e. DC_Save print merr t v k dc s = (Some e, s)
    | Some j \<Rightarrow>
        (if 2 ^ 20 < length (print j) then \<exists>e. DC_Save print merr t v k dc s = (Some e, s)
         else \<exists>s1. DC_Save print merr t v k dc s = (None, s1)
           \<and> DC_Restore decode t' dc (run_ops print' merr' MemoryStore ops s1) =
               (if ms_ttl s < t' - t then (0, False, None)
                else case decode (print j) of None \<Rightarrow> (0, False, None) | Some x \<Rightarrow> (k, True, Some x))
           \<and> DC_Restore decode t' dc (snd (DC_Clear dc (run_ops print' merr' MemoryStore ops s1)))
               = (0, False, None))"
proof (cases "marshal v")
  case None
  then show ?thesis by (simp add: DC_Save_def)
next
  case (Some j)
  show ?thesis
  proof (cases "2 ^ 20 < length (print j)")
    case True
    with Some show ?thesis
      by (simp add: DC_Save_def MemoryStore_def MemoryStore_Save_def MaxCheckpointSize_def)
  next
    case False
    then obtain s1 where s1: "DC_Save print merr t v k (mem.handle i) s = (None, s1)"
      using Some by (auto simp: DC_Save_def MemoryStore_def MemoryStore_Save_def MaxCheckpointSize_def Let_def)
    from mem.restore_saved [OF s1 Some, of decode t'] False Some s1 show ?thesis
      by (simp add: mem.restore_after_others [OF assms] mem.restore_cleared)
  qed
qed

text \<open>
  Inside the middleware a handler gets a context on the store for its own job. When the
  handler is done, panic or not, the registration is gone: a second run of the same job ID that
  is still going (the server delivers at least once) gets the no-op store from then on, whose
  \<open>Save\<close> reports success and keeps nothing, and whose \<open>Restore\<close> finds nothing.
\<close>

theorem durable_registration_scope:
  assumes "marshal v = Some j"
  shows "FromContext ctx (w\<lparr>dw_registry := (dw_registry w)(job_ID (jc_Job ctx) \<mapsto>
            \<lparr>dh_store = st, dh_jobID = job_ID (jc_Job ctx)\<rparr>)\<rparr>)
          = \<lparr>dh_store = st, dh_jobID = job_ID (jc_Job ctx)\<rparr>
      \<and> (case Durable_Middleware st ctx handler w of (r, w') \<Rightarrow>
          DC_Save print merr t v k (FromContext ctx w') (dw_store w') = (None, dw_store w')
          \<and> DC_Restore decode t (FromContext ctx w') (dw_store w') = (0, False, None))"
  using assms by (auto simp: FromContext_def Durable_Middleware_def DC_Save_def DC_Restore_def
      noopStore_def Let_def split: prod.splits)

theorem memory_checkpoint_roundtrip_witness:
  "\<exists>s1. DC_Save (\<lambda>_. ''7'') (PlainErr []) 10 (VInt 7) 3 \<lparr>dh_store = MemoryStore, dh_jobID = ''a''\<rparr>
      (NewMemoryStore 0) = (None, s1)
    \<and> DC_Restore Some 20 \<lparr>dh_store = MemoryStore, dh_jobID = ''a''\<rparr>
        (run_ops (\<lambda>_. ''8'') (PlainErr []) MemoryStore [SaveOp ''b'' 12 VNil 1, ClearOp ''c''] s1)
      = (3, True, Some ''7'')"
  using memory_checkpoint_roundtrip [where ops = "[SaveOp ''b'' 12 VNil 1, ClearOp ''c'']" and i = "''a''"
      and v = "VInt 7" and print = "\<lambda>_. ''7''" and merr = "PlainErr []" and t = 10 and k = 3
      and s = "NewMemoryStore 0" and decode = Some and t' = 20 and print' = "\<lambda>_. ''8''"
      and merr' = "PlainErr []"]
  by (auto simp: marshal_def NewMemoryStore_def Let_def)

theorem durable_registration_scope_witness:
  "DC_Save (\<lambda>_. ''7'') (PlainErr []) 10 (VInt 7) 3
     (FromContext (NewJobContextForTest zero_job)
       (snd (Durable_Middleware MemoryStore (NewJobContextForTest zero_job) (\<lambda>_ w. (Panicked [], w))
         \<lparr>dw_registry = Map.empty, dw_store = NewMemoryStore 0, dw_user = ()\<rparr>)))
     (NewMemoryStore 0) = (None, NewMemoryStore 0)"
  using durable_registration_scope [where v = "VInt 7" and j = "JNum 7"
      and ctx = "NewJobContextForTest zero_job" and st = MemoryStore and handler = "\<lambda>_ w. (Panicked [], w)"
      and w = "\<lparr>dw_registry = Map.empty, dw_store = NewMemoryStore 0, dw_user = ()\<rparr>"
      and print = "\<lambda>_. ''7''" and merr = "PlainErr []" and t = 10 and k = 3
      and decode = Some]
  by (simp add: marshal_def Durable_Middleware_def Let_def)

end
