(* ===== verification/Options.thy ===== *)
theory Options
  imports Go_Errors
begin

text \<open>
  Functional options and their wire forms (\<open>options.go\<close>, \<open>retry.go\<close> and the wire structs of
  \<open>client.go\<close>): the enqueue, client and worker configurations, one definition per \<open>With...\<close>
  option, the \<open>resolve...\<close> loops, retry and uniqueness policies with their conversion to
  milliseconds, and the JSON of \<open>wireOptions\<close>. An option is a function on the configuration,
  as in the code; one that reads the clock takes the instant as an argument. The locale
  \<open>config_field\<close> states what an option promises of the field it sets, and is interpreted on
  the options of all three configurations. Loggers are not modelled.
\<close>

subsection \<open>Durations\<close>

definition nanosecond :: int where "nanosecond = 1"
definition millisecond :: int where "millisecond = 1000000"
definition second :: int where "second = 1000000000"
definition minute :: int where "minute = 60000000000"

lemmas durations = nanosecond_def millisecond_def second_def minute_def

definition Milliseconds :: "int \<Rightarrow> int" where
  "Milliseconds d = go_div d millisecond"

text \<open>\<open>time.Duration(ms) * time.Millisecond\<close>\<close>

definition from_millis :: "int \<Rightarrow> int" where
  "from_millis ms = wrap64 (ms * millisecond)"

lemma from_millis_Milliseconds:
  assumes "in_int64 d"
  shows "from_millis (Milliseconds d) = go_div d millisecond * millisecond"
    and "\<bar>d - from_millis (Milliseconds d)\<bar> < millisecond"
    and "in_int64 (from_millis (Milliseconds d))"
    and "Milliseconds (from_millis (Milliseconds d)) = Milliseconds d"
proof -
  have pos: "0 < millisecond" by (simp add: millisecond_def)
  show eq: "from_millis (Milliseconds d) = go_div d millisecond * millisecond"
    using in_int64_go_div_mult [OF pos assms] by (simp add: from_millis_def Milliseconds_def)
  show "\<bar>d - from_millis (Milliseconds d)\<bar> < millisecond"
    unfolding eq by (rule go_div_mult_bounds [OF pos])
  show "in_int64 (from_millis (Milliseconds d))" by (simp add: from_millis_def)
  show "Milliseconds (from_millis (Milliseconds d)) = Milliseconds d"
    unfolding eq by (simp add: Milliseconds_def go_div_mult_cancel pos)
qed

subsection \<open>Retry and uniqueness policies\<close>

record retry_policy =
  rp_MaxAttempts :: int
  rp_InitialInterval :: int
  rp_BackoffCoefficient :: f64
  rp_MaxInterval :: int
  rp_Jitter :: "bool option"
  rp_NonRetryableErrors :: "string list"

record retry_policy_wire =
  rw_MaxAttempts :: int
  rw_InitialIntervalMS :: int
  rw_BackoffCoefficient :: f64
  rw_MaxIntervalMS :: int
  rw_Jitter :: "bool option"
  rw_NonRetryableErrors :: "string list"

definition RetryPolicy_toWire :: "retry_policy \<Rightarrow> retry_policy_wire" where
  "RetryPolicy_toWire r = \<lparr>
     rw_MaxAttempts = rp_MaxAttempts r,
     rw_InitialIntervalMS = Milliseconds (rp_InitialInterval r),
     rw_BackoffCoefficient = rp_BackoffCoefficient r,
     rw_MaxIntervalMS = Milliseconds (rp_MaxInterval r),
     rw_Jitter = rp_Jitter r,
     rw_NonRetryableErrors = rp_NonRetryableErrors r\<rparr>"

definition retryPolicyFromWire :: "retry_policy_wire option \<Rightarrow> retry_policy option" where
  "retryPolicyFromWire wp = (case wp of None \<Rightarrow> None | Some w \<Rightarrow> Some \<lparr>
     rp_MaxAttempts = rw_MaxAttempts w,
     rp_InitialInterval = from_millis (rw_InitialIntervalMS w),
     rp_BackoffCoefficient = rw_BackoffCoefficient w,
     rp_MaxInterval = from_millis (rw_MaxIntervalMS w),
     rp_Jitter = rw_Jitter w,
     rp_NonRetryableErrors = rw_NonRetryableErrors w\<rparr>)"

definition DefaultRetryPolicy :: retry_policy where
  "DefaultRetryPolicy = \<lparr>rp_MaxAttempts = 3, rp_InitialInterval = 1 * second,
     rp_BackoffCoefficient = Fin 2, rp_MaxInterval = 5 * minute, rp_Jitter = Some True,
     rp_NonRetryableErrors = []\<rparr>"

record unique_policy =
  up_Key :: "string list"
  up_Period :: int
  up_OnConflict :: string

record unique_policy_wire =
  uw_Key :: "string list"
  uw_PeriodMS :: int
  uw_OnConflict :: string

definition UniquePolicy_toWire :: "unique_policy \<Rightarrow> unique_policy_wire" where
  "UniquePolicy_toWire u = \<lparr>uw_Key = up_Key u, uw_PeriodMS = Milliseconds (up_Period u),
     uw_OnConflict = up_OnConflict u\<rparr>"

text \<open>The wire form of a retry policy keeps every field, and truncates the intervals to whole milliseconds: reading it back changes each by less than one millisecond, and a second trip changes nothing.\<close>

theorem retry_policy_wire_roundtrip:
  assumes "in_int64 (rp_InitialInterval p)" "in_int64 (rp_MaxInterval p)"
  shows "\<exists>p'. retryPolicyFromWire (Some (RetryPolicy_toWire p)) = Some p'
    \<and> RetryPolicy_toWire p' = RetryPolicy_toWire p
    \<and> \<bar>rp_InitialInterval p - rp_InitialInterval p'\<bar> < millisecond
    \<and> \<bar>rp_MaxInterval p - rp_MaxInterval p'\<bar> < millisecond
    \<and> p' = p\<lparr>rp_InitialInterval := rp_InitialInterval p', rp_MaxInterval := rp_MaxInterval p'\<rparr>"
  using from_millis_Milliseconds [OF assms(1)] from_millis_Milliseconds [OF assms(2)]
  by (simp add: retryPolicyFromWire_def RetryPolicy_toWire_def)

theorem retry_policy_wire_roundtrip_witness:
  "\<exists>p'. retryPolicyFromWire (Some (RetryPolicy_toWire DefaultRetryPolicy)) = Some p'
    \<and> RetryPolicy_toWire p' = RetryPolicy_toWire DefaultRetryPolicy"
  using retry_policy_wire_roundtrip [of DefaultRetryPolicy]
  by (auto simp: DefaultRetryPolicy_def durations in_int64_def)

subsection \<open>Enqueue options\<close>

record enqueue_config =
  cfg_queue :: string
  cfg_priority :: int
  cfg_timeoutMS :: int
  cfg_delayUntil :: "time option"
  cfg_expiresAt :: "time option"
  cfg_retry :: "retry_policy option"
  cfg_unique :: "unique_policy option"
  cfg_tags :: "string list"
  cfg_meta :: anymap
  cfg_visibilityTimeout :: int

text \<open>An option is applied to the configuration at an instant of the clock.\<close>

type_synonym enqueue_option = "time \<Rightarrow> enqueue_config \<Rightarrow> enqueue_config"

definition WithQueue :: "string \<Rightarrow> enqueue_option" where
  "WithQueue q = (\<lambda>now c. c\<lparr>cfg_queue := q\<rparr>)"

definition WithPriority :: "int \<Rightarrow> enqueue_option" where
  "WithPriority p = (\<lambda>now c. c\<lparr>cfg_priority := p\<rparr>)"

definition WithTimeout :: "int \<Rightarrow> enqueue_option" where
  "WithTimeout d = (\<lambda>now c. c\<lparr>cfg_timeoutMS := Milliseconds d\<rparr>)"

definition WithDelay :: "int \<Rightarrow> enqueue_option" where
  "WithDelay d = (\<lambda>now c. c\<lparr>cfg_delayUntil := Some (now + d)\<rparr>)"

definition WithScheduledAt :: "time \<Rightarrow> enqueue_option" where
  "WithScheduledAt t = (\<lambda>now c. c\<lparr>cfg_delayUntil := Some t\<rparr>)"

definition WithExpiresAt :: "time \<Rightarrow> enqueue_option" where
  "WithExpiresAt t = (\<lambda>now c. c\<lparr>cfg_expiresAt := Some t\<rparr>)"

definition WithRetry :: "retry_policy \<Rightarrow> enqueue_option" where
  "WithRetry p = (\<lambda>now c. c\<lparr>cfg_retry := Some p\<rparr>)"

definition WithUnique :: "unique_policy \<Rightarrow> enqueue_option" where
  "WithUnique p = (\<lambda>now c. c\<lparr>cfg_unique := Some p\<rparr>)"

definition WithTags :: "string list \<Rightarrow> enqueue_option" where
  "WithTags tags = (\<lambda>now c. c\<lparr>cfg_tags := cfg_tags c @ tags\<rparr>)"

definition WithMeta :: "anymap \<Rightarrow> enqueue_option" where
  "WithMeta meta = (\<lambda>now c. c\<lparr>cfg_meta := fmadd (cfg_meta c) meta\<rparr>)"

definition WithVisibilityTimeout :: "int \<Rightarrow> enqueue_option" where
  "WithVisibilityTimeout d = (\<lambda>now c. c\<lparr>cfg_visibilityTimeout := Milliseconds d\<rparr>)"

definition default_enqueue_config :: enqueue_config where
  "default_enqueue_config = \<lparr>cfg_queue = ''default'', cfg_priority = 0, cfg_timeoutMS = 0,
     cfg_delayUntil = None, cfg_expiresAt = None, cfg_retry = None, cfg_unique = None,
     cfg_tags = [], cfg_meta = fmempty, cfg_visibilityTimeout = 0\<rparr>"

definition resolveEnqueueConfig :: "time \<Rightarrow> enqueue_option list \<Rightarrow> enqueue_config" where
  "resolveEnqueueConfig now opts = foldl (\<lambda>cfg opt. opt now cfg) default_enqueue_config opts"

text \<open>The view of \<open>enqueue_export.go\<close>.\<close>

record test_enqueue_config =
  tc_Queue :: string
  tc_Priority :: int
  tc_Tags :: "string list"
  tc_Meta :: anymap

definition ResolveTestEnqueueConfig :: "time \<Rightarrow> enqueue_option list \<Rightarrow> test_enqueue_config" where
  "ResolveTestEnqueueConfig now opts = (let cfg = resolveEnqueueConfig now opts in
     \<lparr>tc_Queue = cfg_queue cfg, tc_Priority = cfg_priority cfg, tc_Tags = cfg_tags cfg,
      tc_Meta = cfg_meta cfg\<rparr>)"

lemmas enqueue_options = WithQueue_def WithPriority_def WithTimeout_def WithDelay_def
  WithScheduledAt_def WithExpiresAt_def WithRetry_def WithUnique_def WithTags_def WithMeta_def
  WithVisibilityTimeout_def

subsection \<open>Client options\<close>

record retry_config =
  rc_MaxRetries :: int
  rc_MinBackoff :: int
  rc_MaxBackoff :: int
  rc_Enabled :: bool
  rc_RetryServerErrors :: bool

text \<open>The HTTP clients the SDK may use: one the user made, or one of its own with a timeout (0: none).\<close>

datatype http_client =
    UserClient nat
  | SDKClient (sdk_timeout: int)
  | SharedDefaultClient

record client_config =
  cc_httpClient :: "http_client option"
  cc_authToken :: string
  cc_userAgent :: string
  cc_headers :: "string gomap"
  cc_retryConfig :: "retry_config option"
  cc_httpTimeout :: int
  cc_httpTimeoutSet :: bool

type_synonym client_option = "client_config \<Rightarrow> client_config"

definition WithHTTPTimeout :: "int \<Rightarrow> client_option" where
  "WithHTTPTimeout d = (\<lambda>c. c\<lparr>cc_httpTimeout := d, cc_httpTimeoutSet := True\<rparr>)"

definition WithHTTPClient :: "http_client option \<Rightarrow> client_option" where
  "WithHTTPClient client = (\<lambda>c. c\<lparr>cc_httpClient := client\<rparr>)"

definition WithAuthToken :: "string \<Rightarrow> client_option" where
  "WithAuthToken token = (\<lambda>c. c\<lparr>cc_authToken := token\<rparr>)"

definition WithRetryConfig :: "retry_config \<Rightarrow> client_option" where
  "WithRetryConfig cfg = (\<lambda>c. c\<lparr>cc_retryConfig := Some cfg\<rparr>)"

definition WithHeader :: "string \<Rightarrow> string \<Rightarrow> client_option" where
  "WithHeader key val = (\<lambda>c. c\<lparr>cc_headers := gomap_put key val (cc_headers c)\<rparr>)"

definition WithUserAgent :: "string \<Rightarrow> client_option" where
  "WithUserAgent ua = (\<lambda>c. c\<lparr>cc_userAgent := ua\<rparr>)"

definition zero_client_config :: client_config where
  "zero_client_config = \<lparr>cc_httpClient = None, cc_authToken = [], cc_userAgent = [],
     cc_headers = [], cc_retryConfig = None, cc_httpTimeout = 0, cc_httpTimeoutSet = False\<rparr>"

definition resolve_client_config :: "client_option list \<Rightarrow> client_config" where
  "resolve_client_config opts = foldl (\<lambda>cfg opt. opt cfg) zero_client_config opts"

lemmas client_options = WithHTTPTimeout_def WithHTTPClient_def WithAuthToken_def
  WithRetryConfig_def WithHeader_def WithUserAgent_def

subsection \<open>Worker options\<close>

record worker_config =
  wc_queues :: "string list"
  wc_concurrency :: int
  wc_gracePeriod :: int
  wc_heartbeatInterval :: int
  wc_labels :: "string list"
  wc_pollInterval :: int
  wc_authToken :: string
  wc_httpClient :: "http_client option"

type_synonym worker_option = "worker_config \<Rightarrow> worker_config"

definition WithQueues :: "string list \<Rightarrow> worker_option" where
  "WithQueues queues = (\<lambda>c. c\<lparr>wc_queues := queues\<rparr>)"

definition WithConcurrency :: "int \<Rightarrow> worker_option" where
  "WithConcurrency n = (\<lambda>c. c\<lparr>wc_concurrency := n\<rparr>)"

definition WithGracePeriod :: "int \<Rightarrow> worker_option" where
  "WithGracePeriod d = (\<lambda>c. c\<lparr>wc_gracePeriod := d\<rparr>)"

definition WithHeartbeatInterval :: "int \<Rightarrow> worker_option" where
  "WithHeartbeatInterval d = (\<lambda>c. c\<lparr>wc_heartbeatInterval := d\<rparr>)"

definition WithLabels :: "string list \<Rightarrow> worker_option" where
  "WithLabels labels = (\<lambda>c. c\<lparr>wc_labels := labels\<rparr>)"

definition WithPollInterval :: "int \<Rightarrow> worker_option" where
  "WithPollInterval d = (\<lambda>c. c\<lparr>wc_pollInterval := d\<rparr>)"

definition WithWorkerAuth :: "string \<Rightarrow> worker_option" where
  "WithWorkerAuth token = (\<lambda>c. c\<lparr>wc_authToken := token\<rparr>)"

definition WithWorkerHTTPClient :: "http_client option \<Rightarrow> worker_option" where
  "WithWorkerHTTPClient client = (\<lambda>c. c\<lparr>wc_httpClient := client\<rparr>)"

definition default_worker_config :: worker_config where
  "default_worker_config = \<lparr>wc_queues = [''default''], wc_concurrency = 10,
     wc_gracePeriod = 25 * second, wc_heartbeatInterval = 5 * second, wc_labels = [],
     wc_pollInterval = 1 * second, wc_authToken = [], wc_httpClient = None\<rparr>"

definition resolveWorkerConfig :: "worker_option list \<Rightarrow> worker_config" where
  "resolveWorkerConfig opts = foldl (\<lambda>cfg opt. opt cfg) default_worker_config opts"

lemmas worker_options = WithQueues_def WithConcurrency_def WithGracePeriod_def
  WithHeartbeatInterval_def WithLabels_def WithPollInterval_def WithWorkerAuth_def
  WithWorkerHTTPClient_def

subsection \<open>The interface of a functional option\<close>

text \<open>
  An option for one field: applied with the value \<open>v\<close> it makes the field \<open>upd v\<close> of what it
  was, and leaves the rest of the configuration (\<open>rest\<close>) alone.
\<close>

locale config_field =
  fixes get :: "'c \<Rightarrow> 'f" and rest :: "'c \<Rightarrow> 'r" and opt :: "'v \<Rightarrow> 'c \<Rightarrow> 'c"
    and upd :: "'v \<Rightarrow> 'f \<Rightarrow> 'f"
  assumes get_opt: "get (opt v c) = upd v (get c)"
    and rest_opt: "rest (opt v c) = rest c"
begin

abbreviation apply_all :: "('c \<Rightarrow> 'c) list \<Rightarrow> 'c \<Rightarrow> 'c" where
  "apply_all os c \<equiv> foldl (\<lambda>c o'. o' c) c os"

text \<open>Options that do not touch the field can be skipped.\<close>

lemma get_skip:
  "\<forall>o' \<in> set os. \<forall>c. get (o' c) = get c \<Longrightarrow> get (apply_all os c) = get c"
  by (induction os arbitrary: c) simp_all

lemma get_option_at:
  assumes "\<forall>o' \<in> set ys. \<forall>c. get (o' c) = get c"
  shows "get (apply_all (xs @ opt v # ys) c) = upd v (get (apply_all xs c))"
  using get_skip [OF assms] by (simp add: get_opt)

lemma get_only:
  "get (apply_all (map opt vs) c) = foldl (\<lambda>f v. upd v f) (get c) vs"
  by (induction vs arbitrary: c) (simp_all add: get_opt)

lemma rest_only: "rest (apply_all (map opt vs) c) = rest c"
  by (induction vs arbitrary: c) (simp_all add: rest_opt)

end

text \<open>An option that overwrites its field: the last one wins.\<close>

locale setter_field = config_field get rest opt "\<lambda>v _. emb v"
  for get :: "'c \<Rightarrow> 'f" and rest :: "'c \<Rightarrow> 'r" and opt :: "'v \<Rightarrow> 'c \<Rightarrow> 'c" and emb :: "'v \<Rightarrow> 'f"
begin

lemma last_wins:
  assumes "\<forall>o' \<in> set ys. \<forall>c. get (o' c) = get c"
  shows "get (apply_all (xs @ opt v # ys) c) = emb v"
  using get_option_at [OF assms] by simp

end

subsection \<open>The options keep their promise\<close>

text \<open>Each option sets its own field and leaves the others: what stays is the configuration with that field blanked.\<close>

interpretation queue_opt: setter_field cfg_queue "\<lambda>c. c\<lparr>cfg_queue := []\<rparr>" "\<lambda>q. WithQueue q now" "\<lambda>q. q"
  for now by unfold_locales (simp_all add: enqueue_options)

interpretation priority_opt: setter_field cfg_priority "\<lambda>c. c\<lparr>cfg_priority := 0\<rparr>"
    "\<lambda>p. WithPriority p now" "\<lambda>p. p"
  for now by unfold_locales (simp_all add: enqueue_options)

interpretation timeout_opt: setter_field cfg_timeoutMS "\<lambda>c. c\<lparr>cfg_timeoutMS := 0\<rparr>"
    "\<lambda>d. WithTimeout d now" Milliseconds
  for now by unfold_locales (simp_all add: enqueue_options)

interpretation delay_opt: setter_field cfg_delayUntil "\<lambda>c. c\<lparr>cfg_delayUntil := None\<rparr>"
    "\<lambda>d. WithDelay d now" "\<lambda>d. Some (now + d)"
  for now by unfold_locales (simp_all add: enqueue_options)

interpretation scheduled_opt: setter_field cfg_delayUntil "\<lambda>c. c\<lparr>cfg_delayUntil := None\<rparr>"
    "\<lambda>t. WithScheduledAt t now" Some
  for now by unfold_locales (simp_all add: enqueue_options)

interpretation expires_opt: setter_field cfg_expiresAt "\<lambda>c. c\<lparr>cfg_expiresAt := None\<rparr>"
    "\<lambda>t. WithExpiresAt t now" Some
  for now by unfold_locales (simp_all add: enqueue_options)

interpretation retry_opt: setter_field cfg_retry "\<lambda>c. c\<lparr>cfg_retry := None\<rparr>" "\<lambda>p. WithRetry p now" Some
  for now by unfold_locales (simp_all add: enqueue_options)

interpretation unique_opt: setter_field cfg_unique "\<lambda>c. c\<lparr>cfg_unique := None\<rparr>"
    "\<lambda>p. WithUnique p now" Some
  for now by unfold_locales (simp_all add: enqueue_options)

interpretation visibility_opt: setter_field cfg_visibilityTimeout
    "\<lambda>c. c\<lparr>cfg_visibilityTimeout := 0\<rparr>" "\<lambda>d. WithVisibilityTimeout d now" Milliseconds
  for now by unfold_locales (simp_all add: enqueue_options)

interpretation tags_opt: config_field cfg_tags "\<lambda>c. c\<lparr>cfg_tags := []\<rparr>"
    "\<lambda>ts. WithTags ts now" "\<lambda>ts old. old @ ts"
  for now by unfold_locales (simp_all add: enqueue_options)

interpretation meta_opt: config_field cfg_meta "\<lambda>c. c\<lparr>cfg_meta := fmempty\<rparr>"
    "\<lambda>m. WithMeta m now" "\<lambda>m old. fmadd old m"
  for now by unfold_locales (simp_all add: enqueue_options)

interpretation concurrency_opt: setter_field wc_concurrency "\<lambda>c. c\<lparr>wc_concurrency := 0\<rparr>"
    WithConcurrency "\<lambda>n. n"
  by unfold_locales (simp_all add: worker_options)

interpretation retry_config_opt: setter_field cc_retryConfig "\<lambda>c. c\<lparr>cc_retryConfig := None\<rparr>"
    WithRetryConfig Some
  by unfold_locales (simp_all add: client_options)

lemma resolve_as_apply_all:
  "resolveEnqueueConfig now opts =
     foldl (\<lambda>c o'. o' c) default_enqueue_config (map (\<lambda>opt. opt now) opts)"
  unfolding resolveEnqueueConfig_def
  by (rule sym, induction opts rule: rev_induct) simp_all

text \<open>
  Options accumulate in order: the last \<open>WithQueue\<close> wins over whatever comes before it and
  whatever later option leaves the queue alone, \<open>WithTags\<close> concatenates, \<open>WithMeta\<close> merges with
  later values winning, and without options the queue is \<open>default\<close>.
\<close>

theorem enqueue_options_resolve:
  assumes "\<forall>opt \<in> set ys. \<forall>c. cfg_queue (opt now c) = cfg_queue c"
  shows "cfg_queue (resolveEnqueueConfig now (xs @ WithQueue q # ys)) = q
    \<and> cfg_queue (resolveEnqueueConfig now []) = ''default''
    \<and> cfg_tags (resolveEnqueueConfig now (map WithTags tss)) = concat tss
    \<and> cfg_meta (resolveEnqueueConfig now (map WithMeta ms)) = foldl fmadd fmempty ms"
proof -
  have "cfg_queue (resolveEnqueueConfig now (xs @ WithQueue q # ys)) = q"
    using queue_opt.last_wins [where ys = "map (\<lambda>opt. opt now) ys" and now = now] assms
    by (simp add: resolve_as_apply_all)
  moreover have "cfg_tags (resolveEnqueueConfig now (map WithTags tss)) = concat tss"
  proof -
    have "foldl (\<lambda>f v. f @ v) acc tss = acc @ concat tss" for acc :: "string list"
      by (induction tss arbitrary: acc) simp_all
    then show ?thesis
      using tags_opt.get_only [where vs = tss and now = now]
      by (simp add: resolve_as_apply_all comp_def default_enqueue_config_def)
  qed
  moreover have "cfg_meta (resolveEnqueueConfig now (map WithMeta ms)) = foldl fmadd fmempty ms"
    using meta_opt.get_only [where vs = ms and now = now]
    by (simp add: resolve_as_apply_all comp_def default_enqueue_config_def)
  ultimately show ?thesis
    by (simp add: resolveEnqueueConfig_def default_enqueue_config_def)
qed

theorem enqueue_options_resolve_witness:
  "cfg_queue (resolveEnqueueConfig 0
     ([WithQueue ''low'', WithTags [''a'']] @ WithQueue ''high'' # [WithPriority 3])) = ''high''"
  using enqueue_options_resolve [where ys = "[WithPriority 3]" and now = 0
      and xs = "[WithQueue ''low'', WithTags [''a'']]" and q = "''high''"]
  by (simp add: WithPriority_def)

end
