(* ===== verification/Transport.thy ===== *)
theory Transport
  imports Options
begin

unbundle bit_operations_syntax

text \<open>
  The HTTP transport (\<open>transport.go\<close>, \<open>rate_limiter.go\<close>): request construction, the retry
  loop with its backoff, decoding of results and of error responses, and request
  ids. What the program does to the outside is a trace of events (requests sent, pauses). The
  record \<open>env\<close> is the outside: the server, the context of the call, the clock, the random
  source, the lexer of JSON and float texts; each may depend on everything that happened
  before. A cancelled context means that a request is not sent. Logging is not modelled.
\<close>

subsection \<open>Requests, responses, the outside\<close>

record http_request =
  rq_method :: string
  rq_url :: string
  rq_headers :: "string gomap"
  rq_body :: "json option"

text \<open>A response; reading its body may fail. Header names are canonical.\<close>

record http_response =
  rs_status :: int
  rs_headers :: "string gomap"
  rs_body :: "go_error + string"

datatype event = EvReq http_request | EvSleep int

type_synonym trace = "event list"

record env =
  env_server :: "trace \<Rightarrow> http_request \<Rightarrow> go_error + http_response"
  env_ctx_err :: "trace \<Rightarrow> go_error option"
  env_sleep_err :: "trace \<Rightarrow> int \<Rightarrow> go_error option"
  env_rand :: "trace \<Rightarrow> rat"
  env_bytes :: "trace \<Rightarrow> 8 word list"
  env_now :: "trace \<Rightarrow> time"
  env_parse_json :: "string \<Rightarrow> json option"
  env_json_error :: "string \<Rightarrow> go_error"
  env_marshal_error :: go_error
  env_parse_float :: "string \<Rightarrow> f64 option"
  env_url_error :: "string \<Rightarrow> go_error option"
  env_times :: time_codec

fun requests :: "trace \<Rightarrow> http_request list" where
  "requests [] = []"
| "requests (EvReq r # t) = r # requests t"
| "requests (EvSleep d # t) = requests t"

lemma requests_append [simp]: "requests (s @ t) = requests s @ requests t"
  by (induction s rule: requests.induct) simp_all

text \<open>
  \<open>httpClient.Do\<close>: with a context that is done, nothing is sent. A request counts once: the
  redirects that \<open>net/http\<close> may follow inside one call are part of the server's answer.
\<close>

definition http_Do :: "env \<Rightarrow> http_request \<Rightarrow> trace \<Rightarrow> (go_error + http_response) \<times> trace" where
  "http_Do env req t = (case env_ctx_err env t of
     Some e \<Rightarrow> (Inl e, t)
   | None \<Rightarrow> (env_server env t req, t @ [EvReq req]))"

definition sleepWithContext :: "env \<Rightarrow> int \<Rightarrow> trace \<Rightarrow> go_error option \<times> trace" where
  "sleepWithContext env d t = (env_sleep_err env t d, t @ [EvSleep d])"

subsection \<open>Headers\<close>

text \<open>\<open>textproto.CanonicalMIMEHeaderKey\<close>: letters after the start and after a hyphen in upper case, the others in lower case; a key with other characters is kept.\<close>

definition to_upper :: "char \<Rightarrow> char" where
  "to_upper c = (let n = of_char c :: nat in if 97 \<le> n \<and> n \<le> 122 then char_of (n - 32) else c)"

definition to_lower :: "char \<Rightarrow> char" where
  "to_lower c = (let n = of_char c :: nat in if 65 \<le> n \<and> n \<le> 90 then char_of (n + 32) else c)"

definition is_token_char :: "char \<Rightarrow> bool" where
  "is_token_char c = (let n = of_char c :: nat in
     48 \<le> n \<and> n \<le> 57 \<or> 65 \<le> n \<and> n \<le> 90 \<or> 97 \<le> n \<and> n \<le> 122
     \<or> n \<in> {33, 35, 36, 37, 38, 39, 42, 43, 45, 46, 94, 95, 96, 124, 126})"

fun canonical_from :: "bool \<Rightarrow> string \<Rightarrow> string" where
  "canonical_from up [] = []"
| "canonical_from up (c # cs) =
     (if up then to_upper c else to_lower c) # canonical_from (c = CHR ''-'') cs"

definition canonical_key :: "string \<Rightarrow> string" where
  "canonical_key k = (if list_all is_token_char k then canonical_from True k else k)"

definition header_set :: "string \<Rightarrow> string \<Rightarrow> string gomap \<Rightarrow> string gomap" where
  "header_set k v h = gomap_put (canonical_key k) v h"

definition header_get :: "string gomap \<Rightarrow> string \<Rightarrow> string" where
  "header_get h k = (case map_of h (canonical_key k) of None \<Rightarrow> [] | Some v \<Rightarrow> v)"

subsection \<open>Retry configuration\<close>

definition DefaultRetryConfig :: retry_config where
  "DefaultRetryConfig = \<lparr>rc_MaxRetries = 3, rc_MinBackoff = 500 * millisecond,
     rc_MaxBackoff = 30 * second, rc_Enabled = True, rc_RetryServerErrors = True\<rparr>"

definition retryBackoff :: "retry_config \<Rightarrow> nat \<Rightarrow> int \<Rightarrow> rat \<Rightarrow> int" where
  "retryBackoff rc attempt retryAfter draw =
     (if 0 < retryAfter then
        (if rc_MaxBackoff rc < retryAfter then rc_MaxBackoff rc else retryAfter)
      else
        (let backoff0 = f64_mul (f64_of_int (rc_MinBackoff rc)) (f64_pow2 attempt);
             backoff = (if f64_less (f64_of_int (rc_MaxBackoff rc)) backoff0
                        then f64_of_int (rc_MaxBackoff rc) else backoff0);
             jitter = f64_add (Fin (1 / 2)) (f64_mul (Fin draw) (Fin (1 / 2)))
         in f64_to_int64 (f64_mul backoff jitter)))"

definition shouldRetry :: "retry_config \<Rightarrow> int \<Rightarrow> nat \<Rightarrow> bool" where
  "shouldRetry rc statusCode attempt =
     (if \<not> rc_Enabled rc \<or> rc_MaxRetries rc \<le> int attempt then False
      else if statusCode = 429 then True
      else if rc_RetryServerErrors rc \<and> statusCode \<in> {502, 503, 504} then True
      else False)"

subsection \<open>Response headers and error bodies\<close>

definition parseRetryAfter :: "env \<Rightarrow> string gomap \<Rightarrow> int" where
  "parseRetryAfter env header =
     (let raw = header_get header ''Retry-After'' in
      if raw = [] then 0
      else case env_parse_float env raw of
             None \<Rightarrow> 0
           | Some seconds \<Rightarrow> f64_to_int64 (f64_mul seconds (f64_of_int second)))"

text \<open>\<open>strconv.ParseInt(s, 10, 64)\<close>\<close>

definition is_digit :: "char \<Rightarrow> bool" where
  "is_digit c = (let n = of_char c :: nat in 48 \<le> n \<and> n \<le> 57)"

definition parse_int64 :: "string \<Rightarrow> int option" where
  "parse_int64 s =
     (let neg = (s \<noteq> [] \<and> hd s = CHR ''-'');
          ds = (if s \<noteq> [] \<and> (hd s = CHR ''-'' \<or> hd s = CHR ''+'') then tl s else s);
          v = (if neg then - int (read_nat ds) else int (read_nat ds))
      in if ds \<noteq> [] \<and> list_all is_digit ds \<and> in_int64 v then Some v else None)"

definition parseRateLimitHeaders :: "string gomap \<Rightarrow> int \<Rightarrow> rate_limit_info option" where
  "parseRateLimitHeaders header retryAfter =
     (let limitStr = header_get header ''X-RateLimit-Limit'';
          remainingStr = header_get header ''X-RateLimit-Remaining'';
          resetStr = header_get header ''X-RateLimit-Reset'';
          num = (\<lambda>s. case parse_int64 s of Some v \<Rightarrow> v | None \<Rightarrow> 0)
      in if limitStr = [] \<and> remainingStr = [] \<and> resetStr = [] \<and> retryAfter = 0 then None
         else Some \<lparr>rl_Limit = num limitStr, rl_Remaining = num remainingStr,
                    rl_Reset = num resetStr, rl_RetryAfter = retryAfter\<rparr>)"

definition dec_error_body :: "json \<Rightarrow> (string \<times> string \<times> bool \<times> anymap \<times> string) option" where
  "dec_error_body j =
     Option.bind (obj_members (Some j)) (\<lambda>m.
     Option.bind (obj_members (fmlookup m ''error'')) (\<lambda>e.
     Option.bind (dec_string (fmlookup e ''code'')) (\<lambda>code.
     Option.bind (dec_string (fmlookup e ''message'')) (\<lambda>msg.
     Option.bind (dec_bool (fmlookup e ''retryable'')) (\<lambda>retryable.
     Option.bind (dec_anymap (fmlookup e ''details'')) (\<lambda>details.
     Option.bind (dec_string (fmlookup e ''request_id'')) (\<lambda>rid.
     Some (code, msg, retryable, details, rid))))))))"

definition parseErrorResponse :: "env \<Rightarrow> string \<Rightarrow> int \<Rightarrow> string gomap \<Rightarrow> go_error" where
  "parseErrorResponse env body statusCode header =
     (case Option.bind (env_parse_json env body) dec_error_body of
        None \<Rightarrow> ApiError \<lparr>ae_Code = ''unknown'',
          ae_Message = ''HTTP '' @ show_int statusCode @ '': '' @ body, ae_Retryable = False,
          ae_Details = fmempty, ae_RequestID = [], ae_HTTPStatus = statusCode,
          ae_RetryAfter = 0, ae_RateLimit = None\<rparr>
      | Some (code, msg, retryable, details, rid) \<Rightarrow>
          (let retryAfter = parseRetryAfter env header;
               rateLimit = parseRateLimitHeaders header retryAfter
           in ApiError \<lparr>ae_Code = code, ae_Message = msg, ae_Retryable = retryable,
                ae_Details = details, ae_RequestID = rid, ae_HTTPStatus = statusCode,
                ae_RetryAfter = retryAfter, ae_RateLimit = rateLimit\<rparr>))"

subsection \<open>Request ids\<close>

definition hex_char :: "8 word \<Rightarrow> char" where
  "hex_char d = ''0123456789abcdef'' ! unat d"

definition hex_byte :: "8 word \<Rightarrow> string" where
  "hex_byte b = [hex_char (drop_bit 4 b), hex_char (b AND 0x0F)]"

definition hex_bytes :: "8 word list \<Rightarrow> string" where
  "hex_bytes bs = concat (map hex_byte bs)"

definition generateRequestID :: "8 word list \<Rightarrow> string" where
  "generateRequestID raw =
     (let b = raw[6 := (raw ! 6 AND 0x0F) OR 0x40];
          b = b[8 := (b ! 8 AND 0x3F) OR 0x80]
      in hex_bytes (take 4 b) @ ''-'' @ hex_bytes (take 2 (drop 4 b)) @ ''-''
           @ hex_bytes (take 2 (drop 6 b)) @ ''-'' @ hex_bytes (take 2 (drop 8 b)) @ ''-''
           @ hex_bytes (take 6 (drop 10 b)))"

subsection \<open>The transport\<close>

record transport =
  tr_baseURL :: string
  tr_httpClient :: http_client
  tr_authToken :: string
  tr_userAgent :: string
  tr_headers :: "string gomap"
  tr_retryConfig :: retry_config

definition ojsContentType :: string where "ojsContentType = ''application/openjobspec+json''"
definition ojsVersion :: string where "ojsVersion = ''1.0''"
definition sdkVersion :: string where "sdkVersion = ''0.2.0''"
definition defaultUserAgent :: string where "defaultUserAgent = ''ojs-go-sdk/'' @ sdkVersion"
definition basePath :: string where "basePath = ''/ojs/v1''"
definition maxResponseBodyLen :: nat where "maxResponseBodyLen = 10 * 2 ^ 20"
definition defaultHTTPTimeout :: int where "defaultHTTPTimeout = 30 * second"

definition newTransport :: "string \<Rightarrow> client_config \<Rightarrow> transport" where
  "newTransport baseURL cfg = \<lparr>
     tr_baseURL = trim_right (CHR ''/'') baseURL,
     tr_httpClient = (case cc_httpClient cfg of
        Some c \<Rightarrow> c
      | None \<Rightarrow> (if 0 < cc_httpTimeout cfg then SDKClient (cc_httpTimeout cfg)
                 else if cc_httpTimeout cfg = 0 \<and> cc_httpTimeoutSet cfg then SDKClient 0
                 else SharedDefaultClient)),
     tr_authToken = cc_authToken cfg,
     tr_userAgent = cc_userAgent cfg,
     tr_headers = cc_headers cfg,
     tr_retryConfig = (case cc_retryConfig cfg of None \<Rightarrow> DefaultRetryConfig | Some rc \<Rightarrow> rc)\<rparr>"

definition newWorkerTransport :: "string \<Rightarrow> worker_config \<Rightarrow> transport" where
  "newWorkerTransport baseURL cfg = \<lparr>
     tr_baseURL = trim_right (CHR ''/'') baseURL,
     tr_httpClient = (case wc_httpClient cfg of Some c \<Rightarrow> c | None \<Rightarrow> SDKClient defaultHTTPTimeout),
     tr_authToken = wc_authToken cfg,
     tr_userAgent = [],
     tr_headers = [],
     tr_retryConfig = DefaultRetryConfig\<rparr>"

definition request_headers :: "transport \<Rightarrow> bool \<Rightarrow> string \<Rightarrow> string gomap" where
  "request_headers tr has_body rid =
     (let h = (if has_body then header_set ''Content-Type'' ojsContentType [] else []);
          h = header_set ''Accept'' ojsContentType h;
          h = header_set ''OJS-Version'' ojsVersion h;
          h = header_set ''X-Request-ID'' rid h;
          ua = (if tr_userAgent tr = [] then defaultUserAgent else tr_userAgent tr);
          h = header_set ''User-Agent'' ua h;
          h = (if tr_authToken tr \<noteq> [] then header_set ''Authorization'' (''Bearer '' @ tr_authToken tr) h
               else h)
      in foldl (\<lambda>h (k, v). header_set k v h) h (tr_headers tr))"

text \<open>Where the result goes: nowhere, or through a decoder into a variable.\<close>

datatype 'a target = Discard 'a | Into 'a "json \<Rightarrow> 'a option"

text \<open>What \<open>do\<close> makes of the response that ends the loop.\<close>

definition finish_response ::
  "env \<Rightarrow> 'a target \<Rightarrow> int \<Rightarrow> string gomap \<Rightarrow> string \<Rightarrow> go_error + 'a" where
  "finish_response env result status headers body =
     (if 400 \<le> status then Inl (parseErrorResponse env body status headers)
      else case result of
        Discard z \<Rightarrow> Inr z
      | Into z dec \<Rightarrow>
          (if body = [] then Inr z
           else case Option.bind (env_parse_json env body) dec of
                  None \<Rightarrow> Inl (Wrapf ''ojs: unmarshal response: '' (env_json_error env body))
                | Some r \<Rightarrow> Inr r))"

text \<open>One iteration of the loop in \<open>do\<close>: it returns, or pauses and goes on to the next attempt.\<close>

datatype 'a iteration = Return "go_error + 'a" trace | Continue trace

definition do_attempt ::
  "env \<Rightarrow> transport \<Rightarrow> string \<Rightarrow> string \<Rightarrow> json option \<Rightarrow> 'a target \<Rightarrow> nat \<Rightarrow> trace \<Rightarrow> 'a iteration" where
  "do_attempt env tr method url body result attempt t =
     (case env_url_error env url of
        Some e \<Rightarrow> Return (Inl (Wrapf ''ojs: create request: '' e)) t
      | None \<Rightarrow>
     (let req = \<lparr>rq_method = method, rq_url = url,
                 rq_headers = request_headers tr (body \<noteq> None) (generateRequestID (env_bytes env t)),
                 rq_body = body\<rparr>;
          (r, t1) = http_Do env req t
      in case r of
        Inl e \<Rightarrow> Return (Inl (Wrapf ''ojs: request failed: '' e)) t1
      | Inr resp \<Rightarrow>
        (case rs_body resp of
           Inl e \<Rightarrow> Return (Inl (Wrapf ''ojs: read response: '' e)) t1
         | Inr full \<Rightarrow>
           (let respBody = take maxResponseBodyLen full in
            if maxResponseBodyLen \<le> length respBody then
              Return (Inl (PlainErr (''ojs: response body exceeds '' @ show_nat maxResponseBodyLen
                 @ '' bytes limit '' @ [CHR 0xE2, CHR 0x80, CHR 0x94] @ '' response truncated''))) t1
            else if shouldRetry (tr_retryConfig tr) (rs_status resp) attempt then
              (let backoff = retryBackoff (tr_retryConfig tr) attempt
                     (parseRetryAfter env (rs_headers resp)) (env_rand env t1);
                   (e, t2) = sleepWithContext env backoff t1
               in case e of Some e \<Rightarrow> Return (Inl e) t2 | None \<Rightarrow> Continue t2)
            else Return (finish_response env result (rs_status resp) (rs_headers resp) respBody) t1))))"

lemma do_attempt_Continue:
  assumes "do_attempt env tr m u b res a t = Continue t2"
  shows "rc_Enabled (tr_retryConfig tr)" "int a < rc_MaxRetries (tr_retryConfig tr)"
    "\<exists>q d. t2 = t @ [EvReq q, EvSleep d] \<and> rq_method q = m \<and> rq_url q = u \<and> rq_body q = b"
  using assms
  by (auto simp: do_attempt_def http_Do_def sleepWithContext_def shouldRetry_def Let_def
      split: option.splits sum.splits if_splits)

function do_loop ::
  "env \<Rightarrow> transport \<Rightarrow> string \<Rightarrow> string \<Rightarrow> json option \<Rightarrow> 'a target \<Rightarrow> nat \<Rightarrow> trace
     \<Rightarrow> (go_error + 'a) \<times> trace" where
  "do_loop env tr method url body result attempt t =
     (case do_attempt env tr method url body result attempt t of
        Return r t1 \<Rightarrow> (r, t1)
      | Continue t2 \<Rightarrow> do_loop env tr method url body result (attempt + 1) t2)"
  by pat_completeness auto
termination
  by (relation "measure (\<lambda>(env, tr, _, _, _, _, attempt, _).
        nat (rc_MaxRetries (tr_retryConfig tr)) - attempt)")
    (auto dest!: do_attempt_Continue(2))

declare do_loop.simps [simp del]

text \<open>
  \<open>do\<close>: a body that cannot be marshalled (\<open>Some None\<close>) is refused before anything is sent.
\<close>

definition transport_do ::
  "env \<Rightarrow> transport \<Rightarrow> string \<Rightarrow> string \<Rightarrow> json option option \<Rightarrow> 'a target \<Rightarrow> trace
     \<Rightarrow> (go_error + 'a) \<times> trace" where
  "transport_do env tr method path body result t =
     (case body of
        Some None \<Rightarrow> (Inl (Wrapf ''ojs: marshal request: '' (env_marshal_error env)), t)
      | Some (Some j) \<Rightarrow> do_loop env tr method (tr_baseURL tr @ path) (Some j) result 0 t
      | None \<Rightarrow> do_loop env tr method (tr_baseURL tr @ path) None result 0 t)"

definition transport_get :: "env \<Rightarrow> transport \<Rightarrow> string \<Rightarrow> 'a target \<Rightarrow> trace \<Rightarrow> (go_error + 'a) \<times> trace" where
  "transport_get env tr path result t = transport_do env tr ''GET'' path None result t"

definition transport_post ::
  "env \<Rightarrow> transport \<Rightarrow> string \<Rightarrow> json option option \<Rightarrow> 'a target \<Rightarrow> trace \<Rightarrow> (go_error + 'a) \<times> trace" where
  "transport_post env tr path body result t = transport_do env tr ''POST'' path body result t"

definition transport_delete :: "env \<Rightarrow> transport \<Rightarrow> string \<Rightarrow> 'a target \<Rightarrow> trace \<Rightarrow> (go_error + 'a) \<times> trace" where
  "transport_delete env tr path result t = transport_do env tr ''DELETE'' path None result t"

subsection \<open>The backoff stays within its bounds\<close>

lemma f64_mul_pow2:
  assumes "0 < m" "m \<le> 2 ^ 53"
  shows "f64_mul (Fin (of_int m)) (f64_pow2 n) =
    (if f64_limit \<le> of_int m * 2 ^ n then PInf else Fin (of_int m * 2 ^ n))"
proof (cases "n < 1024")
  case True
  have rep: "f64_rep (of_int m * 2 ^ n)"
    using assms by (intro f64_rep_scale f64_rep_int) simp
  have "(0 :: rat) \<le> of_int m * 2 ^ n" using assms(1) by simp
  from f64_of_rat_nonneg [OF this] rep True show ?thesis
    by (simp add: f64_pow2_def)
next
  case False
  then have "f64_limit \<le> 2 ^ n" unfolding f64_limit_def by (intro power_increasing) simp_all
  moreover have "(1 :: rat) \<le> of_int m" using assms(1) by simp
  ultimately have "1 * f64_limit \<le> of_int m * 2 ^ n"
    using f64_limit_pos by (intro mult_mono) simp_all
  with False assms(1) show ?thesis by (simp add: f64_pow2_def inf_times_def)
qed

text \<open>The jitter factor lies in [1/2, 1].\<close>

lemma jitter_range:
  assumes "0 \<le> d" "d \<le> 1"
  obtains j where "f64_add (Fin (1 / 2)) (f64_mul (Fin d) (Fin (1 / 2))) = Fin j" "1 / 2 \<le> j" "j \<le> 1"
proof -
  have half: "f64_rep (1 / 2)" and one: "f64_rep 1"
    using f64_rep_half_int [of 1] f64_rep_int [of 1] by simp_all
  have lim: "1 < f64_limit"
    unfolding f64_limit_def by (rule one_less_power) simp_all
  let ?h = "f64_round (d * (1 / 2))"
  have h: "0 \<le> ?h" "?h \<le> 1 / 2"
    using assms f64_round_mono [of "d * (1 / 2)" "1 / 2"] half by simp_all
  have j: "1 / 2 \<le> f64_round (1 / 2 + ?h)" "f64_round (1 / 2 + ?h) \<le> 1"
    using h f64_round_mono [of "1 / 2" "1 / 2 + ?h"] f64_round_mono [of "1 / 2 + ?h" 1] half one
    by simp_all
  have "f64_mul (Fin d) (Fin (1 / 2)) = Fin ?h"
    using f64_of_rat_nonneg [of "d * (1 / 2)"] assms h lim by simp
  moreover have "f64_of_rat (1 / 2 + ?h) = Fin (f64_round (1 / 2 + ?h))"
    using f64_of_rat_nonneg [of "1 / 2 + ?h"] h j lim by simp
  ultimately show ?thesis using j by (intro that) simp_all
qed

text \<open>Scaling a whole number of nanoseconds by such a factor.\<close>

lemma jittered_bounds:
  assumes "0 \<le> b" "b \<le> 2 ^ 53" "1 / 2 \<le> j" "j \<le> 1"
  shows "b div 2 \<le> f64_to_int64 (f64_mul (Fin (of_int b)) (Fin j))"
    and "f64_to_int64 (f64_mul (Fin (of_int b)) (Fin j)) \<le> b"
proof -
  let ?x = "of_int b * j" and ?r = "f64_round (of_int b * j)"
  have b: "(0 :: rat) \<le> of_int b" using assms(1) by simp
  have x: "of_int b / 2 \<le> ?x" "?x \<le> of_int b"
    using mult_left_mono [OF assms(3) b] mult_left_mono [OF assms(4) b] by simp_all
  have rep: "f64_rep (of_int b)" "f64_rep (of_int b / 2)"
    using assms by (simp_all add: f64_rep_int f64_rep_half_int)
  have r: "of_int b / 2 \<le> ?r" "?r \<le> of_int b"
    using f64_round_mono [of "of_int b / 2" ?x] f64_round_mono [of ?x "of_int b"] x b rep by simp_all
  have "(of_int b :: rat) \<le> of_int (2 ^ 53)" using assms(2) by (simp only: of_int_le_iff)
  also have "\<dots> < f64_limit"
    unfolding f64_limit_def of_int_power of_int_numeral by (rule power_strict_increasing) simp_all
  finally have "?r < f64_limit" using r by simp
  then have mul: "f64_mul (Fin (of_int b)) (Fin j) = Fin ?r"
    using f64_of_rat_nonneg [of ?x] x b by simp
  have fl: "b div 2 \<le> \<lfloor>?r\<rfloor>" "\<lfloor>?r\<rfloor> \<le> b"
    using r floor_mono [OF r(1)] floor_mono [OF r(2)] floor_divide_of_int_eq [of b 2, where ?'a = rat]
    by simp_all
  have "0 \<le> b div 2" using assms(1) by simp
  moreover have small: "in_int64 y" if "0 \<le> y" "y \<le> 2 ^ 53" for y
    using that by (simp add: in_int64_def)
  ultimately have "in_int64 \<lfloor>?r\<rfloor>"
    using fl assms(2) by (intro small) linarith+
  moreover have "0 \<le> ?r" using r b by linarith
  ultimately have "f64_to_int64 (f64_mul (Fin (of_int b)) (Fin j)) = \<lfloor>?r\<rfloor>"
    unfolding mul by (simp add: rat_trunc_def)
  with fl show "b div 2 \<le> f64_to_int64 (f64_mul (Fin (of_int b)) (Fin j))"
    "f64_to_int64 (f64_mul (Fin (of_int b)) (Fin j)) \<le> b" by simp_all
qed

text \<open>
  C37: without a \<open>Retry-After\<close> the pause before the retry after attempt \<open>n\<close> is between half of
  \<open>min (MinBackoff * 2 ^ n) MaxBackoff\<close> and all of it; with one it is the server's value, at most
  \<open>MaxBackoff\<close>. The bounds on the configuration (2 ^ 53 nanoseconds, 104 days) are where the
  conversion to \<open>float64\<close> is exact.
\<close>

theorem retry_backoff_bounds:
  assumes "0 < rc_MinBackoff rc" "rc_MinBackoff rc \<le> 2 ^ 53"
    and "0 \<le> rc_MaxBackoff rc" "rc_MaxBackoff rc \<le> 2 ^ 53"
    and "0 \<le> draw" "draw < 1"
  shows "(0 < ra \<longrightarrow> retryBackoff rc n ra draw = min ra (rc_MaxBackoff rc))
    \<and> (ra \<le> 0 \<longrightarrow>
        min (rc_MinBackoff rc * 2 ^ n) (rc_MaxBackoff rc) div 2 \<le> retryBackoff rc n ra draw
        \<and> retryBackoff rc n ra draw \<le> min (rc_MinBackoff rc * 2 ^ n) (rc_MaxBackoff rc))"
proof -
  let ?m = "rc_MinBackoff rc" and ?M = "rc_MaxBackoff rc"
  define b where "b = min (?m * 2 ^ n) ?M"
  have fl: "f64_of_int ?m = Fin (of_int ?m)" "f64_of_int ?M = Fin (of_int ?M)"
    using assms by (simp_all add: f64_of_int_small)
  have capped: "(if f64_less (f64_of_int ?M) x then f64_of_int ?M else x) = Fin (of_int b)"
    if x: "x = f64_mul (f64_of_int ?m) (f64_pow2 n)" for x
  proof -
    have M: "of_int ?M < f64_limit"
    proof -
      have "(of_int ?M :: rat) \<le> of_int (2 ^ 53)" using assms(4) by (simp only: of_int_le_iff)
      also have "\<dots> < f64_limit"
        unfolding f64_limit_def of_int_power of_int_numeral by (rule power_strict_increasing) simp_all
      finally show ?thesis .
    qed
    have p: "(of_int ?m :: rat) * 2 ^ n = of_int (?m * 2 ^ n)" by simp
    have x: "x = (if f64_limit \<le> of_int (?m * 2 ^ n) then PInf else Fin (of_int (?m * 2 ^ n)))"
      unfolding x fl f64_mul_pow2 [OF assms(1,2)] p ..
    show ?thesis
    proof (cases "f64_limit \<le> of_int (?m * 2 ^ n)")
      case True
      with M have "(of_int ?M :: rat) < of_int (?m * 2 ^ n)" by linarith
      then have "?M < ?m * 2 ^ n" by (simp only: of_int_less_iff)
      with x True show ?thesis unfolding fl b_def by simp
    next
      case False
      then have x: "x = Fin (of_int (?m * 2 ^ n))" using x by simp
      show ?thesis unfolding fl x f64_less.simps of_int_less_iff b_def by simp
    qed
  qed
  obtain j where j: "f64_add (Fin (1 / 2)) (f64_mul (Fin draw) (Fin (1 / 2))) = Fin j"
    "1 / 2 \<le> j" "j \<le> 1"
    using jitter_range [of draw] assms(5,6) by (metis less_imp_le)
  have b: "0 \<le> b" "b \<le> 2 ^ 53" using assms(1,3,4) by (simp_all add: b_def)
  have "retryBackoff rc n ra draw = f64_to_int64 (f64_mul (Fin (of_int b)) (Fin j))" if "ra \<le> 0"
    using that unfolding retryBackoff_def Let_def capped [OF refl] j(1) by simp
  with jittered_bounds [OF b j(2,3)] show ?thesis
    unfolding b_def [symmetric] by (auto simp: retryBackoff_def)
qed

theorem retry_backoff_bounds_witness:
  "retryBackoff DefaultRetryConfig 3 0 (3 / 4) \<in> {2000000000..4000000000}
   \<and> retryBackoff DefaultRetryConfig 3 (60 * second) 0 = 30 * second"
  using retry_backoff_bounds [of DefaultRetryConfig "3 / 4" 0 3]
    retry_backoff_bounds [of DefaultRetryConfig 0 "60 * second" 3]
  by (simp add: DefaultRetryConfig_def durations)

subsection \<open>Request ids are version 4 UUIDs\<close>

lemma version_nibble: "drop_bit 4 ((b AND 0x0F) OR 0x40) = (4 :: 8 word)"
proof (rule bit_word_eqI)
  fix n assume "n < LENGTH(8)"
  then have "n = 0 \<or> n = 1 \<or> n = 2 \<or> n = 3 \<or> n = 4 \<or> n = 5 \<or> n = 6 \<or> n = 7" by auto
  then show "bit (drop_bit 4 ((b AND 0x0F) OR 0x40)) n \<longleftrightarrow> bit (4 :: 8 word) n"
    by (elim disjE) (simp_all add: bit_simps bit_numeral_rec)
qed
lemma variant_nibble: "drop_bit 4 ((b AND 0x3F) OR 0x80) \<in> {8, 9, 10, 11 :: 8 word}"
proof -
  have "drop_bit 4 ((b AND 0x3F) OR 0x80) = (if bit b 4 then if bit b 5 then 11 else 9 else if bit b 5 then 10 else (8 :: 8 word))"
  proof (rule bit_word_eqI)
    fix n assume "n < LENGTH(8)"
    then have "n = 0 \<or> n = 1 \<or> n = 2 \<or> n = 3 \<or> n = 4 \<or> n = 5 \<or> n = 6 \<or> n = 7" by auto
    then show "bit (drop_bit 4 ((b AND 0x3F) OR 0x80)) n \<longleftrightarrow> bit (if bit b 4 then if bit b 5 then 11 else 9 else if bit b 5 then 10 else (8 :: 8 word)) n"
      by (elim disjE) (simp_all add: bit_simps bit_numeral_rec)
  qed
  then show ?thesis by simp
qed
lemma nibble_bound: "unat (drop_bit 4 (b :: 8 word)) < 16" "unat (b AND 0x0F :: 8 word) < 16"
proof -
  have "unat b < 256" using unsigned_less [of b] by simp
  then show "unat (drop_bit 4 b) < 16" by (simp only: unat_drop_bit_eq) (simp add: drop_bit_eq_div)
  have "b AND 0x0F = take_bit 4 b" by (simp add: take_bit_eq_mask mask_eq_exp_minus_1)
  then have "unat (b AND 0x0F) = take_bit 4 (unat b)" by (simp only: unsigned_take_bit_eq)
  then show "unat (b AND 0x0F) < 16" by (simp add: take_bit_eq_mod)
qed

definition hex_digits :: "char set" where
  "hex_digits = set ''0123456789abcdef''"

lemma hex_char_digit: "unat d < 16 \<Longrightarrow> hex_char d \<in> hex_digits"
  unfolding hex_char_def hex_digits_def by (rule nth_mem) simp

lemma hex_char_nibbles [simp]:
  "hex_char (drop_bit 4 b) \<in> hex_digits" "hex_char (b AND 0x0F) \<in> hex_digits"
  using hex_char_digit nibble_bound by blast+

definition uuid_v4 :: "string \<Rightarrow> bool" where
  "uuid_v4 s \<longleftrightarrow> length s = 36
     \<and> list_all (\<lambda>i. s ! i = CHR ''-'') [8, 13, 18, 23]
     \<and> list_all (\<lambda>i. s ! i \<in> hex_digits) (filter (\<lambda>i. i \<notin> {8, 13, 18, 23}) [0..<36])
     \<and> s ! 14 = CHR ''4'' \<and> s ! 19 \<in> set ''89ab''"

text \<open>
  A request id is a version 4 UUID whatever 16 bytes the random source gives: 36
  characters, hyphens in the four places, hexadecimal digits elsewhere, the version
  digit 4 and a variant digit of 8, 9, a or b.
\<close>

theorem request_id_is_uuid_v4:
  assumes "length raw = 16"
  shows "uuid_v4 (generateRequestID raw)"
proof -
  from assms obtain b0 b1 b2 b3 b4 b5 b6 b7 b8 b9 b10 b11 b12 b13 b14 b15
    where raw: "raw = [b0, b1, b2, b3, b4, b5, b6, b7, b8, b9, b10, b11, b12, b13, b14, b15]"
    by (auto simp: numeral_eq_Suc length_Suc_conv)
  have v: "hex_char (drop_bit 4 ((b8 AND 0x3F) OR 0x80)) \<in> set ''89ab''"
    using variant_nibble [of b8] by (auto simp: hex_char_def)
  have "hex_char (4 :: 8 word) = CHR ''4''" "CHR ''4'' \<in> hex_digits"
    by (simp_all add: hex_char_def hex_digits_def)
  with v show ?thesis
    by (simp add: uuid_v4_def raw generateRequestID_def hex_bytes_def hex_byte_def Let_def
        version_nibble upt_rec nth_append del: drop_bit_or drop_bit_and)
qed

theorem request_id_is_uuid_v4_witness:
  "uuid_v4 (generateRequestID (replicate 16 0xFF))"
  by (rule request_id_is_uuid_v4) simp

subsection \<open>The retry loop\<close>

definition retry_budget :: "retry_config \<Rightarrow> nat" where
  "retry_budget rc = (if rc_Enabled rc then nat (rc_MaxRetries rc) else 0)"

definition same_request :: "string \<Rightarrow> string \<Rightarrow> json option \<Rightarrow> http_request \<Rightarrow> bool" where
  "same_request m u b r \<longleftrightarrow> rq_method r = m \<and> rq_url r = u \<and> rq_body r = b"

lemma do_attempt_Return:
  assumes "do_attempt env tr m u b res a t = Return r t1"
  shows "\<exists>ext. t1 = t @ ext \<and> length (requests ext) \<le> 1 \<and> list_all (same_request m u b) (requests ext)"
  using assms
  by (auto simp: do_attempt_def http_Do_def sleepWithContext_def same_request_def Let_def
      split: option.splits sum.splits if_splits)

lemma do_loop_requests:
  "\<exists>ext. snd (do_loop env tr m u b res a t) = t @ ext
     \<and> length (requests ext) \<le> Suc (retry_budget (tr_retryConfig tr) - a)
     \<and> list_all (same_request m u b) (requests ext)"
proof (induction env tr m u b res a t rule: do_loop.induct)
  case (1 env tr m u b res a t)
  show ?case
  proof (cases "do_attempt env tr m u b res a t")
    case (Return r t1)
    from do_attempt_Return [OF this] Return show ?thesis
      by (fastforce simp: do_loop.simps [of _ _ _ _ _ _ a])
  next
    case (Continue t2)
    from do_attempt_Continue [OF this] obtain q d where
      t2: "t2 = t @ [EvReq q, EvSleep d]" "same_request m u b q"
      and a: "rc_Enabled (tr_retryConfig tr)" "int a < rc_MaxRetries (tr_retryConfig tr)"
      by (auto simp: same_request_def)
    from 1 [OF Continue] obtain ext where ext:
      "snd (do_loop env tr m u b res (a + 1) t2) = t2 @ ext"
      "length (requests ext) \<le> Suc (retry_budget (tr_retryConfig tr) - (a + 1))"
      "list_all (same_request m u b) (requests ext)" by blast
    have "snd (do_loop env tr m u b res a t) = t @ ([EvReq q, EvSleep d] @ ext)"
      using ext(1) Continue t2(1) by (simp add: do_loop.simps [of _ _ _ _ _ _ a])
    moreover have "a < retry_budget (tr_retryConfig tr)"
      using a by (simp add: retry_budget_def zless_nat_conj)
    ultimately show ?thesis
      using ext(2,3) t2(2) by (intro exI [of _ "[EvReq q, EvSleep d] @ ext"]) auto
  qed
qed

text \<open>
  C4: a call of the transport sends at most \<open>MaxRetries + 1\<close> requests (one when retries are off),
  whatever the server, the clock and the context do, and each of them has the method, the URL and
  exactly the body of the call: none for a call without a body, the marshalled value otherwise. A
  body that cannot be marshalled sends nothing.
\<close>

theorem transport_request_bound:
  "\<exists>ext. snd (transport_do env tr m path body res t) = t @ ext
     \<and> length (requests ext) \<le> (if body = Some None then 0 else Suc (retry_budget (tr_retryConfig tr)))
     \<and> list_all (same_request m (tr_baseURL tr @ path)
         (case body of None \<Rightarrow> None | Some b \<Rightarrow> b)) (requests ext)
     \<and> snd (transport_do env tr m path (Some None) res t) = t"
proof (cases body)
  case None
  then show ?thesis
    using do_loop_requests [of env tr m "tr_baseURL tr @ path" None res 0 t] by (simp add: transport_do_def)
next
  case (Some b)
  then show ?thesis
    using do_loop_requests [of env tr m "tr_baseURL tr @ path" b res 0 t]
    by (cases b) (simp_all add: transport_do_def)
qed

text \<open>A server that answers the n-th request with \<open>resps n\<close>, and a context that is never done.\<close>

definition calm :: "env \<Rightarrow> bool" where
  "calm env \<longleftrightarrow> (\<forall>t d u. env_ctx_err env t = None \<and> env_sleep_err env t d = None
     \<and> env_url_error env u = None)"

definition answers :: "env \<Rightarrow> (nat \<Rightarrow> int) \<Rightarrow> (nat \<Rightarrow> string) \<Rightarrow> (nat \<Rightarrow> string gomap) \<Rightarrow> bool" where
  "answers env status body headers \<longleftrightarrow>
     (\<forall>t req. env_server env t req = Inr \<lparr>rs_status = status (length (requests t)),
        rs_headers = headers (length (requests t)), rs_body = Inr (body (length (requests t)))\<rparr>)
     \<and> (\<forall>n. length (body n) < maxResponseBodyLen)"

lemma do_attempt_answers:
  assumes "calm env" "answers env status body headers" "length (requests t) = n"
  shows "\<exists>t1. length (requests t1) = Suc n \<and> do_attempt env tr m u b res a t =
    (if shouldRetry (tr_retryConfig tr) (status n) a then Continue t1
     else Return (finish_response env res (status n) (headers n) (body n)) t1)"
proof -
  have short: "\<not> maxResponseBodyLen \<le> length (body i)" "take maxResponseBodyLen (body i) = body i" for i
    using assms(2) by (simp_all add: answers_def not_le less_imp_le)
  from assms show ?thesis
    by (auto simp: do_attempt_def calm_def answers_def http_Do_def sleepWithContext_def Let_def short)
qed

lemma do_loop_answers:
  assumes "calm env" "answers env status body headers"
    and "\<forall>i < k. shouldRetry (tr_retryConfig tr) (status (n + i)) (a + i)"
    and "\<not> shouldRetry (tr_retryConfig tr) (status (n + k)) (a + k)"
    and "length (requests t) = n"
  shows "fst (do_loop env tr m u b res a t) =
      finish_response env res (status (n + k)) (headers (n + k)) (body (n + k))
    \<and> length (requests (snd (do_loop env tr m u b res a t))) = Suc (n + k)"
  using assms(3-5)
proof (induction k arbitrary: a n t)
  case 0
  then show ?case
    using do_attempt_answers [OF assms(1,2) 0(3), of tr m u b res a]
    by (auto simp: do_loop.simps [of _ _ _ _ _ _ a])
next
  case (Suc k)
  from do_attempt_answers [OF assms(1,2) Suc.prems(3), of tr m u b res a] Suc.prems(1)
  obtain t1 where t1: "length (requests t1) = Suc n"
    "do_attempt env tr m u b res a t = Continue t1" by fastforce
  have "\<forall>i < k. shouldRetry (tr_retryConfig tr) (status (Suc n + i)) (Suc a + i)"
    using Suc.prems(1) by (metis Suc_less_eq add_Suc add_Suc_right)
  with Suc.IH [of "Suc n" "Suc a" t1] t1 Suc.prems(2) show ?case
    by (simp add: do_loop.simps [of _ _ _ _ _ _ a])
qed

lemma transport_do_answers:
  assumes "calm env" "answers env status body headers" "length (requests t) = n" "b \<noteq> Some None"
    and "\<forall>i < k. shouldRetry (tr_retryConfig tr) (status (n + i)) i"
    and "\<not> shouldRetry (tr_retryConfig tr) (status (n + k)) k"
  shows "fst (transport_do env tr m path b res t) =
      finish_response env res (status (n + k)) (headers (n + k)) (body (n + k))
    \<and> length (requests (snd (transport_do env tr m path b res t))) = Suc (n + k)"
proof -
  have "fst (do_loop env tr m u c res 0 t) = finish_response env res (status (n + k)) (headers (n + k)) (body (n + k))
    \<and> length (requests (snd (do_loop env tr m u c res 0 t))) = Suc (n + k)" for u c
    by (rule do_loop_answers [OF assms(1,2)]) (use assms(3,5,6) in simp_all)
  with assms(4) show ?thesis by (simp add: transport_do_def split: option.split)
qed

lemma transport_get_answers:
  assumes "calm env" "answers env status body headers" "\<not> shouldRetry (tr_retryConfig tr) (status 0) 0"
  shows "fst (transport_get env tr path res []) = finish_response env res (status 0) (headers 0) (body 0)"
  using transport_do_answers [OF assms(1,2), where n = 0 and k = 0 and t = "[]" and b = None
      and m = "''GET''" and path = path and res = res and tr = tr, THEN conjunct1] assms(3)
  by (simp add: transport_get_def)

text \<open>Within the budget there is a first answer that is not retried.\<close>

lemma first_final_answer:
  "\<exists>k \<le> retry_budget rc. (\<forall>i < k. shouldRetry rc (status i) i) \<and> \<not> shouldRetry rc (status k) k"
proof -
  let ?final = "\<lambda>k. \<not> shouldRetry rc (status k) k"
  have final: "?final (retry_budget rc)" by (auto simp: shouldRetry_def retry_budget_def)
  show ?thesis
    using LeastI [of ?final, OF final] Least_le [of ?final, OF final] not_less_Least [of _ ?final]
    by blast
qed

text \<open>
  C5: transient failures are invisible to the caller. Let the server answer the n-th request with a
  status, headers and a body below 10 MB, the URL be well-formed and the context never be done. A
  call without a body, or with one that can be marshalled, then sends \<open>k + 1\<close> requests for some \<open>k\<close> within the retry budget: its
  first \<open>k\<close> answers are the ones to be retried, the next one is not, and the result is what that
  last answer alone decides. When the last answer is a 429, or a 502, 503 or 504 with
  \<open>RetryServerErrors\<close>, the retries are used up.
\<close>

theorem transport_retries_until_decided:
  assumes "calm env" "answers env status body headers" "b \<noteq> Some None"
  shows "\<exists>k \<le> retry_budget (tr_retryConfig tr). let n = length (requests t);
      (r, t') = transport_do env tr m path b res t in
    r = finish_response env res (status (n + k)) (headers (n + k)) (body (n + k))
    \<and> length (requests t') = n + k + 1
    \<and> (\<forall>i < k. shouldRetry (tr_retryConfig tr) (status (n + i)) i)
    \<and> (k = retry_budget (tr_retryConfig tr)
       \<or> status (n + k) \<noteq> 429
         \<and> \<not> (rc_RetryServerErrors (tr_retryConfig tr) \<and> status (n + k) \<in> {502, 503, 504}))"
proof -
  obtain k where k: "k \<le> retry_budget (tr_retryConfig tr)"
    "\<forall>i < k. shouldRetry (tr_retryConfig tr) (status (length (requests t) + i)) i"
    "\<not> shouldRetry (tr_retryConfig tr) (status (length (requests t) + k)) k"
    using first_final_answer [of "tr_retryConfig tr" "\<lambda>i. status (length (requests t) + i)"] by blast
  note result = transport_do_answers [OF assms(1,2) refl assms(3) k(2,3), where m = m and path = path and res = res]
  have "k = retry_budget (tr_retryConfig tr)
    \<or> status (length (requests t) + k) \<noteq> 429
      \<and> \<not> (rc_RetryServerErrors (tr_retryConfig tr) \<and> status (length (requests t) + k) \<in> {502, 503, 504})"
    using k(1,3) by (auto simp: shouldRetry_def retry_budget_def split: if_splits)
  with k(1,2) result show ?thesis
    by (intro exI [of _ k]) (simp add: Let_def split_beta)
qed

text \<open>An outside in which nothing fails on its own, for concrete runs.\<close>

definition plain_env ::
  "(trace \<Rightarrow> http_request \<Rightarrow> go_error + http_response) \<Rightarrow> (string \<Rightarrow> json option) \<Rightarrow> env" where
  "plain_env srv pj = \<lparr>env_server = srv, env_ctx_err = (\<lambda>_. None), env_sleep_err = (\<lambda>_ _. None),
     env_rand = (\<lambda>_. 0), env_bytes = (\<lambda>_. replicate 16 0), env_now = (\<lambda>_. 0), env_parse_json = pj,
     env_json_error = (\<lambda>_. PlainErr ''invalid''), env_marshal_error = PlainErr ''unsupported'',
     env_parse_float = (\<lambda>_. None), env_url_error = (\<lambda>_. None),
     env_times = \<lparr>format_time = (\<lambda>_. None), parse_time = (\<lambda>_. None)\<rparr>\<rparr>"

definition status_server :: "(nat \<Rightarrow> int) \<Rightarrow> trace \<Rightarrow> http_request \<Rightarrow> go_error + http_response" where
  "status_server status t req = Inr \<lparr>rs_status = status (length (requests t)), rs_headers = [],
     rs_body = Inr []\<rparr>"

lemma calm_plain_env [simp]: "calm (plain_env srv pj)"
  by (simp add: calm_def plain_env_def)

lemma answers_status_server [simp]:
  "answers (plain_env (status_server status) pj) status (\<lambda>_. []) (\<lambda>_. [])"
  by (simp add: answers_def plain_env_def status_server_def maxResponseBodyLen_def)

theorem transport_retries_until_decided_witness:
  "let (r, t') = transport_do (plain_env (status_server (\<lambda>n. if n < 2 then 503 else 200)) (\<lambda>_. None))
      (newTransport ''http://localhost'' zero_client_config) ''GET'' ''/x'' None (Discard ()) []
   in r = Inr () \<and> length (requests t') = 3"
proof -
  define status where "status = (\<lambda>n :: nat. if n < 2 then 503 else 200 :: int)"
  let ?env = "plain_env (status_server status) (\<lambda>_. None)"
  let ?tr = "newTransport ''http://localhost'' zero_client_config"
  have rc: "tr_retryConfig ?tr = DefaultRetryConfig"
    by (simp add: newTransport_def zero_client_config_def)
  have "retry_budget DefaultRetryConfig = 3" "rc_RetryServerErrors DefaultRetryConfig"
    by (simp_all add: retry_budget_def DefaultRetryConfig_def)
  then obtain k where k: "k \<le> 3" "\<forall>i < k. shouldRetry DefaultRetryConfig (status i) i" "k = 3 \<or> status k \<noteq> 503"
    and r: "fst (transport_do ?env ?tr ''GET'' ''/x'' None (Discard ()) []) = finish_response ?env (Discard ()) (status k) [] []"
      "length (requests (snd (transport_do ?env ?tr ''GET'' ''/x'' None (Discard ()) []))) = k + 1"
    using transport_retries_until_decided [OF calm_plain_env answers_status_server [of status "\<lambda>_. None"], where tr = ?tr
        and b = None and m = "''GET''" and path = "''/x''" and res = "Discard ()" and t = "[]"]
    by (auto simp: rc Let_def split_beta)
  have "k = 2"
    using k spec [OF k(2), of 2] by (auto simp: shouldRetry_def status_def split: if_splits)
  with r show ?thesis
    by (simp add: Let_def split_beta finish_response_def status_def)
qed

end
