(* ===== verification/Regexp.thy ===== *)
theory Regexp
  imports Go_Prelude
begin

text \<open>
  The part of \<open>regexp\<close> that the SDK's two anchored patterns use: character classes,
  concatenation, \<open>*\<close>, \<open>+\<close> and \<open>?\<close>. \<open>MatchString\<close> of an anchored pattern is membership of
  the whole string in its language; \<open>re_match\<close> decides it by derivatives, and \<open>re_match_iff\<close>
  proves it right against the language \<open>re_lang\<close>.
\<close>

datatype rexp =
    REmpty
  | REps
  | RClass "char list"
  | RSeq rexp rexp
  | RAlt rexp rexp
  | RStar rexp

definition RPlus :: "rexp \<Rightarrow> rexp" where
  "RPlus r = RSeq r (RStar r)"

definition ROpt :: "rexp \<Rightarrow> rexp" where
  "ROpt r = RAlt REps r"

inductive_set star_lang :: "string set \<Rightarrow> string set" for L where
  star_Nil: "[] \<in> star_lang L"
| star_Cons: "u \<in> L \<Longrightarrow> v \<in> star_lang L \<Longrightarrow> u @ v \<in> star_lang L"

primrec re_lang :: "rexp \<Rightarrow> string set" where
  "re_lang REmpty = {}"
| "re_lang REps = {[]}"
| "re_lang (RClass cs) = {[c] | c. c \<in> set cs}"
| "re_lang (RSeq r s) = {u @ v | u v. u \<in> re_lang r \<and> v \<in> re_lang s}"
| "re_lang (RAlt r s) = re_lang r \<union> re_lang s"
| "re_lang (RStar r) = star_lang (re_lang r)"

subsection \<open>The matcher\<close>

primrec nullable :: "rexp \<Rightarrow> bool" where
  "nullable REmpty = False"
| "nullable REps = True"
| "nullable (RClass cs) = False"
| "nullable (RSeq r s) = (nullable r \<and> nullable s)"
| "nullable (RAlt r s) = (nullable r \<or> nullable s)"
| "nullable (RStar r) = True"

primrec deriv :: "char \<Rightarrow> rexp \<Rightarrow> rexp" where
  "deriv c REmpty = REmpty"
| "deriv c REps = REmpty"
| "deriv c (RClass cs) = (if c \<in> set cs then REps else REmpty)"
| "deriv c (RSeq r s) =
     (if nullable r then RAlt (RSeq (deriv c r) s) (deriv c s) else RSeq (deriv c r) s)"
| "deriv c (RAlt r s) = RAlt (deriv c r) (deriv c s)"
| "deriv c (RStar r) = RSeq (deriv c r) (RStar r)"

definition re_match :: "rexp \<Rightarrow> string \<Rightarrow> bool" where
  "re_match r s = nullable (foldl (\<lambda>r c. deriv c r) r s)"

lemma nullable_iff: "nullable r \<longleftrightarrow> [] \<in> re_lang r"
  by (induction r) (auto intro: star_Nil)

lemma star_lang_Cons_iff:
  "c # w \<in> star_lang L \<longleftrightarrow> (\<exists>u v. w = u @ v \<and> c # u \<in> L \<and> v \<in> star_lang L)"
proof
  assume "c # w \<in> star_lang L"
  then show "\<exists>u v. w = u @ v \<and> c # u \<in> L \<and> v \<in> star_lang L"
  proof (induction "c # w")
    case (star_Cons u v)
    then show ?case by (cases u) auto
  qed
next
  assume "\<exists>u v. w = u @ v \<and> c # u \<in> L \<and> v \<in> star_lang L"
  then obtain u v where w: "w = u @ v" and u: "c # u \<in> L" and v: "v \<in> star_lang L" by blast
  from star_Cons [OF u v] w show "c # w \<in> star_lang L" by simp
qed

lemma deriv_iff: "w \<in> re_lang (deriv c r) \<longleftrightarrow> c # w \<in> re_lang r"
proof (induction r arbitrary: w)
  case (RSeq r s)
  have "c # w \<in> re_lang (RSeq r s) \<longleftrightarrow>
      (\<exists>u v. w = u @ v \<and> c # u \<in> re_lang r \<and> v \<in> re_lang s)
      \<or> [] \<in> re_lang r \<and> c # w \<in> re_lang s"
    by (auto simp: Cons_eq_append_conv)
  then show ?case using RSeq by (auto simp: nullable_iff)
next
  case (RStar r)
  then show ?case by (simp add: star_lang_Cons_iff)
qed auto

theorem re_match_iff: "re_match r s \<longleftrightarrow> s \<in> re_lang r"
  unfolding re_match_def
  by (induction s arbitrary: r) (simp_all add: nullable_iff deriv_iff)

lemma star_lang_append: "u \<in> star_lang L \<Longrightarrow> v \<in> star_lang L \<Longrightarrow> u @ v \<in> star_lang L"
  by (induction rule: star_lang.induct) (auto intro: star_Cons)

lemma star_lang_concat: "w \<in> star_lang L \<longleftrightarrow> (\<exists>us. w = concat us \<and> set us \<subseteq> L)"
proof
  show "w \<in> star_lang L \<Longrightarrow> \<exists>us. w = concat us \<and> set us \<subseteq> L"
  proof (induction rule: star_lang.induct)
    case star_Nil
    show ?case by (intro exI [of _ "[]"]) simp
  next
    case (star_Cons u v)
    then obtain us where "v = concat us" "set us \<subseteq> L" by blast
    with star_Cons show ?case by (intro exI [of _ "u # us"]) simp
  qed
next
  assume "\<exists>us. w = concat us \<and> set us \<subseteq> L"
  then obtain us where "w = concat us" "set us \<subseteq> L" by blast
  then show "w \<in> star_lang L"
    by (induction us arbitrary: w) (auto intro: star_lang.intros)
qed

lemma star_lang_class: "w \<in> star_lang {[c] | c. c \<in> set cs} \<longleftrightarrow> set w \<subseteq> set cs"
proof
  show "w \<in> star_lang {[c] | c. c \<in> set cs} \<Longrightarrow> set w \<subseteq> set cs"
    by (induction rule: star_lang.induct) auto
next
  assume "set w \<subseteq> set cs"
  then show "w \<in> star_lang {[c] | c. c \<in> set cs}"
  proof (induction w)
    case (Cons c w)
    then have "[c] @ w \<in> star_lang {[c] | c. c \<in> set cs}" by (intro star_Cons) auto
    then show ?case by simp
  qed (rule star_Nil)
qed

lemma re_lang_class_star [simp]: "w \<in> re_lang (RStar (RClass cs)) \<longleftrightarrow> set w \<subseteq> set cs"
  by (simp add: star_lang_class)

lemma re_lang_class_seq:
  "w \<in> re_lang (RSeq (RClass cs) r) \<longleftrightarrow> (\<exists>c v. w = c # v \<and> c \<in> set cs \<and> v \<in> re_lang r)"
proof
  assume "\<exists>c v. w = c # v \<and> c \<in> set cs \<and> v \<in> re_lang r"
  then obtain c v where "w = [c] @ v" "c \<in> set cs" "v \<in> re_lang r" by auto
  then show "w \<in> re_lang (RSeq (RClass cs) r)" by (simp only: re_lang.simps) blast
qed auto

end
