(* ===== verification/Validate.thy ===== *)
theory Validate
  imports Go_Errors Regexp
begin

text \<open>
  Client-side validation (\<open>validate.go\<close>): the patterns of job types and queue names as
  regular expressions, and the two validators with every error. The lemmas give the
  languages of the patterns in elementary terms.
\<close>

subsection \<open>Quoting for messages\<close>

text \<open>\<open>%q\<close>: the quoting of \<open>strconv.Quote\<close> for ASCII; other bytes are kept.\<close>

definition hex_digit :: "nat \<Rightarrow> char" where
  "hex_digit d = (if d < 10 then char_of (48 + d) else char_of (87 + d))"

definition go_escape :: "char \<Rightarrow> string" where
  "go_escape c = (let n = of_char c :: nat in
     if n = 34 then [CHR 0x5C, CHR 0x22]
     else if n = 92 then [CHR 0x5C, CHR 0x5C]
     else if n = 7 then [CHR 0x5C] @ ''a''
     else if n = 8 then [CHR 0x5C] @ ''b''
     else if n = 9 then [CHR 0x5C] @ ''t''
     else if n = 10 then [CHR 0x5C] @ ''n''
     else if n = 11 then [CHR 0x5C] @ ''v''
     else if n = 12 then [CHR 0x5C] @ ''f''
     else if n = 13 then [CHR 0x5C] @ ''r''
     else if n < 32 \<or> n = 127 then [CHR 0x5C] @ ''x'' @ [hex_digit (n div 16), hex_digit (n mod 16)]
     else [c])"

definition go_quote :: "string \<Rightarrow> string" where
  "go_quote s = [CHR 0x22] @ concat (map go_escape s) @ [CHR 0x22]"

subsection \<open>Patterns\<close>

definition lower_letters :: string where
  "lower_letters = ''abcdefghijklmnopqrstuvwxyz''"

definition digits :: string where
  "digits = ''0123456789''"

definition lower_alnum :: string where
  "lower_alnum = lower_letters @ digits"

definition word_chars :: string where
  "word_chars = lower_letters @ digits @ ''_''"

text \<open>\<open>^[a-z][a-z0-9_]*(\.[a-z][a-z0-9_]*)*$\<close>\<close>

definition typePattern :: rexp where
  "typePattern = (let seg = RSeq (RClass lower_letters) (RStar (RClass word_chars))
     in RSeq seg (RStar (RSeq (RClass ''.'') seg)))"

text \<open>\<open>^[a-z0-9]([a-z0-9]*[-.]?[a-z0-9]+)*$\<close>\<close>

definition queuePattern :: rexp where
  "queuePattern = RSeq (RClass lower_alnum)
     (RStar (RSeq (RStar (RClass lower_alnum))
       (RSeq (ROpt (RClass ''-.'')) (RPlus (RClass lower_alnum)))))"

definition maxTypeLength :: nat where "maxTypeLength = 255"
definition maxQueueLength :: nat where "maxQueueLength = 128"

subsection \<open>Validators\<close>

text \<open>A nil argument slice is \<open>None\<close>.\<close>

definition validateEnqueueParams :: "string \<Rightarrow> any list option \<Rightarrow> go_error option" where
  "validateEnqueueParams jobType args =
     (if jobType = [] then Some (PlainErr ''ojs: job type is required'')
      else if length jobType > maxTypeLength then
        Some (PlainErr (''ojs: job type must not exceed '' @ show_nat maxTypeLength
          @ '' characters, got '' @ show_nat (length jobType)))
      else if \<not> re_match typePattern jobType then
        Some (PlainErr (''ojs: invalid job type '' @ go_quote jobType
          @ '': must match pattern ^[a-z][a-z0-9_]*('' @ [CHR 0x5C] @ ''.[a-z][a-z0-9_]*)*$''))
      else if args = None then
        Some (PlainErr ''ojs: args must not be nil, use an empty slice instead'')
      else None)"

definition validateQueue :: "string \<Rightarrow> go_error option" where
  "validateQueue queue =
     (if queue = [] then None
      else if length queue > maxQueueLength then
        Some (PlainErr (''ojs: queue name must not exceed '' @ show_nat maxQueueLength
          @ '' characters, got '' @ show_nat (length queue)))
      else if \<not> re_match queuePattern queue then
        Some (PlainErr (''ojs: invalid queue name '' @ go_quote queue
          @ '': must start with lowercase alphanumeric and contain only lowercase alphanumeric, hyphens, and dots''))
      else None)"

subsection \<open>The languages of the patterns\<close>

fun split_on :: "char \<Rightarrow> string \<Rightarrow> string list" where
  "split_on c [] = [[]]"
| "split_on c (x # xs) = (if x = c then [] # split_on c xs
     else (case split_on c xs of [] \<Rightarrow> [[x]] | seg # segs \<Rightarrow> (x # seg) # segs))"

definition seg_ok :: "string \<Rightarrow> bool" where
  "seg_ok seg \<longleftrightarrow> seg \<noteq> [] \<and> hd seg \<in> set lower_letters \<and> set seg \<subseteq> set word_chars"

definition type_name_ok :: "string \<Rightarrow> bool" where
  "type_name_ok s \<longleftrightarrow> list_all seg_ok (split_on (CHR ''.'') s)"

definition is_alnum :: "char \<Rightarrow> bool" where
  "is_alnum c \<longleftrightarrow> c \<in> set lower_alnum"

definition queue_name_ok :: "string \<Rightarrow> bool" where
  "queue_name_ok s \<longleftrightarrow> s \<noteq> [] \<and> is_alnum (hd s) \<and> is_alnum (last s)
     \<and> list_all (\<lambda>c. is_alnum c \<or> c \<in> set ''-.'') s
     \<and> successively (\<lambda>a b. is_alnum a \<or> is_alnum b) s"

lemma split_on_nonempty [simp]: "split_on c s \<noteq> []"
  by (induction s) (auto split: list.splits)

lemma split_on_join:
  "hd (split_on c s) @ concat (map (Cons c) (tl (split_on c s))) = s"
  by (induction s) (auto split: list.splits)

lemma split_on_clean [simp]: "c \<notin> set u \<Longrightarrow> split_on c u = [u]"
  by (induction u) auto

lemma split_on_append: "c \<notin> set u \<Longrightarrow> split_on c (u @ c # v) = u # split_on c v"
  by (induction u) auto

lemma split_on_segments:
  "list_all (\<lambda>u. c \<notin> set u) (u # us) \<Longrightarrow> split_on c (u @ concat (map (Cons c) us)) = u # us"
  by (induction us arbitrary: u) (auto simp: split_on_append)

lemma seg_lang: "w \<in> re_lang (RSeq (RClass lower_letters) (RStar (RClass word_chars))) \<longleftrightarrow> seg_ok w"
  unfolding re_lang_class_seq re_lang_class_star
  by (cases w) (auto simp: seg_ok_def word_chars_def)

lemma seg_ok_no_dot: "seg_ok u \<Longrightarrow> CHR ''.'' \<notin> set u"
  by (auto simp: seg_ok_def word_chars_def lower_letters_def digits_def)

lemma typePattern_lang: "re_match typePattern s \<longleftrightarrow> type_name_ok s"
proof -
  let ?dot = "Cons (CHR ''.'')"
  have "re_match typePattern s \<longleftrightarrow>
    (\<exists>u v. s = u @ v \<and> seg_ok u \<and> v \<in> star_lang {?dot w | w. seg_ok w})"
    by (simp add: re_match_iff typePattern_def Let_def del: re_lang.simps(4) flip: seg_lang)
      (simp only: re_lang.simps seg_lang, simp)
  also have "\<dots> \<longleftrightarrow> (\<exists>u us. s = u @ concat (map ?dot us) \<and> list_all seg_ok (u # us))"
  proof -
    have "v \<in> star_lang {?dot w | w. seg_ok w} \<longleftrightarrow>
        (\<exists>us. v = concat (map ?dot us) \<and> list_all seg_ok us)" for v
    proof -
      have "set vs \<subseteq> {?dot w | w. seg_ok w} \<longleftrightarrow> (\<exists>us. vs = map ?dot us \<and> list_all seg_ok us)" for vs
        using arg_cong [OF lists_image [of ?dot "Collect seg_ok"], of "\<lambda>S. vs \<in> S"]
        by (auto simp: lists_eq_set image_def list_all_iff subset_iff)
      then show ?thesis by (auto simp: star_lang_concat)
    qed
    then show ?thesis by auto
  qed
  also have "\<dots> \<longleftrightarrow> type_name_ok s"
  proof
    assume "\<exists>u us. s = u @ concat (map ?dot us) \<and> list_all seg_ok (u # us)"
    then obtain u us where s: "s = u @ concat (map ?dot us)" and ok: "list_all seg_ok (u # us)" by blast
    have "list_all (\<lambda>u. CHR ''.'' \<notin> set u) (u # us)"
      using ok seg_ok_no_dot by (auto simp: list_all_iff)
    then show "type_name_ok s" using s ok by (simp only: type_name_ok_def split_on_segments)
  next
    assume "type_name_ok s"
    then have "list_all seg_ok (hd (split_on (CHR ''.'') s) # tl (split_on (CHR ''.'') s))"
      by (simp add: type_name_ok_def)
    then show "\<exists>u us. s = u @ concat (map ?dot us) \<and> list_all seg_ok (u # us)"
      by (metis split_on_join)
  qed
  finally show ?thesis .
qed

text \<open>One round of the starred group of the queue pattern.\<close>

abbreviation queue_group :: rexp where
  "queue_group \<equiv> RSeq (RStar (RClass lower_alnum))
     (RSeq (ROpt (RClass ''-.'')) (RPlus (RClass lower_alnum)))"

definition queue_rest_ok :: "string \<Rightarrow> bool" where
  "queue_rest_ok s \<longleftrightarrow> (s = [] \<or> is_alnum (last s))
     \<and> list_all (\<lambda>c. is_alnum c \<or> c \<in> set ''-.'') s
     \<and> successively (\<lambda>a b. is_alnum a \<or> is_alnum b) s"

lemma alnum_chars: "set w \<subseteq> set lower_alnum \<longleftrightarrow> list_all is_alnum w"
  by (auto simp: is_alnum_def list_all_iff)

lemma queue_group_lang:
  "w \<in> re_lang queue_group \<longleftrightarrow>
   (\<exists>u x v. w = u @ x @ v \<and> list_all is_alnum u \<and> (x = [] \<or> x = ''-'' \<or> x = ''.'')
      \<and> v \<noteq> [] \<and> list_all is_alnum v)"
proof -
  have plus: "v \<in> re_lang (RPlus (RClass lower_alnum)) \<longleftrightarrow> v \<noteq> [] \<and> list_all is_alnum v" for v
    unfolding RPlus_def re_lang_class_seq re_lang_class_star alnum_chars
    by (cases v) (auto simp: is_alnum_def)
  have opt: "x \<in> re_lang (ROpt (RClass ''-.'')) \<longleftrightarrow> x = [] \<or> x = ''-'' \<or> x = ''.''" for x
    by (auto simp: ROpt_def)
  have "w \<in> re_lang queue_group \<longleftrightarrow>
    (\<exists>u t. w = u @ t \<and> list_all is_alnum u
      \<and> (\<exists>x v. t = x @ v \<and> x \<in> re_lang (ROpt (RClass ''-.''))
           \<and> v \<in> re_lang (RPlus (RClass lower_alnum))))"
    by (simp only: re_lang.simps(4) re_lang_class_star alnum_chars mem_Collect_eq)
  then show ?thesis unfolding plus opt by metis
qed

lemma successively_alnum: "list_all is_alnum w \<Longrightarrow> successively (\<lambda>a b. is_alnum a \<or> is_alnum b) w"
  by (induction w) (auto simp: successively_Cons)

lemma queue_rest_okI: "w \<in> star_lang (re_lang queue_group) \<Longrightarrow> queue_rest_ok w"
proof (induction rule: star_lang.induct)
  case (star_Cons g w)
  then obtain u x v where g: "g = u @ x @ v" and u: "list_all is_alnum u"
    and x: "x = [] \<or> x = ''-'' \<or> x = ''.''" and v: "v \<noteq> []" "list_all is_alnum v"
    unfolding queue_group_lang by blast
  have "list_all is_alnum v \<Longrightarrow> is_alnum (last v)" "list_all is_alnum v \<Longrightarrow> is_alnum (hd v)"
    using v by (auto simp: list_all_iff)
  with star_Cons.IH u x v successively_alnum [OF u] successively_alnum [OF v(2)]
  show ?case
    by (cases "w = []") (auto simp: g queue_rest_ok_def successively_append_iff list_all_iff)
qed (simp add: queue_rest_ok_def)

lemma queue_rest_ok_star: "queue_rest_ok w \<Longrightarrow> w \<in> star_lang (re_lang queue_group)"
proof (induction w rule: length_induct)
  case (1 w)
  show ?case
  proof (cases w)
    case Nil
    then show ?thesis by (simp add: star_Nil)
  next
    case (Cons c t)
    show ?thesis
    proof (cases "is_alnum c")
      case True
      have "[c] \<in> re_lang queue_group"
        unfolding queue_group_lang using True
        by (intro exI [of _ "[]"] exI [of _ "[c]"]) simp
      moreover have "queue_rest_ok t"
        using 1(2) Cons by (auto simp: queue_rest_ok_def successively_Cons split: if_splits)
      ultimately show ?thesis
        using 1(1) Cons star_Cons [of "[c]" "re_lang queue_group" t] by simp
    next
      case False
      then obtain d t' where t: "t = d # t'" and d: "is_alnum d"
        using 1(2) Cons by (cases t) (auto simp: queue_rest_ok_def)
      have "[c, d] \<in> re_lang queue_group"
        unfolding queue_group_lang using False d 1(2) Cons
        by (intro exI [of _ "[]"] exI [of _ "[c]"] exI [of _ "[d]"]) (auto simp: queue_rest_ok_def)
      moreover have "queue_rest_ok t'"
        using 1(2) Cons t by (auto simp: queue_rest_ok_def successively_Cons split: if_splits)
      ultimately show ?thesis
        using 1(1) Cons t star_Cons [of "[c, d]" "re_lang queue_group" t'] by simp
    qed
  qed
qed

lemma queuePattern_lang: "re_match queuePattern s \<longleftrightarrow> queue_name_ok s"
proof -
  have "re_match queuePattern s \<longleftrightarrow>
    (\<exists>c t. s = c # t \<and> is_alnum c \<and> t \<in> star_lang (re_lang queue_group))"
    unfolding re_match_iff queuePattern_def re_lang_class_seq by (simp add: is_alnum_def)
  also have "\<dots> \<longleftrightarrow> (\<exists>c t. s = c # t \<and> is_alnum c \<and> queue_rest_ok t)"
    using queue_rest_okI queue_rest_ok_star by blast
  also have "\<dots> \<longleftrightarrow> queue_name_ok s"
    by (cases s) (auto simp: queue_name_ok_def queue_rest_ok_def successively_Cons)
  finally show ?thesis .
qed

text \<open>A queue name passes exactly when it is empty or at most 128 bytes of lowercase letters, digits, hyphens and dots that starts and ends alphanumeric and has no two separators in a row.\<close>

theorem validateQueue_accepts:
  "validateQueue q = None \<longleftrightarrow> q = [] \<or> length q \<le> 128 \<and> queue_name_ok q"
  by (simp add: validateQueue_def queuePattern_lang maxQueueLength_def not_less)

text \<open>C21: a job type passes exactly when it is at most 255 bytes of dot-separated segments, each a lowercase letter followed by letters, digits and underscores, and the argument slice is not nil.\<close>

theorem validateEnqueueParams_accepts:
  "validateEnqueueParams t args = None \<longleftrightarrow>
     length t \<le> 255 \<and> type_name_ok t \<and> args \<noteq> None"
proof -
  have "\<not> type_name_ok []" by (simp add: type_name_ok_def seg_ok_def)
  then show ?thesis
    by (auto simp: validateEnqueueParams_def typePattern_lang maxTypeLength_def not_less)
qed

end
