(* ===== verification/Client.thy ===== *)
theory Client
  imports Transport Validate "HOL-Library.Monad_Syntax"
begin

text \<open>
  The client (\<open>client.go\<close>, \<open>queue.go\<close>, \<open>schema.go\<close>, \<open>progress.go\<close>): wire structs and their
  JSON, response decoders, and one definition per operation, each a function from the
  outside, the transport and the trace to a result and a longer trace. The lemmas show
  what is sent for which call, that invalid calls send nothing, and how batches report
  errors. URL escaping is written out; URL parsing in \<open>NewClient\<close> is a parameter.
\<close>

subsection \<open>URL escaping\<close>

definition is_ascii_alnum :: "char \<Rightarrow> bool" where
  "is_ascii_alnum c = (let n = of_char c :: nat in
     48 \<le> n \<and> n \<le> 57 \<or> 65 \<le> n \<and> n \<le> 90 \<or> 97 \<le> n \<and> n \<le> 122)"

definition upper_hex :: "nat \<Rightarrow> char" where
  "upper_hex d = ''0123456789ABCDEF'' ! d"

definition percent :: "char \<Rightarrow> string" where
  "percent c = (let n = of_char c :: nat in [CHR ''%'', upper_hex (n div 16), upper_hex (n mod 16)])"

text \<open>\<open>url.PathEscape\<close> and \<open>url.QueryEscape\<close>\<close>

definition path_safe :: "char \<Rightarrow> bool" where
  "path_safe c \<longleftrightarrow> is_ascii_alnum c \<or> c \<in> set ''-_.~$&+=:@''"

definition PathEscape :: "string \<Rightarrow> string" where
  "PathEscape s = concat (map (\<lambda>c. if path_safe c then [c] else percent c) s)"

definition QueryEscape :: "string \<Rightarrow> string" where
  "QueryEscape s = concat (map (\<lambda>c. if c = CHR '' '' then ''+''
     else if is_ascii_alnum c \<or> c \<in> set ''-_.~'' then [c] else percent c) s)"

subsection \<open>Wire options\<close>

record wire_options =
  wo_Queue :: string
  wo_Priority :: int
  wo_TimeoutMS :: int
  wo_DelayUntil :: "time option"
  wo_ExpiresAt :: "time option"
  wo_Retry :: "retry_policy_wire option"
  wo_Unique :: "unique_policy_wire option"
  wo_Tags :: "string list"
  wo_VisibilityTimeoutMS :: int

definition buildWireOptions :: "enqueue_config \<Rightarrow> wire_options" where
  "buildWireOptions cfg = \<lparr>
     wo_Queue = cfg_queue cfg,
     wo_Priority = cfg_priority cfg,
     wo_TimeoutMS = cfg_timeoutMS cfg,
     wo_DelayUntil = cfg_delayUntil cfg,
     wo_ExpiresAt = cfg_expiresAt cfg,
     wo_Retry = map_option RetryPolicy_toWire (cfg_retry cfg),
     wo_Unique = map_option UniquePolicy_toWire (cfg_unique cfg),
     wo_Tags = cfg_tags cfg,
     wo_VisibilityTimeoutMS = cfg_visibilityTimeout cfg\<rparr>"

fun omit_float :: "f64 \<Rightarrow> json option option" where
  "omit_float (Fin x) = Some (if x = 0 then None else Some (JNum x))"
| "omit_float _ = None"

definition enc_bool_value :: "bool \<Rightarrow> json option" where
  "enc_bool_value b = Some (JBool b)"

definition enc_retry_wire :: "retry_policy_wire \<Rightarrow> json option" where
  "enc_retry_wire w = struct_json
     [(''max_attempts'', omit_int (rw_MaxAttempts w)),
      (''initial_interval_ms'', omit_int (rw_InitialIntervalMS w)),
      (''backoff_coefficient'', omit_float (rw_BackoffCoefficient w)),
      (''max_interval_ms'', omit_int (rw_MaxIntervalMS w)),
      (''jitter'', omit_ptr enc_bool_value (rw_Jitter w)),
      (''non_retryable_errors'', omit_strings (rw_NonRetryableErrors w))]"

definition enc_unique_wire :: "unique_policy_wire \<Rightarrow> json option" where
  "enc_unique_wire w = struct_json
     [(''key'', omit_strings (uw_Key w)), (''period_ms'', omit_int (uw_PeriodMS w)),
      (''on_conflict'', omit_string (uw_OnConflict w))]"

definition enc_wire_options :: "time_codec \<Rightarrow> wire_options \<Rightarrow> json option" where
  "enc_wire_options tc w = struct_json
     [(''queue'', omit_string (wo_Queue w)),
      (''priority'', omit_int (wo_Priority w)),
      (''timeout_ms'', omit_int (wo_TimeoutMS w)),
      (''delay_until'', omit_ptr (enc_time tc) (wo_DelayUntil w)),
      (''expires_at'', omit_ptr (enc_time tc) (wo_ExpiresAt w)),
      (''retry'', omit_ptr enc_retry_wire (wo_Retry w)),
      (''unique'', omit_ptr enc_unique_wire (wo_Unique w)),
      (''tags'', omit_strings (wo_Tags w)),
      (''visibility_timeout_ms'', omit_int (wo_VisibilityTimeoutMS w))]"

subsection \<open>Requests and responses about jobs\<close>

record enqueue_request =
  eq_Type :: string
  eq_Args :: "any list"
  eq_Meta :: anymap
  eq_Schema :: string
  eq_Options :: "wire_options option"

definition enc_enqueue_request :: "time_codec \<Rightarrow> enqueue_request \<Rightarrow> json option" where
  "enc_enqueue_request tc r = struct_json
     [(''type'', enc_string (eq_Type r)),
      (''args'', enc_json (marshal (VList (eq_Args r)))),
      (''meta'', omit_map (eq_Meta r)),
      (''schema'', omit_string (eq_Schema r)),
      (''options'', omit_ptr (enc_wire_options tc) (eq_Options r))]"

text \<open>A JSON array of structs fails when one of them cannot be encoded.\<close>

definition enc_array :: "('a \<Rightarrow> json option) \<Rightarrow> 'a list \<Rightarrow> json option" where
  "enc_array e xs = map_option JArr (those (map e xs))"

definition dec_job_response :: "time_codec \<Rightarrow> json \<Rightarrow> job option" where
  "dec_job_response tc j = do {
     m \<leftarrow> obj_members (Some j);
     case fmlookup m ''job'' of None \<Rightarrow> Some zero_job | d \<Rightarrow> Job_UnmarshalJSON tc d }"

definition dec_batch_response :: "time_codec \<Rightarrow> json \<Rightarrow> (job list \<times> int) option" where
  "dec_batch_response tc j = do {
     m \<leftarrow> obj_members (Some j);
     jobs \<leftarrow> dec_list (Job_UnmarshalJSON tc) (fmlookup m ''jobs'');
     count \<leftarrow> dec_int (fmlookup m ''count'');
     Some (jobs, count) }"

type_synonym 'a call = "(go_error + 'a) \<times> trace"

subsection \<open>Construction\<close>

text \<open>\<open>parse\<close> is \<open>url.Parse\<close>: an error, or the scheme and the host.\<close>

definition NewClient ::
  "(string \<Rightarrow> go_error + string \<times> string) \<Rightarrow> string \<Rightarrow> client_option list \<Rightarrow> go_error + transport" where
  "NewClient parse serverURL opts =
     (if serverURL = [] then Inl (PlainErr ''ojs: server URL is required'')
      else case parse serverURL of
        Inl e \<Rightarrow> Inl (Wrapf ''ojs: invalid server URL: '' e)
      | Inr (scheme, host) \<Rightarrow>
          (if scheme \<noteq> ''http'' \<and> scheme \<noteq> ''https'' then
             Inl (PlainErr (''ojs: server URL scheme must be http or https, got '' @ go_quote scheme))
           else if host = [] then Inl (PlainErr ''ojs: server URL must include a host'')
           else Inr (newTransport serverURL (resolve_client_config opts))))"

subsection \<open>Enqueueing\<close>

definition Enqueue ::
  "env \<Rightarrow> transport \<Rightarrow> string \<Rightarrow> args \<Rightarrow> enqueue_option list \<Rightarrow> trace \<Rightarrow> job call" where
  "Enqueue env tr jobType args opts t =
     (let wireArgs = argsToWire args in
      case validateEnqueueParams jobType (Some wireArgs) of
        Some e \<Rightarrow> (Inl e, t)
      | None \<Rightarrow>
     (let cfg = resolveEnqueueConfig (env_now env t) opts in
      case validateQueue (cfg_queue cfg) of
        Some e \<Rightarrow> (Inl e, t)
      | None \<Rightarrow>
     (let req = \<lparr>eq_Type = jobType, eq_Args = wireArgs, eq_Meta = cfg_meta cfg, eq_Schema = [],
                 eq_Options = Some (buildWireOptions cfg)\<rparr>
      in transport_post env tr (basePath @ ''/jobs'')
           (Some (enc_enqueue_request (env_times env) req))
           (Into zero_job (dec_job_response (env_times env))) t)))"

record job_request =
  jr_Type :: string
  jr_Args :: args
  jr_Options :: "enqueue_option list"

definition wire_job :: "time \<Rightarrow> nat \<Rightarrow> job_request \<Rightarrow> go_error + enqueue_request" where
  "wire_job now i r =
     (let wireArgs = argsToWire (jr_Args r) in
      case validateEnqueueParams (jr_Type r) (Some wireArgs) of
        Some e \<Rightarrow> Inl (Wrapf (''job['' @ show_nat i @ '']: '') e)
      | None \<Rightarrow>
     (let cfg = resolveEnqueueConfig now (jr_Options r) in
      case validateQueue (cfg_queue cfg) of
        Some e \<Rightarrow> Inl (Wrapf (''job['' @ show_nat i @ '']: '') e)
      | None \<Rightarrow> Inr \<lparr>eq_Type = jr_Type r, eq_Args = wireArgs, eq_Meta = cfg_meta cfg,
                  eq_Schema = [], eq_Options = Some (buildWireOptions cfg)\<rparr>))"

fun wire_jobs :: "time \<Rightarrow> nat \<Rightarrow> job_request list \<Rightarrow> go_error + enqueue_request list" where
  "wire_jobs now i [] = Inr []"
| "wire_jobs now i (r # rs) = (case wire_job now i r of
     Inl e \<Rightarrow> Inl e
   | Inr w \<Rightarrow> (case wire_jobs now (i + 1) rs of Inl e \<Rightarrow> Inl e | Inr ws \<Rightarrow> Inr (w # ws)))"

text \<open>
  \<open>EnqueueBatch\<close> returns the jobs and an error together when the response is inconsistent.
\<close>

definition EnqueueBatch ::
  "env \<Rightarrow> transport \<Rightarrow> job_request list \<Rightarrow> trace \<Rightarrow> (job list \<times> go_error option) \<times> trace" where
  "EnqueueBatch env tr reqs t =
     (case wire_jobs (env_now env t) 0 reqs of
        Inl e \<Rightarrow> (([], Some e), t)
      | Inr ws \<Rightarrow>
     (let body = Option.bind (enc_array (enc_enqueue_request (env_times env)) ws)
                   (\<lambda>js. struct_json [(''jobs'', Some (Some js))]);
          (r, t') = transport_post env tr (basePath @ ''/jobs/batch'') (Some body)
                      (Into ([], 0) (dec_batch_response (env_times env))) t
      in case r of
        Inl e \<Rightarrow> (([], Some e), t')
      | Inr (jobs, count) \<Rightarrow>
          (if 0 < count \<and> count \<noteq> int (length jobs)
           then ((jobs, Some (BatchPartialErr (int (length reqs)) (int (length jobs)) jobs)), t')
           else ((jobs, None), t'))))"

subsection \<open>Jobs by id\<close>

definition GetJob :: "env \<Rightarrow> transport \<Rightarrow> string \<Rightarrow> trace \<Rightarrow> job call" where
  "GetJob env tr jid t =
     (if jid = [] then (Inl (PlainErr ''ojs: job ID is required''), t)
      else transport_get env tr (basePath @ ''/jobs/'' @ PathEscape jid)
             (Into zero_job (dec_job_response (env_times env))) t)"

definition CancelJob :: "env \<Rightarrow> transport \<Rightarrow> string \<Rightarrow> trace \<Rightarrow> job call" where
  "CancelJob env tr jid t =
     (if jid = [] then (Inl (PlainErr ''ojs: job ID is required''), t)
      else transport_delete env tr (basePath @ ''/jobs/'' @ PathEscape jid)
             (Into zero_job (dec_job_response (env_times env))) t)"

subsection \<open>Health and manifest\<close>

record backend_health =
  bh_Type :: string
  bh_Status :: string
  bh_LatencyMS :: int
  bh_Error :: string

record health_status =
  hs_Status :: string
  hs_Version :: string
  hs_UptimeSeconds :: int
  hs_Backend :: backend_health

definition zero_health :: health_status where
  "zero_health = \<lparr>hs_Status = [], hs_Version = [], hs_UptimeSeconds = 0,
     hs_Backend = \<lparr>bh_Type = [], bh_Status = [], bh_LatencyMS = 0, bh_Error = []\<rparr>\<rparr>"

definition dec_health :: "json \<Rightarrow> health_status option" where
  "dec_health j = do {
     m \<leftarrow> obj_members (Some j);
     st \<leftarrow> dec_string (fmlookup m ''status'');
     ver \<leftarrow> dec_string (fmlookup m ''version'');
     up \<leftarrow> dec_int (fmlookup m ''uptime_seconds'');
     b \<leftarrow> obj_members (fmlookup m ''backend'');
     bt \<leftarrow> dec_string (fmlookup b ''type'');
     bs \<leftarrow> dec_string (fmlookup b ''status'');
     bl \<leftarrow> dec_int (fmlookup b ''latency_ms'');
     be \<leftarrow> dec_string (fmlookup b ''error'');
     Some \<lparr>hs_Status = st, hs_Version = ver, hs_UptimeSeconds = up,
       hs_Backend = \<lparr>bh_Type = bt, bh_Status = bs, bh_LatencyMS = bl, bh_Error = be\<rparr>\<rparr> }"

definition Health :: "env \<Rightarrow> transport \<Rightarrow> trace \<Rightarrow> health_status call" where
  "Health env tr t = transport_get env tr (basePath @ ''/health'') (Into zero_health dec_health) t"

record implementation =
  im_Name :: string
  im_Version :: string
  im_Language :: string
  im_Homepage :: string

record manifest =
  mf_OJSVersion :: string
  mf_Implementation :: implementation
  mf_ConformanceLevel :: int
  mf_Protocols :: "string list"
  mf_Backend :: string
  mf_Capabilities :: "(string, bool) fmap"
  mf_Extensions :: "string list"
  mf_Endpoints :: "(string, string) fmap"

definition zero_manifest :: manifest where
  "zero_manifest = \<lparr>mf_OJSVersion = [],
     mf_Implementation = \<lparr>im_Name = [], im_Version = [], im_Language = [], im_Homepage = []\<rparr>,
     mf_ConformanceLevel = 0, mf_Protocols = [], mf_Backend = [], mf_Capabilities = fmempty,
     mf_Extensions = [], mf_Endpoints = fmempty\<rparr>"

text \<open>A map whose values have one type: every value must decode.\<close>

definition dec_map :: "(json option \<Rightarrow> 'v option) \<Rightarrow> json option \<Rightarrow> (string, 'v) fmap option" where
  "dec_map d j = do {
     m \<leftarrow> obj_members j;
     if fmpred (\<lambda>_ v. d (Some v) \<noteq> None) m then Some (fmmap (\<lambda>v. the (d (Some v))) m) else None }"

definition dec_manifest :: "json \<Rightarrow> manifest option" where
  "dec_manifest j = do {
     m \<leftarrow> obj_members (Some j);
     ver \<leftarrow> dec_string (fmlookup m ''ojs_version'');
     i \<leftarrow> obj_members (fmlookup m ''implementation'');
     name \<leftarrow> dec_string (fmlookup i ''name'');
     iver \<leftarrow> dec_string (fmlookup i ''version'');
     lang \<leftarrow> dec_string (fmlookup i ''language'');
     home \<leftarrow> dec_string (fmlookup i ''homepage'');
     level \<leftarrow> dec_int (fmlookup m ''conformance_level'');
     protocols \<leftarrow> dec_list dec_string (fmlookup m ''protocols'');
     backend \<leftarrow> dec_string (fmlookup m ''backend'');
     caps \<leftarrow> dec_map dec_bool (fmlookup m ''capabilities'');
     exts \<leftarrow> dec_list dec_string (fmlookup m ''extensions'');
     ends \<leftarrow> dec_map dec_string (fmlookup m ''endpoints'');
     Some \<lparr>mf_OJSVersion = ver,
       mf_Implementation = \<lparr>im_Name = name, im_Version = iver, im_Language = lang, im_Homepage = home\<rparr>,
       mf_ConformanceLevel = level, mf_Protocols = protocols, mf_Backend = backend,
       mf_Capabilities = caps, mf_Extensions = exts, mf_Endpoints = ends\<rparr> }"

definition Client_Manifest :: "env \<Rightarrow> transport \<Rightarrow> trace \<Rightarrow> manifest call" where
  "Client_Manifest env tr t =
     transport_get env tr ''/ojs/manifest'' (Into zero_manifest dec_manifest) t"

subsection \<open>Dead letters\<close>

record pagination =
  pg_Total :: int
  pg_Limit :: int
  pg_Offset :: int
  pg_HasMore :: bool

definition zero_pagination :: pagination where
  "zero_pagination = \<lparr>pg_Total = 0, pg_Limit = 0, pg_Offset = 0, pg_HasMore = False\<rparr>"

definition dec_pagination :: "json option \<Rightarrow> pagination option" where
  "dec_pagination d = do {
     m \<leftarrow> obj_members d;
     total \<leftarrow> dec_int (fmlookup m ''total'');
     limit \<leftarrow> dec_int (fmlookup m ''limit'');
     offset \<leftarrow> dec_int (fmlookup m ''offset'');
     more \<leftarrow> dec_bool (fmlookup m ''has_more'');
     Some \<lparr>pg_Total = total, pg_Limit = limit, pg_Offset = offset, pg_HasMore = more\<rparr> }"

text \<open>A page: a list member and the pagination.\<close>

definition dec_page :: "string \<Rightarrow> (json option \<Rightarrow> 'a option) \<Rightarrow> json \<Rightarrow> ('a list \<times> pagination) option" where
  "dec_page key d j = do {
     m \<leftarrow> obj_members (Some j);
     items \<leftarrow> dec_list d (fmlookup m key);
     p \<leftarrow> dec_pagination (fmlookup m ''pagination'');
     Some (items, p) }"

definition ListDeadLetterJobs ::
  "env \<Rightarrow> transport \<Rightarrow> string \<Rightarrow> int \<Rightarrow> int \<Rightarrow> trace \<Rightarrow> (job list \<times> pagination) call" where
  "ListDeadLetterJobs env tr queue limit offset t =
     (let path = basePath @ ''/dead-letter?limit='' @ show_int limit @ ''&offset='' @ show_int offset;
          path = (if queue \<noteq> [] then path @ ''&queue='' @ QueryEscape queue else path)
      in transport_get env tr path
           (Into ([], zero_pagination) (dec_page ''jobs'' (Job_UnmarshalJSON (env_times env)))) t)"

definition RetryDeadLetterJob :: "env \<Rightarrow> transport \<Rightarrow> string \<Rightarrow> trace \<Rightarrow> job call" where
  "RetryDeadLetterJob env tr jid t =
     (if jid = [] then (Inl (PlainErr ''ojs: job ID is required''), t)
      else transport_post env tr (basePath @ ''/dead-letter/'' @ PathEscape jid @ ''/retry'') None
             (Into zero_job (dec_job_response (env_times env))) t)"

definition DiscardDeadLetterJob :: "env \<Rightarrow> transport \<Rightarrow> string \<Rightarrow> trace \<Rightarrow> unit call" where
  "DiscardDeadLetterJob env tr jid t =
     (if jid = [] then (Inl (PlainErr ''ojs: job ID is required''), t)
      else transport_delete env tr (basePath @ ''/dead-letter/'' @ PathEscape jid) (Discard ()) t)"

subsection \<open>Cron jobs\<close>

record cron_job =
  cj_Name :: string
  cj_Cron :: string
  cj_Timezone :: string
  cj_Type :: string
  cj_Args :: "any list"
  cj_Options :: anymap
  cj_Meta :: anymap
  cj_Status :: string
  cj_LastRunAt :: "time option"
  cj_NextRunAt :: "time option"
  cj_CreatedAt :: "time option"

definition zero_cron_job :: cron_job where
  "zero_cron_job = \<lparr>cj_Name = [], cj_Cron = [], cj_Timezone = [], cj_Type = [], cj_Args = [],
     cj_Options = fmempty, cj_Meta = fmempty, cj_Status = [], cj_LastRunAt = None,
     cj_NextRunAt = None, cj_CreatedAt = None\<rparr>"

definition dec_cron_job :: "time_codec \<Rightarrow> json option \<Rightarrow> cron_job option" where
  "dec_cron_job tc d = do {
     m \<leftarrow> obj_members d;
     name \<leftarrow> dec_string (fmlookup m ''name'');
     cron \<leftarrow> dec_string (fmlookup m ''cron'');
     tz \<leftarrow> dec_string (fmlookup m ''timezone'');
     ty \<leftarrow> dec_string (fmlookup m ''type'');
     ar \<leftarrow> dec_list dec_any (fmlookup m ''args'');
     opts \<leftarrow> dec_anymap (fmlookup m ''options'');
     meta \<leftarrow> dec_anymap (fmlookup m ''meta'');
     st \<leftarrow> dec_string (fmlookup m ''status'');
     lr \<leftarrow> dec_ptr (dec_time tc) (fmlookup m ''last_run_at'');
     nr \<leftarrow> dec_ptr (dec_time tc) (fmlookup m ''next_run_at'');
     ca \<leftarrow> dec_ptr (dec_time tc) (fmlookup m ''created_at'');
     Some \<lparr>cj_Name = name, cj_Cron = cron, cj_Timezone = tz, cj_Type = ty, cj_Args = ar,
       cj_Options = opts, cj_Meta = meta, cj_Status = st, cj_LastRunAt = lr,
       cj_NextRunAt = nr, cj_CreatedAt = ca\<rparr> }"

record cron_job_request =
  cr_Name :: string
  cr_Cron :: string
  cr_Timezone :: string
  cr_Type :: string
  cr_Args :: args
  cr_Meta :: anymap
  cr_Options :: "enqueue_option list"

record cron_job_request_wire =
  cw_Name :: string
  cw_Cron :: string
  cw_Timezone :: string
  cw_Type :: string
  cw_Args :: "any list"
  cw_Meta :: anymap
  cw_Options :: "wire_options option"

definition enc_cron_wire :: "time_codec \<Rightarrow> cron_job_request_wire \<Rightarrow> json option" where
  "enc_cron_wire tc w = struct_json
     [(''name'', enc_string (cw_Name w)), (''cron'', enc_string (cw_Cron w)),
      (''timezone'', omit_string (cw_Timezone w)), (''type'', enc_string (cw_Type w)),
      (''args'', enc_json (marshal (VList (cw_Args w)))), (''meta'', omit_map (cw_Meta w)),
      (''options'', omit_ptr (enc_wire_options tc) (cw_Options w))]"

definition ListCronJobs :: "env \<Rightarrow> transport \<Rightarrow> trace \<Rightarrow> cron_job list call" where
  "ListCronJobs env tr t =
     (case transport_get env tr (basePath @ ''/cron'')
        (Into ([], zero_pagination) (dec_page ''cron_jobs'' (dec_cron_job (env_times env)))) t of
        (Inl e, t') \<Rightarrow> (Inl e, t')
      | (Inr (jobs, p), t') \<Rightarrow> (Inr jobs, t'))"

definition RegisterCronJob :: "env \<Rightarrow> transport \<Rightarrow> cron_job_request \<Rightarrow> trace \<Rightarrow> cron_job call" where
  "RegisterCronJob env tr req t =
     (let cfg = resolveEnqueueConfig (env_now env t) (cr_Options req);
          wire = \<lparr>cw_Name = cr_Name req, cw_Cron = cr_Cron req, cw_Timezone = cr_Timezone req,
                  cw_Type = cr_Type req, cw_Args = argsToWire (cr_Args req),
                  cw_Meta = cr_Meta req, cw_Options = Some (buildWireOptions cfg)\<rparr>
      in transport_post env tr (basePath @ ''/cron'') (Some (enc_cron_wire (env_times env) wire))
           (Into zero_cron_job (\<lambda>j. do {
              m \<leftarrow> obj_members (Some j);
              dec_cron_job (env_times env) (fmlookup m ''cron_job'') })) t)"

definition UnregisterCronJob :: "env \<Rightarrow> transport \<Rightarrow> string \<Rightarrow> trace \<Rightarrow> unit call" where
  "UnregisterCronJob env tr name t =
     (if name = [] then (Inl (PlainErr ''ojs: cron job name is required''), t)
      else transport_delete env tr (basePath @ ''/cron/'' @ PathEscape name) (Discard ()) t)"

subsection \<open>What the calls send\<close>

lemma path_chars:
  assumes "x \<in> set (PathEscape s)"
  shows "path_safe x \<or> x = CHR ''%''"
proof -
  have hex: "path_safe (upper_hex d)" if "d < 16" for d
  proof -
    have "upper_hex d \<in> set ''0123456789ABCDEF''"
      unfolding upper_hex_def using that by (intro nth_mem) simp
    then show ?thesis by (auto simp: path_safe_def is_ascii_alnum_def Let_def)
  qed
  have "(of_char c :: nat) < 256" for c by (rule nat_of_char_less_256) 
  then have "(of_char c :: nat) div 16 < 16" for c :: char
    by (simp add: div_less_iff_less_mult)
  with assms hex show ?thesis
    by (auto simp: PathEscape_def percent_def Let_def split: if_splits)
qed

text \<open>An escaped segment stays one segment: it ends neither the path nor the segment.\<close>

lemma PathEscape_no_delimiters:
  "CHR ''/'' \<notin> set (PathEscape s)" "CHR ''?'' \<notin> set (PathEscape s)" "CHR ''#'' \<notin> set (PathEscape s)"
  using path_chars [of "CHR ''/''" s] path_chars [of "CHR ''?''" s] path_chars [of "CHR ''#''" s]
  by (auto simp: path_safe_def is_ascii_alnum_def Let_def)

text \<open>\<open>url.PathUnescape\<close> of what \<open>PathEscape\<close> writes.\<close>

definition hex_value :: "char \<Rightarrow> nat" where
  "hex_value c = (let n = of_char c in if n < 58 then n - 48 else n - 55)"

fun unescape :: "string \<Rightarrow> string" where
  "unescape (c # a # b # cs) =
     (if c = CHR ''%'' then char_of (16 * hex_value a + hex_value b) # unescape cs
      else c # unescape (a # b # cs))"
| "unescape cs = cs"

lemma hex_value_upper: "d < 16 \<Longrightarrow> hex_value (upper_hex d) = d"
proof -
  assume "d < 16"
  then have "d \<in> set [0..<16]" by simp
  then show ?thesis by (auto simp: upt_rec hex_value_def upper_hex_def Let_def)
qed

lemma unescape_char: "c \<noteq> CHR ''%'' \<Longrightarrow> unescape (c # cs) = c # unescape cs"
  by (cases "c # cs" rule: unescape.cases) auto

lemma unescape_PathEscape: "unescape (PathEscape s) = s"
proof (induction s)
  case (Cons c s)
  show ?case
  proof (cases "path_safe c")
    case True
    then have "c \<noteq> CHR ''%''" by (auto simp: path_safe_def is_ascii_alnum_def Let_def)
    with True Cons show ?thesis by (simp add: PathEscape_def unescape_char)
  next
    case False
    have "(of_char c :: nat) < 256" by (rule nat_of_char_less_256)
    then have "(of_char c :: nat) div 16 < 16" by (simp add: div_less_iff_less_mult)
    with False Cons show ?thesis
      by (simp add: PathEscape_def percent_def Let_def hex_value_upper)
  qed
qed (simp add: PathEscape_def)

lemma transport_do_requests:
  "\<exists>ext. snd (transport_do env tr m path body res t) = t @ ext
     \<and> length (requests ext) \<le> Suc (retry_budget (tr_retryConfig tr))
     \<and> list_all (same_request m (tr_baseURL tr @ path) (Option.bind body (\<lambda>b. b))) (requests ext)"
  using do_loop_requests [of env tr m "tr_baseURL tr @ path" _ res 0 t]
  by (auto simp: transport_do_def split: option.splits)

text \<open>A call that only sends requests for one method, path and body, within the retry budget.\<close>

definition sends_only :: "transport \<Rightarrow> string \<Rightarrow> string \<Rightarrow> json option \<Rightarrow> trace \<Rightarrow> trace \<Rightarrow> bool" where
  "sends_only tr m path body t t' \<longleftrightarrow> (\<exists>ext. t' = t @ ext
     \<and> length (requests ext) \<le> Suc (retry_budget (tr_retryConfig tr))
     \<and> list_all (same_request m (tr_baseURL tr @ path) body) (requests ext))"

lemma sends_only_do [simp]:
  "sends_only tr m path (Option.bind body (\<lambda>b. b)) t (snd (transport_do env tr m path body res t))"
  unfolding sends_only_def by (rule transport_do_requests)

lemma sends_only_calls [simp]:
  "sends_only tr ''GET'' path None t (snd (transport_get env tr path res t))"
  "sends_only tr ''DELETE'' path None t (snd (transport_delete env tr path res t))"
  "sends_only tr ''POST'' path b t (snd (transport_post env tr path (Some b) res t))"
  "sends_only tr ''POST'' path None t (snd (transport_post env tr path None res t))"
  using sends_only_do [where body = None] sends_only_do [where body = "Some b"]
  by (simp_all add: transport_get_def transport_delete_def transport_post_def)

definition queue_ok :: "string \<Rightarrow> bool" where
  "queue_ok q \<longleftrightarrow> q = [] \<or> length q \<le> 128 \<and> queue_name_ok q"

definition type_ok :: "string \<Rightarrow> bool" where
  "type_ok t \<longleftrightarrow> length t \<le> 255 \<and> type_name_ok t"

lemma validateQueue_iff: "validateQueue q = None \<longleftrightarrow> queue_ok q"
  by (simp add: validateQueue_def queuePattern_lang maxQueueLength_def queue_ok_def not_less)

lemma validateEnqueueParams_iff: "validateEnqueueParams t (Some a) = None \<longleftrightarrow> type_ok t"
proof -
  have "\<not> type_name_ok []" by (simp add: type_name_ok_def seg_ok_def)
  then show ?thesis
    by (auto simp: validateEnqueueParams_def typePattern_lang maxTypeLength_def type_ok_def not_less)
qed

text \<open>
  C7: \<open>Enqueue\<close> with a valid type and queue sends only POSTs of the job's wire form to \<open>/jobs\<close>, at
  most the retry budget plus one; with an invalid one it fails and nothing is sent.
\<close>

theorem enqueue_sends:
  "let cfg = resolveEnqueueConfig (env_now env t) opts;
       (r, t') = Enqueue env tr ty a opts t
   in if type_ok ty \<and> queue_ok (cfg_queue cfg)
      then sends_only tr ''POST'' ''/ojs/v1/jobs'' (enc_enqueue_request (env_times env)
             \<lparr>eq_Type = ty, eq_Args = argsToWire a, eq_Meta = cfg_meta cfg, eq_Schema = [],
              eq_Options = Some (buildWireOptions cfg)\<rparr>) t t'
      else t' = t \<and> (\<exists>e. r = Inl e)"
  using validateEnqueueParams_iff [of ty "argsToWire a"]
    validateQueue_iff [of "cfg_queue (resolveEnqueueConfig (env_now env t) opts)"]
  by (auto simp: Enqueue_def Let_def basePath_def split_beta split: option.splits)

text \<open>
  C39: a job id given to \<open>GetJob\<close> or \<open>CancelJob\<close> cannot change the request: the last path segment
  holds no slash, question mark or hash and unescapes to the id; an empty id sends nothing. The
  ids \<open>.\<close> and \<open>..\<close> are not escaped, so that their segment is one that \<open>net/url\<close> consumers may resolve.
\<close>

theorem job_id_stays_a_segment:
  "sends_only tr ''GET'' (''/ojs/v1/jobs/'' @ PathEscape jid) None t (snd (GetJob env tr jid t))
   \<and> sends_only tr ''DELETE'' (''/ojs/v1/jobs/'' @ PathEscape jid) None t (snd (CancelJob env tr jid t))
   \<and> CHR ''/'' \<notin> set (PathEscape jid) \<and> CHR ''?'' \<notin> set (PathEscape jid)
   \<and> CHR ''#'' \<notin> set (PathEscape jid) \<and> unescape (PathEscape jid) = jid
   \<and> snd (GetJob env tr [] t) = t \<and> snd (CancelJob env tr [] t) = t"
proof -
  have none: "sends_only tr m path b t t" for m path b
    unfolding sends_only_def by (intro exI [of _ "[]"]) simp
  show ?thesis
    using sends_only_calls(1) [of tr "''/ojs/v1/jobs/'' @ PathEscape jid"]
      sends_only_calls(2) [of tr "''/ojs/v1/jobs/'' @ PathEscape jid"]
    by (simp add: GetJob_def CancelJob_def basePath_def none PathEscape_no_delimiters
        unescape_PathEscape)
qed

subsection \<open>Batches\<close>

definition job_request_error :: "time \<Rightarrow> job_request \<Rightarrow> go_error option" where
  "job_request_error now r = (case validateEnqueueParams (jr_Type r) (Some (argsToWire (jr_Args r))) of
     Some e \<Rightarrow> Some e
   | None \<Rightarrow> validateQueue (cfg_queue (resolveEnqueueConfig now (jr_Options r))))"

lemma wire_job_error:
  "job_request_error now r = Some e \<Longrightarrow>
   wire_job now i r = Inl (Wrapf (''job['' @ show_nat i @ '']: '') e)"
  by (auto simp: job_request_error_def wire_job_def Let_def split: option.splits)

lemma wire_job_ok: "job_request_error now r = None \<Longrightarrow> \<exists>w. wire_job now i r = Inr w"
  by (auto simp: job_request_error_def wire_job_def Let_def split: option.splits)

lemma wire_jobs_first_error:
  "\<forall>j < i. job_request_error now (rs ! j) = None \<Longrightarrow> i < length rs \<Longrightarrow>
   job_request_error now (rs ! i) = Some e \<Longrightarrow>
   wire_jobs now n rs = Inl (Wrapf (''job['' @ show_nat (n + i) @ '']: '') e)"
proof (induction rs arbitrary: i n)
  case (Cons r rs)
  show ?case
  proof (cases i)
    case 0
    with Cons.prems show ?thesis by (simp add: wire_job_error)
  next
    case (Suc k)
    with Cons.prems(1) have "job_request_error now r = None" by (metis nth_Cons_0 zero_less_Suc)
    then obtain w where "wire_job now n r = Inr w" using wire_job_ok by blast
    moreover have "wire_jobs now (n + 1) rs = Inl (Wrapf (''job['' @ show_nat (n + 1 + k) @ '']: '') e)"
      using Cons.prems Suc by (intro Cons.IH) auto
    ultimately show ?thesis using Suc by simp
  qed
qed simp

text \<open>
  C36: a batch is refused as a whole: when request \<open>i\<close> is the first that does not validate, the
  call returns that request's error under its index, and nothing is sent.
\<close>

theorem batch_rejects_first_invalid:
  assumes "i < length reqs" "\<forall>j < i. job_request_error (env_now env t) (reqs ! j) = None"
    and "job_request_error (env_now env t) (reqs ! i) = Some e"
  shows "EnqueueBatch env tr reqs t =
    (([], Some (Wrapf (''job['' @ show_nat i @ '']: '') e)), t)"
  using wire_jobs_first_error [OF assms(2,1,3), of 0] by (simp add: EnqueueBatch_def)

theorem batch_rejects_first_invalid_witness:
  "EnqueueBatch (plain_env (status_server (\<lambda>_. 200)) (\<lambda>_. None))
     (newTransport ''http://h'' zero_client_config)
     [\<lparr>jr_Type = ''a.b'', jr_Args = fmempty, jr_Options = []\<rparr>,
      \<lparr>jr_Type = [], jr_Args = fmempty, jr_Options = []\<rparr>] [] =
   (([], Some (Wrapf ''job[1]: '' (PlainErr ''ojs: job type is required''))), [])"
proof -
  let ?rs = "[\<lparr>jr_Type = ''a.b'', jr_Args = fmempty, jr_Options = []\<rparr>,
      \<lparr>jr_Type = [], jr_Args = fmempty, jr_Options = []\<rparr>]"
  have "validateEnqueueParams ''a.b'' (Some (argsToWire fmempty)) = None"
    unfolding validateEnqueueParams_iff
    by (simp add: type_ok_def type_name_ok_def seg_ok_def lower_letters_def word_chars_def)
  then have "job_request_error 0 (?rs ! 0) = None"
    by (simp add: job_request_error_def validateQueue_iff queue_ok_def queue_name_ok_def
        resolveEnqueueConfig_def default_enqueue_config_def is_alnum_def lower_alnum_def
        lower_letters_def digits_def)
  moreover have "job_request_error 0 (?rs ! 1) = Some (PlainErr ''ojs: job type is required'')"
    by (simp add: job_request_error_def validateEnqueueParams_def)
  moreover have "show_nat 1 = ''1''" by (simp add: show_nat.simps digit_char_def)
  ultimately show ?thesis
    by (subst batch_rejects_first_invalid [of 1]) (simp_all add: plain_env_def)
qed

lemma enc_array_Some: "(\<And>x. x \<in> set xs \<Longrightarrow> e x \<noteq> None) \<Longrightarrow> \<exists>j. enc_array e xs = Some j"
proof -
  assume "\<And>x. x \<in> set xs \<Longrightarrow> e x \<noteq> None"
  then have "those (map e xs) = Some (map (\<lambda>x. the (e x)) xs)"
    by (intro those_map_Some) auto
  then show ?thesis by (simp add: enc_array_def)
qed

text \<open>
  A partial failure is what the response says about itself: \<open>EnqueueBatch\<close> reports one exactly
  when the response's count is positive and differs from the number of jobs it carries. How
  many jobs were submitted plays no part.
\<close>

theorem batch_partial_error_condition:
  assumes "calm env" "answers env status body headers"
    and "\<not> shouldRetry (tr_retryConfig tr) (status 0) 0" "status 0 < 400"
    and "body 0 \<noteq> []" "Option.bind (env_parse_json env (body 0)) (dec_batch_response (env_times env))
           = Some (jobs, count)"
    and "wire_jobs (env_now env []) 0 reqs = Inr ws"
    and "enc_array (enc_enqueue_request (env_times env)) ws = Some js"
  shows "fst (EnqueueBatch env tr reqs []) =
    (jobs, if 0 < count \<and> count \<noteq> int (length jobs)
           then Some (BatchPartialErr (int (length reqs)) (int (length jobs)) jobs) else None)"
proof -
  obtain b where b: "struct_json [(''jobs'', Some (Some js))] = Some b"
    by (simp add: struct_json_def)
  have "fst (transport_post env tr (basePath @ ''/jobs/batch'') (Some (Some b))
      (Into ([], 0) (dec_batch_response (env_times env))) []) = Inr (jobs, count)"
    unfolding transport_post_def
    using assms(3-6) by (subst transport_do_answers [OF assms(1,2), where k = 0 and n = 0, THEN conjunct1])
      (simp_all add: finish_response_def)
  with assms(7,8) b show ?thesis
    by (auto simp: EnqueueBatch_def Let_def split_beta)
qed

theorem batch_partial_error_condition_witness:
  "fst (EnqueueBatch
      (plain_env (\<lambda>t r. Inr \<lparr>rs_status = 201, rs_headers = [], rs_body = Inr ''x''\<rparr>)
        (\<lambda>s. Some (JObj (fmap_of_list [(''jobs'', JArr [JObj fmempty]), (''count'', JNum 1)]))))
      (newTransport ''http://h'' zero_client_config)
      [\<lparr>jr_Type = ''a'', jr_Args = fmempty, jr_Options = []\<rparr>,
       \<lparr>jr_Type = ''b'', jr_Args = fmempty, jr_Options = []\<rparr>] []) = ([zero_job], None)"
proof -
  let ?pj = "\<lambda>s :: string. Some (JObj (fmap_of_list [(''jobs'', JArr [JObj fmempty]), (''count'', JNum 1)]))"
  let ?env = "plain_env (\<lambda>t r. Inr \<lparr>rs_status = 201, rs_headers = [], rs_body = Inr ''x''\<rparr>) ?pj"
  let ?rs = "[\<lparr>jr_Type = ''a'', jr_Args = fmempty, jr_Options = []\<rparr>,
       \<lparr>jr_Type = ''b'', jr_Args = fmempty, jr_Options = []\<rparr>]"
  have rc: "tr_retryConfig (newTransport ''http://h'' zero_client_config) = DefaultRetryConfig"
    by (simp add: newTransport_def zero_client_config_def)
  have v: "validateEnqueueParams ''a'' (Some (argsToWire fmempty)) = None"
    "validateEnqueueParams ''b'' (Some (argsToWire fmempty)) = None"
    unfolding validateEnqueueParams_iff
    by (simp_all add: type_ok_def type_name_ok_def seg_ok_def lower_letters_def word_chars_def)
  have q: "validateQueue ''default'' = None"
    by (simp add: validateQueue_iff queue_ok_def queue_name_ok_def is_alnum_def lower_alnum_def
        lower_letters_def digits_def)
  have cfg: "resolveEnqueueConfig 0 [] = default_enqueue_config"
    by (simp add: resolveEnqueueConfig_def)
  obtain ws where ws: "wire_jobs (env_now ?env []) 0 ?rs = Inr ws"
    and w: "\<forall>w \<in> set ws. eq_Args w = [] \<and> eq_Meta w = fmempty \<and> eq_Schema w = []
      \<and> eq_Options w = Some (buildWireOptions default_enqueue_config)"
    using v q
    by (auto simp: wire_job_def Let_def plain_env_def cfg default_enqueue_config_def argsToWire_def)
  have "enc_enqueue_request (env_times ?env) w \<noteq> None" if "w \<in> set ws" for w
    using bspec [OF \<open>\<forall>w \<in> set ws. _ w\<close> that]
    by (auto simp: enc_enqueue_request_def struct_json_def enc_string_def enc_json_def marshal_def
        omit_map_def omit_string_def enc_wire_options_def buildWireOptions_def omit_int_def
        omit_strings_def default_enqueue_config_def)
  then obtain js where js: "enc_array (enc_enqueue_request (env_times ?env)) ws = Some js"
    using enc_array_Some [of ws] by blast
  have dec: "Option.bind (env_parse_json ?env ''x'') (dec_batch_response (env_times ?env)) = Some ([zero_job], 1)"
    by (simp add: plain_env_def dec_batch_response_def fmlookup_of_list Job_UnmarshalJSON_def
        zero_job_def in_int64_def)
  have ans: "answers ?env (\<lambda>_. 201) (\<lambda>_. ''x'') (\<lambda>_. [])"
    by (simp add: answers_def plain_env_def maxResponseBodyLen_def)
  show ?thesis
    using batch_partial_error_condition [OF _ ans _ _ _ dec ws js,
        of "newTransport ''http://h'' zero_client_config"]
    by (simp add: rc shouldRetry_def DefaultRetryConfig_def)
qed

end
