(* ===== verification/Federation_Routing.thy ===== *)
theory Federation_Routing
  imports Client "HOL-Library.Multiset"
begin

text \<open>
  The routing of the package \<open>federation\<close> (\<open>federation/types.go\<close>, \<open>federation/router.go\<close>): the
  state of a region, and the seven strategies that choose one. A map of regions is a \<open>gomap\<close>,
  whose list order is the order in which \<open>range\<close> visits it, so a theorem for all lists holds for
  every iteration order. The interface \<open>RoutingStrategy\<close> is the locale \<open>routing_strategy\<close>, and
  \<open>total_strategy\<close> for the strategies that never fail; both are interpreted on the routers.
  The draw of \<open>rand.Intn\<close> and the geographic hint of the context are arguments.
\<close>

subsection \<open>Regions\<close>

text \<open>
  The errors of the package: its sentinels, \<open>fmt.Errorf("%w: %s", e, s)\<close> as \<open>WrappedFor e s\<close>, the panic of
  \<open>rand.Intn\<close>, and errors of the region's client. \<open>fed_Is\<close> is \<open>errors.Is\<close> for the sentinels.
\<close>

datatype fed_error =
    ErrNoRegions
  | ErrNoHealthyRegions
  | ErrRegionNotFound
  | ErrRegionUnavailable
  | ErrLocalRegionUnset
  | WrappedFor fed_error string
  | GeoPinNeedsRegion
  | JobNotInAnyRegion string
  | IntnPanic
  | ClientErr go_error

fun fed_Is :: "fed_error \<Rightarrow> fed_error \<Rightarrow> bool" where
  "fed_Is (WrappedFor e s) target = fed_Is e target"
| "fed_Is e target = (e = target)"

definition StrategyAffinity :: string where "StrategyAffinity = ''affinity''"
definition StrategyOverflow :: string where "StrategyOverflow = ''overflow''"
definition StrategyGeoPin :: string where "StrategyGeoPin = ''geo-pin''"
definition StrategyRoundRobin :: string where "StrategyRoundRobin = ''round-robin''"
definition StrategyLatencyBased :: string where "StrategyLatencyBased = ''latency-based''"
definition StrategyActivePassive :: string where "StrategyActivePassive = ''active-passive''"
definition StrategyGeographic :: string where "StrategyGeographic = ''geographic''"

record region_config =
  rc_ID :: string
  rc_URL :: string
  rc_Priority :: int
  rc_Weight :: int
  rc_Tags :: "string list"

datatype circuit = circuitClosed | circuitOpen | circuitHalfOpen

record region_state =
  rs_config :: region_config
  rs_client :: transport
  rs_healthy :: bool
  rs_latency :: int
  rs_cbState :: circuit
  rs_failures :: "32 word"
  rs_lastFailure :: time

type_synonym regions = "region_state gomap"

subsection \<open>Helpers\<close>

fun lowest_from :: "string \<Rightarrow> int \<Rightarrow> regions \<Rightarrow> string" where
  "lowest_from bestID bestLatency [] = bestID"
| "lowest_from bestID bestLatency ((i, rs) # regions) =
     (if rs_latency rs < bestLatency then lowest_from i (rs_latency rs) regions
      else lowest_from bestID bestLatency regions)"

definition lowestLatencyRegion :: "regions \<Rightarrow> fed_error + string" where
  "lowestLatencyRegion regions =
     (if regions = [] then Inl ErrNoHealthyRegions
      else let bestID = lowest_from [] (2 ^ 63 - 1) regions
           in if bestID = [] then Inl ErrNoHealthyRegions else Inr bestID)"

definition sortedRegionIDs :: "regions \<Rightarrow> string list" where
  "sortedRegionIDs regions = sort (gomap_keys regions)"

subsection \<open>Strategies\<close>

definition Affinity_Select :: "regions \<Rightarrow> string \<Rightarrow> fed_error + string" where
  "Affinity_Select regions localRegion =
     (if regions = [] then Inl ErrNoHealthyRegions
      else if localRegion \<noteq> [] \<and> map_of regions localRegion \<noteq> None then Inr localRegion
      else lowestLatencyRegion regions)"

definition total_weight :: "regions \<Rightarrow> int" where
  "total_weight regions =
     foldl (\<lambda>totalWeight (_, rs). wrap64 (totalWeight + rc_Weight (rs_config rs))) 0 regions"

fun pick_weighted :: "int \<Rightarrow> regions \<Rightarrow> string option" where
  "pick_weighted pick [] = None"
| "pick_weighted pick ((i, rs) # regions) =
     (let pick' = wrap64 (pick - rc_Weight (rs_config rs))
      in if pick' < 0 then Some i else pick_weighted pick' regions)"

text \<open>\<open>rand.Intn\<close> panics for a bound that is not positive.\<close>

definition Overflow_Select :: "(int \<Rightarrow> int) \<Rightarrow> regions \<Rightarrow> fed_error + string" where
  "Overflow_Select intn regions =
     (if regions = [] then Inl ErrNoHealthyRegions
      else let totalWeight = total_weight regions in
        if totalWeight = 0 then Inl ErrNoHealthyRegions
        else if totalWeight < 0 then Inl IntnPanic
        else case pick_weighted (intn totalWeight) regions of
          Some i \<Rightarrow> Inr i
        | None \<Rightarrow> Inr (fst (hd regions)))"

definition GeoPin_Select :: "string \<Rightarrow> regions \<Rightarrow> fed_error + string" where
  "GeoPin_Select region regions =
     (if region = [] then Inl GeoPinNeedsRegion
      else if map_of regions region = None then Inl (WrappedFor ErrRegionUnavailable region)
      else Inr region)"

text \<open>\<open>errors.Is\<close> finds the sentinel in the answer of a geo-pin router whose region is not offered.\<close>

lemma geo_pin_unavailable:
  "region \<noteq> [] \<Longrightarrow> map_of regions region = None \<Longrightarrow>
   \<exists>e. GeoPin_Select region regions = Inl e \<and> fed_Is e ErrRegionUnavailable"
  by (simp add: GeoPin_Select_def)

definition RoundRobin_Select :: "64 word \<Rightarrow> regions \<Rightarrow> (fed_error + string) \<times> 64 word" where
  "RoundRobin_Select counter regions =
     (if regions = [] then (Inl ErrNoHealthyRegions, counter)
      else let ids = sortedRegionIDs regions; counter' = counter + 1; idx = counter' - 1
           in (Inr (ids ! unat (idx mod of_nat (length ids))), counter'))"

definition LatencyBased_Select :: "regions \<Rightarrow> fed_error + string" where
  "LatencyBased_Select regions = lowestLatencyRegion regions"

definition ActivePassive_Select :: "string \<Rightarrow> string list \<Rightarrow> regions \<Rightarrow> fed_error + string" where
  "ActivePassive_Select primary secondaries regions =
     (if regions = [] then Inl ErrNoHealthyRegions
      else if primary \<noteq> [] \<and> map_of regions primary \<noteq> None then Inr primary
      else case find (\<lambda>i. map_of regions i \<noteq> None) secondaries of
        Some i \<Rightarrow> Inr i
      | None \<Rightarrow> Inr (hd (sortedRegionIDs regions)))"

text \<open>\<open>hint\<close> is what \<open>WithGeoHint\<close> put into the context, the empty string when nothing did.\<close>

definition Geographic_Select ::
  "(string, string) fmap \<Rightarrow> string \<Rightarrow> string \<Rightarrow> regions \<Rightarrow> fed_error + string" where
  "Geographic_Select mapping defaultRegion hint regions =
     (if regions = [] then Inl ErrNoHealthyRegions
      else case (if hint = [] then None else
               case fmlookup mapping hint of
                 Some regionID \<Rightarrow> (if map_of regions regionID \<noteq> None then Some regionID else None)
               | None \<Rightarrow> None) of
        Some i \<Rightarrow> Inr i
      | None \<Rightarrow>
          (if defaultRegion \<noteq> [] \<and> map_of regions defaultRegion \<noteq> None then Inr defaultRegion
           else Inr (hd (sortedRegionIDs regions))))"

text \<open>A strategy value: one of the package's routers with its fields, or the caller's own.\<close>

datatype strategy =
    AffinityRouter
  | OverflowRouter
  | GeoPinRouter string
  | RoundRobinRouter "64 word"
  | LatencyBasedRouter
  | ActivePassiveRouter string "string list"
  | GeographicRouter "(string, string) fmap" string
  | CustomRouter "regions \<Rightarrow> string \<Rightarrow> fed_error + string"

fun strategyName :: "strategy \<Rightarrow> string" where
  "strategyName AffinityRouter = StrategyAffinity"
| "strategyName OverflowRouter = StrategyOverflow"
| "strategyName (GeoPinRouter _) = StrategyGeoPin"
| "strategyName (RoundRobinRouter _) = StrategyRoundRobin"
| "strategyName LatencyBasedRouter = StrategyLatencyBased"
| "strategyName (ActivePassiveRouter _ _) = StrategyActivePassive"
| "strategyName (GeographicRouter _ _) = StrategyGeographic"
| "strategyName (CustomRouter _) = ''custom''"

fun Select :: "(int \<Rightarrow> int) \<Rightarrow> string \<Rightarrow> strategy \<Rightarrow> regions \<Rightarrow> string \<Rightarrow> (fed_error + string) \<times> strategy" where
  "Select intn hint AffinityRouter regions loc = (Affinity_Select regions loc, AffinityRouter)"
| "Select intn hint OverflowRouter regions loc = (Overflow_Select intn regions, OverflowRouter)"
| "Select intn hint (GeoPinRouter r) regions loc = (GeoPin_Select r regions, GeoPinRouter r)"
| "Select intn hint (RoundRobinRouter c) regions loc =
     (case RoundRobin_Select c regions of (r, c') \<Rightarrow> (r, RoundRobinRouter c'))"
| "Select intn hint LatencyBasedRouter regions loc = (LatencyBased_Select regions, LatencyBasedRouter)"
| "Select intn hint (ActivePassiveRouter p ss) regions loc =
     (ActivePassive_Select p ss regions, ActivePassiveRouter p ss)"
| "Select intn hint (GeographicRouter m d) regions loc =
     (Geographic_Select m d hint regions, GeographicRouter m d)"
| "Select intn hint (CustomRouter f) regions loc = (f regions loc, CustomRouter f)"

subsection \<open>The interface of a strategy\<close>

text \<open>What the federated client relies on: the choice is one of the regions it was given.\<close>

locale routing_strategy =
  fixes sel :: "regions \<Rightarrow> string \<Rightarrow> fed_error + string"
  assumes member: "sel regions loc = Inr i \<Longrightarrow> i \<in> fst ` set regions"
    and none: "\<exists>e. sel [] loc = Inl e"
begin

lemma chosen_state: "sel regions loc = Inr i \<Longrightarrow> \<exists>rs. map_of regions i = Some rs"
  using member map_of_keys_iff [of regions i] by fastforce

lemma chosen_from_filtered:
  assumes "sel (filter (\<lambda>(_, rs). P rs) regions) loc = Inr i" "gomap_ok regions"
  shows "\<exists>rs. map_of regions i = Some rs \<and> P rs"
proof -
  from member [OF assms(1)] obtain rs where "(i, rs) \<in> set regions" "P rs" by auto
  then show ?thesis using gomap_ok_map_of_iff [OF assms(2)] by auto
qed

end

locale total_strategy = routing_strategy +
  assumes some: "regions \<noteq> [] \<Longrightarrow> \<exists>i. sel regions loc = Inr i"
begin

lemma fails_only_on_none: "(\<exists>e. sel regions loc = Inl e) \<longleftrightarrow> regions = []"
  using some [of regions loc] none [of loc] by (cases "regions = []") auto

end

subsection \<open>The routers meet it\<close>

lemma lowest_from_member:
  "lowest_from b l regions = b \<or> lowest_from b l regions \<in> fst ` set regions"
  by (induction b l regions rule: lowest_from.induct) auto

lemma lowest_latency_member [intro]: "lowestLatencyRegion regions = Inr i \<Longrightarrow> i \<in> fst ` set regions"
  using lowest_from_member [of "[]" "2 ^ 63 - 1" regions]
  by (auto simp: lowestLatencyRegion_def Let_def split: if_splits)

lemma pick_weighted_member: "pick_weighted p regions = Some i \<Longrightarrow> i \<in> fst ` set regions"
  by (induction p regions rule: pick_weighted.induct) (auto simp: Let_def split: if_splits)

lemma sorted_ids_set [simp]: "set (sortedRegionIDs regions) = fst ` set regions"
  by (simp add: sortedRegionIDs_def)

lemma sorted_ids_length [simp]: "length (sortedRegionIDs regions) = length regions"
  by (simp add: sortedRegionIDs_def)

lemma hd_sorted_ids [intro]: "regions \<noteq> [] \<Longrightarrow> hd (sortedRegionIDs regions) \<in> fst ` set regions"
  by (metis hd_in_set length_0_conv sorted_ids_length sorted_ids_set)

lemma find_region [intro]:
  "find (\<lambda>i. \<exists>y. map_of regions i = Some y) xs = Some i \<Longrightarrow> i \<in> fst ` set regions"
  by (force simp: find_Some_iff dest: map_of_SomeD)

lemma known_region [intro]: "map_of regions i = Some rs \<Longrightarrow> i \<in> fst ` set regions"
  by (force dest: map_of_SomeD)

lemma round_robin_index:
  "n < 2 ^ 64 \<Longrightarrow> unat ((c :: 64 word) mod of_nat n) = unat c mod n"
  by (simp add: unat_mod unat_of_nat)

lemma round_robin_member:
  assumes "regions \<noteq> []"
  shows "sortedRegionIDs regions ! unat ((c :: 64 word) mod of_nat (length regions)) \<in> fst ` set regions"
proof -
  have "unat (c mod of_nat (length regions)) < length regions"
  proof (cases "(of_nat (length regions) :: 64 word) = 0")
    case True
    then have "2 ^ 64 dvd length regions" by (simp add: word_of_nat_eq_0_iff)
    with assms have "2 ^ 64 \<le> length regions" by (intro dvd_imp_le) auto
    moreover have "unat (c mod of_nat (length regions)) < 2 ^ 64"
      using unsigned_less [of "c mod of_nat (length regions)"] by simp
    ultimately show ?thesis by simp
  next
    case False
    then have "unat (c mod of_nat (length regions)) < unat (of_nat (length regions) :: 64 word)"
      by (simp add: unat_mod unat_gt_0)
    also have "\<dots> \<le> length regions" by (simp add: unat_of_nat)
    finally show ?thesis .
  qed
  then show ?thesis by (metis nth_mem sorted_ids_length sorted_ids_set)
qed

interpretation affinity: routing_strategy Affinity_Select
  by unfold_locales (auto simp: Affinity_Select_def split: if_splits)

interpretation overflow: routing_strategy "\<lambda>regions _. Overflow_Select intn regions" for intn
  by unfold_locales (auto simp: Overflow_Select_def Let_def intro: pick_weighted_member
      split: if_splits option.splits)

interpretation geo_pin: routing_strategy "\<lambda>regions _. GeoPin_Select region regions" for region
  by unfold_locales (auto simp: GeoPin_Select_def split: if_splits)

interpretation latency: routing_strategy "\<lambda>regions _. LatencyBased_Select regions"
  by unfold_locales (auto simp: LatencyBased_Select_def lowestLatencyRegion_def [of "[]"])

interpretation round_robin: total_strategy "\<lambda>regions _. fst (RoundRobin_Select c regions)" for c
  by unfold_locales (use round_robin_member in
      \<open>auto simp: RoundRobin_Select_def Let_def simp del: sorted_ids_set split: if_splits\<close>)

interpretation active_passive: total_strategy "\<lambda>regions _. ActivePassive_Select p ss regions" for p ss
  by unfold_locales (auto simp: ActivePassive_Select_def split: if_splits option.splits)

interpretation geographic: total_strategy "\<lambda>regions _. Geographic_Select m d hint regions" for m d hint
  by unfold_locales (auto simp: Geographic_Select_def split: if_splits option.splits)

text \<open>The built-in routers, as the federated client calls them.\<close>

fun built_in :: "strategy \<Rightarrow> bool" where
  "built_in (CustomRouter _) = False"
| "built_in _ = True"

lemma select_built_in:
  "built_in s \<Longrightarrow> routing_strategy (\<lambda>regions loc. fst (Select intn hint s regions loc))"
  by (cases s) (simp_all add: split_beta affinity.routing_strategy_axioms overflow.routing_strategy_axioms
      geo_pin.routing_strategy_axioms latency.routing_strategy_axioms round_robin.routing_strategy_axioms
      active_passive.routing_strategy_axioms geographic.routing_strategy_axioms)

subsection \<open>Latency\<close>

abbreviation least_latency :: "regions \<Rightarrow> string \<Rightarrow> int \<Rightarrow> bool" where
  "least_latency regions i l \<equiv> \<exists>rs. map_of regions i = Some rs \<and> rs_latency rs < l
     \<and> (\<forall>(j, r) \<in> set regions. rs_latency rs \<le> rs_latency r)"

lemma lowest_from_least:
  "gomap_ok regions \<Longrightarrow> b \<notin> fst ` set regions \<Longrightarrow>
   lowest_from b l regions = b \<and> (\<forall>(j, r) \<in> set regions. l \<le> rs_latency r)
   \<or> lowest_from b l regions \<noteq> b \<and> least_latency regions (lowest_from b l regions) l"
proof (induction b l regions rule: lowest_from.induct)
  case (2 b l i rs regions)
  let ?f = "lowest_from i (rs_latency rs) regions"
  have fresh: "i \<notin> fst ` set regions" "b \<noteq> i" "b \<notin> fst ` set regions" "gomap_ok regions"
    using "2.prems" by auto
  show ?case
  proof (cases "rs_latency rs < l")
    case True
    from "2.IH"(1) [OF True fresh(4,1)] show ?thesis
    proof (elim disjE conjE)
      assume "?f = i" "\<forall>(j, r) \<in> set regions. rs_latency rs \<le> rs_latency r"
      with True fresh(2) show ?thesis by auto
    next
      assume f: "?f \<noteq> i" "least_latency regions ?f (rs_latency rs)"
      then obtain r where r: "map_of regions ?f = Some r" "rs_latency r < rs_latency rs"
          "\<forall>(j, q) \<in> set regions. rs_latency r \<le> rs_latency q" by blast
      from r(1) have "?f \<in> fst ` set regions" by (rule known_region)
      with fresh(3) have "?f \<noteq> b" by blast
      with True f(1) r show ?thesis by auto
    qed
  next
    case False
    have "map_of ((i, rs) # regions) k = map_of regions k" if "map_of regions k = Some r" for k r
      using known_region [OF that] fresh(1) by auto
    with "2.IH"(2) [OF False fresh(4,3)] False show ?thesis by force
  qed
qed simp

lemma lowest_latency_least:
  assumes "lowestLatencyRegion regions = Inr i" "gomap_ok regions" "[] \<notin> fst ` set regions"
  shows "\<exists>rs. map_of regions i = Some rs \<and> (\<forall>(j, r) \<in> set regions. rs_latency rs \<le> rs_latency r)"
  using assms lowest_from_least [of regions "[]" "2 ^ 63 - 1"]
  by (auto simp: lowestLatencyRegion_def Let_def split: if_splits)

text \<open>Where a latency is below the largest \<open>int64\<close>, the choice does not fail.\<close>

lemma lowest_latency_some:
  assumes "(j, r) \<in> set regions" "rs_latency r < 2 ^ 63 - 1" "gomap_ok regions" "[] \<notin> fst ` set regions"
  shows "\<exists>i. lowestLatencyRegion regions = Inr i"
  using assms lowest_from_least [of regions "[]" "2 ^ 63 - 1"]
  by (force simp: lowestLatencyRegion_def Let_def split: if_splits)

subsection \<open>Weights\<close>

abbreviation weight_of :: "region_state \<Rightarrow> int" where
  "weight_of rs \<equiv> rc_Weight (rs_config rs)"

abbreviation weights :: "regions \<Rightarrow> int list" where
  "weights regions \<equiv> map (\<lambda>q. weight_of (snd q)) regions"

lemma weights_nonneg: "\<forall>x \<in> set (weights regions). 0 < x \<Longrightarrow> 0 \<le> sum_list (weights regions)"
  by (intro sum_list_nonneg) (auto simp: less_imp_le)

lemma total_weight_sum:
  assumes "\<forall>x \<in> set (weights regions). 0 < x" "sum_list (weights regions) < 2 ^ 63"
  shows "total_weight regions = sum_list (weights regions)"
proof -
  have "foldl (\<lambda>w (_, rs). wrap64 (w + weight_of rs)) a rs = a + sum_list (weights rs)"
    if "0 \<le> a" "\<forall>x \<in> set (weights rs). 0 < x" "a + sum_list (weights rs) < 2 ^ 63" for a and rs :: regions
    using that
  proof (induction rs arbitrary: a)
    case (Cons p rs)
    have "0 \<le> sum_list (weights rs)" "0 < weight_of (snd p)"
      using Cons.prems(2) weights_nonneg [of rs] by (auto simp: split_beta)
    moreover from this have "in_int64 (a + weight_of (snd p))"
      using Cons.prems by (simp add: split_beta in_int64_def)
    ultimately show ?case using Cons by (simp add: split_beta)
  qed simp
  from this [of 0 regions] assms show ?thesis by (simp add: total_weight_def)
qed

text \<open>The values of the draw that lead to a region are as many as its weight.\<close>

abbreviation draws_for :: "string \<Rightarrow> regions \<Rightarrow> int set" where
  "draws_for i regions \<equiv> {p. 0 \<le> p \<and> p < sum_list (weights regions) \<and> pick_weighted p regions = Some i}"

lemma pick_weighted_step:
  "0 < weight_of r \<Longrightarrow> 0 \<le> p \<Longrightarrow> p < 2 ^ 63 \<Longrightarrow> weight_of r < 2 ^ 63 \<Longrightarrow>
   pick_weighted p ((j, r) # R) = (if p < weight_of r then Some j else pick_weighted (p - weight_of r) R)"
  by (simp add: in_int64_def)

lemma image_shift: "(\<lambda>p. p + w) ` B = {p :: int. p - w \<in> B}"
  by (auto simp: image_iff intro!: bexI [of _ "_ - w"])

lemma draws_for_Cons:
  assumes "0 < weight_of r" "\<forall>x \<in> set (weights R). 0 < x" "weight_of r + sum_list (weights R) < 2 ^ 63"
    and "j \<notin> fst ` set R"
  shows "draws_for i ((j, r) # R) =
    (if i = j then {0 ..< weight_of r} else (\<lambda>p. p + weight_of r) ` draws_for i R)"
proof -
  let ?w = "weight_of r" and ?S = "sum_list (weights R)"
  have S: "0 \<le> ?S" using weights_nonneg [OF assms(2)] .
  have pick: "pick_weighted p ((j, r) # R) = (if p < ?w then Some j else pick_weighted (p - ?w) R)"
    if "0 \<le> p" "p < ?w + ?S" for p
    using that assms(1,3) S by (intro pick_weighted_step) auto
  have mem: "p \<in> draws_for i ((j, r) # R) \<longleftrightarrow> 0 \<le> p \<and> p < ?w + ?S
      \<and> (if p < ?w then i = j else pick_weighted (p - ?w) R = Some i)" for p
    using pick [of p] by (auto simp del: pick_weighted.simps)
  show ?thesis
  proof (cases "i = j")
    case True
    have "pick_weighted p R \<noteq> Some j" for p using assms(4) pick_weighted_member by blast
    then have "p \<in> draws_for i ((j, r) # R) \<longleftrightarrow> p \<in> {0 ..< ?w}" for p
      unfolding mem using True S by auto
    then have "draws_for i ((j, r) # R) = {0 ..< ?w}" by (rule set_eqI)
    then show ?thesis using True by (simp only: refl if_True)
  next
    case False
    then have "p \<in> draws_for i ((j, r) # R) \<longleftrightarrow> p - ?w \<in> draws_for i R" for p
      unfolding mem mem_Collect_eq using assms(1) by (cases "p < ?w") (simp_all, linarith)
    then have shift: "\<And>p. p \<in> draws_for i ((j, r) # R) \<longleftrightarrow> p - ?w \<in> draws_for i R" .
    have "draws_for i ((j, r) # R) = (\<lambda>p. p + ?w) ` draws_for i R"
      unfolding image_shift by (rule set_eqI) (simp only: shift mem_Collect_eq)
    with False show ?thesis by (simp only: refl if_False)
  qed
qed

lemma pick_weighted_count:
  "gomap_ok regions \<Longrightarrow> \<forall>x \<in> set (weights regions). 0 < x \<Longrightarrow> sum_list (weights regions) < 2 ^ 63 \<Longrightarrow>
   (i, rs) \<in> set regions \<Longrightarrow> card (draws_for i regions) = nat (weight_of rs)"
proof (induction regions)
  case (Cons q R)
  obtain j r where q: "q = (j, r)" by (cases q)
  have R: "0 < weight_of r" "\<forall>x \<in> set (weights R). 0 < x" "j \<notin> fst ` set R" "gomap_ok R"
    using Cons.prems(1,2) by (auto simp: q)
  have S: "weight_of r + sum_list (weights R) < 2 ^ 63" using Cons.prems(3) by (simp add: q)
  have count: "card (draws_for i (q # R)) = (if i = j then nat (weight_of r) else card (draws_for i R))"
    unfolding q draws_for_Cons [OF R(1,2) S R(3)] by (simp add: card_image)
  show ?case
  proof (cases "i = j")
    case True
    then have "(i, rs) \<notin> set R" using R(3) by force
    then show ?thesis using Cons.prems(4) count True by (simp add: q)
  next
    case False
    then have "(i, rs) \<in> set R" using Cons.prems(4) by (simp add: q)
    then show ?thesis
      using Cons.IH [OF R(4,2)] S R(1) count False by simp
  qed
qed simp

lemma pick_weighted_total:
  "\<forall>x \<in> set (weights regions). 0 < x \<Longrightarrow> sum_list (weights regions) < 2 ^ 63 \<Longrightarrow>
   0 \<le> p \<Longrightarrow> p < sum_list (weights regions) \<Longrightarrow> \<exists>i. pick_weighted p regions = Some i"
proof (induction p regions rule: pick_weighted.induct)
  case (2 p i rs regions)
  have "0 \<le> sum_list (weights regions)" using 2 weights_nonneg [of regions] by auto
  with 2 show ?case by (auto simp: in_int64_def Let_def)
qed simp

text \<open>
  C18: weighted routing is exact: among the draws of \<open>rand.Intn\<close> over the sum of the weights, a region
  is chosen by exactly as many as its weight, whatever order \<open>range\<close> visits the regions in.
\<close>

theorem overflow_weighted:
  assumes "gomap_ok regions" "\<forall>x \<in> set (weights regions). 0 < x" "sum_list (weights regions) < 2 ^ 63"
    and "(i, rs) \<in> set regions"
  shows "card {p. 0 \<le> p \<and> p < sum_list (weights regions)
      \<and> Overflow_Select (\<lambda>_. p) regions = Inr i} = nat (weight_of rs)"
proof -
  have ne: "regions \<noteq> []" using assms(4) by auto
  then obtain q R where q: "regions = q # R" by (cases regions) auto
  have "0 < sum_list (weights regions)"
    using weights_nonneg [of R] assms(2) by (auto simp: q split_beta)
  then have sel: "Overflow_Select (\<lambda>_. p) regions = Inr i \<longleftrightarrow> pick_weighted p regions = Some i"
    if "0 \<le> p" "p < sum_list (weights regions)" for p
    using pick_weighted_total [OF assms(2,3) that] ne
    by (auto simp: Overflow_Select_def total_weight_sum [OF assms(2,3)])
  show ?thesis unfolding pick_weighted_count [OF assms, symmetric]
    by (rule arg_cong [where f = card]) (use sel in auto)
qed

subsection \<open>Round robin\<close>

lemma mset_rotate: "mset (rotate n xs) = mset xs"
proof (induction n)
  case (Suc n)
  have "mset (rotate1 ys) = mset ys" for ys :: "'a list" by (cases ys) simp_all
  with Suc show ?case by simp
qed simp

text \<open>The results of consecutive calls on the same regions.\<close>

fun round_robin_run :: "nat \<Rightarrow> 64 word \<Rightarrow> regions \<Rightarrow> (fed_error + string) list" where
  "round_robin_run 0 c regions = []"
| "round_robin_run (Suc n) c regions =
     (case RoundRobin_Select c regions of (r, c') \<Rightarrow> r # round_robin_run n c' regions)"

lemma round_robin_run_ids:
  assumes "regions \<noteq> []" "unat c + n \<le> 2 ^ 64" "length regions < 2 ^ 64"
  shows "round_robin_run n c regions =
    map (\<lambda>k. Inr (sortedRegionIDs regions ! ((unat c + k) mod length regions))) [0 ..< n]"
  using assms(2)
proof (induction n arbitrary: c)
  case (Suc n)
  have nth: "fst (RoundRobin_Select c regions)
      = Inr (sortedRegionIDs regions ! (unat c mod length regions))"
    using assms by (simp add: RoundRobin_Select_def Let_def round_robin_index)
  show ?case
  proof (cases n)
    case 0
    then show ?thesis using nth by (simp add: split_beta)
  next
    case (Suc m)
    have "unat c + 1 < 2 ^ 64" using Suc.prems Suc by simp
    then have c: "unat (c + 1) = unat c + 1"
      by (simp add: unat_word_ariths)
    have "snd (RoundRobin_Select c regions) = c + 1"
      using assms(1) by (simp add: RoundRobin_Select_def Let_def)
    then show ?thesis
      using nth Suc.IH [of "c + 1"] Suc.prems c
      by (simp add: split_beta map_upt_Suc del: upt_Suc)
  qed
qed simp

text \<open>
  C19: round robin is fair: as many consecutive calls as there are regions choose every region
  exactly once, from any position of the counter, as long as the counter does not wrap.
\<close>

theorem round_robin_fair:
  assumes "regions \<noteq> []" "length regions < 2 ^ 64" "unat c + length regions \<le> 2 ^ 64"
  shows "mset (round_robin_run (length regions) c regions) = mset (map Inr (gomap_keys regions))"
proof -
  let ?ids = "sortedRegionIDs regions"
  have "map (\<lambda>k. ?ids ! ((unat c + k) mod length regions)) [0 ..< length regions] = rotate (unat c) ?ids"
    by (intro nth_equalityI) (simp_all add: nth_rotate)
  then have "round_robin_run (length regions) c regions = map Inr (rotate (unat c) ?ids)"
    using round_robin_run_ids [OF assms(1,3,2)] by (metis (no_types, lifting) map_map comp_def map_eq_conv)
  then show ?thesis by (simp add: sortedRegionIDs_def mset_rotate multiset.map_comp)
qed

text \<open>Three regions, for concrete runs.\<close>

definition sample_region :: "string \<Rightarrow> int \<Rightarrow> int \<Rightarrow> region_state" where
  "sample_region i w l = \<lparr>rs_config = \<lparr>rc_ID = i, rc_URL = ''http://'' @ i, rc_Priority = 0,
       rc_Weight = w, rc_Tags = []\<rparr>,
     rs_client = newTransport (''http://'' @ i) zero_client_config, rs_healthy = True, rs_latency = l,
     rs_cbState = circuitClosed, rs_failures = 0, rs_lastFailure = 0\<rparr>"

definition sample_regions :: regions where
  "sample_regions = map (\<lambda>(i, w, l). (i, sample_region i w l))
     [(''us'', 3, 40), (''eu'', 2, 20), (''ap'', 1, 90)]"

lemma sample_regions_ok: "gomap_ok sample_regions"
  by (simp add: sample_regions_def)

theorem overflow_weighted_witness:
  "card {p. 0 \<le> p \<and> p < 6 \<and> Overflow_Select (\<lambda>_. p) sample_regions = Inr ''eu''} = 2"
  using overflow_weighted [OF sample_regions_ok, of "''eu''" "sample_region ''eu'' 2 20"]
  by (simp add: sample_regions_def sample_region_def)

theorem round_robin_fair_witness:
  "mset (round_robin_run 3 5 sample_regions) = {#Inr ''us'', Inr ''eu'', Inr ''ap''#}"
  using round_robin_fair [of sample_regions 5] by (simp add: sample_regions_def numeral_3_eq_3)

end
