(* ===== verification/Federation.thy ===== *)
theory Federation
  imports Federation_Routing
begin

text \<open>
  The federated client (\<open>federation/client.go\<close>): its options and construction, the health
  checks with the circuit breaker of each region, and the operations that route. All regions
  share one outside (\<open>env\<close>) and one trace: a request says by its URL which region it is sent to.
  The goroutines of \<open>checkAllRegions\<close> touch one region each, so they are run one after the
  other in the order of the map; the ticker of \<open>StartHealthChecks\<close> is a list of events. A step on one
  region, \<open>recordFailure\<close> or \<open>checkRegion\<close>, is atomic here: the code stores its fields one by one, and
  what a failed call and a health check of the same region can do between these stores is outside
  the model.
\<close>

subsection \<open>Construction\<close>

definition DefaultHealthInterval :: int where "DefaultHealthInterval = 10 * second"
definition DefaultFailureThreshold :: int where "DefaultFailureThreshold = 5"
definition DefaultCooldownPeriod :: int where "DefaultCooldownPeriod = 30 * second"
definition DefaultWeight :: int where "DefaultWeight = 1"

record federated_client =
  fc_regions :: regions
  fc_localRegion :: string
  fc_strategy :: strategy
  fc_healthInterval :: int
  fc_failureThreshold :: "32 word"
  fc_cooldownPeriod :: int
  fc_stopped :: bool

type_synonym federation_option = "federated_client \<Rightarrow> federated_client"

definition new_region :: "region_config \<Rightarrow> transport \<Rightarrow> region_state" where
  "new_region cfg client = \<lparr>rs_config = cfg, rs_client = client, rs_healthy = True, rs_latency = 0,
     rs_cbState = circuitClosed, rs_failures = 0, rs_lastFailure = 0\<rparr>"

definition default_weight :: "region_config \<Rightarrow> region_config" where
  "default_weight cfg = (if rc_Weight cfg \<le> 0 then cfg\<lparr>rc_Weight := DefaultWeight\<rparr> else cfg)"

text \<open>A region whose URL \<open>ojs.NewClient\<close> refuses is left out. \<open>parse\<close> is \<open>url.Parse\<close>.\<close>

definition WithRegion :: "(string \<Rightarrow> go_error + string \<times> string) \<Rightarrow> region_config \<Rightarrow> federation_option" where
  "WithRegion parse cfg0 fc = (let cfg = default_weight cfg0 in
     case NewClient parse (rc_URL cfg) [] of
       Inl _ \<Rightarrow> fc
     | Inr client \<Rightarrow> fc\<lparr>fc_regions := gomap_put (rc_ID cfg) (new_region cfg client) (fc_regions fc)\<rparr>)"

definition WithRegionClient :: "string \<Rightarrow> transport \<Rightarrow> region_config \<Rightarrow> federation_option" where
  "WithRegionClient i client cfg0 fc = (let cfg = (default_weight cfg0)\<lparr>rc_ID := i\<rparr> in
     fc\<lparr>fc_regions := gomap_put i (new_region cfg client) (fc_regions fc)\<rparr>)"

definition WithLocalRegion :: "string \<Rightarrow> federation_option" where
  "WithLocalRegion i fc = fc\<lparr>fc_localRegion := i\<rparr>"

definition strategy_of_name :: "string \<Rightarrow> strategy option" where
  "strategy_of_name name =
     (if name = StrategyAffinity then Some AffinityRouter
      else if name = StrategyOverflow then Some OverflowRouter
      else if name = StrategyGeoPin then Some (GeoPinRouter [])
      else if name = StrategyRoundRobin then Some (RoundRobinRouter 0)
      else if name = StrategyLatencyBased then Some LatencyBasedRouter
      else if name = StrategyActivePassive then Some (ActivePassiveRouter [] [])
      else if name = StrategyGeographic then Some (GeographicRouter fmempty [])
      else None)"

definition WithStrategy :: "string \<Rightarrow> federation_option" where
  "WithStrategy name fc = (case strategy_of_name name of
     Some s \<Rightarrow> fc\<lparr>fc_strategy := s\<rparr> | None \<Rightarrow> fc)"

definition WithCustomStrategy :: "strategy \<Rightarrow> federation_option" where
  "WithCustomStrategy s fc = fc\<lparr>fc_strategy := s\<rparr>"

definition WithHealthInterval :: "int \<Rightarrow> federation_option" where
  "WithHealthInterval d fc = fc\<lparr>fc_healthInterval := d\<rparr>"

definition WithFailureThreshold :: "int \<Rightarrow> federation_option" where
  "WithFailureThreshold n fc = fc\<lparr>fc_failureThreshold := word_of_int n\<rparr>"

definition WithCooldownPeriod :: "int \<Rightarrow> federation_option" where
  "WithCooldownPeriod d fc = fc\<lparr>fc_cooldownPeriod := d\<rparr>"

definition new_federation :: federated_client where
  "new_federation = \<lparr>fc_regions = [], fc_localRegion = [], fc_strategy = AffinityRouter,
     fc_healthInterval = DefaultHealthInterval,
     fc_failureThreshold = word_of_int DefaultFailureThreshold,
     fc_cooldownPeriod = DefaultCooldownPeriod, fc_stopped = False\<rparr>"

definition New :: "federation_option list \<Rightarrow> fed_error + federated_client" where
  "New opts = (let fc = foldl (\<lambda>fc opt. opt fc) new_federation opts
     in if fc_regions fc = [] then Inl ErrNoRegions else Inr fc)"

record routing_policy =
  rp_Strategy :: string
  rp_FallbackBehavior :: string
  rp_CrossRegionTimeout :: int

record federation_config =
  fg_Regions :: "region_config list"
  fg_LocalRegion :: string
  fg_RoutingPolicy :: routing_policy
  fg_HealthInterval :: int
  fg_FailureThreshold :: int
  fg_CooldownPeriod :: int

definition NewFromConfig ::
  "(string \<Rightarrow> go_error + string \<times> string) \<Rightarrow> federation_config \<Rightarrow> fed_error + federated_client" where
  "NewFromConfig parse cfg = New
     (map (WithRegion parse) (fg_Regions cfg)
      @ (if fg_LocalRegion cfg \<noteq> [] then [WithLocalRegion (fg_LocalRegion cfg)] else [])
      @ (if rp_Strategy (fg_RoutingPolicy cfg) \<noteq> [] then [WithStrategy (rp_Strategy (fg_RoutingPolicy cfg))] else [])
      @ (if 0 < fg_HealthInterval cfg then [WithHealthInterval (fg_HealthInterval cfg)] else [])
      @ (if 0 < fg_FailureThreshold cfg then [WithFailureThreshold (fg_FailureThreshold cfg)] else [])
      @ (if 0 < fg_CooldownPeriod cfg then [WithCooldownPeriod (fg_CooldownPeriod cfg)] else []))"

subsection \<open>Health\<close>

definition recordFailure :: "32 word \<Rightarrow> time \<Rightarrow> region_state \<Rightarrow> region_state" where
  "recordFailure threshold now rs =
     (let rs1 = rs\<lparr>rs_lastFailure := now, rs_failures := rs_failures rs + 1\<rparr>
      in if threshold \<le>s rs_failures rs1
         then rs1\<lparr>rs_cbState := circuitOpen, rs_healthy := False\<rparr> else rs1)"

definition checkRegion ::
  "env \<Rightarrow> federated_client \<Rightarrow> region_state \<Rightarrow> trace \<Rightarrow> region_state \<times> trace" where
  "checkRegion env fc rs t =
     (if rs_cbState rs = circuitOpen \<and> env_now env t - rs_lastFailure rs < fc_cooldownPeriod fc
      then (rs, t)
      else
        let rs1 = (if rs_cbState rs = circuitOpen then rs\<lparr>rs_cbState := circuitHalfOpen\<rparr> else rs);
            start = env_now env t;
            (r, t') = Health env (rs_client rs1) t;
            elapsed = env_now env t' - start
        in (case r of
              Inl _ \<Rightarrow> recordFailure (fc_failureThreshold fc) (env_now env t') rs1
            | Inr status \<Rightarrow>
                (if hs_Status status \<noteq> ''ok''
                 then recordFailure (fc_failureThreshold fc) (env_now env t') rs1
                 else rs1\<lparr>rs_healthy := True, rs_latency := elapsed, rs_failures := 0,
                        rs_cbState := circuitClosed\<rparr>), t'))"

fun check_regions :: "env \<Rightarrow> federated_client \<Rightarrow> regions \<Rightarrow> trace \<Rightarrow> regions \<times> trace" where
  "check_regions env fc [] t = ([], t)"
| "check_regions env fc ((i, rs) # rest) t =
     (let (rs', t') = checkRegion env fc rs t; (rest', t'') = check_regions env fc rest t'
      in ((i, rs') # rest', t''))"

definition checkAllRegions :: "env \<Rightarrow> federated_client \<Rightarrow> trace \<Rightarrow> federated_client \<times> trace" where
  "checkAllRegions env fc t = (let (regions, t') = check_regions env fc (fc_regions fc) t
     in (fc\<lparr>fc_regions := regions\<rparr>, t'))"

definition Stop :: federation_option where
  "Stop fc = fc\<lparr>fc_stopped := True\<rparr>"

text \<open>What the loop's \<open>select\<close> wakes up for; it ends with the first event that is not a tick.\<close>

datatype health_event = Tick | CtxDone | Stopped

fun health_loop :: "env \<Rightarrow> health_event list \<Rightarrow> federated_client \<Rightarrow> trace \<Rightarrow> federated_client \<times> trace" where
  "health_loop env (Tick # es) fc t = (let (fc', t') = checkAllRegions env fc t in health_loop env es fc' t')"
| "health_loop env _ fc t = (fc, t)"

text \<open>\<open>time.NewTicker\<close> panics for an interval that is not positive (\<open>None\<close>).\<close>

definition StartHealthChecks ::
  "env \<Rightarrow> health_event list \<Rightarrow> federated_client \<Rightarrow> trace \<Rightarrow> (federated_client \<times> trace) option" where
  "StartHealthChecks env es fc t =
     (if fc_healthInterval fc \<le> 0 then None
      else let (fc', t') = checkAllRegions env fc t in Some (health_loop env es fc' t'))"

definition healthyRegions :: "federated_client \<Rightarrow> regions" where
  "healthyRegions fc = filter (\<lambda>(i, rs). rs_healthy rs) (fc_regions fc)"

definition RegionClient :: "federated_client \<Rightarrow> string \<Rightarrow> fed_error + transport" where
  "RegionClient fc regionID = (case map_of (fc_regions fc) regionID of
     None \<Rightarrow> Inl ErrRegionNotFound | Some rs \<Rightarrow> Inr (rs_client rs))"

definition Regions :: "federated_client \<Rightarrow> string list" where
  "Regions fc = gomap_keys (fc_regions fc)"

definition IsHealthy :: "federated_client \<Rightarrow> string \<Rightarrow> bool" where
  "IsHealthy fc regionID = (case map_of (fc_regions fc) regionID of
     None \<Rightarrow> False | Some rs \<Rightarrow> rs_healthy rs)"

subsection \<open>Identifiers\<close>

text \<open>The hexadecimal digits of \<open>%0wx\<close>, for a number that fits into \<open>w\<close> digits.\<close>

fun hex_pad :: "nat \<Rightarrow> nat \<Rightarrow> string" where
  "hex_pad 0 n = []"
| "hex_pad (Suc w) n = hex_pad w (n div 16) @ [''0123456789abcdef'' ! (n mod 16)]"

text \<open>\<open>r1\<close> and \<open>r2\<close> are the draws of \<open>rand.Intn(0x3FFF)\<close> and \<open>rand.Int63()\<close>.\<close>

definition generateFederationID :: "time \<Rightarrow> int \<Rightarrow> int \<Rightarrow> string" where
  "generateFederationID now r1 r2 =
     (let unix = word_of_int (now div second) :: 32 word;
          ns = word_of_int (now mod second) :: 64 word;
          a = ucast (drop_bit 16 ns) :: 16 word;
          b = (0x7000 :: 16 word) OR ucast (ns AND 0x0FFF);
          c = (0x8000 :: 16 word) OR word_of_int r1;
          d = (word_of_int r2 :: 64 word) AND 0xFFFFFFFFFFFF
      in hex_pad 8 (unat unix) @ ''-'' @ hex_pad 4 (unat a) @ ''-'' @ hex_pad 4 (unat b) @ ''-''
         @ hex_pad 4 (unat c) @ ''-'' @ hex_pad 12 (unat d))"

subsection \<open>Operations\<close>

definition metaPrefix :: string where "metaPrefix = ''ojs.federation.''"

text \<open>The random draws of the package \<open>math/rand\<close>.\<close>

record draws =
  dr_Intn :: "trace \<Rightarrow> int \<Rightarrow> int"
  dr_Int63 :: "trace \<Rightarrow> int"

definition fed_meta :: "env \<Rightarrow> draws \<Rightarrow> string \<Rightarrow> string \<Rightarrow> trace \<Rightarrow> enqueue_option" where
  "fed_meta env dr regionID affinity t = WithMeta (fmap_of_list
     [(metaPrefix @ ''federation_id'',
         VStr (generateFederationID (env_now env t) (dr_Intn dr t 0x3FFF) (dr_Int63 dr t))),
      (metaPrefix @ ''region'', VStr regionID),
      (metaPrefix @ ''region_affinity'', VStr affinity)])"

definition fail_region :: "env \<Rightarrow> trace \<Rightarrow> string \<Rightarrow> region_state \<Rightarrow> federation_option" where
  "fail_region env t i rs fc = fc\<lparr>fc_regions := gomap_put i
     (recordFailure (fc_failureThreshold fc) (env_now env t) rs) (fc_regions fc)\<rparr>"

definition EnqueueWithRegion ::
  "env \<Rightarrow> draws \<Rightarrow> string \<Rightarrow> string \<Rightarrow> args \<Rightarrow> enqueue_option list \<Rightarrow> federated_client \<Rightarrow> trace
     \<Rightarrow> (fed_error + job \<times> string) \<times> federated_client \<times> trace" where
  "EnqueueWithRegion env dr hint jobType args opts fc t =
     (let healthy = healthyRegions fc in
      if healthy = [] then (Inl ErrNoHealthyRegions, fc, t)
      else case Select (dr_Intn dr t) hint (fc_strategy fc) healthy (fc_localRegion fc) of
        (Inl e, s) \<Rightarrow> (Inl e, fc\<lparr>fc_strategy := s\<rparr>, t)
      | (Inr regionID, s) \<Rightarrow>
          (let fc1 = fc\<lparr>fc_strategy := s\<rparr> in
           case map_of healthy regionID of
             None \<Rightarrow> (Inl ErrRegionUnavailable, fc1, t)
           | Some rs \<Rightarrow>
               (let opts1 = opts @ [fed_meta env dr regionID (strategyName s) t] in
                case Enqueue env (rs_client rs) jobType args opts1 t of
                  (Inl e, t') \<Rightarrow> (Inl (ClientErr e), fail_region env t' regionID rs fc1, t')
                | (Inr job, t') \<Rightarrow> (Inr (job, regionID), fc1, t'))))"

definition EnqueueToRegion ::
  "env \<Rightarrow> draws \<Rightarrow> string \<Rightarrow> string \<Rightarrow> args \<Rightarrow> enqueue_option list \<Rightarrow> federated_client \<Rightarrow> trace
     \<Rightarrow> (fed_error + job) \<times> federated_client \<times> trace" where
  "EnqueueToRegion env dr regionID jobType args opts fc t =
     (case map_of (fc_regions fc) regionID of
        None \<Rightarrow> (Inl ErrRegionNotFound, fc, t)
      | Some rs \<Rightarrow>
          (if \<not> rs_healthy rs then (Inl ErrRegionUnavailable, fc, t)
           else let opts1 = opts @ [fed_meta env dr regionID StrategyGeoPin t] in
             case Enqueue env (rs_client rs) jobType args opts1 t of
               (Inl e, t') \<Rightarrow> (Inl (ClientErr e), fail_region env t' regionID rs fc, t')
             | (Inr job, t') \<Rightarrow> (Inr job, fc, t')))"

definition FetchFromAnyRegion :: "env \<Rightarrow> federated_client \<Rightarrow> trace \<Rightarrow> (fed_error + string) \<times> trace" where
  "FetchFromAnyRegion env fc t =
     (let healthy = healthyRegions fc;
          fallback = (let bestID = lowest_from [] (2 ^ 63 - 1) healthy
            in if bestID = [] then Inl ErrNoHealthyRegions else Inr bestID)
      in if healthy = [] then (Inl ErrNoHealthyRegions, t)
         else case (if fc_localRegion fc = [] then None else map_of healthy (fc_localRegion fc)) of
           None \<Rightarrow> (fallback, t)
         | Some rs \<Rightarrow> (case Health env (rs_client rs) t of
             (Inr _, t') \<Rightarrow> (Inr (fc_localRegion fc), t')
           | (Inl _, t') \<Rightarrow> (fallback, t')))"

fun get_job_from :: "env \<Rightarrow> string \<Rightarrow> regions \<Rightarrow> trace \<Rightarrow> (fed_error + job \<times> string) \<times> trace" where
  "get_job_from env i [] t = (Inl (JobNotInAnyRegion i), t)"
| "get_job_from env i ((regionID, rs) # rest) t = (case GetJob env (rs_client rs) i t of
     (Inl _, t') \<Rightarrow> get_job_from env i rest t'
   | (Inr job, t') \<Rightarrow> (Inr (job, regionID), t'))"

definition Federated_GetJob ::
  "env \<Rightarrow> federated_client \<Rightarrow> string \<Rightarrow> trace \<Rightarrow> (fed_error + job \<times> string) \<times> trace" where
  "Federated_GetJob env fc i t = get_job_from env i (healthyRegions fc) t"

subsection \<open>Routing\<close>

lemma healthyRegions_lookup:
  "gomap_ok (fc_regions fc) \<Longrightarrow>
   map_of (healthyRegions fc) i = Some rs \<longleftrightarrow> map_of (fc_regions fc) i = Some rs \<and> rs_healthy rs"
proof -
  assume ok: "gomap_ok (fc_regions fc)"
  then have "gomap_ok (healthyRegions fc)"
    by (simp add: healthyRegions_def gomap_ok_def distinct_map_filter)
  then show ?thesis by (simp add: gomap_ok_map_of_iff ok) (auto simp: healthyRegions_def)
qed

lemma select_strategyName: "strategyName (snd (Select intn hint s regions loc)) = strategyName s"
  by (cases s) (simp_all add: split_beta)

lemma select_not_unavailable:
  "built_in s \<Longrightarrow> fst (Select intn hint s regions loc) \<noteq> Inl ErrRegionUnavailable"
  by (cases s) (simp_all add: split_beta Affinity_Select_def lowestLatencyRegion_def Overflow_Select_def
      GeoPin_Select_def RoundRobin_Select_def LatencyBased_Select_def ActivePassive_Select_def
      Geographic_Select_def Let_def split: option.splits)

text \<open>What an \<open>Enqueue\<close> may send, whatever its arguments.\<close>

lemma enqueue_sent: "\<exists>b. sends_only tr ''POST'' ''/ojs/v1/jobs'' b t (snd (Enqueue env tr ty a opts t))"
proof -
  have "sends_only tr ''POST'' ''/ojs/v1/jobs'' None t t"
    unfolding sends_only_def by (intro exI [of _ "[]"]) simp
  then show ?thesis
    by (auto simp: Enqueue_def Let_def basePath_def intro: sends_only_calls(3) split: option.splits)
qed

text \<open>
  C12: with any of the package's strategies a job goes to a healthy region or nowhere: the client never
  has to answer a strategy's choice with \<open>ErrRegionUnavailable\<close> (a geo-pin router whose region is not
  healthy answers itself, with an error that wraps it), the requests sent are POSTs to the
  \<open>/jobs\<close> of one healthy region, and a job that is returned names that region.
\<close>

theorem federation_routes_to_healthy:
  assumes "built_in (fc_strategy fc)" "gomap_ok (fc_regions fc)"
    and "EnqueueWithRegion env dr hint ty a opts fc t = (r, fc', t')"
  shows "r \<noteq> Inl ErrRegionUnavailable \<and>
    (t' = t \<and> (\<exists>e. r = Inl e)
     \<or> (\<exists>i rs b. map_of (fc_regions fc) i = Some rs \<and> rs_healthy rs
          \<and> sends_only (rs_client rs) ''POST'' ''/ojs/v1/jobs'' b t t'
          \<and> (case r of Inr (job, j) \<Rightarrow> j = i | Inl e \<Rightarrow> True)))"
proof (cases "healthyRegions fc = [] \<or> (\<exists>e. fst (Select (dr_Intn dr t) hint (fc_strategy fc)
      (healthyRegions fc) (fc_localRegion fc)) = Inl e)")
  case True
  then have "t' = t \<and> (\<exists>e. r = Inl e \<and> e \<noteq> ErrRegionUnavailable)"
    using assms(3) select_not_unavailable [OF assms(1), of "dr_Intn dr t" hint "healthyRegions fc"
        "fc_localRegion fc"]
    by (cases "Select (dr_Intn dr t) hint (fc_strategy fc) (healthyRegions fc) (fc_localRegion fc)")
      (auto simp: EnqueueWithRegion_def Let_def split: if_splits)
  then show ?thesis by blast
next
  case False
  let ?s = "Select (dr_Intn dr t) hint (fc_strategy fc) (healthyRegions fc) (fc_localRegion fc)"
  from False obtain i where i: "fst ?s = Inr i" "healthyRegions fc \<noteq> []"
    by (cases "fst ?s") auto
  from routing_strategy.chosen_from_filtered [OF select_built_in [OF assms(1)], of _ _ rs_healthy
      "fc_regions fc"] i(1) assms(2)
  obtain rs where rs: "map_of (fc_regions fc) i = Some rs" "rs_healthy rs"
    unfolding healthyRegions_def by blast
  then have h: "map_of (healthyRegions fc) i = Some rs"
    by (simp add: healthyRegions_lookup [OF assms(2)])
  let ?call = "Enqueue env (rs_client rs) ty a
      (opts @ [fed_meta env dr i (strategyName (snd ?s)) t]) t"
  have call: "t' = snd ?call \<and> r = (case fst ?call of Inl e \<Rightarrow> Inl (ClientErr e) | Inr job \<Rightarrow> Inr (job, i))"
    using assms(3) i h by (cases ?s; cases ?call)
      (auto simp: EnqueueWithRegion_def Let_def split: sum.splits)
  from enqueue_sent obtain b where "sends_only (rs_client rs) ''POST'' ''/ojs/v1/jobs'' b t (snd ?call)"
    by blast
  then show ?thesis using call rs
    by (intro conjI disjI2 exI [of _ i] exI [of _ rs] exI [of _ b]) (auto split: sum.splits)
qed

subsection \<open>The circuit breaker\<close>

text \<open>
  What can happen to a region: a call to it fails at some time, or it is checked at some point of
  the history, whatever the server does.
\<close>

datatype region_event = CallFailed time | Checked trace

fun region_after :: "env \<Rightarrow> federated_client \<Rightarrow> region_state \<Rightarrow> region_event \<Rightarrow> region_state" where
  "region_after env fc rs (CallFailed now) = recordFailure (fc_failureThreshold fc) now rs"
| "region_after env fc rs (Checked t) = fst (checkRegion env fc rs t)"

definition breaker_ok :: "32 word \<Rightarrow> region_state \<Rightarrow> bool" where
  "breaker_ok threshold rs \<longleftrightarrow>
     (rs_healthy rs = (rs_cbState rs = circuitClosed))
     \<and> (if rs_healthy rs then rs_failures rs <s threshold else True)"

lemma recordFailure_ok: "breaker_ok th rs \<Longrightarrow> breaker_ok th (recordFailure th now rs)"
  by (auto simp: breaker_ok_def recordFailure_def Let_def word_sle_eq word_sless_alt)

lemma checkRegion_ok:
  "0 <s fc_failureThreshold fc \<Longrightarrow> breaker_ok (fc_failureThreshold fc) rs \<Longrightarrow>
   breaker_ok (fc_failureThreshold fc) (fst (checkRegion env fc rs t))"
  by (auto simp: checkRegion_def Let_def split_beta recordFailure_def breaker_ok_def word_sle_eq
      word_sless_alt split: sum.splits)

text \<open>
  C13: whatever sequence of failed calls and health checks a region goes through, it is offered to the
  strategies exactly while its breaker is closed, and a closed breaker has seen fewer failures in
  a row than the threshold. The threshold is positive, and each failure and each check is one step.
\<close>

theorem breaker_invariant:
  assumes "0 <s fc_failureThreshold fc"
  shows "case foldl (region_after env fc) (new_region cfg client) events of rs \<Rightarrow>
    (rs_healthy rs \<longleftrightarrow> rs_cbState rs = circuitClosed)
    \<and> (if rs_cbState rs = circuitClosed then rs_failures rs <s fc_failureThreshold fc else True)"
proof -
  have "breaker_ok (fc_failureThreshold fc) (foldl (region_after env fc) rs events)"
    if "breaker_ok (fc_failureThreshold fc) rs" for rs
    using that
  proof (induction events arbitrary: rs)
    case (Cons e es)
    then show ?case by (cases e) (simp_all add: recordFailure_ok checkRegion_ok [OF assms])
  qed simp
  moreover have "breaker_ok (fc_failureThreshold fc) (new_region cfg client)"
    using assms by (simp add: breaker_ok_def new_region_def)
  ultimately show ?thesis by (auto simp: breaker_ok_def)
qed

text \<open>Failures in a row, from the first.\<close>

lemma sint_Suc_count: "int n + 1 < 2 ^ 31 \<Longrightarrow> sint (word_of_nat n + 1 :: 32 word) = int n + 1"
proof -
  assume "int n + 1 < 2 ^ 31"
  then have "signed_take_bit 31 (int n + 1) = int n + 1"
    by (intro signed_take_bit_int_eq_self) simp_all
  moreover have "word_of_nat n + 1 = (word_of_int (int n + 1) :: 32 word)" by simp
  ultimately show ?thesis by (simp only: sint_sbintrunc') simp
qed

lemma failures_in_a_row:
  assumes "int n < 2 ^ 31" "0 <s th"
  shows "rs_failures ((recordFailure th now ^^ n) (new_region cfg client)) = word_of_nat n
    \<and> (rs_healthy ((recordFailure th now ^^ n) (new_region cfg client)) \<longleftrightarrow> int n < sint th)"
  using assms(1)
proof (induction n)
  case 0
  then show ?case using assms(2) by (simp add: new_region_def word_sless_alt)
next
  case (Suc n)
  define rs where "rs = (recordFailure th now ^^ n) (new_region cfg client)"
  have IH: "rs_failures rs = word_of_nat n" "rs_healthy rs \<longleftrightarrow> int n < sint th"
    using Suc by (auto simp: rs_def)
  have "sint (word_of_nat n + 1 :: 32 word) = int n + 1" using Suc.prems by (intro sint_Suc_count) simp
  then show ?case using IH
    by (simp add: recordFailure_def [of th now rs] Let_def word_sle_eq flip: rs_def)
qed

text \<open>Repeated calls for one region.\<close>

fun enqueue_times ::
  "env \<Rightarrow> draws \<Rightarrow> nat \<Rightarrow> string \<Rightarrow> string \<Rightarrow> args \<Rightarrow> enqueue_option list \<Rightarrow> federated_client \<times> trace
     \<Rightarrow> federated_client \<times> trace" where
  "enqueue_times env dr 0 i ty a opts s = s"
| "enqueue_times env dr (Suc n) i ty a opts s = (case enqueue_times env dr n i ty a opts s of
     (fc, t) \<Rightarrow> snd (EnqueueToRegion env dr i ty a opts fc t))"

lemma invalid_enqueue:
  "\<not> type_ok ty \<Longrightarrow> \<exists>e. Enqueue env tr ty a opts t = (Inl e, t)"
  using validateEnqueueParams_iff [of ty "argsToWire a"]
  by (auto simp: Enqueue_def Let_def split: option.splits)

lemma invalid_enqueues:
  assumes "\<not> type_ok ty" "map_of (fc_regions fc) i = Some (new_region cfg client)"
    and th: "0 <s fc_failureThreshold fc" and "int n \<le> sint (fc_failureThreshold fc)"
  shows "\<exists>fc'. enqueue_times env dr n i ty a opts (fc, t) = (fc', t)
    \<and> fc_failureThreshold fc' = fc_failureThreshold fc
    \<and> map_of (fc_regions fc') i = Some
        ((recordFailure (fc_failureThreshold fc) (env_now env t) ^^ n) (new_region cfg client))"
  using assms(4)
proof (induction n)
  case (Suc n)
  let ?th = "fc_failureThreshold fc"
  define rs where "rs = (recordFailure ?th (env_now env t) ^^ n) (new_region cfg client)"
  from Suc obtain fc' where fc': "enqueue_times env dr n i ty a opts (fc, t) = (fc', t)"
    "fc_failureThreshold fc' = ?th" "map_of (fc_regions fc') i = Some rs"
    by (auto simp: rs_def)
  have "sint ?th < 2 ^ 31" using sint_lt [of ?th] by simp
  then have "rs_healthy rs"
    using failures_in_a_row [OF _ th, of n] Suc.prems by (simp add: rs_def)
  moreover obtain e where "Enqueue env (rs_client rs) ty a
      (opts @ [fed_meta env dr i StrategyGeoPin t]) t = (Inl e, t)"
    using invalid_enqueue [OF assms(1)] by blast
  ultimately show ?case
    using fc' by (simp add: EnqueueToRegion_def fail_region_def flip: rs_def)
qed (use assms(2) in simp)

text \<open>
  Failures that are the caller's own count against the region: as many calls with an invalid job
  type as the threshold open the breaker of a region that was never contacted, and the next
  valid job for it is refused, all without a single request.
\<close>

theorem invalid_calls_open_breaker:
  assumes "\<not> type_ok ty" "map_of (fc_regions fc) i = Some (new_region cfg client)"
    and "0 <s fc_failureThreshold fc" "n = nat (sint (fc_failureThreshold fc))"
  shows "case enqueue_times env dr n i ty a opts (fc, t) of (fc', t') \<Rightarrow>
    t' = t \<and> \<not> IsHealthy fc' i
    \<and> EnqueueToRegion env dr i ty' a' opts' fc' t = (Inl ErrRegionUnavailable, fc', t)"
proof -
  have th: "0 < sint (fc_failureThreshold fc)" "sint (fc_failureThreshold fc) < 2 ^ 31"
    using assms(3) sint_lt [of "fc_failureThreshold fc"] by (simp_all add: word_sless_alt)
  obtain fc' where fc': "enqueue_times env dr n i ty a opts (fc, t) = (fc', t)"
    "map_of (fc_regions fc') i = Some
       ((recordFailure (fc_failureThreshold fc) (env_now env t) ^^ n) (new_region cfg client))"
    using invalid_enqueues [OF assms(1-3), of n env dr a opts t] th assms(4) by auto
  moreover have "\<not> rs_healthy
      ((recordFailure (fc_failureThreshold fc) (env_now env t) ^^ n) (new_region cfg client))"
    using failures_in_a_row [OF _ assms(3), of n] th assms(4) by simp
  ultimately show ?thesis by (simp add: IsHealthy_def EnqueueToRegion_def)
qed

text \<open>
  An open breaker keeps the region from being contacted until the cooldown is over; after that
  one healthy answer closes it and forgets the failures.
\<close>

theorem breaker_cooldown:
  assumes "rs_cbState rs = circuitOpen"
  shows "if env_now env t - rs_lastFailure rs < fc_cooldownPeriod fc
    then checkRegion env fc rs t = (rs, t)
    else case Health env (rs_client rs) t of (r, t') \<Rightarrow>
      snd (checkRegion env fc rs t) = t'
      \<and> (case r of
          Inr status \<Rightarrow> (if hs_Status status = ''ok'' then
             fst (checkRegion env fc rs t) = rs\<lparr>rs_healthy := True, rs_failures := 0,
               rs_cbState := circuitClosed, rs_latency := env_now env t' - env_now env t\<rparr> else True)
        | Inl e \<Rightarrow> rs_lastFailure (fst (checkRegion env fc rs t)) = env_now env t')"
  using assms by (auto simp: checkRegion_def Let_def recordFailure_def split: prod.splits sum.splits)

text \<open>
  Latency-based routing prefers a region nobody has reached: its latency is still zero, and a
  health check that fails leaves it healthy below the threshold, so every region that did answer
  is passed over for it.
\<close>

theorem unreached_region_preferred:
  assumes "gomap_ok (fc_regions fc)" "[] \<notin> fst ` set (fc_regions fc)" "1 <s fc_failureThreshold fc"
    and "map_of (fc_regions fc) u = Some (new_region cfg client)"
    and "fst (Health env client t) = Inl e"
    and "\<And>i rs. (i, rs) \<in> set (fc_regions fc) \<Longrightarrow> i \<noteq> u \<Longrightarrow> 0 < rs_latency rs"
  shows "LatencyBased_Select (healthyRegions (fc\<lparr>fc_regions := gomap_put u
      (fst (checkRegion env fc (new_region cfg client) t)) (fc_regions fc)\<rparr>)) = Inr u"
proof -
  let ?rs = "fst (checkRegion env fc (new_region cfg client) t)"
  let ?R = "healthyRegions (fc\<lparr>fc_regions := gomap_put u ?rs (fc_regions fc)\<rparr>)"
  have rs: "rs_healthy ?rs" "rs_latency ?rs = 0"
    using assms(3,5) by (auto simp: checkRegion_def Let_def split_beta new_region_def recordFailure_def
        word_sle_eq word_sless_alt)
  have ok: "gomap_ok (gomap_put u ?rs (fc_regions fc))" using assms(1) by simp
  have lk: "map_of ?R i = Some r \<longleftrightarrow> ((map_of (fc_regions fc))(u \<mapsto> ?rs)) i = Some r \<and> rs_healthy r" for i r
    using healthyRegions_lookup [of "fc\<lparr>fc_regions := gomap_put u ?rs (fc_regions fc)\<rparr>"] ok by simp
  have okR: "gomap_ok ?R" using ok by (simp add: healthyRegions_def gomap_ok_def distinct_map_filter)
  have mem: "(i, r) \<in> set ?R \<longleftrightarrow> ((map_of (fc_regions fc))(u \<mapsto> ?rs)) i = Some r \<and> rs_healthy r" for i r
    using lk gomap_ok_map_of_iff [OF okR] by blast
  have u: "(u, ?rs) \<in> set ?R" using rs by (simp add: mem)
  have ne: "[] \<notin> fst ` set ?R"
    using assms(2,4) by (auto simp: mem split: if_splits dest: map_of_SomeD)
  obtain i where i: "lowestLatencyRegion ?R = Inr i"
    using lowest_latency_some [OF u _ okR ne] rs by auto
  obtain r where r: "map_of ?R i = Some r" "rs_latency r \<le> 0"
    using lowest_latency_least [OF i okR ne] u rs by fastforce
  have "i = u"
  proof (rule ccontr)
    assume "i \<noteq> u"
    then have "(i, r) \<in> set (fc_regions fc)" using r lk by (auto dest: map_of_SomeD)
    then show False using assms(6) \<open>i \<noteq> u\<close> r by fastforce
  qed
  with i show ?thesis by (simp add: LatencyBased_Select_def)
qed

text \<open>
  Choosing geo-pin by its name makes a client that cannot enqueue: the strategy has no region, so
  every call that finds a healthy region fails before anything is sent.
\<close>

theorem geo_pin_by_name_unusable:
  "New (opts @ [WithStrategy StrategyGeoPin]) = Inr fc \<Longrightarrow> healthyRegions fc \<noteq> [] \<Longrightarrow>
   EnqueueWithRegion env dr hint ty a eopts fc t = (Inl GeoPinNeedsRegion, fc, t)"
  by (auto simp: New_def Let_def WithStrategy_def strategy_of_name_def EnqueueWithRegion_def
      GeoPin_Select_def StrategyAffinity_def StrategyOverflow_def StrategyGeoPin_def split: if_splits)

subsection \<open>Concrete runs\<close>

definition sample_config :: "string \<Rightarrow> region_config" where
  "sample_config i = \<lparr>rc_ID = i, rc_URL = ''http://'' @ i, rc_Priority = 0, rc_Weight = 1, rc_Tags = []\<rparr>"

definition sample_client :: "string \<Rightarrow> transport" where
  "sample_client i = newTransport (''http://'' @ i) zero_client_config"

text \<open>A federation of one fresh region \<open>eu\<close> and the region \<open>us\<close> measured at 40 ns.\<close>

definition sample_federation :: federated_client where
  "sample_federation = new_federation\<lparr>fc_regions :=
     [(''eu'', new_region (sample_config ''eu'') (sample_client ''eu'')), (''us'', sample_region ''us'' 1 40)]\<rparr>"

text \<open>An outside whose context is already done, so that every call fails at once.\<close>

definition dead_env :: env where
  "dead_env = (plain_env (status_server (\<lambda>_. 200)) (\<lambda>_. None))
     \<lparr>env_ctx_err := (\<lambda>_. Some (Sentinel ContextCanceled))\<rparr>"

definition zero_draws :: draws where
  "zero_draws = \<lparr>dr_Intn = (\<lambda>_ _. 0), dr_Int63 = (\<lambda>_. 0)\<rparr>"

lemmas sample_federation_defs = sample_federation_def new_federation_def DefaultFailureThreshold_def
  new_region_def sample_region_def sample_config_def sample_client_def

lemma dead_health: "\<exists>e. fst (Health dead_env tr t) = Inl e"
  by (simp add: Health_def transport_get_def transport_do_def do_loop.simps do_attempt_def http_Do_def
      dead_env_def plain_env_def Let_def split: option.splits)

lemma bad_type: "\<not> type_ok []"
  using validateEnqueueParams_iff [of "[]" "[]"] by (simp add: validateEnqueueParams_def)

theorem federation_routes_to_healthy_witness:
  "case EnqueueWithRegion dead_env zero_draws [] ''a'' fmempty [] sample_federation [] of (r, fc', t') \<Rightarrow>
     r \<noteq> Inl ErrRegionUnavailable \<and>
     (t' = [] \<and> (\<exists>e. r = Inl e)
      \<or> (\<exists>i rs b. map_of (fc_regions sample_federation) i = Some rs \<and> rs_healthy rs
           \<and> sends_only (rs_client rs) ''POST'' ''/ojs/v1/jobs'' b [] t'
           \<and> (case r of Inr (job, j) \<Rightarrow> j = i | Inl e \<Rightarrow> True)))"
proof -
  obtain r fc' t' where e: "EnqueueWithRegion dead_env zero_draws [] ''a'' fmempty [] sample_federation [] = (r, fc', t')"
    by (cases "EnqueueWithRegion dead_env zero_draws [] ''a'' fmempty [] sample_federation []")
  have ok: "built_in (fc_strategy sample_federation)" "gomap_ok (fc_regions sample_federation)"
    by (simp_all add: sample_federation_defs)
  show ?thesis unfolding e prod.case by (rule federation_routes_to_healthy [OF ok e])
qed

theorem breaker_invariant_witness:
  "case foldl (region_after dead_env sample_federation)
       (new_region (sample_config ''eu'') (sample_client ''eu'')) [CallFailed 3, Checked []] of rs \<Rightarrow>
     rs_healthy rs \<longleftrightarrow> rs_cbState rs = circuitClosed"
  using breaker_invariant [of sample_federation dead_env "sample_config ''eu''" "sample_client ''eu''"
      "[CallFailed 3, Checked []]"]
  by (simp add: sample_federation_defs word_sless_alt)

theorem invalid_calls_open_breaker_witness:
  "case enqueue_times dead_env zero_draws 5 ''eu'' [] fmempty [] (sample_federation, []) of
     (fc', t') \<Rightarrow> t' = [] \<and> \<not> IsHealthy fc' ''eu''"
  using invalid_calls_open_breaker [OF bad_type, where fc = sample_federation and i = "''eu''"
      and cfg = "sample_config ''eu''" and client = "sample_client ''eu''" and n = 5 and env = dead_env
      and dr = zero_draws and a = fmempty and opts = "[]" and t = "[]" and ty' = "''a''" and a' = fmempty
      and opts' = "[]"]
  by (auto simp: sample_federation_def new_federation_def DefaultFailureThreshold_def word_sless_alt
      split: prod.splits)

theorem breaker_cooldown_witness:
  "checkRegion dead_env sample_federation
     ((sample_region ''us'' 1 40)\<lparr>rs_cbState := circuitOpen\<rparr>) [] =
   ((sample_region ''us'' 1 40)\<lparr>rs_cbState := circuitOpen\<rparr>, [])"
  using breaker_cooldown [where rs = "(sample_region ''us'' 1 40)\<lparr>rs_cbState := circuitOpen\<rparr>"
      and env = dead_env and t = "[]" and fc = sample_federation]
  by (simp add: sample_federation_defs dead_env_def plain_env_def DefaultCooldownPeriod_def second_def)

theorem unreached_region_preferred_witness:
  "LatencyBased_Select (healthyRegions (sample_federation\<lparr>fc_regions := gomap_put ''eu''
      (fst (checkRegion dead_env sample_federation
         (new_region (sample_config ''eu'') (sample_client ''eu'')) []))
      (fc_regions sample_federation)\<rparr>)) = Inr ''eu''"
proof -
  obtain e where e: "fst (Health dead_env (sample_client ''eu'') []) = Inl e" using dead_health by blast
  show ?thesis
    by (rule unreached_region_preferred [OF _ _ _ _ e])
      (auto simp: sample_federation_def new_federation_def DefaultFailureThreshold_def word_sless_alt
        sample_region_def)
qed

theorem geo_pin_by_name_unusable_witness:
  "fst (EnqueueWithRegion dead_env zero_draws [] ''a'' fmempty []
      (sample_federation\<lparr>fc_strategy := GeoPinRouter []\<rparr>) []) = Inl GeoPinNeedsRegion"
  by (rule geo_pin_by_name_unusable [where opts = "[WithRegionClient ''eu'' (sample_client ''eu'') (sample_config ''eu''),
      \<lambda>fc. fc\<lparr>fc_regions := fc_regions sample_federation\<rparr>]" and dr = zero_draws and env = dead_env,
      THEN arg_cong [where f = fst], simplified])
    (simp_all add: New_def WithRegionClient_def WithStrategy_def strategy_of_name_def Let_def
      StrategyAffinity_def StrategyOverflow_def StrategyGeoPin_def sample_federation_defs healthyRegions_def)

end
