(* ===== verification/Queue_Schema.thy ===== *)
theory Queue_Schema
  imports Client
begin

text \<open>
  Queue management (\<open>queue.go\<close>), the schema registry (\<open>schema.go\<close>) and progress reports
  (\<open>progress.go\<close>), over the transport. The lemmas show that no name a caller passes can
  change the path of a request.
\<close>

text \<open>A \<open>time.Time\<close> field that is absent or null keeps the zero instant, the start of year 1.\<close>

definition zero_time :: time where
  "zero_time = - (62135596800 * 1000000000)"

fun dec_time_value :: "time_codec \<Rightarrow> json option \<Rightarrow> time option" where
  "dec_time_value tc None = Some zero_time"
| "dec_time_value tc (Some JNull) = Some zero_time"
| "dec_time_value tc (Some j) = dec_time tc (Some j)"

text \<open>A \<open>float64\<close> field.\<close>

fun dec_float :: "json option \<Rightarrow> f64 option" where
  "dec_float None = Some (Fin 0)"
| "dec_float (Some JNull) = Some (Fin 0)"
| "dec_float (Some (JNum q)) = (case f64_of_rat q of Fin x \<Rightarrow> Some (Fin x) | _ \<Rightarrow> None)"
| "dec_float (Some _) = None"

subsection \<open>Queues\<close>

record queue_info =
  qi_Name :: string
  qi_Status :: string
  qi_CreatedAt :: time

definition dec_queue :: "time_codec \<Rightarrow> json option \<Rightarrow> queue_info option" where
  "dec_queue tc d = do {
     m \<leftarrow> obj_members d;
     name \<leftarrow> dec_string (fmlookup m ''name'');
     st \<leftarrow> dec_string (fmlookup m ''status'');
     ca \<leftarrow> dec_time_value tc (fmlookup m ''created_at'');
     Some \<lparr>qi_Name = name, qi_Status = st, qi_CreatedAt = ca\<rparr> }"

record queue_stats =
  qs_Queue :: string
  qs_Status :: string
  qs_Available :: int
  qs_Active :: int
  qs_Scheduled :: int
  qs_Retryable :: int
  qs_Discarded :: int
  qs_CompletedLastHour :: int
  qs_FailedLastHour :: int
  qs_AvgDurationMS :: f64
  qs_AvgWaitMS :: f64
  qs_ThroughputPerSec :: f64
  qs_ComputedAt :: string

definition zero_queue_stats :: queue_stats where
  "zero_queue_stats = \<lparr>qs_Queue = [], qs_Status = [], qs_Available = 0, qs_Active = 0,
     qs_Scheduled = 0, qs_Retryable = 0, qs_Discarded = 0, qs_CompletedLastHour = 0,
     qs_FailedLastHour = 0, qs_AvgDurationMS = Fin 0, qs_AvgWaitMS = Fin 0,
     qs_ThroughputPerSec = Fin 0, qs_ComputedAt = []\<rparr>"

text \<open>The response nests the numbers under \<open>stats\<close>; the result is flat.\<close>

definition dec_queue_stats :: "json \<Rightarrow> queue_stats option" where
  "dec_queue_stats j = do {
     m \<leftarrow> obj_members (Some j);
     q \<leftarrow> dec_string (fmlookup m ''queue'');
     st \<leftarrow> dec_string (fmlookup m ''status'');
     s \<leftarrow> obj_members (fmlookup m ''stats'');
     av \<leftarrow> dec_int (fmlookup s ''available'');
     ac \<leftarrow> dec_int (fmlookup s ''active'');
     sc \<leftarrow> dec_int (fmlookup s ''scheduled'');
     re \<leftarrow> dec_int (fmlookup s ''retryable'');
     di \<leftarrow> dec_int (fmlookup s ''discarded'');
     co \<leftarrow> dec_int (fmlookup s ''completed_last_hour'');
     fa \<leftarrow> dec_int (fmlookup s ''failed_last_hour'');
     ad \<leftarrow> dec_float (fmlookup s ''avg_duration_ms'');
     aw \<leftarrow> dec_float (fmlookup s ''avg_wait_ms'');
     tp \<leftarrow> dec_float (fmlookup s ''throughput_per_second'');
     cat \<leftarrow> dec_string (fmlookup m ''computed_at'');
     Some \<lparr>qs_Queue = q, qs_Status = st, qs_Available = av, qs_Active = ac, qs_Scheduled = sc,
       qs_Retryable = re, qs_Discarded = di, qs_CompletedLastHour = co, qs_FailedLastHour = fa,
       qs_AvgDurationMS = ad, qs_AvgWaitMS = aw, qs_ThroughputPerSec = tp, qs_ComputedAt = cat\<rparr> }"

definition ListQueues :: "env \<Rightarrow> transport \<Rightarrow> trace \<Rightarrow> (queue_info list \<times> pagination) call" where
  "ListQueues env tr t =
     transport_get env tr (basePath @ ''/queues'')
       (Into ([], zero_pagination) (dec_page ''queues'' (dec_queue (env_times env)))) t"

definition GetQueueStats :: "env \<Rightarrow> transport \<Rightarrow> string \<Rightarrow> trace \<Rightarrow> queue_stats call" where
  "GetQueueStats env tr name t =
     transport_get env tr (basePath @ ''/queues/'' @ PathEscape name @ ''/stats'')
       (Into zero_queue_stats dec_queue_stats) t"

definition PauseQueue :: "env \<Rightarrow> transport \<Rightarrow> string \<Rightarrow> trace \<Rightarrow> unit call" where
  "PauseQueue env tr name t =
     transport_post env tr (basePath @ ''/queues/'' @ PathEscape name @ ''/pause'') None (Discard ()) t"

definition ResumeQueue :: "env \<Rightarrow> transport \<Rightarrow> string \<Rightarrow> trace \<Rightarrow> unit call" where
  "ResumeQueue env tr name t =
     transport_post env tr (basePath @ ''/queues/'' @ PathEscape name @ ''/resume'') None (Discard ()) t"

subsection \<open>Schemas\<close>

record schema_info =
  si_URI :: string
  si_Type :: string
  si_Version :: string
  si_CreatedAt :: time

definition zero_schema :: schema_info where
  "zero_schema = \<lparr>si_URI = [], si_Type = [], si_Version = [], si_CreatedAt = zero_time\<rparr>"

definition dec_schema :: "time_codec \<Rightarrow> json option \<Rightarrow> schema_info option" where
  "dec_schema tc d = do {
     m \<leftarrow> obj_members d;
     uri \<leftarrow> dec_string (fmlookup m ''uri'');
     ty \<leftarrow> dec_string (fmlookup m ''type'');
     ver \<leftarrow> dec_string (fmlookup m ''version'');
     ca \<leftarrow> dec_time_value tc (fmlookup m ''created_at'');
     Some \<lparr>si_URI = uri, si_Type = ty, si_Version = ver, si_CreatedAt = ca\<rparr> }"

text \<open>The detail keeps the JSON Schema itself as raw JSON; a nil one is \<open>None\<close>.\<close>

record schema_detail = schema_info +
  sd_Schema :: "json option"

definition dec_schema_detail :: "time_codec \<Rightarrow> json option \<Rightarrow> schema_detail option" where
  "dec_schema_detail tc d = do {
     m \<leftarrow> obj_members d;
     uri \<leftarrow> dec_string (fmlookup m ''uri'');
     ty \<leftarrow> dec_string (fmlookup m ''type'');
     ver \<leftarrow> dec_string (fmlookup m ''version'');
     ca \<leftarrow> dec_time_value tc (fmlookup m ''created_at'');
     Some \<lparr>si_URI = uri, si_Type = ty, si_Version = ver, si_CreatedAt = ca,
       sd_Schema = fmlookup m ''schema''\<rparr> }"

record schema_definition =
  sf_URI :: string
  sf_Type :: string
  sf_Version :: string
  sf_Schema :: "json option"

definition enc_schema_definition :: "schema_definition \<Rightarrow> json option" where
  "enc_schema_definition s = struct_json
     [(''uri'', enc_string (sf_URI s)), (''type'', enc_string (sf_Type s)),
      (''version'', enc_string (sf_Version s)),
      (''schema'', Some (Some (case sf_Schema s of None \<Rightarrow> JNull | Some j \<Rightarrow> j)))]"

definition ListSchemas :: "env \<Rightarrow> transport \<Rightarrow> trace \<Rightarrow> (schema_info list \<times> pagination) call" where
  "ListSchemas env tr t =
     transport_get env tr (basePath @ ''/schemas'')
       (Into ([], zero_pagination) (dec_page ''schemas'' (dec_schema (env_times env)))) t"

definition RegisterSchema :: "env \<Rightarrow> transport \<Rightarrow> schema_definition \<Rightarrow> trace \<Rightarrow> schema_info call" where
  "RegisterSchema env tr s t =
     transport_post env tr (basePath @ ''/schemas'') (Some (enc_schema_definition s))
       (Into zero_schema (\<lambda>j. do {
          m \<leftarrow> obj_members (Some j);
          dec_schema (env_times env) (fmlookup m ''schema'') })) t"

definition GetSchema :: "env \<Rightarrow> transport \<Rightarrow> string \<Rightarrow> trace \<Rightarrow> schema_detail call" where
  "GetSchema env tr uri t =
     transport_get env tr (basePath @ ''/schemas/'' @ PathEscape uri)
       (Into \<lparr>si_URI = [], si_Type = [], si_Version = [], si_CreatedAt = zero_time, sd_Schema = None\<rparr>
          (\<lambda>j. do {
             m \<leftarrow> obj_members (Some j);
             dec_schema_detail (env_times env) (fmlookup m ''schema'') })) t"

definition DeleteSchema :: "env \<Rightarrow> transport \<Rightarrow> string \<Rightarrow> trace \<Rightarrow> unit call" where
  "DeleteSchema env tr uri t =
     transport_delete env tr (basePath @ ''/schemas/'' @ PathEscape uri) (Discard ()) t"

subsection \<open>Progress\<close>

record progress_report =
  pr_JobID :: string
  pr_Percentage :: int
  pr_Message :: string
  pr_Data :: anymap

definition enc_progress :: "progress_report \<Rightarrow> json option" where
  "enc_progress r = struct_json
     [(''job_id'', enc_string (pr_JobID r)), (''percentage'', enc_int (pr_Percentage r)),
      (''message'', omit_string (pr_Message r)), (''data'', omit_map (pr_Data r))]"

definition ReportProgress ::
  "env \<Rightarrow> transport \<Rightarrow> string \<Rightarrow> int \<Rightarrow> string \<Rightarrow> anymap \<Rightarrow> trace \<Rightarrow> unit call" where
  "ReportProgress env tr jobID pct msg data t =
     (if pct < 0 \<or> 100 < pct then
        (Inl (PlainErr (''ojs: percentage must be between 0 and 100, got '' @ show_int pct)), t)
      else if jobID = [] then
        (Inl (PlainErr ''ojs: job_id is required for progress reporting''), t)
      else transport_post env tr (basePath @ ''/workers/progress'')
        (Some (enc_progress \<lparr>pr_JobID = jobID, pr_Percentage = pct, pr_Message = msg, pr_Data = data\<rparr>))
        (Discard ()) t)"

end
