(* ===== verification/Worker.thy ===== *)
theory Worker
  imports Queue_Schema Middleware_Chain
begin

text \<open>
  The worker, one operation at a time (\<open>worker.go\<close>, \<open>typed.go\<close>): construction and registration,
  the calls to the server (fetch, ack, nack, heartbeat), the processing of one job through
  middleware and handler, server-directed state changes and the fetch backoff. The
  interleaving of these operations is the subject of the theory \<open>Worker_Loop\<close>. A handler is
  user code on a world that holds the job's result cell, the trace, the worker's mutable
  state and whatever the user keeps. Logging is not modelled.
\<close>

subsection \<open>State\<close>

datatype worker_state = WorkerStateRunning | WorkerStateQuiet | WorkerStateTerminate | OtherState string

fun worker_state_string :: "worker_state \<Rightarrow> string" where
  "worker_state_string WorkerStateRunning = ''running''"
| "worker_state_string WorkerStateQuiet = ''quiet''"
| "worker_state_string WorkerStateTerminate = ''terminate''"
| "worker_state_string (OtherState s) = s"

definition worker_state_of :: "string \<Rightarrow> worker_state" where
  "worker_state_of s = (if s = ''running'' then WorkerStateRunning
     else if s = ''quiet'' then WorkerStateQuiet
     else if s = ''terminate'' then WorkerStateTerminate else OtherState s)"

text \<open>The mutable state; \<open>activeJobs\<close> is a map with keys only, in the order \<open>Range\<close> visits them.\<close>

record worker_vars =
  wv_state :: worker_state
  wv_activeJobs :: "string list"
  wv_activeCount :: int
  wv_stopped :: bool

record 'u world =
  hw_result :: anymap
  hw_trace :: trace
  hw_vars :: worker_vars
  hw_user :: 'u

record 'u worker =
  wk_transport :: transport
  wk_config :: worker_config
  wk_workerID :: string
  wk_handlers :: "string \<Rightarrow> 'u world handler option"
  wk_middleware :: "'u world middleware_chain"

definition generateWorkerID :: "string \<Rightarrow> int \<Rightarrow> int \<Rightarrow> string" where
  "generateWorkerID hostname pid nanos =
     ''worker_'' @ hostname @ ''_'' @ show_int pid @ ''_'' @ show_int nanos"

definition NewWorker :: "string \<Rightarrow> string \<Rightarrow> worker_option list \<Rightarrow> 'u worker \<times> worker_vars" where
  "NewWorker workerID serverURL opts =
     (let cfg = resolveWorkerConfig opts in
      (\<lparr>wk_transport = newWorkerTransport serverURL cfg, wk_config = cfg, wk_workerID = workerID,
        wk_handlers = Map.empty, wk_middleware = newMiddlewareChain\<rparr>,
       \<lparr>wv_state = WorkerStateRunning, wv_activeJobs = [], wv_activeCount = 0, wv_stopped = False\<rparr>))"

definition Register :: "string \<Rightarrow> 'u world handler \<Rightarrow> 'u worker \<Rightarrow> 'u worker" where
  "Register jobType h w = w\<lparr>wk_handlers := (wk_handlers w)(jobType \<mapsto> h)\<rparr>"

definition Use :: "'u world middleware \<Rightarrow> 'u worker \<Rightarrow> 'u worker" where
  "Use fn w = w\<lparr>wk_middleware :=
     chain_Add (''middleware-'' @ show_nat (length (wk_middleware w))) fn (wk_middleware w)\<rparr>"

definition UseNamed :: "string \<Rightarrow> 'u world middleware \<Rightarrow> 'u worker \<Rightarrow> 'u worker" where
  "UseNamed name fn w = w\<lparr>wk_middleware := chain_Add name fn (wk_middleware w)\<rparr>"

text \<open>\<open>RegisterTyped\<close>: the arguments go through JSON into the type of the handler (\<open>decode\<close>).\<close>

definition RegisterTyped ::
  "env \<Rightarrow> string \<Rightarrow> (json \<Rightarrow> 'a option) \<Rightarrow> string \<Rightarrow> (job_context \<Rightarrow> 'a \<Rightarrow> 'u world \<Rightarrow> hresult \<times> 'u world)
     \<Rightarrow> 'u worker \<Rightarrow> 'u worker" where
  "RegisterTyped env type_name decode jobType handler w =
     Register jobType (\<lambda>ctx st. case marshal (VMap (job_Args (jc_Job ctx))) of
        None \<Rightarrow> (Returned (NonRetryable (Some (Wrapf (''ojs: marshal args for '' @ jobType @ '': '')
                  (env_marshal_error env)))), st)
      | Some data \<Rightarrow> (case decode data of
           None \<Rightarrow> (Returned (NonRetryable (Some (Wrapf (''ojs: unmarshal args into '' @ type_name
                     @ '' for '' @ jobType @ '': '') (env_json_error env [])))), st)
         | Some args \<Rightarrow> handler ctx args st)) w"

subsection \<open>Calls to the server\<close>

definition fetchJobs :: "env \<Rightarrow> 'u worker \<Rightarrow> int \<Rightarrow> trace \<Rightarrow> job list call" where
  "fetchJobs env w count t =
     transport_post env (wk_transport w) (basePath @ ''/workers/fetch'')
       (Some (struct_json
         [(''queues'', Some (Some (JArr (map JStr (wc_queues (wk_config w)))))),
          (''count'', enc_int count), (''worker_id'', enc_string (wk_workerID w))]))
       (Into [] (\<lambda>j. do {
          m \<leftarrow> obj_members (Some j);
          dec_list (Job_UnmarshalJSON (env_times env)) (fmlookup m ''jobs'') })) t"

definition ack_body :: "string \<Rightarrow> anymap \<Rightarrow> json option" where
  "ack_body jobID result = struct_json [(''job_id'', enc_string jobID), (''result'', omit_map result)]"

definition ackJob :: "env \<Rightarrow> 'u worker \<Rightarrow> string \<Rightarrow> anymap \<Rightarrow> trace \<Rightarrow> unit call" where
  "ackJob env w jobID result t =
     transport_post env (wk_transport w) (basePath @ ''/workers/ack'')
       (Some (ack_body jobID result)) (Discard ()) t"

definition nack_body :: "string \<Rightarrow> string \<Rightarrow> string \<Rightarrow> bool \<Rightarrow> json option" where
  "nack_body jobID code msg retryable = struct_json
     [(''job_id'', enc_string jobID),
      (''error'', enc_json (struct_json [(''code'', enc_string code), (''message'', enc_string msg),
                                         (''retryable'', enc_bool retryable)]))]"

definition nackJob ::
  "env \<Rightarrow> 'u worker \<Rightarrow> string \<Rightarrow> string \<Rightarrow> string \<Rightarrow> bool \<Rightarrow> trace \<Rightarrow> unit call" where
  "nackJob env w jobID code msg retryable t =
     transport_post env (wk_transport w) (basePath @ ''/workers/nack'')
       (Some (nack_body jobID code msg retryable)) (Discard ()) t"

definition ackNackMaxRetries :: nat where "ackNackMaxRetries = 3"

text \<open>
  The loop that \<open>ackJobWithRetry\<close> and \<open>nackJobWithRetry\<close> share: up to \<open>ackNackMaxRetries\<close>
  attempts, with a pause of half a second more after each failed one; a context that is done
  ends the pause and the loop. \<open>n\<close> counts the attempts left.
\<close>

fun retry_call ::
  "env \<Rightarrow> (trace \<Rightarrow> unit call) \<Rightarrow> nat \<Rightarrow> go_error option \<Rightarrow> trace \<Rightarrow> go_error option \<times> trace" where
  "retry_call env call 0 lastErr t = (lastErr, t)"
| "retry_call env call (Suc n) lastErr t = (case call t of
     (Inr _, t1) \<Rightarrow> (None, t1)
   | (Inl e, t1) \<Rightarrow>
       (let attempt = ackNackMaxRetries - Suc n in
        case sleepWithContext env (wrap64 (int (attempt + 1) * (500 * millisecond))) t1 of
          (Some _, t2) \<Rightarrow> (Some e, t2)
        | (None, t2) \<Rightarrow> retry_call env call n (Some e) t2))"

definition ackJobWithRetry ::
  "env \<Rightarrow> 'u worker \<Rightarrow> string \<Rightarrow> anymap \<Rightarrow> trace \<Rightarrow> go_error option \<times> trace" where
  "ackJobWithRetry env w jobID result t =
     retry_call env (ackJob env w jobID result) ackNackMaxRetries None t"

definition nackJobWithRetry ::
  "env \<Rightarrow> 'u worker \<Rightarrow> string \<Rightarrow> string \<Rightarrow> string \<Rightarrow> bool \<Rightarrow> trace \<Rightarrow> go_error option \<times> trace" where
  "nackJobWithRetry env w jobID code msg retryable t =
     retry_call env (nackJob env w jobID code msg retryable) ackNackMaxRetries None t"

subsection \<open>State changes and heartbeats\<close>

text \<open>The new state a directive leads to from the current one, when there is one.\<close>

fun server_transition :: "worker_state \<Rightarrow> worker_state \<Rightarrow> worker_state option" where
  "server_transition WorkerStateRunning WorkerStateQuiet = Some WorkerStateQuiet"
| "server_transition WorkerStateRunning WorkerStateTerminate = Some WorkerStateTerminate"
| "server_transition WorkerStateQuiet WorkerStateTerminate = Some WorkerStateTerminate"
| "server_transition WorkerStateQuiet WorkerStateRunning = Some WorkerStateRunning"
| "server_transition _ _ = None"

definition handleServerState :: "worker_state \<Rightarrow> worker_vars \<Rightarrow> worker_vars" where
  "handleServerState desired v = (case server_transition (wv_state v) desired of
     None \<Rightarrow> v | Some s \<Rightarrow> v\<lparr>wv_state := s\<rparr>)"

definition getActiveJobIDs :: "worker_vars \<Rightarrow> string list" where
  "getActiveJobIDs v = wv_activeJobs v"

definition sendHeartbeat ::
  "env \<Rightarrow> 'u worker \<Rightarrow> worker_vars \<Rightarrow> trace \<Rightarrow> go_error option \<times> worker_vars \<times> trace" where
  "sendHeartbeat env w v t =
     (let ids = getActiveJobIDs v;
          body = struct_json
            [(''worker_id'', enc_string (wk_workerID w)),
             (''state'', enc_string (worker_state_string (wv_state v))),
             (''active_jobs'', enc_int (int (length ids))),
             (''active_job_ids'', Some (Some (JArr (map JStr ids))))];
          (r, t') = transport_post env (wk_transport w) (basePath @ ''/workers/heartbeat'') (Some body)
            (Into [] (\<lambda>j. do { m \<leftarrow> obj_members (Some j); dec_string (fmlookup m ''state'') })) t
      in case r of
        Inl e \<Rightarrow> (Some e, v, t')
      | Inr st \<Rightarrow> (None, if st \<noteq> [] then handleServerState (worker_state_of st) v else v, t'))"

text \<open>
  The heartbeat loop, over what its \<open>select\<close> sees: the context done, the worker stopped, or a tick, at which the
  variables are what the other goroutines have made of them. A heartbeat that fails is only logged.
\<close>

datatype hb_select = HbDone | HbStopped | HbTick "worker_vars \<Rightarrow> worker_vars"

fun heartbeatLoop ::
  "env \<Rightarrow> 'u worker \<Rightarrow> hb_select list \<Rightarrow> worker_vars \<Rightarrow> trace \<Rightarrow> worker_vars \<times> trace" where
  "heartbeatLoop env w (HbTick others # ss) v t =
     (case sendHeartbeat env w (others v) t of (_, v1, t1) \<Rightarrow> heartbeatLoop env w ss v1 t1)"
| "heartbeatLoop env w _ v t = (v, t)"

text \<open>
  The wait of a shutdown: \<open>load k\<close> is the active count at its \<open>k\<close>-th look. It may wait for ever, so the result is
  an option.
\<close>

partial_function (option) wait_from :: "(nat \<Rightarrow> int) \<Rightarrow> nat \<Rightarrow> trace \<Rightarrow> trace option" where
  "wait_from load k t =
     (if 0 < load k then wait_from load (k + 1) (t @ [EvSleep (100 * millisecond)]) else Some t)"

definition waitForActiveJobs :: "(nat \<Rightarrow> int) \<Rightarrow> trace \<Rightarrow> trace option" where
  "waitForActiveJobs load t = wait_from load 0 t"

subsection \<open>What a job may call\<close>

definition JobContext_SetResult :: "job_context \<Rightarrow> anymap \<Rightarrow> 'u world \<Rightarrow> 'u world" where
  "JobContext_SetResult jc result st = (if jc_has_resultRef jc then st\<lparr>hw_result := result\<rparr> else st)"

definition JobContext_Heartbeat ::
  "env \<Rightarrow> 'u worker \<Rightarrow> job_context \<Rightarrow> 'u world \<Rightarrow> go_error option \<times> 'u world" where
  "JobContext_Heartbeat env w jc st =
     (if \<not> jc_has_worker jc then (None, st)
      else case sendHeartbeat env w (hw_vars st) (hw_trace st) of
        (e, v, t) \<Rightarrow> (e, st\<lparr>hw_vars := v, hw_trace := t\<rparr>))"

definition JobContext_ReportProgressWithData ::
  "env \<Rightarrow> 'u worker \<Rightarrow> job_context \<Rightarrow> int \<Rightarrow> string \<Rightarrow> anymap \<Rightarrow> 'u world \<Rightarrow> go_error option \<times> 'u world" where
  "JobContext_ReportProgressWithData env w jc pct msg data st =
     (if \<not> jc_has_worker jc then (Some (PlainErr ''ojs: cannot report progress without a worker''), st)
      else case ReportProgress env (wk_transport w) (job_ID (jc_Job jc)) pct msg data (hw_trace st) of
        (Inl e, t) \<Rightarrow> (Some e, st\<lparr>hw_trace := t\<rparr>)
      | (Inr _, t) \<Rightarrow> (None, st\<lparr>hw_trace := t\<rparr>))"

definition JobContext_ReportProgress ::
  "env \<Rightarrow> 'u worker \<Rightarrow> job_context \<Rightarrow> int \<Rightarrow> string \<Rightarrow> 'u world \<Rightarrow> go_error option \<times> 'u world" where
  "JobContext_ReportProgress env w jc pct msg st =
     JobContext_ReportProgressWithData env w jc pct msg fmempty st"

subsection \<open>Processing a job\<close>

definition worker_context :: "job \<Rightarrow> job_context" where
  "worker_context j = \<lparr>jc_Job = j, jc_Attempt = job_Attempt j, jc_Queue = job_Queue j,
     jc_WorkflowID = [], jc_ParentResults = fmempty, jc_has_resultRef = True, jc_has_worker = True\<rparr>"

text \<open>The handler in its middleware, with the recovery of \<open>processJob\<close> around it and a fresh result cell.\<close>

definition run_handler ::
  "'u worker \<Rightarrow> 'u world handler \<Rightarrow> job \<Rightarrow> 'u world \<Rightarrow> go_error option \<times> 'u world" where
  "run_handler w h j st =
     (case chain_then (wk_middleware w) h (worker_context j) (st\<lparr>hw_result := fmempty\<rparr>) of
        (Panicked r, st1) \<Rightarrow> (Some (PlainErr (''panic in job handler: '' @ r)), st1)
      | (Returned e, st1) \<Rightarrow> (e, st1))"

definition processJob :: "env \<Rightarrow> 'u worker \<Rightarrow> job \<Rightarrow> 'u world \<Rightarrow> 'u world" where
  "processJob env w j st =
     (case wk_handlers w (job_Type j) of
        None \<Rightarrow> st\<lparr>hw_trace := snd (nackJob env w (job_ID j) ''handler_error''
          (''no handler registered for job type '' @ go_quote (job_Type j)) False (hw_trace st))\<rparr>
      | Some h \<Rightarrow> (case run_handler w h j st of
           (Some e, st1) \<Rightarrow> st1\<lparr>hw_trace := snd (nackJobWithRetry env w (job_ID j) ''handler_error''
             (err_msg e) (isHandlerRetryable e) (hw_trace st1))\<rparr>
         | (None, st1) \<Rightarrow> st1\<lparr>hw_trace := snd (ackJobWithRetry env w (job_ID j) (hw_result st1)
             (hw_trace st1))\<rparr>))"

definition nackActiveJobs :: "env \<Rightarrow> 'u worker \<Rightarrow> worker_vars \<Rightarrow> trace \<Rightarrow> trace" where
  "nackActiveJobs env w v t =
     foldl (\<lambda>t i. snd (nackJob env w i ''worker_shutdown''
       ''worker shutting down: grace period expired'' True t)) t (getActiveJobIDs v)"

subsection \<open>Fetch backoff\<close>

definition maxFetchBackoff :: int where "maxFetchBackoff = 30 * second"

definition fetchBackoff :: "int \<Rightarrow> int \<Rightarrow> int" where
  "fetchBackoff consecutiveErrors base =
     (if consecutiveErrors \<le> 1 then base
      else let shift0 = consecutiveErrors - 1;
               shift = (if 10 < shift0 then 10 else shift0);
               backoff = wrap64 (base * 2 ^ nat shift)
           in if maxFetchBackoff < backoff then maxFetchBackoff else backoff)"

subsection \<open>Directives of the server\<close>

definition directed :: "worker_state \<Rightarrow> worker_state list \<Rightarrow> worker_state" where
  "directed s ds = (if s = WorkerStateTerminate \<or> WorkerStateTerminate \<in> set ds then WorkerStateTerminate
     else last (s # filter (\<lambda>d. d = WorkerStateRunning \<or> d = WorkerStateQuiet) ds))"

lemma directed_step:
  fixes s d :: worker_state
  assumes "s \<in> {WorkerStateRunning, WorkerStateQuiet, WorkerStateTerminate}"
  defines "s' \<equiv> (case server_transition s d of None \<Rightarrow> s | Some x \<Rightarrow> x)"
  shows "s' \<in> {WorkerStateRunning, WorkerStateQuiet, WorkerStateTerminate}"
    and "directed s (d # ds) = directed s' ds"
proof -
  from assms(1) consider "s = WorkerStateRunning" | "s = WorkerStateQuiet" | "s = WorkerStateTerminate" by auto
  then show "s' \<in> {WorkerStateRunning, WorkerStateQuiet, WorkerStateTerminate}"
    unfolding s'_def by cases (cases d; simp)+
  from assms(1) consider "s = WorkerStateRunning" | "s = WorkerStateQuiet" | "s = WorkerStateTerminate" by auto
  then show "directed s (d # ds) = directed s' ds"
    unfolding s'_def directed_def by cases (cases d; simp)+
qed

text \<open>
  C40: after any sequence of directives a worker is terminating exactly when it was or one of them
  said so, and otherwise in the state of the last \<open>running\<close> or \<open>quiet\<close>; directives with other names
  change nothing.
\<close>

theorem server_directives:
  assumes "wv_state v \<in> {WorkerStateRunning, WorkerStateQuiet, WorkerStateTerminate}"
  shows "foldl (\<lambda>v d. handleServerState d v) v ds = v\<lparr>wv_state := directed (wv_state v) ds\<rparr>"
  using assms
proof (induction ds arbitrary: v)
  case (Cons d ds)
  let ?s = "case server_transition (wv_state v) d of None \<Rightarrow> wv_state v | Some x \<Rightarrow> x"
  have h: "handleServerState d v = v\<lparr>wv_state := ?s\<rparr>"
    by (simp add: handleServerState_def split: option.split)
  from directed_step [OF Cons.prems, of d] Cons.IH [of "handleServerState d v"]
  show ?case by (simp add: h)
qed (simp add: directed_def)

theorem server_directives_witness:
  "wv_state (foldl (\<lambda>v d. handleServerState d v)
      (snd (NewWorker ''w'' ''http://h'' [] :: unit worker \<times> worker_vars))
      [WorkerStateQuiet, WorkerStateTerminate, WorkerStateRunning]) = WorkerStateTerminate"
  by (subst server_directives) (simp_all add: NewWorker_def Let_def directed_def)

subsection \<open>The fetch backoff\<close>

lemma fetchBackoff_exact:
  assumes "0 \<le> base" "base \<le> maxFetchBackoff" "1 < k"
  shows "fetchBackoff k base = min (base * 2 ^ nat (min (k - 1) 10)) maxFetchBackoff"
proof -
  have sh: "nat (min (k - 1) 10) \<le> 10" using assms(3) by simp
  then have "(2 :: int) ^ nat (min (k - 1) 10) \<le> 2 ^ 10" by (intro power_increasing) simp_all
  then have "base * 2 ^ nat (min (k - 1) 10) \<le> 30000000000 * 1024"
    using assms(1,2) by (intro mult_mono) (simp_all add: maxFetchBackoff_def durations)
  moreover have "0 \<le> base * 2 ^ nat (min (k - 1) 10)" using assms(1) by simp
  ultimately have "in_int64 (base * 2 ^ nat (min (k - 1) 10))" by (simp add: in_int64_def)
  moreover have "(if 10 < k - 1 then 10 else k - 1) = min (k - 1) 10" by simp
  ultimately show ?thesis using assms(3) by (simp add: fetchBackoff_def Let_def min_def)
qed

text \<open>
  With a poll interval of at most 30 seconds the pause after a failed fetch is at least the
  interval, at most 30 seconds, and never shrinks as failures accumulate. With a longer
  interval the cap is not applied to the first failure.
\<close>

theorem fetch_backoff_bounds:
  assumes "0 \<le> base" "base \<le> maxFetchBackoff" "k \<le> k'"
  shows "base \<le> fetchBackoff k base \<and> fetchBackoff k base \<le> fetchBackoff k' base
    \<and> fetchBackoff k' base \<le> maxFetchBackoff
    \<and> fetchBackoff 1 (60 * second) = 60 * second \<and> fetchBackoff 2 (60 * second) = maxFetchBackoff"
proof -
  have one: "base \<le> base * 2 ^ n" for n :: nat
    using mult_left_mono [of 1 "2 ^ n" base] assms(1) by simp
  have mono: "base * 2 ^ nat (min (k - 1) 10) \<le> base * 2 ^ nat (min (k' - 1) 10)"
    using assms(1,3) by (intro mult_left_mono power_increasing) (auto simp: min_def)
  have lo: "base \<le> fetchBackoff k base" for k
    using one [of "nat (min (k - 1) 10)"] assms(1,2)
    by (cases "1 < k") (simp_all add: fetchBackoff_exact, simp add: fetchBackoff_def)
  have hi: "fetchBackoff k base \<le> maxFetchBackoff" for k
    using assms(1,2) by (cases "1 < k") (simp_all add: fetchBackoff_exact, simp add: fetchBackoff_def)
  have "fetchBackoff k base \<le> fetchBackoff k' base"
  proof (cases "1 < k")
    case True
    then show ?thesis using mono assms by (simp add: fetchBackoff_exact)
  next
    case False
    then have "fetchBackoff k base = base" by (simp add: fetchBackoff_def)
    then show ?thesis using lo [of k'] by simp
  qed
  then show ?thesis
    using lo hi by (simp add: fetchBackoff_def maxFetchBackoff_def durations in_int64_def)
qed

theorem fetch_backoff_bounds_witness:
  "fetchBackoff 3 second \<le> fetchBackoff 20 second \<and> fetchBackoff 20 second \<le> 30000000000"
  using fetch_backoff_bounds [of second 3 20] by (simp add: maxFetchBackoff_def durations)

subsection \<open>Reports about a job\<close>

text \<open>At most \<open>k\<close> requests, all to one path with one body.\<close>

definition reports :: "transport \<Rightarrow> string \<Rightarrow> json option \<Rightarrow> nat \<Rightarrow> trace \<Rightarrow> trace \<Rightarrow> bool" where
  "reports tr path body k t t' \<longleftrightarrow> (\<exists>ext. t' = t @ ext \<and> length (requests ext) \<le> k
     \<and> list_all (same_request ''POST'' (tr_baseURL tr @ path) body) (requests ext))"

lemma reports_refl [simp]: "reports tr path body k t t"
  by (simp add: reports_def)

lemma reports_trans:
  "reports tr path body k t t1 \<Longrightarrow> reports tr path body l t1 t2 \<Longrightarrow> reports tr path body (k + l) t t2"
  unfolding reports_def by (elim exE conjE, rule exI) (auto intro: add_mono)

lemma reports_sleep [simp]: "reports tr path body 0 t (t @ [EvSleep d])"
  unfolding reports_def by (rule exI [of _ "[EvSleep d]"]) simp

lemma retry_call_reports:
  assumes "\<And>t. reports tr path body k t (snd (call t))"
  shows "reports tr path body (n * k) t (snd (retry_call env call n e t))"
proof (induction n arbitrary: e t)
  case (Suc n)
  obtain r t1 where c: "call t = (r, t1)" by (cases "call t")
  with assms [of t] have t1: "reports tr path body k t t1" by simp
  let ?d = "wrap64 (int (ackNackMaxRetries - Suc n + 1) * (500 * millisecond))"
  have t2: "reports tr path body k t (t1 @ [EvSleep ?d])"
    using reports_trans [OF t1 reports_sleep] by simp
  have mono: "reports tr path body (k + n * k) t t'" if "reports tr path body k t t'" for t'
    using that by (auto simp: reports_def)
  show ?case
  proof (cases r)
    case (Inr u)
    with c have "snd (retry_call env call (Suc n) e t) = t1" by simp
    then show ?thesis using mono [OF t1] by simp
  next
    case (Inl e1)
    show ?thesis
    proof (cases "env_sleep_err env t1 ?d")
      case None
      then have "snd (retry_call env call (Suc n) e t) =
          snd (retry_call env call n (Some e1) (t1 @ [EvSleep ?d]))"
        using c Inl by (simp add: sleepWithContext_def Let_def)
      then show ?thesis using reports_trans [OF t2 Suc.IH] by simp
    next
      case (Some x)
      then have "snd (retry_call env call (Suc n) e t) = t1 @ [EvSleep ?d]"
        using c Inl by (simp add: sleepWithContext_def Let_def)
      then show ?thesis using mono [OF t2] by simp
    qed
  qed
qed simp

lemma post_reports:
  "reports tr path b (Suc (retry_budget (tr_retryConfig tr))) t (snd (transport_post env tr path (Some b) res t))"
  using sends_only_calls(3) [of tr path b t env res] by (simp add: sends_only_def reports_def)

lemma ackJobWithRetry_reports:
  "reports (wk_transport w) ''/ojs/v1/workers/ack'' (ack_body i result)
     (3 * Suc (retry_budget (tr_retryConfig (wk_transport w)))) t (snd (ackJobWithRetry env w i result t))"
  unfolding ackJobWithRetry_def ackNackMaxRetries_def
  by (rule retry_call_reports) (simp add: ackJob_def post_reports basePath_def)

lemma nackJobWithRetry_reports:
  "reports (wk_transport w) ''/ojs/v1/workers/nack'' (nack_body i c m r)
     (3 * Suc (retry_budget (tr_retryConfig (wk_transport w)))) t (snd (nackJobWithRetry env w i c m r t))"
  unfolding nackJobWithRetry_def ackNackMaxRetries_def
  by (rule retry_call_reports) (simp add: nackJob_def post_reports basePath_def)

text \<open>
  C2: what a job's handler did decides what the server is told: with no handler a non-retryable
  nack; after an error or a panic a nack with the error's text, retryable unless the error is
  marked; after success an ack with the job's result. Nothing else is sent, at most three
  times the request bound of the transport.
\<close>

theorem process_job_report:
  "let t' = hw_trace (processJob env w j st);
       bound = 3 * Suc (retry_budget (tr_retryConfig (wk_transport w)))
   in case wk_handlers w (job_Type j) of
        None \<Rightarrow> reports (wk_transport w) ''/ojs/v1/workers/nack''
          (nack_body (job_ID j) ''handler_error''
             (''no handler registered for job type '' @ go_quote (job_Type j)) False)
          bound (hw_trace st) t'
      | Some h \<Rightarrow> (case run_handler w h j st of
            (Some e, st1) \<Rightarrow> reports (wk_transport w) ''/ojs/v1/workers/nack''
              (nack_body (job_ID j) ''handler_error'' (err_msg e) (\<not> errors_As_nonRetryable e))
              bound (hw_trace st1) t'
          | (None, st1) \<Rightarrow> reports (wk_transport w) ''/ojs/v1/workers/ack''
              (ack_body (job_ID j) (hw_result st1)) bound (hw_trace st1) t')"
proof -
  have nack: "reports (wk_transport w) ''/ojs/v1/workers/nack'' (nack_body i c m r)
     (3 * Suc (retry_budget (tr_retryConfig (wk_transport w)))) t (snd (nackJob env w i c m r t))" for i c m r t
    using post_reports [of "wk_transport w" "''/ojs/v1/workers/nack''" "nack_body i c m r" t env "Discard ()"]
    by (auto simp: nackJob_def basePath_def reports_def)
  show ?thesis
    using nack ackJobWithRetry_reports [of w] nackJobWithRetry_reports [of w]
    by (auto simp: processJob_def Let_def isHandlerRetryable_def split: option.splits prod.splits)
qed

subsection \<open>Delivery and its limits\<close>

text \<open>A server that accepts everything sent after a given point, at the first attempt.\<close>

definition accepting :: "env \<Rightarrow> bool" where
  "accepting env \<longleftrightarrow> calm env \<and> (\<forall>t r. \<exists>h. env_server env t r = Inr \<lparr>rs_status = 200, rs_headers = h, rs_body = Inr []\<rparr>)"

lemma accepting_post:
  assumes "accepting env" "b = Some j"
  shows "\<exists>r. transport_post env tr path (Some b) (Discard ()) t = (Inr (), t @ [EvReq r])
    \<and> same_request ''POST'' (tr_baseURL tr @ path) b r"
proof -
  from assms(1) obtain h where "env_server env t r = Inr \<lparr>rs_status = 200, rs_headers = h r, rs_body = Inr []\<rparr>" for r
    unfolding accepting_def by metis
  with assms show ?thesis
    by (auto simp: accepting_def calm_def transport_post_def transport_do_def do_loop.simps [of _ _ _ _ _ _ 0]
        do_attempt_def http_Do_def Let_def maxResponseBodyLen_def shouldRetry_def finish_response_def
        same_request_def)
qed

lemma ack_body_encodable: "marshalable (VMap result) \<Longrightarrow> \<exists>j. ack_body i result = Some j"
  by (auto simp: ack_body_def struct_json_def enc_string_def omit_map_def enc_json_def marshal_def)

lemma nack_body_encodable: "\<exists>j. nack_body i c m r = Some j"
  by (simp add: nack_body_def struct_json_def enc_string_def enc_bool_def enc_json_def)

lemma ack_body_refused: "\<not> marshalable (VMap result) \<Longrightarrow> ack_body i result = None"
  by (auto simp: ack_body_def struct_json_def enc_string_def omit_map_def enc_json_def marshal_def)

lemma retry_call_silent:
  assumes "\<And>t. \<exists>e. call t = (Inl e, t)"
  shows "requests (snd (retry_call env call n e t)) = requests t"
proof (induction n arbitrary: e t)
  case (Suc n)
  obtain e1 where "call t = (Inl e1, t)" using assms by blast
  with Suc.IH show ?case
    by (simp add: sleepWithContext_def Let_def split: option.split)
qed simp

text \<open>
  C3: with a server that accepts requests, a well-formed URL and a context that is not done, a job with a handler is
  reported in exactly one request, right after the handler: a nack after an error or a panic, an
  ack with the job's result after success. The one exception: a result that JSON cannot express
  (a number that is not finite) is never reported, its job is neither acked nor nacked.
\<close>

theorem process_job_reports_once:
  assumes "accepting env" "wk_handlers w (job_Type j) = Some h"
    and "run_handler w h j st = (err, st1)"
  shows "let t' = hw_trace (processJob env w j st);
      sent = (\<lambda>path body. \<exists>r. t' = hw_trace st1 @ [EvReq r] \<and> body \<noteq> None
        \<and> same_request ''POST'' (tr_baseURL (wk_transport w) @ path) body r)
    in case err of
         None \<Rightarrow> (if marshalable (VMap (hw_result st1))
                  then sent ''/ojs/v1/workers/ack'' (ack_body (job_ID j) (hw_result st1))
                  else requests t' = requests (hw_trace st1))
       | Some e \<Rightarrow> sent ''/ojs/v1/workers/nack''
                   (nack_body (job_ID j) ''handler_error'' (err_msg e) (isHandlerRetryable e))"
proof (cases err)
  case (Some e)
  obtain b where b: "nack_body (job_ID j) ''handler_error'' (err_msg e) (isHandlerRetryable e) = Some b"
    using nack_body_encodable by blast
  from accepting_post [OF assms(1) this, of "wk_transport w" "''/ojs/v1/workers/nack''" "hw_trace st1"] b
  show ?thesis using assms(2,3) Some
    by (auto simp: processJob_def nackJobWithRetry_def nackJob_def ackNackMaxRetries_def basePath_def
        numeral_3_eq_3)
next
  case None
  show ?thesis
  proof (cases "marshalable (VMap (hw_result st1))")
    case True
    then obtain b where b: "ack_body (job_ID j) (hw_result st1) = Some b"
      using ack_body_encodable by blast
    from accepting_post [OF assms(1) this, of "wk_transport w" "''/ojs/v1/workers/ack''" "hw_trace st1"] b
    show ?thesis using assms(2,3) None True
      by (auto simp: processJob_def ackJobWithRetry_def ackJob_def ackNackMaxRetries_def basePath_def
          numeral_3_eq_3)
  next
    case False
    have "requests (snd (ackJobWithRetry env w (job_ID j) (hw_result st1) t)) = requests t" for t
      unfolding ackJobWithRetry_def
      by (rule retry_call_silent)
        (simp add: ackJob_def ack_body_refused [OF False] transport_post_def transport_do_def)
    with assms(2,3) None False show ?thesis
      by (simp add: processJob_def)
  qed
qed

text \<open>A context that is done stays done.\<close>

definition done_from :: "env \<Rightarrow> trace \<Rightarrow> bool" where
  "done_from env t \<longleftrightarrow> (\<forall>u. env_ctx_err env (t @ u) \<noteq> None)"

lemma done_from_append: "done_from env t \<Longrightarrow> done_from env (t @ u)"
  by (simp add: done_from_def)

lemma done_from_post:
  assumes "done_from env t"
  shows "\<exists>e. transport_post env tr path body res t = (Inl e, t)"
proof -
  obtain c where "env_ctx_err env t = Some c" using assms unfolding done_from_def by (metis append_Nil2 not_None_eq)
  then show ?thesis
    by (auto simp: transport_post_def transport_do_def do_loop.simps [of _ _ _ _ _ _ 0] do_attempt_def
        http_Do_def Let_def split: option.splits)
qed

lemma retry_call_done:
  assumes "\<And>t. done_from env t \<Longrightarrow> \<exists>e. call t = (Inl e, t)" "done_from env t"
  shows "requests (snd (retry_call env call n e t)) = requests t"
  using assms(2)
proof (induction n arbitrary: e t)
  case (Suc n)
  obtain e1 where "call t = (Inl e1, t)" using assms(1) Suc.prems by blast
  with Suc.IH [OF done_from_append [OF Suc.prems]] show ?case
    by (simp add: sleepWithContext_def Let_def split: option.split)
qed simp

text \<open>
  C14: a job that finishes after the context of \<open>Start\<close> was cancelled, as every job does that ends
  during the grace period, is never reported: neither its ack nor its nack is sent.
\<close>

theorem grace_period_reports_lost:
  assumes "wk_handlers w (job_Type j) = Some h" "run_handler w h j st = (err, st1)"
    and "done_from env (hw_trace st1)"
  shows "requests (hw_trace (processJob env w j st)) = requests (hw_trace st1)"
proof -
  have "requests (snd (ackJobWithRetry env w i r (hw_trace st1))) = requests (hw_trace st1)" for i r
    unfolding ackJobWithRetry_def
    by (rule retry_call_done [OF _ assms(3)]) (simp add: ackJob_def done_from_post)
  moreover have "requests (snd (nackJobWithRetry env w i c m r (hw_trace st1))) = requests (hw_trace st1)" for i c m r
    unfolding nackJobWithRetry_def
    by (rule retry_call_done [OF _ assms(3)]) (simp add: nackJob_def done_from_post)
  ultimately show ?thesis
    using assms(1,2) by (simp add: processJob_def split: option.split)
qed

text \<open>A worker with one handler that succeeds, for concrete runs.\<close>

definition demo_worker :: "unit worker" where
  "demo_worker = Register ''t'' (\<lambda>ctx st. (Returned None, JobContext_SetResult ctx fmempty st))
     (fst (NewWorker ''w'' ''http://h'' []))"

definition demo_world :: "unit world" where
  "demo_world = \<lparr>hw_result = fmempty, hw_trace = [],
     hw_vars = snd (NewWorker ''w'' ''http://h'' [] :: unit worker \<times> worker_vars), hw_user = ()\<rparr>"

definition demo_job :: job where
  "demo_job = zero_job\<lparr>job_ID := ''j'', job_Type := ''t''\<rparr>"

lemma demo_handler:
  "wk_handlers demo_worker (job_Type demo_job) =
     Some (\<lambda>ctx st. (Returned None, JobContext_SetResult ctx fmempty st))"
  "run_handler demo_worker (\<lambda>ctx st. (Returned None, JobContext_SetResult ctx fmempty st)) demo_job demo_world
     = (None, demo_world)"
  by (simp_all add: demo_worker_def Register_def demo_job_def run_handler_def NewWorker_def Let_def
      newMiddlewareChain_def JobContext_SetResult_def worker_context_def demo_world_def)

theorem process_job_reports_once_witness:
  "\<exists>r. hw_trace (processJob (plain_env (status_server (\<lambda>_. 200)) (\<lambda>_. None)) demo_worker demo_job demo_world)
     = [EvReq r]"
proof -
  have "accepting (plain_env (status_server (\<lambda>_. 200)) (\<lambda>_. None))"
    by (simp add: accepting_def) (simp add: plain_env_def status_server_def)
  from process_job_reports_once [OF this demo_handler] show ?thesis
    by (auto simp: demo_world_def)
qed

theorem grace_period_reports_lost_witness:
  "requests (hw_trace (processJob
      ((plain_env (status_server (\<lambda>_. 200)) (\<lambda>_. None))\<lparr>env_ctx_err := \<lambda>_. Some (Sentinel ContextCanceled)\<rparr>)
      demo_worker demo_job demo_world)) = []"
  by (subst grace_period_reports_lost [OF demo_handler])
    (simp_all add: done_from_def demo_world_def)

subsection \<open>Heartbeats and the wait\<close>

lemma sendHeartbeat_vars:
  "sendHeartbeat env w v t = (e, v1, t1) \<Longrightarrow> v1 = v \<or> (\<exists>d. v1 = handleServerState d v)"
  by (auto simp: sendHeartbeat_def Let_def split: prod.splits sum.splits if_splits)

lemma terminate_is_final: "wv_state v = WorkerStateTerminate \<Longrightarrow> handleServerState d v = v"
  by (simp add: handleServerState_def server_transition.simps split: option.split)

text \<open>
  A worker told to terminate stays so over all heartbeats to come, unless another goroutine writes its
  state, and sends nothing after it stopped.
\<close>

lemma heartbeats_keep_terminate:
  assumes "wv_state v = WorkerStateTerminate"
    and "\<And>others u. HbTick others \<in> set ss \<Longrightarrow> wv_state (others u) = wv_state u"
  shows "wv_state (fst (heartbeatLoop env w ss v t)) = WorkerStateTerminate
    \<and> heartbeatLoop env w (HbStopped # ss) v t = (v, t)"
  using assms
proof (induction ss arbitrary: v t)
  case (Cons s ss)
  show ?case
  proof (cases s)
    case (HbTick others)
    obtain e v1 t1 where hb: "sendHeartbeat env w (others v) t = (e, v1, t1)" by (rule prod_cases3)
    have "wv_state (others v) = WorkerStateTerminate" using Cons.prems HbTick by simp
    with sendHeartbeat_vars [OF hb] have "wv_state v1 = WorkerStateTerminate"
      by (auto simp: terminate_is_final)
    with Cons.IH [of v1 t1] Cons.prems(2) show ?thesis by (simp add: HbTick hb)
  qed (use Cons.prems in simp_all)
qed simp

lemma wait_from_idle:
  "(\<And>i. i < n \<Longrightarrow> 0 < load (k + i)) \<Longrightarrow> load (k + n) \<le> 0 \<Longrightarrow>
   wait_from load k t = Some (t @ replicate n (EvSleep (100 * millisecond)))"
proof (induction n arbitrary: k t)
  case 0
  then show ?case by (subst wait_from.simps) simp
next
  case (Suc n)
  from Suc.prems(1) [of 0] have "0 < load k" by simp
  moreover have "wait_from load (Suc k) (t @ [EvSleep (100 * millisecond)]) =
      Some ((t @ [EvSleep (100 * millisecond)]) @ replicate n (EvSleep (100 * millisecond)))"
    using Suc.prems(1) [of "Suc i" for i] Suc.prems(2) by (intro Suc.IH) simp_all
  ultimately show ?case by (subst wait_from.simps) simp
qed

lemma wait_from_returns:
  assumes "wait_from load k t = Some t'"
  shows "\<exists>n. load (k + n) \<le> 0"
  using assms
proof (rule wait_from.raw_induct [where P = "\<lambda>load k t t'. \<exists>n. load (k + n) \<le> 0", rotated])
  fix wf :: "(nat \<Rightarrow> int) \<Rightarrow> nat \<Rightarrow> trace \<Rightarrow> trace option" and load :: "nat \<Rightarrow> int" and k t t'
  assume IH: "\<And>load k t t'. wf load k t = Some t' \<Longrightarrow> \<exists>n. load (k + n) \<le> 0"
    and step: "(if 0 < load k then wf load (k + 1) (t @ [EvSleep (100 * millisecond)]) else Some t) = Some t'"
  show "\<exists>n. load (k + n) \<le> 0"
  proof (cases "0 < load k")
    case True
    with step have "wf load (k + 1) (t @ [EvSleep (100 * millisecond)]) = Some t'" by simp
    from IH [OF this] obtain n where "load (k + 1 + n) \<le> 0" by blast
    then show ?thesis by (intro exI [of _ "1 + n"]) (simp add: add.assoc)
  next
    case False
    then show ?thesis by (intro exI [of _ 0]) simp
  qed
qed

text \<open>
  C35: The wait of a shutdown ends exactly when the active count is ever seen at zero: then it has slept 100
  milliseconds for every look before the first such one, and otherwise it never returns.
\<close>

theorem wait_ends_when_idle:
  "waitForActiveJobs load t = (if \<exists>n. load n \<le> 0
     then Some (t @ replicate (LEAST n. load n \<le> 0) (EvSleep (100 * millisecond))) else None)"
proof (cases "\<exists>n. load n \<le> 0")
  case True
  then have "load (LEAST n. load n \<le> 0) \<le> 0" by (rule LeastI_ex)
  moreover have "0 < load i" if "i < (LEAST n. load n \<le> 0)" for i
    using not_less_Least [OF that] by simp
  ultimately show ?thesis
    using True wait_from_idle [of "LEAST n. load n \<le> 0" load 0 t] by (simp add: waitForActiveJobs_def)
next
  case False
  with wait_from_returns [of load 0 t] have "wait_from load 0 t = None"
    by (cases "wait_from load 0 t") auto
  with False show ?thesis by (simp add: waitForActiveJobs_def)
qed

end
