(* ===== verification/Durable.thy ===== *)
theory Durable
  imports Worker
begin

text \<open>
  Durable execution (\<open>durable.go\<close>): the replay log of a job, its three recording operations,
  and saving, loading and clearing the log through the server's checkpoints. A handler is a
  sequence of operations (\<open>op\<close>); what they do outside (the clock, the random source, the
  calls of side effects) is a state \<open>'w\<close>. The lemmas show that a log survives its JSON, and that a
  replay returns what was recorded without touching the outside. The 5 second timeouts of the
  checkpoint calls belong to the context in \<open>env\<close>; a nil raw result and \<open>null\<close> are the same.
\<close>

subsection \<open>State\<close>

record side_effect_entry =
  se_Seq :: int
  se_Type :: string
  se_Key :: string
  se_Result :: json

record durable_context =
  dc_jobID :: string
  dc_attempt :: int
  dc_entries :: "side_effect_entry list"
  dc_cursor :: nat
  dc_replaying :: bool

definition enc_entry :: "side_effect_entry \<Rightarrow> json option" where
  "enc_entry e = struct_json
     [(''seq'', enc_int (se_Seq e)), (''type'', enc_string (se_Type e)),
      (''key'', omit_string (se_Key e)), (''result'', Some (Some (se_Result e)))]"

definition dec_entry :: "json option \<Rightarrow> side_effect_entry option" where
  "dec_entry d = do {
     m \<leftarrow> obj_members d;
     sq \<leftarrow> dec_int (fmlookup m ''seq'');
     ty \<leftarrow> dec_string (fmlookup m ''type'');
     key \<leftarrow> dec_string (fmlookup m ''key'');
     Some \<lparr>se_Seq = sq, se_Type = ty, se_Key = key,
       se_Result = (case fmlookup m ''result'' of None \<Rightarrow> JNull | Some j \<Rightarrow> j)\<rparr> }"

subsection \<open>Operations on the log\<close>

text \<open>The entry to replay, when there is one of the right type.\<close>

definition replay_entry :: "string \<Rightarrow> durable_context \<Rightarrow> side_effect_entry option" where
  "replay_entry ty dc =
     (if dc_replaying dc \<and> dc_cursor dc < length (dc_entries dc)
         \<and> se_Type (dc_entries dc ! dc_cursor dc) = ty
      then Some (dc_entries dc ! dc_cursor dc) else None)"

definition advance :: "durable_context \<Rightarrow> durable_context" where
  "advance dc = dc\<lparr>dc_cursor := dc_cursor dc + 1,
     dc_replaying := (if length (dc_entries dc) \<le> dc_cursor dc + 1 then False else dc_replaying dc)\<rparr>"

definition record_entry :: "string \<Rightarrow> string \<Rightarrow> json \<Rightarrow> durable_context \<Rightarrow> durable_context" where
  "record_entry ty key r dc = dc\<lparr>dc_entries := dc_entries dc @
     [\<lparr>se_Seq = int (length (dc_entries dc)), se_Type = ty, se_Key = key, se_Result = r\<rparr>],
     dc_replaying := False\<rparr>"

definition Durable_Now ::
  "time_codec \<Rightarrow> ('w \<Rightarrow> time \<times> 'w) \<Rightarrow> 'w \<Rightarrow> durable_context \<Rightarrow> time \<times> 'w \<times> durable_context" where
  "Durable_Now tc clock w dc =
     (case Option.bind (replay_entry ''time'' dc) (\<lambda>e. dec_time_value tc (Some (se_Result e))) of
        Some t \<Rightarrow> (t, w, advance dc)
      | None \<Rightarrow> (case clock w of (t, w') \<Rightarrow>
          (t, w', record_entry ''time'' ''now''
             (case enc_time tc t of None \<Rightarrow> JNull | Some j \<Rightarrow> j) dc)))"

definition Durable_Random ::
  "(nat \<Rightarrow> 'w \<Rightarrow> 8 word list \<times> 'w) \<Rightarrow> nat \<Rightarrow> 'w \<Rightarrow> durable_context \<Rightarrow> string \<times> 'w \<times> durable_context" where
  "Durable_Random rand n w dc =
     (case Option.bind (replay_entry ''random'' dc) (\<lambda>e. dec_string (Some (se_Result e))) of
        Some s \<Rightarrow> (s, w, advance dc)
      | None \<Rightarrow> (case rand n w of (bs, w') \<Rightarrow>
          (hex_bytes bs, w', record_entry ''random'' [] (JStr (hex_bytes bs)) dc)))"

definition Durable_SideEffect ::
  "go_error \<Rightarrow> string \<Rightarrow> ('w \<Rightarrow> (go_error + any) \<times> 'w) \<Rightarrow> 'w \<Rightarrow> durable_context
     \<Rightarrow> (go_error + json) \<times> 'w \<times> durable_context" where
  "Durable_SideEffect merr key fn w dc =
     (case replay_entry ''call'' dc of
        Some e \<Rightarrow>
          (if key \<noteq> [] \<and> se_Key e \<noteq> [] \<and> se_Key e \<noteq> key then
             (Inl (PlainErr (''ojs: durable replay key mismatch at position '' @ show_nat (dc_cursor dc)
                @ '': checkpoint has '' @ go_quote (se_Key e) @ '' but code called '' @ go_quote key
                @ '' '' @ [CHR 0xE2, CHR 0x80, CHR 0x94]
                @ '' handler logic may have changed since checkpoint was saved'')), w, dc)
           else (Inr (se_Result e), w, advance dc))
      | None \<Rightarrow> (let dc1 = dc\<lparr>dc_replaying := False\<rparr> in
          case fn w of
            (Inl e, w') \<Rightarrow> (Inl e, w', dc1)
          | (Inr result, w') \<Rightarrow> (case marshal result of
               None \<Rightarrow> (Inl (Wrapf (''ojs: marshal side effect '' @ go_quote key @ '' result: '') merr), w', dc1)
             | Some data \<Rightarrow> (Inr data, w', record_entry ''call'' key data dc1))))"

definition IsReplaying :: "durable_context \<Rightarrow> bool" where
  "IsReplaying dc = (dc_replaying dc \<and> dc_cursor dc < length (dc_entries dc))"

subsection \<open>Checkpoints\<close>

definition fresh_context :: "string \<Rightarrow> int \<Rightarrow> durable_context" where
  "fresh_context jobID attempt = \<lparr>dc_jobID = jobID, dc_attempt = attempt, dc_entries = [],
     dc_cursor = 0, dc_replaying = False\<rparr>"

text \<open>The context that continues from a log.\<close>

definition resumed :: "string \<Rightarrow> int \<Rightarrow> side_effect_entry list \<Rightarrow> durable_context" where
  "resumed jobID attempt es =
     (if es = [] then fresh_context jobID attempt
      else (fresh_context jobID attempt)\<lparr>dc_entries := es, dc_replaying := True\<rparr>)"

text \<open>What the response of the resume call says: whether there is a checkpoint, and its metadata.\<close>

definition dec_resume :: "json \<Rightarrow> (bool \<times> (string, string) fmap option) option" where
  "dec_resume j = do {
     m \<leftarrow> obj_members (Some j);
     has \<leftarrow> dec_bool (fmlookup m ''has_checkpoint'');
     cp \<leftarrow> dec_ptr (\<lambda>d. do {
        c \<leftarrow> obj_members d;
        dec_map dec_string (fmlookup c ''metadata'') }) (fmlookup m ''checkpoint'');
     Some (has, cp) }"

definition decode_log :: "env \<Rightarrow> string \<Rightarrow> side_effect_entry list option" where
  "decode_log env logData = Option.bind (env_parse_json env logData) (\<lambda>j. dec_list dec_entry (Some j))"

definition newDurableContext ::
  "env \<Rightarrow> transport \<Rightarrow> string \<Rightarrow> int \<Rightarrow> trace \<Rightarrow> durable_context \<times> trace" where
  "newDurableContext env tr jobID attempt t =
     (case transport_get env tr (basePath @ ''/checkpoints/'' @ jobID @ ''/resume'')
             (Into (False, None) dec_resume) t of
        (Inr (True, Some meta), t') \<Rightarrow>
          (case Option.bind (fmlookup meta ''_replay_log'') (decode_log env) of
             Some es \<Rightarrow> (resumed jobID attempt es, t')
           | None \<Rightarrow> (fresh_context jobID attempt, t'))
      | (_, t') \<Rightarrow> (fresh_context jobID attempt, t'))"

text \<open>\<open>print\<close> is the text \<open>json.Marshal\<close> writes for a tree.\<close>

definition checkpoint_body ::
  "(json \<Rightarrow> string) \<Rightarrow> json \<Rightarrow> json \<Rightarrow> int \<Rightarrow> int \<Rightarrow> json option" where
  "checkpoint_body print logData stateData stepIndex attempt = struct_json
     [(''state'', Some (Some stateData)), (''step_index'', enc_int stepIndex),
      (''metadata'', Some (Some (JObj (fmap_of_list
         [(''_replay_log'', JStr (print logData)), (''attempt'', JStr (show_int attempt))]))))]"

definition Durable_Checkpoint ::
  "env \<Rightarrow> transport \<Rightarrow> (json \<Rightarrow> string) \<Rightarrow> durable_context \<Rightarrow> int \<Rightarrow> any \<Rightarrow> trace \<Rightarrow> unit call" where
  "Durable_Checkpoint env tr print dc stepIndex state t =
     (case enc_array enc_entry (dc_entries dc) of
        None \<Rightarrow> (Inl (Wrapf ''ojs: marshal replay log: '' (env_marshal_error env)), t)
      | Some logData \<Rightarrow> (case marshal state of
           None \<Rightarrow> (Inl (Wrapf ''ojs: marshal checkpoint state: '' (env_marshal_error env)), t)
         | Some stateData \<Rightarrow>
             transport_do env tr ''PUT'' (basePath @ ''/checkpoints/'' @ dc_jobID dc)
               (Some (checkpoint_body print logData stateData stepIndex (dc_attempt dc))) (Discard ()) t))"

definition Durable_Complete :: "env \<Rightarrow> transport \<Rightarrow> durable_context \<Rightarrow> trace \<Rightarrow> unit call" where
  "Durable_Complete env tr dc t =
     transport_delete env tr (basePath @ ''/checkpoints/'' @ dc_jobID dc) (Discard ()) t"

definition RegisterDurable ::
  "env \<Rightarrow> string \<Rightarrow> (job_context \<Rightarrow> durable_context \<Rightarrow> 'u world \<Rightarrow> hresult \<times> 'u world)
     \<Rightarrow> 'u worker \<Rightarrow> 'u worker" where
  "RegisterDurable env jobType handler w =
     Register jobType (\<lambda>ctx st.
       case newDurableContext env (wk_transport w) (job_ID (jc_Job ctx)) (jc_Attempt ctx) (hw_trace st) of
         (dc, t) \<Rightarrow> handler ctx dc (st\<lparr>hw_trace := t\<rparr>)) w"

subsection \<open>Handlers as sequences of operations\<close>

text \<open>The outside of a durable handler.\<close>

record 'w outside =
  od_clock :: "'w \<Rightarrow> time \<times> 'w"
  od_rand :: "nat \<Rightarrow> 'w \<Rightarrow> 8 word list \<times> 'w"
  od_call :: "string \<Rightarrow> 'w \<Rightarrow> (go_error + any) \<times> 'w"
  od_times :: time_codec
  od_marshal_error :: go_error

datatype op = OpNow | OpRandom nat | OpSideEffect string

datatype op_result = RTime time | RString string | RCall "go_error + json"

fun run_op :: "'w outside \<Rightarrow> op \<Rightarrow> 'w \<Rightarrow> durable_context \<Rightarrow> op_result \<times> 'w \<times> durable_context" where
  "run_op od OpNow w dc = (case Durable_Now (od_times od) (od_clock od) w dc of
     (t, w', dc') \<Rightarrow> (RTime t, w', dc'))"
| "run_op od (OpRandom n) w dc = (case Durable_Random (od_rand od) n w dc of
     (s, w', dc') \<Rightarrow> (RString s, w', dc'))"
| "run_op od (OpSideEffect key) w dc =
     (case Durable_SideEffect (od_marshal_error od) key (od_call od key) w dc of
        (r, w', dc') \<Rightarrow> (RCall r, w', dc'))"

fun run_ops :: "'w outside \<Rightarrow> op list \<Rightarrow> 'w \<Rightarrow> durable_context \<Rightarrow> op_result list \<times> 'w \<times> durable_context" where
  "run_ops od [] w dc = ([], w, dc)"
| "run_ops od (p # ps) w dc = (case run_op od p w dc of (r, w1, dc1) \<Rightarrow>
     (case run_ops od ps w1 dc1 of (rs, w2, dc2) \<Rightarrow> (r # rs, w2, dc2)))"

text \<open>A result that the log records: not the error of a side effect, and an instant that has a JSON text.\<close>

fun recorded :: "time_codec \<Rightarrow> op_result \<Rightarrow> bool" where
  "recorded tc (RTime t) = (format_time tc t \<noteq> None)"
| "recorded tc (RString s) = True"
| "recorded tc (RCall r) = (case r of Inl e \<Rightarrow> False | Inr j \<Rightarrow> True)"

text \<open>The entry an operation leaves in the log.\<close>

fun entry_of :: "time_codec \<Rightarrow> op \<Rightarrow> op_result \<Rightarrow> nat \<Rightarrow> side_effect_entry" where
  "entry_of tc p (RTime t) n = \<lparr>se_Seq = int n, se_Type = ''time'', se_Key = ''now'',
     se_Result = (case enc_time tc t of None \<Rightarrow> JNull | Some j \<Rightarrow> j)\<rparr>"
| "entry_of tc p (RString s) n = \<lparr>se_Seq = int n, se_Type = ''random'', se_Key = [], se_Result = JStr s\<rparr>"
| "entry_of tc p (RCall r) n = \<lparr>se_Seq = int n, se_Type = ''call'',
     se_Key = (case p of OpSideEffect key \<Rightarrow> key | _ \<Rightarrow> []),
     se_Result = (case r of Inl e \<Rightarrow> JNull | Inr j \<Rightarrow> j)\<rparr>"

lemma run_op_records:
  assumes "run_op od p w dc = (r, w', dc')" "\<not> dc_replaying dc" "recorded (od_times od) r"
  shows "dc' = dc\<lparr>dc_entries := dc_entries dc @ [entry_of (od_times od) p r (length (dc_entries dc))]\<rparr>"
  using assms
  by (cases p) (auto simp: Durable_Now_def Durable_Random_def Durable_SideEffect_def replay_entry_def
      record_entry_def Let_def split: prod.splits sum.splits option.splits)

text \<open>An operation that finds its own entry at the cursor returns what was recorded.\<close>

lemma run_op_replays:
  assumes "time_codec_ok (od_times od)" "recorded (od_times od) r"
    and "run_op od p w0 dc0 = (r, w0', dc0')" "\<not> dc_replaying dc0"
    and "dc_replaying dc" "dc_cursor dc < length (dc_entries dc)"
    and "dc_entries dc ! dc_cursor dc = entry_of (od_times od) p r n"
  shows "run_op od p w dc = (r, w, advance dc)"
proof (cases p)
  case OpNow
  with assms(3) obtain t where r: "r = RTime t" by (auto split: prod.splits)
  with assms(2) obtain s where s: "format_time (od_times od) t = Some s" by auto
  then have "parse_time (od_times od) s = Some t" using assms(1) by (simp add: time_codec_ok_def)
  then show ?thesis using OpNow r s assms(5-7)
    by (simp add: Durable_Now_def replay_entry_def enc_time_def)
next
  case (OpRandom k)
  with assms(3) obtain s where "r = RString s" by (auto split: prod.splits)
  then show ?thesis using OpRandom assms(5-7) by (simp add: Durable_Random_def replay_entry_def)
next
  case (OpSideEffect key)
  with assms(3) obtain x where "r = RCall x" by (auto split: prod.splits)
  with assms(2) obtain j where "r = RCall (Inr j)" by (cases x) auto
  then show ?thesis using OpSideEffect assms(5-7)
    by (simp add: Durable_SideEffect_def replay_entry_def)
qed

text \<open>The state of a replay that has consumed \<open>k\<close> entries of the log \<open>es\<close>.\<close>

definition replay_at :: "durable_context \<Rightarrow> side_effect_entry list \<Rightarrow> nat \<Rightarrow> durable_context" where
  "replay_at dc es k = dc\<lparr>dc_entries := es, dc_cursor := k, dc_replaying := (k < length es)\<rparr>"

lemma advance_replay_at: "k < length es \<Longrightarrow> advance (replay_at dc es k) = replay_at dc es (Suc k)"
  by (auto simp: advance_def replay_at_def)

lemma replay_prefix:
  assumes "time_codec_ok (od_times od)"
    and "run_ops od ps w0 dc0 = (rs, w1, dc1)" "\<not> dc_replaying dc0"
    and "list_all (recorded (od_times od)) rs"
    and "dc_entries dc1 = es"
  shows "length es = length (dc_entries dc0) + length ps
    \<and> take (length (dc_entries dc0)) es = dc_entries dc0
    \<and> run_ops od ps w (replay_at dc es (length (dc_entries dc0))) = (rs, w, replay_at dc es (length es))"
  using assms(2-5)
proof (induction ps arbitrary: w0 dc0 rs)
  case Nil
  then show ?case by (auto simp: replay_at_def)
next
  case (Cons p ps)
  obtain r w2 dc2 where p: "run_op od p w0 dc0 = (r, w2, dc2)" by (cases "run_op od p w0 dc0") auto
  obtain rs' where ps: "run_ops od ps w2 dc2 = (rs', w1, dc1)" and rs: "rs = r # rs'"
    using Cons.prems(1) p by (auto split: prod.splits)
  let ?n = "length (dc_entries dc0)"
  have rec: "recorded (od_times od) r" "list_all (recorded (od_times od)) rs'"
    using Cons.prems(3) rs by simp_all
  have dc2: "dc2 = dc0\<lparr>dc_entries := dc_entries dc0 @ [entry_of (od_times od) p r ?n]\<rparr>"
    by (rule run_op_records [OF p Cons.prems(2) rec(1)])
  from Cons.IH [OF ps _ rec(2) Cons.prems(4)] Cons.prems(2) dc2
  have IH: "length es = Suc ?n + length ps" "take (Suc ?n) es = dc_entries dc0 @ [entry_of (od_times od) p r ?n]"
    "run_ops od ps w (replay_at dc es (Suc ?n)) = (rs', w, replay_at dc es (length es))" by simp_all
  have n: "?n < length es" using IH(1) by simp
  have e: "es ! ?n = entry_of (od_times od) p r ?n"
    using arg_cong [OF IH(2), of "\<lambda>l. l ! ?n"] n by (simp add: nth_append)
  have "run_op od p w (replay_at dc es ?n) = (r, w, advance (replay_at dc es ?n))"
    by (rule run_op_replays [OF assms(1) rec(1) p Cons.prems(2), of _ ?n])
      (use n e in \<open>simp_all add: replay_at_def\<close>)
  moreover have "take ?n es = dc_entries dc0"
    using arg_cong [OF IH(2), of "take ?n"] by (simp add: min_def)
  ultimately show ?case using IH n rs by (simp add: advance_replay_at)
qed

lemma run_ops_append:
  "run_ops od (ps @ qs) w dc = (case run_ops od ps w dc of (rs, w1, dc1) \<Rightarrow>
     (case run_ops od qs w1 dc1 of (rs', w2, dc2) \<Rightarrow> (rs @ rs', w2, dc2)))"
  by (induction ps arbitrary: w dc) (simp_all split: prod.splits)

lemma resumed_replay_at: "resumed i a es = replay_at (fresh_context i a) es 0"
  by (simp add: resumed_def replay_at_def fresh_context_def)

text \<open>
  C6: replay is deterministic: when the operations of a first run all succeeded, a context resumed
  from its log gives the same operations the same results, without reading the clock,
  drawing randomness or calling a side effect; what the handler does after them runs live,
  and is appended to the log.
\<close>

theorem durable_replay_deterministic:
  assumes "time_codec_ok (od_times od)"
    and "run_ops od ps w0 (fresh_context i a) = (rs, w1, dc1)"
    and "list_all (recorded (od_times od)) rs"
  shows "run_ops od (ps @ qs) w (resumed i' a' (dc_entries dc1)) =
    (case run_ops od qs w ((fresh_context i' a')\<lparr>dc_entries := dc_entries dc1, dc_cursor := length ps\<rparr>) of
       (rs', w2, dc2) \<Rightarrow> (rs @ rs', w2, dc2))"
proof -
  let ?es = "dc_entries dc1"
  from replay_prefix [OF assms(1,2) _ assms(3) refl, of w "fresh_context i' a'"]
  have "length ?es = length ps"
    "run_ops od ps w (replay_at (fresh_context i' a') ?es 0) = (rs, w, replay_at (fresh_context i' a') ?es (length ?es))"
    by (simp_all add: fresh_context_def)
  moreover have "replay_at (fresh_context i' a') ?es (length ?es)
      = (fresh_context i' a')\<lparr>dc_entries := ?es, dc_cursor := length ?es\<rparr>"
    by (simp add: replay_at_def fresh_context_def)
  ultimately show ?thesis by (simp add: run_ops_append resumed_replay_at)
qed

subsection \<open>The log survives a checkpoint\<close>

definition entry_ok :: "side_effect_entry \<Rightarrow> bool" where
  "entry_ok e \<longleftrightarrow> in_int64 (se_Seq e)"

lemma dec_enc_entry:
  assumes "enc_entry e = Some j" "entry_ok e"
  shows "dec_entry (Some j) = Some e"
proof -
  obtain m where j: "j = JObj m" and "list_all (\<lambda>(k, r). r = Some (fmlookup m k))
      [(''seq'', enc_int (se_Seq e)), (''type'', enc_string (se_Type e)),
       (''key'', omit_string (se_Key e)), (''result'', Some (Some (se_Result e)))]"
    by (rule struct_json_lookup [OF assms(1) [unfolded enc_entry_def]]) simp_all
  then have m: "enc_int (se_Seq e) = Some (fmlookup m ''seq'')" "enc_string (se_Type e) = Some (fmlookup m ''type'')"
    "omit_string (se_Key e) = Some (fmlookup m ''key'')" "fmlookup m ''result'' = Some (se_Result e)"
    by simp_all
  have "dec_int (fmlookup m ''seq'') = Some (se_Seq e)" "dec_string (fmlookup m ''type'') = Some (se_Type e)"
    "dec_string (fmlookup m ''key'') = Some (se_Key e)"
    using m assms(2) by (simp_all only: dec_enc entry_ok_def)
  with j m(4) show ?thesis by (simp add: dec_entry_def)
qed

lemma enc_entry_Some: "\<exists>j. enc_entry e = Some j"
  by (simp add: enc_entry_def struct_json_def enc_int_def enc_string_def omit_string_def)

lemma log_encodes: "\<exists>j. enc_array enc_entry es = Some j"
  using enc_array_Some [of es enc_entry] enc_entry_Some by (metis option.distinct(1))

lemma dec_enc_log:
  assumes "enc_array enc_entry es = Some j" "list_all entry_ok es"
  shows "dec_list dec_entry (Some j) = Some es"
proof -
  have "\<And>e. e \<in> set es \<Longrightarrow> enc_entry e = Some (the (enc_entry e))"
    using enc_entry_Some by (metis option.sel)
  then have "those (map enc_entry es) = Some (map (\<lambda>e. the (enc_entry e)) es)"
    by (intro those_map_Some)
  with assms(1) have j: "j = JArr (map (\<lambda>e. the (enc_entry e)) es)" by (simp add: enc_array_def)
  show ?thesis unfolding j
    by (rule dec_list_map) (use assms(2) dec_enc_entry enc_entry_Some in \<open>force simp: list_all_iff\<close>)
qed

text \<open>
  C11: a checkpoint resumes the log it saved: when the server answers the resume call with the
  metadata of the checkpoint request, the new context holds exactly the entries of the old.
\<close>

theorem checkpoint_resumes_log:
  assumes "enc_array enc_entry es = Some logData" "list_all entry_ok es"
    and "env_parse_json env (print logData) = Some logData"
    and "checkpoint_body print logData st k a = Some (JObj b)" "fmlookup b ''metadata'' = Some meta"
    and "calm env" "answers env (\<lambda>_. 200) (\<lambda>_. body) headers" "body \<noteq> []"
    and "env_parse_json env body = Some (JObj (fmap_of_list
      [(''has_checkpoint'', JBool True), (''checkpoint'', JObj (fmap_of_list [(''metadata'', meta)]))]))"
  shows "fst (newDurableContext env tr i a' []) = resumed i a' es"
proof -
  let ?m = "fmap_of_list [(''_replay_log'', JStr (print logData)), (''attempt'', JStr (show_int a))]"
  have meta: "meta = JObj ?m"
    using assms(4,5) by (auto simp: checkpoint_body_def struct_json_def enc_int_def fmlookup_of_list)
  have "dec_map dec_string (Some (JObj ?m)) = Some (fmmap (\<lambda>v. the (dec_string (Some v))) ?m)"
    by (simp add: dec_map_def fmdrop_fmupd)
  moreover have "fmlookup (fmmap (\<lambda>v. the (dec_string (Some v))) ?m) ''_replay_log'' = Some (print logData)"
    by simp
  ultimately obtain mm where mm: "dec_map dec_string (Some meta) = Some mm"
    "fmlookup mm ''_replay_log'' = Some (print logData)" using meta by blast
  have "Option.bind (env_parse_json env body) dec_resume = Some (True, Some mm)"
    using mm(1) by (simp add: assms(9) dec_resume_def fmlookup_of_list)
  then have "fst (transport_get env tr (basePath @ ''/checkpoints/'' @ i @ ''/resume'')
      (Into (False, None) dec_resume) []) = Inr (True, Some mm)"
    using assms(8) by (subst transport_get_answers [OF assms(6,7)])
      (simp_all add: finish_response_def shouldRetry_def)
  moreover have "decode_log env (print logData) = Some es"
    using assms(3) dec_enc_log [OF assms(1,2)] by (simp add: decode_log_def)
  ultimately show ?thesis
    using mm(2) by (simp add: newDurableContext_def split_beta split: prod.splits)
qed

text \<open>
  A change of the handler that puts a side effect where the log has an instant or a random
  value is not noticed: the side effect runs again on every retry, from whatever log was
  checkpointed since, although a recorded result may follow.
\<close>

theorem replay_type_mismatch_reexecutes:
  assumes "se_Type e \<noteq> ''call''" "od_call od key w = (Inr v, w')" "marshal v = Some j"
  shows "\<exists>dc'. run_op od (OpSideEffect key) w (resumed i a (e # es)) = (RCall (Inr j), w', dc')
    \<and> dc_entries dc' = e # es @ [\<lparr>se_Seq = int (length (e # es)), se_Type = ''call'', se_Key = key, se_Result = j\<rparr>]"
  using assms by (simp add: resumed_def Durable_SideEffect_def replay_entry_def fresh_context_def
      record_entry_def Let_def)

text \<open>An outside that counts how often it is used, for concrete runs.\<close>

definition counting_outside :: "nat outside" where
  "counting_outside = \<lparr>od_clock = (\<lambda>w. (5, w + 1)), od_rand = (\<lambda>n w. (replicate n 0xAB, w + 1)),
     od_call = (\<lambda>key w. (Inr (VInt 7), w + 1)), od_times = decimal_codec,
     od_marshal_error = PlainErr []\<rparr>"

lemma counting_run:
  "run_ops counting_outside [OpNow, OpSideEffect ''a''] 0 (fresh_context ''j'' 1) =
     ([RTime 5, RCall (Inr (JNum 7))], 2, (fresh_context ''j'' 1)\<lparr>dc_entries :=
        [\<lparr>se_Seq = 0, se_Type = ''time'', se_Key = ''now'', se_Result = JStr (show_nat 5)\<rparr>,
         \<lparr>se_Seq = 1, se_Type = ''call'', se_Key = ''a'', se_Result = JNum 7\<rparr>]\<rparr>)"
  by (simp add: counting_outside_def Durable_Now_def Durable_SideEffect_def replay_entry_def
      fresh_context_def record_entry_def enc_time_def decimal_codec_def marshal_def Let_def)

theorem durable_replay_deterministic_witness:
  "fst (run_ops counting_outside ([OpNow, OpSideEffect ''a''] @ []) (9 :: nat) (resumed ''j'' 2
      [\<lparr>se_Seq = 0, se_Type = ''time'', se_Key = ''now'', se_Result = JStr (show_nat 5)\<rparr>,
       \<lparr>se_Seq = 1, se_Type = ''call'', se_Key = ''a'', se_Result = JNum 7\<rparr>]))
   = [RTime 5, RCall (Inr (JNum 7))]"
  using durable_replay_deterministic [OF _ counting_run, of "[]" 9 "''j''" 2]
  by (simp add: counting_outside_def decimal_codec_def time_codec_ok_def)

theorem replay_type_mismatch_reexecutes_witness:
  "\<exists>dc'. run_op counting_outside (OpSideEffect ''a'') 3 (resumed ''j'' 2
      [\<lparr>se_Seq = 0, se_Type = ''time'', se_Key = ''now'', se_Result = JStr ''5''\<rparr>])
     = (RCall (Inr (JNum 7)), 4, dc')"
  using replay_type_mismatch_reexecutes
    [of "\<lparr>se_Seq = 0, se_Type = ''time'', se_Key = ''now'', se_Result = JStr ''5''\<rparr>"
      counting_outside "''a''" 3 "VInt 7" 4 "JNum 7" "''j''" 2 "[]"]
  by (auto simp: counting_outside_def marshal_def)

theorem checkpoint_resumes_log_witness:
  "\<exists>env tr. dc_replaying (fst (newDurableContext env tr ''j'' 2 []))
     \<and> dc_entries (fst (newDurableContext env tr ''j'' 2 [])) =
        [\<lparr>se_Seq = 0, se_Type = ''call'', se_Key = ''a'', se_Result = JNum 7\<rparr>]"
proof -
  let ?es = "[\<lparr>se_Seq = 0, se_Type = ''call'', se_Key = ''a'', se_Result = JNum 7\<rparr>]"
  obtain l where l: "enc_array enc_entry ?es = Some l" using log_encodes by blast
  let ?meta = "JObj (fmap_of_list [(''_replay_log'', JStr ''L''), (''attempt'', JStr (show_int 1))])"
  let ?doc = "JObj (fmap_of_list [(''has_checkpoint'', JBool True),
      (''checkpoint'', JObj (fmap_of_list [(''metadata'', ?meta)]))])"
  let ?env = "plain_env (\<lambda>t r. Inr \<lparr>rs_status = 200, rs_headers = [], rs_body = Inr ''D''\<rparr>)
      (\<lambda>s. if s = ''L'' then Some l else Some ?doc)"
  have ans: "answers ?env (\<lambda>_. 200) (\<lambda>_. ''D'') (\<lambda>_. [])"
    by (simp add: answers_def plain_env_def maxResponseBodyLen_def)
  have pj: "env_parse_json ?env ((\<lambda>_. ''L'') l) = Some l" "env_parse_json ?env ''D'' = Some ?doc"
    by (simp_all add: plain_env_def)
  obtain b where b: "checkpoint_body (\<lambda>_. ''L'') l JNull 0 1 = Some (JObj b)"
      "fmlookup b ''metadata'' = Some ?meta"
    by (auto simp: checkpoint_body_def struct_json_def enc_int_def fmlookup_of_list)
  have es: "\<forall>e \<in> set ?es. entry_ok e" by (simp add: entry_ok_def in_int64_def)
  have "fst (newDurableContext ?env tr ''j'' 2 []) = resumed ''j'' 2 ?es" for tr
    by (rule checkpoint_resumes_log [OF l _ pj(1) b calm_plain_env ans _ pj(2)])
      (use es in simp_all)
  then show ?thesis by (intro exI [of _ ?env] exI) (simp add: resumed_def)
qed

end
