(* ===== verification/Worker_Loop.thy ===== *)
theory Worker_Loop
  imports Worker "HOL-Library.Multiset"
begin

text \<open>
  The worker's goroutines (\<open>Start\<close>, \<open>fetchLoop\<close>, \<open>heartbeatLoop\<close>, \<open>waitForActiveJobs\<close> in
  \<open>worker.go\<close>) as a step relation. The state holds the shared variables (lifecycle state, active
  job map, active count, semaphore, the context and the channel \<open>stopped\<close>) and the program
  counters: of the fetch loop, of \<open>Start\<close>, of each job goroutine with its three deferred
  actions, and of the heartbeats that have read the state and not yet written it.
  Every interleaving of atomic actions is a run. \<open>Start\<close> waits at its end for the fetch loop and for the
  heartbeat loop; the heartbeat loop has no program counter of its own, so the step
  \<open>start_join\<close> requires only the former: the relation has all the runs of the code, and some in which a
  last heartbeat outlives \<open>Start\<close>. The invariants hold
  in all of these, and the races exhibited have no heartbeat in flight. The lemmas bound the
  concurrency and tie the counters to the goroutines; three properties exhibit races.
\<close>

subsection \<open>State\<close>

text \<open>The fetch loop: where it stands, with the jobs still to dispatch.\<close>

datatype fetch_pc =
    FTop
  | FReadState
  | FIdle
  | FCapacity
  | FWait
  | FCount
  | FFetch nat
  | FDispatch "string list"
  | FAcquired string "string list"
  | FStored string "string list"
  | FCounted string "string list"
  | FExited

text \<open>
  A job goroutine: in \<open>processJob\<close>, after it, and after each of the deferred \<open><-sem\<close> and
  \<open>activeJobs.Delete\<close>; the last, \<open>activeCount.Add(-1)\<close>, ends it.
\<close>

datatype phase = Running | Finished | Released | Deleted

text \<open>
  \<open>Start\<close>: waiting for the context, terminating, draining, after the grace period, closing,
  joining, returned. \<open>sy_nacked\<close> holds the jobs nacked when the grace period expired, if it did.
\<close>

datatype start_pc = SWait | STerminate | SDrain | SExpired | SClose | SJoin | SReturned

record sys =
  sy_state :: worker_state
  sy_ctx_done :: bool
  sy_stopped :: bool
  sy_sem :: nat
  sy_count :: int
  sy_active :: "string set"
  sy_fetch :: fetch_pc
  sy_jobs :: "(string \<times> phase) multiset"
  sy_beats :: "(worker_state \<times> worker_state) multiset"
  sy_start :: start_pc
  sy_nacked :: "string set option"

definition init_sys :: sys where
  "init_sys = \<lparr>sy_state = WorkerStateRunning, sy_ctx_done = False, sy_stopped = False, sy_sem = 0,
     sy_count = 0, sy_active = {}, sy_fetch = FTop, sy_jobs = {#}, sy_beats = {#},
     sy_start = SWait, sy_nacked = None\<rparr>"

text \<open>The number of jobs the loop asks for.\<close>

definition fetch_count :: "nat \<Rightarrow> sys \<Rightarrow> nat" where
  "fetch_count c s = (let n = int c - sy_count s in if n \<le> 0 then 1 else nat n)"

subsection \<open>Steps\<close>

text \<open>
  \<open>c\<close> is the concurrency, the capacity of the semaphore; with \<open>honest\<close> the server returns at
  most as many jobs as were asked for.
\<close>

inductive wstep :: "nat \<Rightarrow> bool \<Rightarrow> sys \<Rightarrow> sys \<Rightarrow> bool" for c honest where
  cancel: "wstep c honest s (s\<lparr>sy_ctx_done := True\<rparr>)"
| top_exit: "sy_fetch s = FTop \<Longrightarrow> sy_ctx_done s \<or> sy_stopped s \<Longrightarrow>
    wstep c honest s (s\<lparr>sy_fetch := FExited\<rparr>)"
| top_go: "sy_fetch s = FTop \<Longrightarrow> \<not> sy_ctx_done s \<Longrightarrow> \<not> sy_stopped s \<Longrightarrow>
    wstep c honest s (s\<lparr>sy_fetch := FReadState\<rparr>)"
| read_running: "sy_fetch s = FReadState \<Longrightarrow> sy_state s = WorkerStateRunning \<Longrightarrow>
    wstep c honest s (s\<lparr>sy_fetch := FCapacity\<rparr>)"
| read_other: "sy_fetch s = FReadState \<Longrightarrow> sy_state s \<noteq> WorkerStateRunning \<Longrightarrow>
    wstep c honest s (s\<lparr>sy_fetch := FIdle\<rparr>)"
| idle_exit: "sy_fetch s = FIdle \<Longrightarrow> sy_ctx_done s \<or> sy_stopped s \<Longrightarrow>
    wstep c honest s (s\<lparr>sy_fetch := FExited\<rparr>)"
| idle_tick: "sy_fetch s = FIdle \<Longrightarrow> wstep c honest s (s\<lparr>sy_fetch := FTop\<rparr>)"
| full: "sy_fetch s = FCapacity \<Longrightarrow> int c \<le> sy_count s \<Longrightarrow> wstep c honest s (s\<lparr>sy_fetch := FWait\<rparr>)"
| spare: "sy_fetch s = FCapacity \<Longrightarrow> sy_count s < int c \<Longrightarrow> wstep c honest s (s\<lparr>sy_fetch := FCount\<rparr>)"
| wait_exit: "sy_fetch s = FWait \<Longrightarrow> sy_ctx_done s \<Longrightarrow> wstep c honest s (s\<lparr>sy_fetch := FExited\<rparr>)"
| wait_tick: "sy_fetch s = FWait \<Longrightarrow> wstep c honest s (s\<lparr>sy_fetch := FTop\<rparr>)"
| ask: "sy_fetch s = FCount \<Longrightarrow> wstep c honest s (s\<lparr>sy_fetch := FFetch (fetch_count c s)\<rparr>)"
| fetch_none: "sy_fetch s = FFetch n \<Longrightarrow> wstep c honest s (s\<lparr>sy_fetch := FWait\<rparr>)"
| fetch_some: "sy_fetch s = FFetch n \<Longrightarrow> js \<noteq> [] \<Longrightarrow> (honest \<longrightarrow> length js \<le> n) \<Longrightarrow>
    wstep c honest s (s\<lparr>sy_fetch := FDispatch js\<rparr>)"
| dispatched: "sy_fetch s = FDispatch [] \<Longrightarrow> wstep c honest s (s\<lparr>sy_fetch := FTop\<rparr>)"
| acquire: "sy_fetch s = FDispatch (j # js) \<Longrightarrow> sy_sem s < c \<Longrightarrow>
    wstep c honest s (s\<lparr>sy_fetch := FAcquired j js, sy_sem := sy_sem s + 1\<rparr>)"
| store: "sy_fetch s = FAcquired j js \<Longrightarrow>
    wstep c honest s (s\<lparr>sy_fetch := FStored j js, sy_active := insert j (sy_active s)\<rparr>)"
| count: "sy_fetch s = FStored j js \<Longrightarrow>
    wstep c honest s (s\<lparr>sy_fetch := FCounted j js, sy_count := sy_count s + 1\<rparr>)"
| spawn: "sy_fetch s = FCounted j js \<Longrightarrow>
    wstep c honest s (s\<lparr>sy_fetch := FDispatch js, sy_jobs := add_mset (j, Running) (sy_jobs s)\<rparr>)"
| finish: "sy_jobs s = add_mset (j, Running) M \<Longrightarrow>
    wstep c honest s (s\<lparr>sy_jobs := add_mset (j, Finished) M\<rparr>)"
| release: "sy_jobs s = add_mset (j, Finished) M \<Longrightarrow> 0 < sy_sem s \<Longrightarrow>
    wstep c honest s (s\<lparr>sy_jobs := add_mset (j, Released) M, sy_sem := sy_sem s - 1\<rparr>)"
| delete: "sy_jobs s = add_mset (j, Released) M \<Longrightarrow>
    wstep c honest s (s\<lparr>sy_jobs := add_mset (j, Deleted) M, sy_active := sy_active s - {j}\<rparr>)"
| uncount: "sy_jobs s = add_mset (j, Deleted) M \<Longrightarrow>
    wstep c honest s (s\<lparr>sy_jobs := M, sy_count := sy_count s - 1\<rparr>)"
| beat_read: "wstep c honest s (s\<lparr>sy_beats := add_mset (sy_state s, desired) (sy_beats s)\<rparr>)"
| beat_store: "sy_beats s = add_mset (cur, desired) B \<Longrightarrow>
    wstep c honest s (s\<lparr>sy_beats := B,
      sy_state := (case server_transition cur desired of None \<Rightarrow> sy_state s | Some x \<Rightarrow> x)\<rparr>)"
| start_wake: "sy_start s = SWait \<Longrightarrow> sy_ctx_done s \<Longrightarrow> wstep c honest s (s\<lparr>sy_start := STerminate\<rparr>)"
| start_terminate: "sy_start s = STerminate \<Longrightarrow>
    wstep c honest s (s\<lparr>sy_start := SDrain, sy_state := WorkerStateTerminate\<rparr>)"
| start_drained: "sy_start s = SDrain \<Longrightarrow> sy_count s \<le> 0 \<Longrightarrow> wstep c honest s (s\<lparr>sy_start := SClose\<rparr>)"
| start_expired: "sy_start s = SDrain \<Longrightarrow>
    wstep c honest s (s\<lparr>sy_start := SExpired, sy_nacked := Some (sy_active s)\<rparr>)"
| start_nacked: "sy_start s = SExpired \<Longrightarrow> wstep c honest s (s\<lparr>sy_start := SClose\<rparr>)"
| start_close: "sy_start s = SClose \<Longrightarrow> wstep c honest s (s\<lparr>sy_start := SJoin, sy_stopped := True\<rparr>)"
| start_join: "sy_start s = SJoin \<Longrightarrow> sy_fetch s = FExited \<Longrightarrow> wstep c honest s (s\<lparr>sy_start := SReturned\<rparr>)"

definition reachable :: "nat \<Rightarrow> bool \<Rightarrow> sys \<Rightarrow> bool" where
  "reachable c honest s \<longleftrightarrow> (wstep c honest)\<^sup>*\<^sup>* init_sys s"

lemma reachable_init [simp]: "reachable c honest init_sys"
  by (simp add: reachable_def)

lemma reachable_step: "reachable c honest s \<Longrightarrow> wstep c honest s s' \<Longrightarrow> reachable c honest s'"
  unfolding reachable_def by (rule rtranclp.rtrancl_into_rtrancl)

text \<open>An invariant holds in every reachable state.\<close>

lemma reachable_induct [consumes 1, case_names init step]:
  assumes "reachable c honest s" "P init_sys"
    and "\<And>s s'. P s \<Longrightarrow> wstep c honest s s' \<Longrightarrow> P s'"
  shows "P s"
  using assms unfolding reachable_def by (induction rule: rtranclp_induct) auto

subsection \<open>The invariant of the counters\<close>

definition in_phase :: "phase set \<Rightarrow> (string \<times> phase) multiset \<Rightarrow> nat" where
  "in_phase P M = size (filter_mset (\<lambda>g. snd g \<in> P) M)"

lemma in_phase_simps [simp]:
  "in_phase P {#} = 0"
  "in_phase P (add_mset (j, p) M) = (if p \<in> P then 1 else 0) + in_phase P M"
  by (simp_all add: in_phase_def)

lemma in_phase_le_size: "in_phase P M \<le> size M"
  by (simp add: in_phase_def size_filter_mset_lesseq)

lemma in_phase_mono: "P \<subseteq> Q \<Longrightarrow> in_phase P M \<le> in_phase Q M"
proof (induction M)
  case (add g M)
  then show ?case by (cases g) auto
qed simp

text \<open>The token and the count that the fetch loop holds between acquiring and starting a job.\<close>

fun pending_token :: "fetch_pc \<Rightarrow> nat" where
  "pending_token (FAcquired j js) = 1"
| "pending_token (FStored j js) = 1"
| "pending_token (FCounted j js) = 1"
| "pending_token _ = 0"

fun pending_count :: "fetch_pc \<Rightarrow> nat" where
  "pending_count (FCounted j js) = 1"
| "pending_count _ = 0"

definition counters_ok :: "nat \<Rightarrow> sys \<Rightarrow> bool" where
  "counters_ok c s \<longleftrightarrow>
     sy_sem s = in_phase {Running, Finished} (sy_jobs s) + pending_token (sy_fetch s)
   \<and> sy_sem s \<le> c
   \<and> sy_count s = int (size (sy_jobs s) + pending_count (sy_fetch s))"

lemma counters_init: "counters_ok c init_sys"
  by (simp add: counters_ok_def init_sys_def)

lemma counters_step: "wstep c honest s s' \<Longrightarrow> counters_ok c s \<Longrightarrow> counters_ok c s'"
  by (induction rule: wstep.induct) (auto simp: counters_ok_def)

lemma reachable_counters: "reachable c honest s \<Longrightarrow> counters_ok c s"
  by (induction rule: reachable_induct) (auto simp: counters_init counters_step)

text \<open>
  C1: in every interleaving at most \<open>concurrency\<close> handlers run at once, and the active count is the
  number of job goroutines, plus one while the loop is between counting a job and starting it.
\<close>

theorem worker_concurrency_bound:
  assumes "reachable c honest s"
  shows "in_phase {Running} (sy_jobs s) \<le> c
    \<and> sy_count s = int (size (sy_jobs s) + pending_count (sy_fetch s))
    \<and> (sy_count s = 0 \<longrightarrow> sy_jobs s = {#})"
proof -
  have ok: "counters_ok c s" by (rule reachable_counters [OF assms])
  have "in_phase {Running} (sy_jobs s) \<le> in_phase {Running, Finished} (sy_jobs s)"
    by (rule in_phase_mono) auto
  moreover have "sy_jobs s = {#}" if "sy_count s = 0"
  proof -
    have "int (size (sy_jobs s) + pending_count (sy_fetch s)) = 0"
      using ok that by (simp only: counters_ok_def)
    then have "size (sy_jobs s) = 0" by linarith
    then show ?thesis by simp
  qed
  ultimately show ?thesis using ok by (auto simp: counters_ok_def)
qed

subsection \<open>The loop does not block on the semaphore\<close>

text \<open>What the fetch loop may still dispatch fits into the free tokens.\<close>

fun quota :: "nat \<Rightarrow> sys \<Rightarrow> fetch_pc \<Rightarrow> bool" where
  "quota c s FCount = (sy_count s < int c)"
| "quota c s (FFetch n) = (sy_sem s + n \<le> c)"
| "quota c s (FDispatch js) = (sy_sem s + length js \<le> c)"
| "quota c s (FAcquired j js) = (sy_sem s + length js \<le> c)"
| "quota c s (FStored j js) = (sy_sem s + length js \<le> c)"
| "quota c s (FCounted j js) = (sy_sem s + length js \<le> c)"
| "quota c s _ = True"

lemma quota_mono:
  "quota c s f \<Longrightarrow> sy_sem s' \<le> sy_sem s \<Longrightarrow> sy_count s' \<le> sy_count s \<Longrightarrow> quota c s' f"
  by (cases f) auto

lemma quota_step:
  assumes "wstep c True s s'" "counters_ok c s" "quota c s (sy_fetch s)"
  shows "quota c s' (sy_fetch s')"
  using assms
proof (induction rule: wstep.induct)
  case (ask s)
  then have "sy_sem s = in_phase {Running, Finished} (sy_jobs s)" "sy_count s = int (size (sy_jobs s))"
    by (simp_all add: counters_ok_def)
  then have "int (sy_sem s) \<le> sy_count s" by (simp add: in_phase_le_size)
  with ask show ?case by (simp add: fetch_count_def Let_def)
next
  case (release s j M)
  then show ?case by (auto intro: quota_mono [of c s])
next
  case (uncount s j M)
  then show ?case by (auto intro: quota_mono [of c s])
qed (auto intro: quota_mono)

lemma reachable_quota: "reachable c True s \<Longrightarrow> counters_ok c s \<and> quota c s (sy_fetch s)"
proof (induction rule: reachable_induct)
  case init
  have "sy_fetch init_sys = FTop" by (simp add: init_sys_def)
  then show ?case by (simp add: counters_init)
next
  case (step s s')
  then show ?case using counters_step quota_step by blast
qed

text \<open>
  C16: with a server that never returns more jobs than asked for, the send on the semaphore in the
  dispatch loop never blocks: whenever a job is to be dispatched a token is free.
\<close>

theorem dispatch_never_blocks:
  assumes "reachable c True s" "sy_fetch s = FDispatch (j # js)"
  shows "sy_sem s < c \<and>
    wstep c True s (s\<lparr>sy_fetch := FAcquired j js, sy_sem := sy_sem s + 1\<rparr>)"
proof -
  have "sy_sem s < c" using reachable_quota [OF assms(1)] assms(2) by auto
  with acquire [OF assms(2) this] show ?thesis by blast
qed

subsection \<open>Races\<close>

lemma reach_via:
  "reachable c honest s \<Longrightarrow> wstep c honest s s1 \<Longrightarrow> s1 = s' \<Longrightarrow> reachable c honest s'"
  using reachable_step by blast

text \<open>A state given by its parts.\<close>

definition snap :: "fetch_pc \<Rightarrow> nat \<Rightarrow> int \<Rightarrow> string set \<Rightarrow> (string \<times> phase) multiset \<Rightarrow> sys" where
  "snap f sem n act js = init_sys\<lparr>sy_fetch := f, sy_sem := sem, sy_count := n, sy_active := act,
     sy_jobs := js\<rparr>"

lemma snap_simps [simp]:
  "sy_fetch (snap f sem n act js) = f" "sy_sem (snap f sem n act js) = sem"
  "sy_count (snap f sem n act js) = n" "sy_active (snap f sem n act js) = act"
  "sy_jobs (snap f sem n act js) = js" "sy_state (snap f sem n act js) = WorkerStateRunning"
  "sy_ctx_done (snap f sem n act js) = False" "sy_stopped (snap f sem n act js) = False"
  "sy_beats (snap f sem n act js) = {#}" "sy_start (snap f sem n act js) = SWait"
  "sy_nacked (snap f sem n act js) = None"
  by (simp_all add: snap_def init_sys_def)

lemma fetched:
  assumes "js \<noteq> []" "length js \<le> c"
  shows "reachable c True (snap (FDispatch js) 0 0 {} {#})"
proof -
  have c: "0 < c" using assms by (cases js) auto
  have "reachable c True (snap FReadState 0 0 {} {#})"
    by (rule reach_via [OF reachable_init top_go]) (simp_all add: snap_def init_sys_def)
  then have "reachable c True (snap FCapacity 0 0 {} {#})"
    by (rule reach_via [OF _ read_running]) (simp_all add: snap_def init_sys_def)
  then have "reachable c True (snap FCount 0 0 {} {#})"
    by (rule reach_via [OF _ spare]) (use c in \<open>simp_all add: snap_def init_sys_def\<close>)
  then have "reachable c True (snap (FFetch c) 0 0 {} {#})"
    by (rule reach_via [OF _ ask]) (use c in \<open>simp_all add: snap_def init_sys_def fetch_count_def Let_def\<close>)
  then show ?thesis
    by (rule reach_via [OF _ fetch_some [of _ c js]]) (use assms in \<open>simp_all add: snap_def init_sys_def\<close>)
qed

lemma started:
  assumes "reachable c True (snap (FDispatch (j # js)) k (int n) act M)" "k < c"
  shows "reachable c True (snap (FStored j js) (k + 1) (int n) (insert j act) M)"
    and "reachable c True (snap (FDispatch js) (k + 1) (int n + 1) (insert j act) (add_mset (j, Running) M))"
proof -
  have "reachable c True (snap (FAcquired j js) (k + 1) (int n) act M)"
    by (rule reach_via [OF assms(1) acquire]) (use assms(2) in \<open>simp_all add: snap_def init_sys_def\<close>)
  then show stored: "reachable c True (snap (FStored j js) (k + 1) (int n) (insert j act) M)"
    by (rule reach_via [OF _ store]) (simp_all add: snap_def init_sys_def)
  then have "reachable c True (snap (FCounted j js) (k + 1) (int n + 1) (insert j act) M)"
    by (rule reach_via [OF _ count]) (simp_all add: snap_def init_sys_def)
  then show "reachable c True (snap (FDispatch js) (k + 1) (int n + 1) (insert j act) (add_mset (j, Running) M))"
    by (rule reach_via [OF _ spawn]) (simp_all add: snap_def init_sys_def)
qed

text \<open>
  C15: \<open>Start\<close> can return while a handler is running, although the grace period has not expired and
  nothing was nacked: it sees the active count at zero while the fetch loop is about to
  start a job it has already fetched.
\<close>

theorem drain_misses_dispatched_job:
  "\<exists>s. reachable (Suc k) True s \<and> sy_start s = SReturned \<and> (j, Running) \<in># sy_jobs s
     \<and> sy_nacked s = None"
proof -
  let ?a = "snap (FStored j []) 1 0 {j} {#}"
  have 0: "reachable (Suc k) True ?a"
    using started(1) [of "Suc k" j "[]" 0 0 "{}" "{#}"] fetched [of "[j]" "Suc k"] by simp
  have "reachable (Suc k) True (?a\<lparr>sy_ctx_done := True\<rparr>)"
    by (rule reachable_step [OF 0 cancel])
  then have "reachable (Suc k) True (?a\<lparr>sy_ctx_done := True, sy_start := STerminate\<rparr>)"
    by (rule reach_via [OF _ start_wake]) (simp_all add: snap_def init_sys_def)
  then have "reachable (Suc k) True (?a\<lparr>sy_ctx_done := True, sy_start := SDrain,
      sy_state := WorkerStateTerminate\<rparr>)"
    by (rule reach_via [OF _ start_terminate]) (simp_all add: snap_def init_sys_def)
  then have "reachable (Suc k) True (?a\<lparr>sy_ctx_done := True, sy_start := SClose,
      sy_state := WorkerStateTerminate\<rparr>)"
    by (rule reach_via [OF _ start_drained]) (simp_all add: snap_def init_sys_def)
  then have "reachable (Suc k) True (?a\<lparr>sy_ctx_done := True, sy_start := SJoin,
      sy_state := WorkerStateTerminate, sy_stopped := True\<rparr>)"
    by (rule reach_via [OF _ start_close]) (simp_all add: snap_def init_sys_def)
  then have "reachable (Suc k) True (?a\<lparr>sy_ctx_done := True, sy_start := SJoin,
      sy_state := WorkerStateTerminate, sy_stopped := True, sy_fetch := FCounted j [], sy_count := 1\<rparr>)"
    by (rule reach_via [OF _ count]) (simp_all add: snap_def init_sys_def)
  then have "reachable (Suc k) True (?a\<lparr>sy_ctx_done := True, sy_start := SJoin,
      sy_state := WorkerStateTerminate, sy_stopped := True, sy_fetch := FDispatch [], sy_count := 1,
      sy_jobs := {#(j, Running)#}\<rparr>)"
    by (rule reach_via [OF _ spawn]) (simp_all add: snap_def init_sys_def)
  then have "reachable (Suc k) True (?a\<lparr>sy_ctx_done := True, sy_start := SJoin,
      sy_state := WorkerStateTerminate, sy_stopped := True, sy_fetch := FTop, sy_count := 1,
      sy_jobs := {#(j, Running)#}\<rparr>)"
    by (rule reach_via [OF _ dispatched]) (simp_all add: snap_def init_sys_def)
  then have "reachable (Suc k) True (?a\<lparr>sy_ctx_done := True, sy_start := SJoin,
      sy_state := WorkerStateTerminate, sy_stopped := True, sy_fetch := FExited, sy_count := 1,
      sy_jobs := {#(j, Running)#}\<rparr>)"
    by (rule reach_via [OF _ top_exit]) (simp_all add: snap_def init_sys_def)
  then have "reachable (Suc k) True (?a\<lparr>sy_ctx_done := True, sy_start := SReturned,
      sy_state := WorkerStateTerminate, sy_stopped := True, sy_fetch := FExited, sy_count := 1,
      sy_jobs := {#(j, Running)#}\<rparr>)"
    by (rule reach_via [OF _ start_join]) (simp_all add: snap_def init_sys_def)
  then show ?thesis by (intro exI conjI) (assumption, simp_all)
qed

text \<open>
  The map of active jobs is keyed by job id: when one id is in flight twice, the first copy to
  end removes the id while the other is still running, so heartbeats and the nacks at the
  end of the grace period miss it.
\<close>

theorem duplicate_id_lost_from_active:
  "\<exists>s. reachable (Suc (Suc k)) True s \<and> (j, Running) \<in># sy_jobs s \<and> j \<notin> sy_active s"
proof -
  let ?c = "Suc (Suc k)"
  have "reachable ?c True (snap (FDispatch [j]) 1 1 {j} {#(j, Running)#})"
    using started(2) [of ?c j "[j]" 0 0 "{}" "{#}"] fetched [of "[j, j]" ?c] by simp
  then have "reachable ?c True (snap (FDispatch []) 2 2 {j} {#(j, Running), (j, Running)#})"
    using started(2) [of ?c j "[]" 1 1 "{j}" "{#(j, Running)#}"] by (simp add: numeral_2_eq_2)
  then have "reachable ?c True (snap (FDispatch []) 2 2 {j} {#(j, Finished), (j, Running)#})"
    by (rule reach_via [OF _ finish]) (simp_all add: snap_def init_sys_def)
  then have "reachable ?c True (snap (FDispatch []) 1 2 {j} {#(j, Released), (j, Running)#})"
    by (rule reach_via [OF _ release]) (simp_all add: snap_def init_sys_def)
  then have "reachable ?c True (snap (FDispatch []) 1 2 {} {#(j, Deleted), (j, Running)#})"
    by (rule reach_via [OF _ delete]) (simp_all add: snap_def init_sys_def)
  then show ?thesis by (intro exI conjI) (assumption, simp_all)
qed

text \<open>
  \<open>handleServerState\<close> reads the state and writes it in two steps: a heartbeat that read
  \<open>running\<close> before the shutdown and was told \<open>quiet\<close> overwrites \<open>terminate\<close> during the drain,
  the backward transition that the code means to exclude.
\<close>

theorem terminate_can_be_overwritten:
  "\<exists>s. reachable c True s \<and> sy_start s = SDrain \<and> sy_state s = WorkerStateQuiet"
proof -
  let ?b = "init_sys\<lparr>sy_beats := {#(WorkerStateRunning, WorkerStateQuiet)#}\<rparr>"
  have "reachable c True ?b"
    by (rule reach_via [OF reachable_init beat_read [of _ _ _ WorkerStateQuiet]])
      (simp add: init_sys_def)
  then have "reachable c True (?b\<lparr>sy_ctx_done := True\<rparr>)"
    by (rule reachable_step [OF _ cancel])
  then have "reachable c True (?b\<lparr>sy_ctx_done := True, sy_start := STerminate\<rparr>)"
    by (rule reach_via [OF _ start_wake]) (simp_all add: init_sys_def)
  then have "reachable c True (?b\<lparr>sy_ctx_done := True, sy_start := SDrain,
      sy_state := WorkerStateTerminate\<rparr>)"
    by (rule reach_via [OF _ start_terminate]) (simp_all add: init_sys_def)
  then have "reachable c True (?b\<lparr>sy_ctx_done := True, sy_start := SDrain,
      sy_state := WorkerStateQuiet, sy_beats := {#}\<rparr>)"
    by (rule reach_via [OF _ beat_store [of _ WorkerStateRunning WorkerStateQuiet "{#}"]])
      (simp_all add: init_sys_def)
  then show ?thesis by (intro exI conjI) (assumption, simp_all)
qed

theorem worker_concurrency_bound_witness:
  "in_phase {Running} (sy_jobs (snap (FDispatch []) 1 1 {''a''} {#(''a'', Running)#})) \<le> 3"
  using worker_concurrency_bound
    [OF started(2) [of 3 "''a''" "[]" 0 0 "{}" "{#}"]] fetched [of "[''a'']" 3] by simp

theorem dispatch_never_blocks_witness:
  "sy_sem (snap (FDispatch [''b'']) 1 1 {''a''} {#(''a'', Running)#}) < 3"
  using dispatch_never_blocks
    [OF started(2) [of 3 "''a''" "[''b'']" 0 0 "{}" "{#}"]] fetched [of "[''a'', ''b'']" 3] by simp

end
