(* ===== verification/Workflow.thy ===== *)
theory Workflow
  imports Client
begin

text \<open>
  Workflows (\<open>workflow.go\<close>): definitions with their constructors and validation, the
  translation into the steps of the wire request, and the calls that create, read and cancel a
  workflow. The lemmas characterise what validates, show that the steps of every
  request form an acyclic graph in topological order, and say which per-step options reach
  the wire.
\<close>

subsection \<open>States\<close>

definition WorkflowStatePending :: string where "WorkflowStatePending = ''pending''"
definition WorkflowStateRunning :: string where "WorkflowStateRunning = ''running''"
definition WorkflowStateCompleted :: string where "WorkflowStateCompleted = ''completed''"
definition WorkflowStateFailed :: string where "WorkflowStateFailed = ''failed''"
definition WorkflowStateCancelled :: string where "WorkflowStateCancelled = ''cancelled''"

subsection \<open>Definitions\<close>

record workflow_step =
  ws_Type :: string
  ws_Args :: args
  ws_Options :: "enqueue_option list"

record batch_callbacks =
  bc_OnComplete :: "workflow_step option"
  bc_OnSuccess :: "workflow_step option"
  bc_OnFailure :: "workflow_step option"

record workflow_definition =
  wd_Type :: string
  wd_Name :: string
  wd_Steps :: "workflow_step list"
  wd_Jobs :: "workflow_step list"
  wd_Callbacks :: "batch_callbacks option"
  wd_Options :: "enqueue_option list"

definition Chain :: "workflow_step list \<Rightarrow> workflow_definition" where
  "Chain steps = \<lparr>wd_Type = ''chain'', wd_Name = [], wd_Steps = steps, wd_Jobs = [],
     wd_Callbacks = None, wd_Options = []\<rparr>"

definition Group :: "workflow_step list \<Rightarrow> workflow_definition" where
  "Group jobs = \<lparr>wd_Type = ''group'', wd_Name = [], wd_Steps = [], wd_Jobs = jobs,
     wd_Callbacks = None, wd_Options = []\<rparr>"

definition Batch :: "batch_callbacks \<Rightarrow> workflow_step list \<Rightarrow> workflow_definition" where
  "Batch callbacks jobs = \<lparr>wd_Type = ''batch'', wd_Name = [], wd_Steps = [], wd_Jobs = jobs,
     wd_Callbacks = Some callbacks, wd_Options = []\<rparr>"

definition MaxWorkflowSteps :: nat where "MaxWorkflowSteps = 500"

subsection \<open>Validation\<close>

text \<open>The index of the first step without a type.\<close>

fun first_untyped :: "nat \<Rightarrow> workflow_step list \<Rightarrow> nat option" where
  "first_untyped i [] = None"
| "first_untyped i (s # ss) = (if ws_Type s = [] then Some i else first_untyped (i + 1) ss)"

definition Validate :: "workflow_definition \<Rightarrow> go_error option" where
  "Validate d =
     (if wd_Type d = ''chain'' then
        (if length (wd_Steps d) < 1 then
           Some (PlainErr ''ojs: chain workflow requires at least 1 step'')
         else if MaxWorkflowSteps < length (wd_Steps d) then
           Some (PlainErr (''ojs: chain workflow exceeds maximum of '' @ show_nat MaxWorkflowSteps
             @ '' steps (got '' @ show_nat (length (wd_Steps d)) @ '')''))
         else case first_untyped 0 (wd_Steps d) of
           Some i \<Rightarrow> Some (PlainErr (''ojs: chain step '' @ show_nat i @ '' has empty type''))
         | None \<Rightarrow> None)
      else if wd_Type d = ''group'' then
        (if length (wd_Jobs d) < 2 then
           Some (PlainErr ''ojs: group workflow requires at least 2 parallel jobs'')
         else if MaxWorkflowSteps < length (wd_Jobs d) then
           Some (PlainErr (''ojs: group workflow exceeds maximum of '' @ show_nat MaxWorkflowSteps
             @ '' jobs (got '' @ show_nat (length (wd_Jobs d)) @ '')''))
         else case first_untyped 0 (wd_Jobs d) of
           Some i \<Rightarrow> Some (PlainErr (''ojs: group job '' @ show_nat i @ '' has empty type''))
         | None \<Rightarrow> None)
      else if wd_Type d = ''batch'' then
        (if length (wd_Jobs d) < 1 then
           Some (PlainErr ''ojs: batch workflow requires at least 1 job'')
         else if MaxWorkflowSteps < length (wd_Jobs d) then
           Some (PlainErr (''ojs: batch workflow exceeds maximum of '' @ show_nat MaxWorkflowSteps
             @ '' jobs (got '' @ show_nat (length (wd_Jobs d)) @ '')''))
         else if (case wd_Callbacks d of None \<Rightarrow> True
                  | Some c \<Rightarrow> bc_OnComplete c = None \<and> bc_OnSuccess c = None \<and> bc_OnFailure c = None)
         then Some (PlainErr
           ''ojs: batch workflow requires at least one callback (on_complete, on_success, or on_failure)'')
         else None)
      else Some (PlainErr (''ojs: unknown workflow type '' @ go_quote (wd_Type d)
        @ '' (expected chain, group, or batch)'')))"

subsection \<open>The wire request\<close>

record workflow_step_wire =
  sw_ID :: string
  sw_Type :: string
  sw_Args :: "any list"
  sw_DependsOn :: "string list"
  sw_Options :: "wire_options option"

record workflow_request =
  wr_Name :: string
  wr_Steps :: "workflow_step_wire list"
  wr_Options :: "wire_options option"

definition step_id :: "nat \<Rightarrow> string" where "step_id i = ''step-'' @ show_nat i"
definition job_step_id :: "nat \<Rightarrow> string" where "job_step_id i = ''job-'' @ show_nat i"

text \<open>Options go on the wire only with another queue than the default, or with a timeout.\<close>

definition significant_options :: "enqueue_config \<Rightarrow> wire_options option" where
  "significant_options cfg =
     (if cfg_queue cfg \<noteq> ''default'' \<or> 0 < cfg_timeoutMS cfg then Some (buildWireOptions cfg) else None)"

definition chain_step :: "time \<Rightarrow> nat \<times> workflow_step \<Rightarrow> workflow_step_wire" where
  "chain_step now = (\<lambda>(i, s). \<lparr>sw_ID = step_id i, sw_Type = ws_Type s,
     sw_Args = argsToWire (ws_Args s),
     sw_DependsOn = (if 0 < i then [step_id (i - 1)] else []),
     sw_Options = significant_options (resolveEnqueueConfig now (ws_Options s))\<rparr>)"

definition parallel_step :: "nat \<times> workflow_step \<Rightarrow> workflow_step_wire" where
  "parallel_step = (\<lambda>(i, s). \<lparr>sw_ID = job_step_id i, sw_Type = ws_Type s,
     sw_Args = argsToWire (ws_Args s), sw_DependsOn = [], sw_Options = None\<rparr>)"

definition callback_step :: "string \<Rightarrow> string list \<Rightarrow> workflow_step option \<Rightarrow> workflow_step_wire list" where
  "callback_step name jobIDs cb = (case cb of None \<Rightarrow> []
     | Some s \<Rightarrow> [\<lparr>sw_ID = name, sw_Type = ws_Type s, sw_Args = argsToWire (ws_Args s),
                  sw_DependsOn = jobIDs, sw_Options = None\<rparr>])"

definition workflow_steps :: "time \<Rightarrow> workflow_definition \<Rightarrow> workflow_step_wire list" where
  "workflow_steps now d =
     (if wd_Type d = ''chain'' then map (chain_step now) (enumerate 0 (wd_Steps d))
      else if wd_Type d = ''group'' then map parallel_step (enumerate 0 (wd_Jobs d))
      else if wd_Type d = ''batch'' then
        (let jobIDs = map job_step_id [0..<length (wd_Jobs d)] in
         map parallel_step (enumerate 0 (wd_Jobs d))
           @ (case wd_Callbacks d of None \<Rightarrow> []
              | Some c \<Rightarrow> callback_step ''on-complete'' jobIDs (bc_OnComplete c)
                  @ callback_step ''on-success'' jobIDs (bc_OnSuccess c)
                  @ callback_step ''on-failure'' jobIDs (bc_OnFailure c)))
      else [])"

definition enc_step_wire :: "time_codec \<Rightarrow> workflow_step_wire \<Rightarrow> json option" where
  "enc_step_wire tc w = struct_json
     [(''id'', enc_string (sw_ID w)), (''type'', enc_string (sw_Type w)),
      (''args'', enc_json (marshal (VList (sw_Args w)))),
      (''depends_on'', Some (Some (JArr (map JStr (sw_DependsOn w))))),
      (''options'', omit_ptr (enc_wire_options tc) (sw_Options w))]"

definition enc_workflow_request :: "time_codec \<Rightarrow> workflow_request \<Rightarrow> json option" where
  "enc_workflow_request tc w = struct_json
     [(''name'', omit_string (wr_Name w)),
      (''steps'', enc_json (enc_array (enc_step_wire tc) (wr_Steps w))),
      (''options'', omit_ptr (enc_wire_options tc) (wr_Options w))]"

subsection \<open>Responses\<close>

record workflow_step_status =
  wss_ID :: string
  wss_Type :: string
  wss_State :: string
  wss_JobID :: "string option"
  wss_DependsOn :: "string list"
  wss_StartedAt :: "time option"
  wss_CompletedAt :: "time option"
  wss_Result :: anymap

record workflow =
  wf_ID :: string
  wf_Name :: string
  wf_State :: string
  wf_CreatedAt :: "time option"
  wf_Steps :: "workflow_step_status list"
  wf_CancelledAt :: "time option"
  wf_StepsCancelled :: int
  wf_StepsAlreadyComplete :: int

definition zero_workflow :: workflow where
  "zero_workflow = \<lparr>wf_ID = [], wf_Name = [], wf_State = [], wf_CreatedAt = None, wf_Steps = [],
     wf_CancelledAt = None, wf_StepsCancelled = 0, wf_StepsAlreadyComplete = 0\<rparr>"

definition dec_step_status :: "time_codec \<Rightarrow> json option \<Rightarrow> workflow_step_status option" where
  "dec_step_status tc d = do {
     m \<leftarrow> obj_members d;
     sid \<leftarrow> dec_string (fmlookup m ''id'');
     ty \<leftarrow> dec_string (fmlookup m ''type'');
     st \<leftarrow> dec_string (fmlookup m ''state'');
     jid \<leftarrow> dec_ptr dec_string (fmlookup m ''job_id'');
     dep \<leftarrow> dec_list dec_string (fmlookup m ''depends_on'');
     sa \<leftarrow> dec_ptr (dec_time tc) (fmlookup m ''started_at'');
     ca \<leftarrow> dec_ptr (dec_time tc) (fmlookup m ''completed_at'');
     res \<leftarrow> dec_anymap (fmlookup m ''result'');
     Some \<lparr>wss_ID = sid, wss_Type = ty, wss_State = st, wss_JobID = jid, wss_DependsOn = dep,
       wss_StartedAt = sa, wss_CompletedAt = ca, wss_Result = res\<rparr> }"

definition dec_workflow_response :: "time_codec \<Rightarrow> json \<Rightarrow> workflow option" where
  "dec_workflow_response tc j = do {
     r \<leftarrow> obj_members (Some j);
     m \<leftarrow> obj_members (fmlookup r ''workflow'');
     wid \<leftarrow> dec_string (fmlookup m ''id'');
     name \<leftarrow> dec_string (fmlookup m ''name'');
     st \<leftarrow> dec_string (fmlookup m ''state'');
     cr \<leftarrow> dec_ptr (dec_time tc) (fmlookup m ''created_at'');
     steps \<leftarrow> dec_list (dec_step_status tc) (fmlookup m ''steps'');
     ca \<leftarrow> dec_ptr (dec_time tc) (fmlookup m ''cancelled_at'');
     sc \<leftarrow> dec_int (fmlookup m ''steps_cancelled'');
     sac \<leftarrow> dec_int (fmlookup m ''steps_already_completed'');
     Some \<lparr>wf_ID = wid, wf_Name = name, wf_State = st, wf_CreatedAt = cr, wf_Steps = steps,
       wf_CancelledAt = ca, wf_StepsCancelled = sc, wf_StepsAlreadyComplete = sac\<rparr> }"

subsection \<open>Calls\<close>

definition CreateWorkflow ::
  "env \<Rightarrow> transport \<Rightarrow> workflow_definition \<Rightarrow> enqueue_option list \<Rightarrow> trace \<Rightarrow> workflow call" where
  "CreateWorkflow env tr d opts t =
     (case Validate d of
        Some e \<Rightarrow> (Inl e, t)
      | None \<Rightarrow>
     (let now = env_now env t;
          cfg = resolveEnqueueConfig now opts;
          req = \<lparr>wr_Name = wd_Name d, wr_Steps = workflow_steps now d,
                 wr_Options = significant_options cfg\<rparr>
      in transport_post env tr (basePath @ ''/workflows'')
           (Some (enc_workflow_request (env_times env) req))
           (Into zero_workflow (dec_workflow_response (env_times env))) t))"

definition GetWorkflow :: "env \<Rightarrow> transport \<Rightarrow> string \<Rightarrow> trace \<Rightarrow> workflow call" where
  "GetWorkflow env tr wid t =
     transport_get env tr (basePath @ ''/workflows/'' @ PathEscape wid)
       (Into zero_workflow (dec_workflow_response (env_times env))) t"

definition CancelWorkflow :: "env \<Rightarrow> transport \<Rightarrow> string \<Rightarrow> trace \<Rightarrow> workflow call" where
  "CancelWorkflow env tr wid t =
     transport_delete env tr (basePath @ ''/workflows/'' @ PathEscape wid)
       (Into zero_workflow (dec_workflow_response (env_times env))) t"

subsection \<open>What validates\<close>

lemma first_untyped_None: "first_untyped i ss = None \<longleftrightarrow> list_all (\<lambda>s. ws_Type s \<noteq> []) ss"
  by (induction i ss rule: first_untyped.induct) auto

definition has_callback :: "workflow_definition \<Rightarrow> bool" where
  "has_callback d = (case wd_Callbacks d of None \<Rightarrow> False
     | Some c \<Rightarrow> bc_OnComplete c \<noteq> None \<or> bc_OnSuccess c \<noteq> None \<or> bc_OnFailure c \<noteq> None)"

text \<open>
  \<open>Validate\<close> accepts exactly: chains of 1 to 500 steps and groups of 2 to 500 jobs, all with a
  type; and batches of 1 to 500 jobs with a callback, where the types are not looked at.
\<close>

theorem workflow_validate_accepts:
  "Validate d = None \<longleftrightarrow>
     (wd_Type d = ''chain'' \<and> length (wd_Steps d) \<in> {1..500}
        \<and> list_all (\<lambda>s. ws_Type s \<noteq> []) (wd_Steps d))
   \<or> (wd_Type d = ''group'' \<and> length (wd_Jobs d) \<in> {2..500}
        \<and> list_all (\<lambda>s. ws_Type s \<noteq> []) (wd_Jobs d))
   \<or> (wd_Type d = ''batch'' \<and> length (wd_Jobs d) \<in> {1..500} \<and> has_callback d)"
proof -
  consider "wd_Type d = ''chain''" | "wd_Type d = ''group''" | "wd_Type d = ''batch''"
    | "wd_Type d \<notin> {''chain'', ''group'', ''batch''}" by blast
  then show ?thesis
  proof cases
    case 1
    then show ?thesis
      by (auto simp: Validate_def MaxWorkflowSteps_def not_less Suc_le_eq
          simp flip: first_untyped_None [of 0] split: option.splits)
  next
    case 2
    then show ?thesis
      by (auto simp: Validate_def MaxWorkflowSteps_def not_less simp flip: first_untyped_None [of 0]
          split: option.splits)
  next
    case 3
    then show ?thesis
      by (auto simp: Validate_def MaxWorkflowSteps_def has_callback_def not_less Suc_le_eq
          split: option.splits)
  qed (simp add: Validate_def)
qed

subsection \<open>The steps form an acyclic graph\<close>

text \<open>Every step depends on steps listed before it, and no two steps share an id.\<close>

fun topological_from :: "string list \<Rightarrow> workflow_step_wire list \<Rightarrow> bool" where
  "topological_from before [] = True"
| "topological_from before (w # ws) =
     (list_all (\<lambda>x. x \<in> set before) (sw_DependsOn w) \<and> sw_ID w \<notin> set before
        \<and> topological_from (sw_ID w # before) ws)"

definition topological :: "workflow_step_wire list \<Rightarrow> bool" where
  "topological ws = topological_from [] ws"

lemma topological_from_append:
  "topological_from before (us @ ws) \<longleftrightarrow>
     topological_from before us \<and> topological_from (rev (map sw_ID us) @ before) ws"
  by (induction us arbitrary: before) auto

lemma topological_distinct:
  "topological_from before ws \<Longrightarrow> distinct (map sw_ID ws) \<and> set (map sw_ID ws) \<inter> set before = {}"
  by (induction before ws rule: topological_from.induct) auto

lemma step_ids_inj [simp]: "step_id i = step_id j \<longleftrightarrow> i = j" "job_step_id i = job_step_id j \<longleftrightarrow> i = j"
  by (simp_all add: step_id_def job_step_id_def)

lemma chain_topological:
  "topological_from (rev (map step_id [0..<n])) (map (chain_step now) (enumerate n ss))"
proof (induction ss arbitrary: n)
  case (Cons s ss)
  from Cons [of "Suc n"] show ?case by (auto simp: chain_step_def)
qed simp

lemma parallel_topological:
  "topological_from (rev (map job_step_id [0..<n])) (map parallel_step (enumerate n ss))"
proof (induction ss arbitrary: n)
  case (Cons s ss)
  from Cons [of "Suc n"] show ?case by (auto simp: parallel_step_def)
qed simp

lemma parallel_ids: "map sw_ID (map parallel_step (enumerate n ss)) = map job_step_id [n..<n + length ss]"
  by (rule nth_equalityI) (simp_all add: parallel_step_def nth_enumerate_eq)

lemma callbacks_topological:
  assumes "topological_from [] ps" "map sw_ID ps = map job_step_id [0..<n]"
  shows "topological_from [] (ps
      @ callback_step ''on-complete'' (map job_step_id [0..<n]) a
      @ callback_step ''on-success'' (map job_step_id [0..<n]) b
      @ callback_step ''on-failure'' (map job_step_id [0..<n]) c)"
proof -
  have ids: "sw_ID ` set ps = job_step_id ` {0..<n}"
    using arg_cong [OF assms(2), of set] by simp
  have new: "''on-complete'' \<notin> job_step_id ` X" "''on-success'' \<notin> job_step_id ` X"
    "''on-failure'' \<notin> job_step_id ` X" for X
    by (auto simp: job_step_id_def)
  show ?thesis
    using assms(1) new
    by (auto simp: topological_from_append callback_step_def list_all_iff ids split: option.splits)
qed

text \<open>
  C10: whatever the definition, the steps of the request are in topological order with distinct
  ids, so a workflow the client submits has no dependency cycle and no dangling
  dependency.
\<close>

theorem workflow_steps_acyclic:
  "topological (workflow_steps now d) \<and> distinct (map sw_ID (workflow_steps now d))"
proof -
  have cb: "topological_from [] (map parallel_step (enumerate 0 js)
      @ callback_step ''on-complete'' (map job_step_id [0..<length js]) a
      @ callback_step ''on-success'' (map job_step_id [0..<length js]) b
      @ callback_step ''on-failure'' (map job_step_id [0..<length js]) c)" for js a b c
    using parallel_topological [of 0 js] parallel_ids [of 0 js]
    by (intro callbacks_topological) simp_all
  have "topological (workflow_steps now d)"
    using chain_topological [of 0 now "wd_Steps d"] parallel_topological [of 0 "wd_Jobs d"] cb
    by (auto simp: topological_def workflow_steps_def Let_def split: option.splits)
  then show ?thesis using topological_distinct by (auto simp: topological_def)
qed

subsection \<open>Dependencies and options\<close>

text \<open>The definition without any per-step or default options.\<close>

definition erase_options :: "workflow_definition \<Rightarrow> workflow_definition" where
  "erase_options d = d\<lparr>wd_Steps := map (\<lambda>s. s\<lparr>ws_Options := []\<rparr>) (wd_Steps d),
     wd_Jobs := map (\<lambda>s. s\<lparr>ws_Options := []\<rparr>) (wd_Jobs d),
     wd_Callbacks := map_option (\<lambda>c. \<lparr>bc_OnComplete = map_option (\<lambda>s. s\<lparr>ws_Options := []\<rparr>) (bc_OnComplete c),
        bc_OnSuccess = map_option (\<lambda>s. s\<lparr>ws_Options := []\<rparr>) (bc_OnSuccess c),
        bc_OnFailure = map_option (\<lambda>s. s\<lparr>ws_Options := []\<rparr>) (bc_OnFailure c)\<rparr>) (wd_Callbacks d),
     wd_Options := []\<rparr>"

lemma enumerate_map: "enumerate n (map f xs) = map (\<lambda>(i, x). (i, f x)) (enumerate n xs)"
  by (induction xs arbitrary: n) simp_all

lemma parallel_step_erase: "parallel_step (i, s\<lparr>ws_Options := []\<rparr>) = parallel_step (i, s)"
  by (simp add: parallel_step_def)

lemma parallel_steps_erase:
  "map parallel_step (enumerate n (map (\<lambda>s. s\<lparr>ws_Options := []\<rparr>) ss)) = map parallel_step (enumerate n ss)"
  by (simp add: enumerate_map parallel_step_erase split_beta comp_def)

lemma callback_step_erase:
  "callback_step n ids (map_option (\<lambda>s. s\<lparr>ws_Options := []\<rparr>) cb) = callback_step n ids cb"
  by (cases cb) (simp_all add: callback_step_def)

text \<open>
  Per-step options are lost: the request built from a group or a batch is the same whatever
  options its jobs and callbacks carry, and a chain step whose options leave the default queue
  and set no timeout, such as a retry policy or a priority, is sent without options.
\<close>

theorem workflow_step_options_lost:
  "workflow_steps now (erase_options (Group jobs)) = workflow_steps now (Group jobs)
   \<and> workflow_steps now (erase_options (Batch cbs jobs)) = workflow_steps now (Batch cbs jobs)
   \<and> list_all (\<lambda>w. sw_Options w = None)
       (workflow_steps now (Chain [\<lparr>ws_Type = ty, ws_Args = a,
          ws_Options = [WithRetry p, WithPriority n, WithTags ts, WithMeta m]\<rparr>]))"
  by (auto simp: workflow_steps_def erase_options_def Group_def Batch_def Chain_def
      parallel_steps_erase callback_step_erase chain_step_def significant_options_def
      resolveEnqueueConfig_def enqueue_options default_enqueue_config_def)

text \<open>
  C9: a chain runs in order, each step depending on exactly the one before it; the jobs of a batch
  depend on nothing and each callback present, after them, on exactly all of them.
\<close>

theorem workflow_dependencies:
  "map sw_DependsOn (workflow_steps now (Chain ss)) =
      map (\<lambda>i. if i = 0 then [] else [step_id (i - 1)]) [0..<length ss]
   \<and> map sw_ID (workflow_steps now (Chain ss)) = map step_id [0..<length ss]
   \<and> (let ws = workflow_steps now (Batch \<lparr>bc_OnComplete = a, bc_OnSuccess = b, bc_OnFailure = c\<rparr> js);
          ids = map job_step_id [0..<length js]
      in map sw_ID (take (length js) ws) = ids
         \<and> list_all (\<lambda>w. sw_DependsOn w = []) (take (length js) ws)
         \<and> map (\<lambda>w. (sw_ID w, sw_DependsOn w)) (drop (length js) ws) =
             concat [case a of None \<Rightarrow> [] | Some _ \<Rightarrow> [(''on-complete'', ids)],
                     case b of None \<Rightarrow> [] | Some _ \<Rightarrow> [(''on-success'', ids)],
                     case c of None \<Rightarrow> [] | Some _ \<Rightarrow> [(''on-failure'', ids)]])"
proof -
  have "map sw_DependsOn (map (chain_step now) (enumerate 0 ss)) =
      map (\<lambda>i. if i = 0 then [] else [step_id (i - 1)]) [0..<length ss]"
    by (rule nth_equalityI) (auto simp: chain_step_def nth_enumerate_eq)
  moreover have "map sw_ID (map (chain_step now) (enumerate 0 ss)) = map step_id [0..<length ss]"
    by (rule nth_equalityI) (simp_all add: chain_step_def nth_enumerate_eq)
  moreover have "list_all (\<lambda>w. sw_DependsOn w = []) (map parallel_step (enumerate 0 js))"
    by (auto simp: list_all_iff parallel_step_def)
  ultimately show ?thesis
    using parallel_ids [of 0 js]
    by (auto simp: workflow_steps_def Chain_def Batch_def Let_def callback_step_def
        simp del: map_map split: option.splits)
qed

end
