(* ===== verification/Error_Catalog.thy ===== *)
theory Error_Catalog
  imports Go_Errors
begin

text \<open>
  The error catalogue (\<open>error_codes.go\<close>): its entries, the table \<open>AllErrorCodes\<close> and the two
  lookups. The lemmas check the table (codes and canonical codes without repetition) and
  with it that the lookups are exact.
\<close>

record error_code_entry =
  ec_Code :: string
  ec_Name :: string
  ec_CanonicalCode :: string
  ec_HTTPStatus :: int
  ec_Message :: string
  ec_Retryable :: bool

definition error_entry ::
  "string \<Rightarrow> string \<Rightarrow> string \<Rightarrow> int \<Rightarrow> string \<Rightarrow> bool \<Rightarrow> error_code_entry" where
  "error_entry c n k h m r = \<lparr>ec_Code = c, ec_Name = n, ec_CanonicalCode = k, ec_HTTPStatus = h,
     ec_Message = m, ec_Retryable = r\<rparr>"

subsection \<open>The entries\<close>

definition CodeInvalidPayload :: error_code_entry where
  "CodeInvalidPayload = error_entry ''OJS-1000'' ''InvalidPayload''
     ''INVALID_PAYLOAD'' 400 (''Job envelope fails structural validation'') False"

definition CodeInvalidJobType :: error_code_entry where
  "CodeInvalidJobType = error_entry ''OJS-1001'' ''InvalidJobType''
     ''INVALID_JOB_TYPE'' 400 (''Job type is not registered or does not match the allowlist'') False"

definition CodeInvalidQueue :: error_code_entry where
  "CodeInvalidQueue = error_entry ''OJS-1002'' ''InvalidQueue''
     ''INVALID_QUEUE'' 400 (''Queue name is invalid or does not match naming rules'') False"

definition CodeInvalidArgs :: error_code_entry where
  "CodeInvalidArgs = error_entry ''OJS-1003'' ''InvalidArgs''
     ''INVALID_ARGS'' 400 (''Job args fail type checking or schema validation'') False"

definition CodeInvalidMetadata :: error_code_entry where
  "CodeInvalidMetadata = error_entry ''OJS-1004'' ''InvalidMetadata''
     ''INVALID_METADATA'' 400 (''Metadata field is malformed or exceeds the 64 KB size limit'') False"

definition CodeInvalidStateTransition :: error_code_entry where
  "CodeInvalidStateTransition = error_entry ''OJS-1005'' ''InvalidStateTransition''
     ''INVALID_STATE_TRANSITION'' 409 (''Attempted an invalid lifecycle state change'') False"

definition CodeInvalidRetryPolicy :: error_code_entry where
  "CodeInvalidRetryPolicy = error_entry ''OJS-1006'' ''InvalidRetryPolicy''
     ''INVALID_RETRY_POLICY'' 400 (''Retry policy configuration is invalid'') False"

definition CodeInvalidCronExpression :: error_code_entry where
  "CodeInvalidCronExpression = error_entry ''OJS-1007'' ''InvalidCronExpression''
     ''INVALID_CRON_EXPRESSION'' 400 (''Cron expression syntax cannot be parsed'') False"

definition CodeSchemaValidationFailed :: error_code_entry where
  "CodeSchemaValidationFailed = error_entry ''OJS-1008'' ''SchemaValidationFailed''
     ''SCHEMA_VALIDATION_FAILED'' 422 (''Job args do not conform to the registered schema'') False"

definition CodePayloadTooLarge :: error_code_entry where
  "CodePayloadTooLarge = error_entry ''OJS-1009'' ''PayloadTooLarge''
     ''PAYLOAD_TOO_LARGE'' 413 (''Job envelope exceeds the server'' @ CHR 0x27 # ''s maximum payload size'') False"

definition CodeMetadataTooLarge :: error_code_entry where
  "CodeMetadataTooLarge = error_entry ''OJS-1010'' ''MetadataTooLarge''
     ''METADATA_TOO_LARGE'' 413 (''Metadata field exceeds the 64 KB limit'') False"

definition CodeConnectionError :: error_code_entry where
  "CodeConnectionError = error_entry ''OJS-1011'' ''ConnectionError''
     [] 0 (''Could not establish a connection to the OJS server'') True"

definition CodeRequestTimeout :: error_code_entry where
  "CodeRequestTimeout = error_entry ''OJS-1012'' ''RequestTimeout''
     [] 0 (''HTTP request to the OJS server timed out'') True"

definition CodeSerializationError :: error_code_entry where
  "CodeSerializationError = error_entry ''OJS-1013'' ''SerializationError''
     [] 0 (''Failed to serialize the request or deserialize the response'') False"

definition CodeQueueNameTooLong :: error_code_entry where
  "CodeQueueNameTooLong = error_entry ''OJS-1014'' ''QueueNameTooLong''
     ''QUEUE_NAME_TOO_LONG'' 400 (''Queue name exceeds the 255-byte maximum length'') False"

definition CodeJobTypeTooLong :: error_code_entry where
  "CodeJobTypeTooLong = error_entry ''OJS-1015'' ''JobTypeTooLong''
     ''JOB_TYPE_TOO_LONG'' 400 (''Job type exceeds the 255-byte maximum length'') False"

definition CodeChecksumMismatch :: error_code_entry where
  "CodeChecksumMismatch = error_entry ''OJS-1016'' ''ChecksumMismatch''
     ''CHECKSUM_MISMATCH'' 400 (''External payload reference checksum verification failed'') False"

definition CodeUnsupportedCompression :: error_code_entry where
  "CodeUnsupportedCompression = error_entry ''OJS-1017'' ''UnsupportedCompression''
     ''UNSUPPORTED_COMPRESSION'' 400 (''The specified compression codec is not supported'') False"

definition CodeBackendError :: error_code_entry where
  "CodeBackendError = error_entry ''OJS-2000'' ''BackendError''
     ''BACKEND_ERROR'' 500 (''Internal backend storage or transport failure'') True"

definition CodeBackendUnavailable :: error_code_entry where
  "CodeBackendUnavailable = error_entry ''OJS-2001'' ''BackendUnavailable''
     ''BACKEND_UNAVAILABLE'' 503 (''Backend storage system is unreachable'') True"

definition CodeBackendTimeout :: error_code_entry where
  "CodeBackendTimeout = error_entry ''OJS-2002'' ''BackendTimeout''
     ''BACKEND_TIMEOUT'' 504 (''Backend operation timed out'') True"

definition CodeReplicationLag :: error_code_entry where
  "CodeReplicationLag = error_entry ''OJS-2003'' ''ReplicationLag''
     ''REPLICATION_LAG'' 500 (''Operation failed due to replication consistency issue'') True"

definition CodeInternalServerError :: error_code_entry where
  "CodeInternalServerError = error_entry ''OJS-2004'' ''InternalServerError''
     [] 500 (''Unclassified internal server error'') True"

definition CodeJobNotFound :: error_code_entry where
  "CodeJobNotFound = error_entry ''OJS-3000'' ''JobNotFound''
     ''NOT_FOUND'' 404 (''The requested job, queue, or resource does not exist'') False"

definition CodeDuplicateJob :: error_code_entry where
  "CodeDuplicateJob = error_entry ''OJS-3001'' ''DuplicateJob''
     ''DUPLICATE_JOB'' 409 (''Unique job constraint was violated'') False"

definition CodeJobAlreadyCompleted :: error_code_entry where
  "CodeJobAlreadyCompleted = error_entry ''OJS-3002'' ''JobAlreadyCompleted''
     ''JOB_ALREADY_COMPLETED'' 409 (''Operation attempted on a job that has already completed'') False"

definition CodeJobAlreadyCancelled :: error_code_entry where
  "CodeJobAlreadyCancelled = error_entry ''OJS-3003'' ''JobAlreadyCancelled''
     ''JOB_ALREADY_CANCELLED'' 409 (''Operation attempted on a job that has already been cancelled'') False"

definition CodeQueuePaused :: error_code_entry where
  "CodeQueuePaused = error_entry ''OJS-3004'' ''QueuePaused''
     ''QUEUE_PAUSED'' 422 (''The target queue is paused and not accepting new jobs'') True"

definition CodeHandlerError :: error_code_entry where
  "CodeHandlerError = error_entry ''OJS-3005'' ''HandlerError''
     ''HANDLER_ERROR'' 0 (''Job handler threw an exception during execution'') True"

definition CodeHandlerTimeout :: error_code_entry where
  "CodeHandlerTimeout = error_entry ''OJS-3006'' ''HandlerTimeout''
     ''HANDLER_TIMEOUT'' 0 (''Job handler exceeded the configured execution timeout'') True"

definition CodeHandlerPanic :: error_code_entry where
  "CodeHandlerPanic = error_entry ''OJS-3007'' ''HandlerPanic''
     ''HANDLER_PANIC'' 0 (''Job handler caused an unrecoverable error'') True"

definition CodeNonRetryableError :: error_code_entry where
  "CodeNonRetryableError = error_entry ''OJS-3008'' ''NonRetryableError''
     ''NON_RETRYABLE_ERROR'' 0 (''Error type matched non_retryable_errors in the retry policy'') False"

definition CodeJobCancelled :: error_code_entry where
  "CodeJobCancelled = error_entry ''OJS-3009'' ''JobCancelled''
     ''JOB_CANCELLED'' 0 (''Job was cancelled while it was executing'') False"

definition CodeNoHandlerRegistered :: error_code_entry where
  "CodeNoHandlerRegistered = error_entry ''OJS-3010'' ''NoHandlerRegistered''
     [] 0 (''No handler is registered for the received job type'') False"

definition CodeWorkflowNotFound :: error_code_entry where
  "CodeWorkflowNotFound = error_entry ''OJS-4000'' ''WorkflowNotFound''
     [] 404 (''The specified workflow does not exist'') False"

definition CodeChainStepFailed :: error_code_entry where
  "CodeChainStepFailed = error_entry ''OJS-4001'' ''ChainStepFailed''
     [] 422 (''A step in a chain workflow failed, halting subsequent steps'') False"

definition CodeGroupTimeout :: error_code_entry where
  "CodeGroupTimeout = error_entry ''OJS-4002'' ''GroupTimeout''
     [] 504 (''A group workflow did not complete within the allowed timeout'') True"

definition CodeDependencyFailed :: error_code_entry where
  "CodeDependencyFailed = error_entry ''OJS-4003'' ''DependencyFailed''
     [] 422 (''A required dependency job failed, preventing execution'') False"

definition CodeCyclicDependency :: error_code_entry where
  "CodeCyclicDependency = error_entry ''OJS-4004'' ''CyclicDependency''
     [] 400 (''The workflow definition contains circular dependencies'') False"

definition CodeBatchCallbackFailed :: error_code_entry where
  "CodeBatchCallbackFailed = error_entry ''OJS-4005'' ''BatchCallbackFailed''
     [] 422 (''The batch completion callback job failed'') True"

definition CodeWorkflowCancelled :: error_code_entry where
  "CodeWorkflowCancelled = error_entry ''OJS-4006'' ''WorkflowCancelled''
     [] 409 (''The entire workflow was cancelled'') False"

definition CodeUnauthenticated :: error_code_entry where
  "CodeUnauthenticated = error_entry ''OJS-5000'' ''Unauthenticated''
     ''UNAUTHENTICATED'' 401 (''No authentication credentials provided or credentials are invalid'') False"

definition CodePermissionDenied :: error_code_entry where
  "CodePermissionDenied = error_entry ''OJS-5001'' ''PermissionDenied''
     ''PERMISSION_DENIED'' 403 (''Authenticated but lacks the required permission'') False"

definition CodeTokenExpired :: error_code_entry where
  "CodeTokenExpired = error_entry ''OJS-5002'' ''TokenExpired''
     ''TOKEN_EXPIRED'' 401 (''The authentication token has expired'') False"

definition CodeTenantAccessDenied :: error_code_entry where
  "CodeTenantAccessDenied = error_entry ''OJS-5003'' ''TenantAccessDenied''
     ''TENANT_ACCESS_DENIED'' 403 (''Operation on a tenant the caller does not have access to'') False"

definition CodeRateLimited :: error_code_entry where
  "CodeRateLimited = error_entry ''OJS-6000'' ''RateLimited''
     ''RATE_LIMITED'' 429 (''Rate limit exceeded'') True"

definition CodeQueueFull :: error_code_entry where
  "CodeQueueFull = error_entry ''OJS-6001'' ''QueueFull''
     ''QUEUE_FULL'' 429 (''The queue has reached its configured maximum depth'') True"

definition CodeConcurrencyLimited :: error_code_entry where
  "CodeConcurrencyLimited = error_entry ''OJS-6002'' ''ConcurrencyLimited''
     [] 429 (''The concurrency limit has been reached'') True"

definition CodeBackpressureApplied :: error_code_entry where
  "CodeBackpressureApplied = error_entry ''OJS-6003'' ''BackpressureApplied''
     [] 429 (''The server is applying backpressure'') True"

definition CodeUnsupportedFeature :: error_code_entry where
  "CodeUnsupportedFeature = error_entry ''OJS-7000'' ''UnsupportedFeature''
     ''UNSUPPORTED_FEATURE'' 422 (''Feature requires a conformance level the backend does not support'') False"

definition CodeCronScheduleConflict :: error_code_entry where
  "CodeCronScheduleConflict = error_entry ''OJS-7001'' ''CronScheduleConflict''
     [] 409 (''The cron schedule conflicts with an existing schedule'') False"

definition CodeUniqueKeyInvalid :: error_code_entry where
  "CodeUniqueKeyInvalid = error_entry ''OJS-7002'' ''UniqueKeyInvalid''
     [] 400 (''The unique key specification is invalid or malformed'') False"

definition CodeMiddlewareError :: error_code_entry where
  "CodeMiddlewareError = error_entry ''OJS-7003'' ''MiddlewareError''
     [] 500 (''An error occurred in the middleware chain'') True"

definition CodeMiddlewareTimeout :: error_code_entry where
  "CodeMiddlewareTimeout = error_entry ''OJS-7004'' ''MiddlewareTimeout''
     [] 504 (''A middleware handler exceeded its allowed execution time'') True"

lemmas error_entries =
  CodeInvalidPayload_def CodeInvalidJobType_def CodeInvalidQueue_def CodeInvalidArgs_def
  CodeInvalidMetadata_def CodeInvalidStateTransition_def CodeInvalidRetryPolicy_def
  CodeInvalidCronExpression_def CodeSchemaValidationFailed_def CodePayloadTooLarge_def
  CodeMetadataTooLarge_def CodeConnectionError_def CodeRequestTimeout_def
  CodeSerializationError_def CodeQueueNameTooLong_def CodeJobTypeTooLong_def
  CodeChecksumMismatch_def CodeUnsupportedCompression_def CodeBackendError_def
  CodeBackendUnavailable_def CodeBackendTimeout_def CodeReplicationLag_def
  CodeInternalServerError_def CodeJobNotFound_def CodeDuplicateJob_def CodeJobAlreadyCompleted_def
  CodeJobAlreadyCancelled_def CodeQueuePaused_def CodeHandlerError_def CodeHandlerTimeout_def
  CodeHandlerPanic_def CodeNonRetryableError_def CodeJobCancelled_def CodeNoHandlerRegistered_def
  CodeWorkflowNotFound_def CodeChainStepFailed_def CodeGroupTimeout_def CodeDependencyFailed_def
  CodeCyclicDependency_def CodeBatchCallbackFailed_def CodeWorkflowCancelled_def
  CodeUnauthenticated_def CodePermissionDenied_def CodeTokenExpired_def CodeTenantAccessDenied_def
  CodeRateLimited_def CodeQueueFull_def CodeConcurrencyLimited_def CodeBackpressureApplied_def
  CodeUnsupportedFeature_def CodeCronScheduleConflict_def CodeUniqueKeyInvalid_def
  CodeMiddlewareError_def CodeMiddlewareTimeout_def

definition AllErrorCodes :: "error_code_entry list" where
  "AllErrorCodes = [
     CodeInvalidPayload, CodeInvalidJobType, CodeInvalidQueue, CodeInvalidArgs,
     CodeInvalidMetadata, CodeInvalidStateTransition, CodeInvalidRetryPolicy,
     CodeInvalidCronExpression, CodeSchemaValidationFailed, CodePayloadTooLarge,
     CodeMetadataTooLarge, CodeConnectionError, CodeRequestTimeout, CodeSerializationError,
     CodeQueueNameTooLong, CodeJobTypeTooLong, CodeChecksumMismatch, CodeUnsupportedCompression,
     CodeBackendError, CodeBackendUnavailable, CodeBackendTimeout, CodeReplicationLag,
     CodeInternalServerError, CodeJobNotFound, CodeDuplicateJob, CodeJobAlreadyCompleted,
     CodeJobAlreadyCancelled, CodeQueuePaused, CodeHandlerError, CodeHandlerTimeout,
     CodeHandlerPanic, CodeNonRetryableError, CodeJobCancelled, CodeNoHandlerRegistered,
     CodeWorkflowNotFound, CodeChainStepFailed, CodeGroupTimeout, CodeDependencyFailed,
     CodeCyclicDependency, CodeBatchCallbackFailed, CodeWorkflowCancelled, CodeUnauthenticated,
     CodePermissionDenied, CodeTokenExpired, CodeTenantAccessDenied, CodeRateLimited,
     CodeQueueFull, CodeConcurrencyLimited, CodeBackpressureApplied, CodeUnsupportedFeature,
     CodeCronScheduleConflict, CodeUniqueKeyInvalid, CodeMiddlewareError, CodeMiddlewareTimeout]"

subsection \<open>Lookups\<close>

text \<open>The loops return the first entry that matches.\<close>

definition LookupByCode :: "string \<Rightarrow> error_code_entry option" where
  "LookupByCode code = find (\<lambda>e. ec_Code e = code) AllErrorCodes"

definition LookupByCanonicalCode :: "string \<Rightarrow> error_code_entry option" where
  "LookupByCanonicalCode canonical =
     (if canonical = [] then None
      else find (\<lambda>e. ec_CanonicalCode e = canonical) AllErrorCodes)"

lemma catalog_codes_distinct: "distinct (map ec_Code AllErrorCodes)"
  by (simp add: AllErrorCodes_def error_entries error_entry_def)

lemma catalog_canonical_distinct:
  "distinct (filter (\<lambda>k. k \<noteq> []) (map ec_CanonicalCode AllErrorCodes))"
  by (simp add: AllErrorCodes_def error_entries error_entry_def)

lemma find_distinct_iff:
  assumes "distinct (filter P (map f xs))" "P k"
  shows "find (\<lambda>x. f x = k) xs = Some e \<longleftrightarrow> e \<in> set xs \<and> f e = k"
  using assms(1)
proof (induction xs)
  case (Cons x xs)
  then show ?case using assms(2) by (auto split: if_splits)
qed simp

lemma find_distinct_all_iff:
  "distinct (map f xs) \<Longrightarrow> find (\<lambda>x. f x = k) xs = Some e \<longleftrightarrow> e \<in> set xs \<and> f e = k"
  using find_distinct_iff [of "\<lambda>_. True" f xs k e] by simp

text \<open>The lookups are exact: an entry is found under its numeric code and, when it has one, under its canonical code, and nothing else is.\<close>

theorem catalog_lookup_exact:
  "(LookupByCode c = Some e \<longleftrightarrow> e \<in> set AllErrorCodes \<and> ec_Code e = c)
   \<and> (LookupByCanonicalCode k = Some e \<longleftrightarrow>
        e \<in> set AllErrorCodes \<and> ec_CanonicalCode e = k \<and> k \<noteq> [])"
  using find_distinct_all_iff [OF catalog_codes_distinct, of c e]
    find_distinct_iff [OF catalog_canonical_distinct, of k e]
  by (auto simp: LookupByCode_def LookupByCanonicalCode_def)

lemma catalog_canonical_not_err_code:
  "list_all (\<lambda>e. ec_CanonicalCode e \<notin> {ErrCodeNotFound, ErrCodeDuplicate, ErrCodeQueuePaused,
      ErrCodeRateLimited, ErrCodeBackendError, ErrCodeTimeout}) AllErrorCodes"
  by (simp add: AllErrorCodes_def error_entries error_entry_def err_codes)

text \<open>No canonical code of the catalogue is a code that \<open>Error.Is\<close> knows: an API error carrying one matches no sentinel, but \<open>ErrConflict\<close> when its status is 409.\<close>

theorem catalog_codes_match_no_sentinel:
  assumes "e \<in> set AllErrorCodes" "ae_Code a = ec_CanonicalCode e"
  shows "errors_Is (ApiError a) t \<longleftrightarrow> t = ErrConflict \<and> ae_HTTPStatus a = 409"
proof -
  have "ec_CanonicalCode e \<notin> {ErrCodeNotFound, ErrCodeDuplicate, ErrCodeQueuePaused,
      ErrCodeRateLimited, ErrCodeBackendError, ErrCodeTimeout}"
    using catalog_canonical_not_err_code assms(1) by (simp only: list_all_iff) blast
  then show ?thesis using assms(2) by (auto simp: Error_Unwrap_def)
qed

theorem catalog_codes_match_no_sentinel_witness:
  "\<not> errors_Is (ApiError \<lparr>ae_Code = ''DUPLICATE_JOB'', ae_Message = [], ae_Retryable = False,
     ae_Details = fmempty, ae_RequestID = [], ae_HTTPStatus = 409, ae_RetryAfter = 0,
     ae_RateLimit = None\<rparr>) ErrDuplicate"
proof -
  have "CodeDuplicateJob \<in> set AllErrorCodes" by (simp add: AllErrorCodes_def)
  then show ?thesis
    by (subst catalog_codes_match_no_sentinel [of CodeDuplicateJob])
      (simp_all add: CodeDuplicateJob_def error_entry_def)
qed

end
