(* ===== verification/Serverless.thy ===== *)
theory Serverless
  imports Middleware_Chain "HOL-Library.Monad_Syntax"
begin

text \<open>
  The package \<open>serverless\<close> (\<open>serverless/handler.go\<close>, \<open>vercel.go\<close>, \<open>cloudflare.go\<close>): job handlers
  behind SQS batches, HTTP push, direct invocation, and the two wrappers. A handler may panic;
  nothing here recovers, so a run is \<open>Done\<close> or \<open>Crashed\<close>. \<open>parse\<close> is \<open>json.Unmarshal\<close> of a text,
  \<open>read_body n\<close> the JSON decoder on a body limited to \<open>n\<close> bytes. What a handler finds in its
  context is the record \<open>call_ctx\<close>. Logging is left out.
\<close>

subsection \<open>Data\<close>

record job_event =
  je_ID :: string
  je_Type :: string
  je_Queue :: string
  je_Args :: "json option"
  je_Attempt :: int
  je_Meta :: "json option"
  je_Priority :: int

record sqs_message =
  sm_MessageID :: string
  sm_Body :: string
  sm_Attributes :: "(string, string) fmap"
  sm_MD5OfBody :: string
  sm_EventSourceID :: string
  sm_ReceiptHandle :: string

text \<open>A batch response lists the identifiers of the failed messages.\<close>

type_synonym sqs_batch_response = "string list"

record push_delivery_request =
  pd_Job :: job_event
  pd_WorkerID :: string
  pd_DeliveryID :: string

record push_error =
  pe_Code :: string
  pe_Message :: string
  pe_Retryable :: bool

record push_delivery_response =
  pr_Status :: string
  pr_Result :: "json option"
  pr_Error :: "push_error option"

record direct_response =
  dr_Status :: string
  dr_JobID :: string
  dr_Error :: string

record call_ctx =
  cc_timeouts :: "int list"
  cc_vercelID :: string

type_synonym 'w serverless_handler = "call_ctx \<Rightarrow> job_event \<Rightarrow> 'w \<Rightarrow> hresult \<times> 'w"

definition dec_job_event :: "json option \<Rightarrow> job_event option" where
  "dec_job_event d = do {
     m \<leftarrow> obj_members d;
     i \<leftarrow> dec_string (fmlookup m ''id'');
     ty \<leftarrow> dec_string (fmlookup m ''type'');
     q \<leftarrow> dec_string (fmlookup m ''queue'');
     att \<leftarrow> dec_int (fmlookup m ''attempt'');
     pri \<leftarrow> dec_int (fmlookup m ''priority'');
     Some \<lparr>je_ID = i, je_Type = ty, je_Queue = q, je_Args = fmlookup m ''args'', je_Attempt = att,
       je_Meta = fmlookup m ''meta'', je_Priority = pri\<rparr> }"

definition zero_job_event :: job_event where
  "zero_job_event = \<lparr>je_ID = [], je_Type = [], je_Queue = [], je_Args = None, je_Attempt = 0,
     je_Meta = None, je_Priority = 0\<rparr>"

definition dec_push_request :: "json \<Rightarrow> push_delivery_request option" where
  "dec_push_request d = do {
     m \<leftarrow> obj_members (Some d);
     j \<leftarrow> (case fmlookup m ''job'' of None \<Rightarrow> Some zero_job_event | Some x \<Rightarrow> dec_job_event (Some x));
     wid \<leftarrow> dec_string (fmlookup m ''worker_id'');
     did \<leftarrow> dec_string (fmlookup m ''delivery_id'');
     Some \<lparr>pd_Job = j, pd_WorkerID = wid, pd_DeliveryID = did\<rparr> }"

definition enc_push_error :: "push_error \<Rightarrow> json option" where
  "enc_push_error e = struct_json
     [(''code'', enc_string (pe_Code e)), (''message'', enc_string (pe_Message e)),
      (''retryable'', enc_bool (pe_Retryable e))]"

definition enc_push_response :: "push_delivery_response \<Rightarrow> json option" where
  "enc_push_response r = struct_json
     [(''status'', enc_string (pr_Status r)),
      (''result'', (case pr_Result r of None \<Rightarrow> Some None | Some j \<Rightarrow> Some (Some j))),
      (''error'', omit_ptr enc_push_error (pr_Error r))]"

subsection \<open>The handler\<close>

definition DefaultTimeout :: int where "DefaultTimeout = 30 * 1000000000"
definition DefaultMaxBodySize :: int where "DefaultMaxBodySize = 2 ^ 20"

record 'w lambda_handler =
  lh_handlers :: "string \<rightharpoonup> 'w serverless_handler"
  lh_ojsURL :: string
  lh_timeout :: int
  lh_maxBodySize :: int
  lh_initialized :: time

definition Lambda_WithOJSURL :: "string \<Rightarrow> 'w lambda_handler \<Rightarrow> 'w lambda_handler" where
  "Lambda_WithOJSURL url h = h\<lparr>lh_ojsURL := url\<rparr>"

definition Lambda_WithTimeout :: "int \<Rightarrow> 'w lambda_handler \<Rightarrow> 'w lambda_handler" where
  "Lambda_WithTimeout d h = h\<lparr>lh_timeout := d\<rparr>"

definition Lambda_WithMaxBodySize :: "int \<Rightarrow> 'w lambda_handler \<Rightarrow> 'w lambda_handler" where
  "Lambda_WithMaxBodySize n h = h\<lparr>lh_maxBodySize := n\<rparr>"

definition NewLambdaHandler ::
  "time \<Rightarrow> ('w lambda_handler \<Rightarrow> 'w lambda_handler) list \<Rightarrow> 'w lambda_handler" where
  "NewLambdaHandler now opts = foldl (\<lambda>h opt. opt h)
     \<lparr>lh_handlers = Map.empty, lh_ojsURL = [], lh_timeout = DefaultTimeout,
      lh_maxBodySize = DefaultMaxBodySize, lh_initialized = now\<rparr> opts"

definition Lambda_Register ::
  "string \<Rightarrow> 'w serverless_handler \<Rightarrow> 'w lambda_handler \<Rightarrow> 'w lambda_handler" where
  "Lambda_Register jobType f h = h\<lparr>lh_handlers := (lh_handlers h)(jobType \<mapsto> f)\<rparr>"

definition Initialized :: "'w lambda_handler \<Rightarrow> time" where
  "Initialized h = lh_initialized h"

definition Lambda_processJob :: "'w lambda_handler \<Rightarrow> call_ctx \<Rightarrow> job_event \<Rightarrow> 'w \<Rightarrow> hresult \<times> 'w" where
  "Lambda_processJob h ctx job w = (case lh_handlers h (je_Type job) of
     None \<Rightarrow> (Returned (Some (PlainErr (''no handler registered for job type: '' @ je_Type job))), w)
   | Some f \<Rightarrow> f (if 0 < lh_timeout h then ctx\<lparr>cc_timeouts := lh_timeout h # cc_timeouts ctx\<rparr> else ctx) job w)"

datatype 'a run = Done 'a | Crashed string

fun sqs_loop ::
  "(string \<Rightarrow> json option) \<Rightarrow> 'w lambda_handler \<Rightarrow> call_ctx \<Rightarrow> string list \<Rightarrow> sqs_message list \<Rightarrow> 'w
     \<Rightarrow> sqs_batch_response run \<times> 'w" where
  "sqs_loop parse h ctx failures [] w = (Done failures, w)"
| "sqs_loop parse h ctx failures (r # rs) w =
     (case Option.bind (parse (sm_Body r)) (\<lambda>j. dec_job_event (Some j)) of
        None \<Rightarrow> sqs_loop parse h ctx (failures @ [sm_MessageID r]) rs w
      | Some job \<Rightarrow> (case Lambda_processJob h ctx job w of
          (Panicked p, w') \<Rightarrow> (Crashed p, w')
        | (Returned (Some e), w') \<Rightarrow> sqs_loop parse h ctx (failures @ [sm_MessageID r]) rs w'
        | (Returned None, w') \<Rightarrow> sqs_loop parse h ctx failures rs w'))"

definition HandleSQS ::
  "(string \<Rightarrow> json option) \<Rightarrow> 'w lambda_handler \<Rightarrow> call_ctx \<Rightarrow> sqs_message list \<Rightarrow> 'w
     \<Rightarrow> sqs_batch_response run \<times> 'w" where
  "HandleSQS parse h ctx records w =
     (if records = [] then (Done [], w) else sqs_loop parse h ctx [] records w)"

definition HandleDirect ::
  "'w lambda_handler \<Rightarrow> call_ctx \<Rightarrow> job_event \<Rightarrow> 'w \<Rightarrow> direct_response run \<times> 'w" where
  "HandleDirect h ctx event w =
     (if je_ID event = [] \<or> je_Type event = [] then
        (Done \<lparr>dr_Status = ''failed'', dr_JobID = [], dr_Error = ''job id and type are required''\<rparr>, w)
      else case Lambda_processJob h ctx event w of
        (Panicked p, w') \<Rightarrow> (Crashed p, w')
      | (Returned (Some e), w') \<Rightarrow>
          (Done \<lparr>dr_Status = ''failed'', dr_JobID = je_ID event, dr_Error = err_msg e\<rparr>, w')
      | (Returned None, w') \<Rightarrow>
          (Done \<lparr>dr_Status = ''completed'', dr_JobID = je_ID event, dr_Error = []\<rparr>, w'))"

subsection \<open>HTTP\<close>

record push_http_request =
  hr_method :: string
  hr_body :: string
  hr_vercelID :: string
  hr_ctx :: call_ctx

datatype push_reply = PlainReply int string | JsonReply int push_delivery_response

definition failed_response :: "string \<Rightarrow> string \<Rightarrow> bool \<Rightarrow> push_delivery_response" where
  "failed_response code msg retryable = \<lparr>pr_Status = ''failed'', pr_Result = None,
     pr_Error = Some \<lparr>pe_Code = code, pe_Message = msg, pe_Retryable = retryable\<rparr>\<rparr>"

definition completed_response :: push_delivery_response where
  "completed_response = \<lparr>pr_Status = ''completed'', pr_Result = None, pr_Error = None\<rparr>"

definition HandleHTTP ::
  "(int \<Rightarrow> string \<Rightarrow> json option) \<Rightarrow> 'w lambda_handler \<Rightarrow> push_http_request \<Rightarrow> 'w \<Rightarrow> push_reply run \<times> 'w" where
  "HandleHTTP read_body h r w =
     (if hr_method r \<noteq> ''POST'' then (Done (PlainReply 405 ''method not allowed''), w)
      else case Option.bind (read_body (lh_maxBodySize h) (hr_body r)) dec_push_request of
        None \<Rightarrow> (Done (JsonReply 400
          (failed_response ''invalid_request'' ''failed to decode request body'' False)), w)
      | Some req \<Rightarrow>
          (if je_ID (pd_Job req) = [] \<or> je_Type (pd_Job req) = [] then
             (Done (JsonReply 400
               (failed_response ''invalid_request'' ''job id and type are required'' False)), w)
           else case Lambda_processJob h (hr_ctx r) (pd_Job req) w of
             (Panicked p, w') \<Rightarrow> (Crashed p, w')
           | (Returned (Some e), w') \<Rightarrow>
               (Done (JsonReply 200 (failed_response ''handler_error'' (err_msg e) True)), w')
           | (Returned None, w') \<Rightarrow> (Done (JsonReply 200 completed_response), w')))"

subsection \<open>Vercel\<close>

type_synonym 'w vercel_handler = "'w lambda_handler"

definition NewVercelHandler ::
  "time \<Rightarrow> ('w vercel_handler \<Rightarrow> 'w vercel_handler) list \<Rightarrow> 'w vercel_handler" where
  "NewVercelHandler now opts = foldl (\<lambda>h opt. opt h) (NewLambdaHandler now []) opts"

definition WithVercelOJSURL :: "string \<Rightarrow> 'w vercel_handler \<Rightarrow> 'w vercel_handler" where
  "WithVercelOJSURL url h = h\<lparr>lh_ojsURL := url\<rparr>"

definition WithVercelTimeout :: "int \<Rightarrow> 'w vercel_handler \<Rightarrow> 'w vercel_handler" where
  "WithVercelTimeout d h = h\<lparr>lh_timeout := d\<rparr>"

definition WithVercelMaxBodySize :: "int \<Rightarrow> 'w vercel_handler \<Rightarrow> 'w vercel_handler" where
  "WithVercelMaxBodySize n h = h\<lparr>lh_maxBodySize := n\<rparr>"

definition Vercel_Register ::
  "string \<Rightarrow> 'w serverless_handler \<Rightarrow> 'w vercel_handler \<Rightarrow> 'w vercel_handler" where
  "Vercel_Register jobType f h = Lambda_Register jobType f h"

definition VercelRequestID :: "call_ctx \<Rightarrow> string" where
  "VercelRequestID ctx = cc_vercelID ctx"

definition Vercel_ServeHTTP ::
  "(int \<Rightarrow> string \<Rightarrow> json option) \<Rightarrow> 'w vercel_handler \<Rightarrow> push_http_request \<Rightarrow> 'w \<Rightarrow> push_reply run \<times> 'w" where
  "Vercel_ServeHTTP read_body h r w =
     (if hr_method r \<noteq> ''POST'' then (Done (PlainReply 405 ''method not allowed''), w)
      else case Option.bind (read_body (lh_maxBodySize h) (hr_body r)) dec_push_request of
        None \<Rightarrow> (Done (JsonReply 400
          (failed_response ''invalid_request'' ''failed to decode request body'' False)), w)
      | Some req \<Rightarrow>
          (if je_ID (pd_Job req) = [] \<or> je_Type (pd_Job req) = [] then
             (Done (JsonReply 400
               (failed_response ''invalid_request'' ''job id and type are required'' False)), w)
           else
             let ctx = (if hr_vercelID r \<noteq> [] then (hr_ctx r)\<lparr>cc_vercelID := hr_vercelID r\<rparr> else hr_ctx r)
             in case Lambda_processJob h ctx (pd_Job req) w of
               (Panicked p, w') \<Rightarrow> (Crashed p, w')
             | (Returned (Some e), w') \<Rightarrow>
                 (Done (JsonReply 200 (failed_response ''handler_error'' (err_msg e) True)), w')
             | (Returned None, w') \<Rightarrow> (Done (JsonReply 200 completed_response), w')))"

definition Vercel_HandleJob :: "'w vercel_handler \<Rightarrow> call_ctx \<Rightarrow> job_event \<Rightarrow> 'w \<Rightarrow> hresult \<times> 'w" where
  "Vercel_HandleJob h ctx job w = Lambda_processJob h ctx job w"

subsection \<open>Cloudflare\<close>

type_synonym 'w cloudflare_handler = "'w lambda_handler"

definition NewCloudflareHandler ::
  "time \<Rightarrow> ('w cloudflare_handler \<Rightarrow> 'w cloudflare_handler) list \<Rightarrow> 'w cloudflare_handler" where
  "NewCloudflareHandler now opts = foldl (\<lambda>h opt. opt h) (NewLambdaHandler now []) opts"

definition WithCloudflareOJSURL :: "string \<Rightarrow> 'w cloudflare_handler \<Rightarrow> 'w cloudflare_handler" where
  "WithCloudflareOJSURL url h = h\<lparr>lh_ojsURL := url\<rparr>"

definition WithCloudflareTimeout :: "int \<Rightarrow> 'w cloudflare_handler \<Rightarrow> 'w cloudflare_handler" where
  "WithCloudflareTimeout d h = h\<lparr>lh_timeout := d\<rparr>"

definition WithCloudflareMaxBodySize :: "int \<Rightarrow> 'w cloudflare_handler \<Rightarrow> 'w cloudflare_handler" where
  "WithCloudflareMaxBodySize n h = h\<lparr>lh_maxBodySize := n\<rparr>"

definition Cloudflare_Register ::
  "string \<Rightarrow> 'w serverless_handler \<Rightarrow> 'w cloudflare_handler \<Rightarrow> 'w cloudflare_handler" where
  "Cloudflare_Register jobType f h = Lambda_Register jobType f h"

definition Cloudflare_ServeHTTP ::
  "(int \<Rightarrow> string \<Rightarrow> json option) \<Rightarrow> 'w cloudflare_handler \<Rightarrow> push_http_request \<Rightarrow> 'w \<Rightarrow> push_reply run \<times> 'w" where
  "Cloudflare_ServeHTTP read_body h r w = HandleHTTP read_body h r w"

definition HandleFetchEvent ::
  "(int \<Rightarrow> string \<Rightarrow> json option) \<Rightarrow> 'w cloudflare_handler \<Rightarrow> push_http_request \<Rightarrow> 'w \<Rightarrow> push_reply run \<times> 'w" where
  "HandleFetchEvent read_body h r w =
     (if hr_method r \<noteq> ''POST'' then (Done (PlainReply 405 ''method not allowed''), w)
      else case Option.bind (read_body (lh_maxBodySize h) (hr_body r)) (\<lambda>j. dec_job_event (Some j)) of
        None \<Rightarrow> (Done (JsonReply 400
          (failed_response ''invalid_request'' ''failed to decode job event'' False)), w)
      | Some job \<Rightarrow>
          (if je_ID job = [] \<or> je_Type job = [] then
             (Done (JsonReply 400
               (failed_response ''invalid_request'' ''job id and type are required'' False)), w)
           else case Lambda_processJob h (hr_ctx r) job w of
             (Panicked p, w') \<Rightarrow> (Crashed p, w')
           | (Returned (Some e), w') \<Rightarrow>
               (Done (JsonReply 200 (failed_response ''handler_error'' (err_msg e) True)), w')
           | (Returned None, w') \<Rightarrow> (Done (JsonReply 200 completed_response), w')))"

definition Cloudflare_HandleJob :: "'w cloudflare_handler \<Rightarrow> call_ctx \<Rightarrow> job_event \<Rightarrow> 'w \<Rightarrow> hresult \<times> 'w" where
  "Cloudflare_HandleJob h ctx job w = Lambda_processJob h ctx job w"

subsection \<open>Batches\<close>

text \<open>
  A handler that notes each job it is given and returns or panics as \<open>v\<close> says, which may depend on
  the jobs run before: any deterministic handler, seen through what it did.
\<close>

type_synonym verdict = "call_ctx \<Rightarrow> job_event list \<Rightarrow> job_event \<Rightarrow> hresult"

definition noting_handler :: "verdict \<Rightarrow> job_event list serverless_handler" where
  "noting_handler v ctx job w = (v ctx w job, w @ [job])"

definition noting :: "(string \<Rightarrow> bool) \<Rightarrow> verdict \<Rightarrow> job_event list lambda_handler \<Rightarrow> job_event list lambda_handler" where
  "noting known v h = h\<lparr>lh_handlers := (\<lambda>ty. if known ty then Some (noting_handler v) else None)\<rparr>"

definition sqs_job :: "(string \<Rightarrow> json option) \<Rightarrow> sqs_message \<Rightarrow> job_event option" where
  "sqs_job parse r = Option.bind (parse (sm_Body r)) (\<lambda>j. dec_job_event (Some j))"

text \<open>The jobs of a batch that have a handler.\<close>

definition runnable :: "(string \<Rightarrow> json option) \<Rightarrow> (string \<Rightarrow> bool) \<Rightarrow> sqs_message list \<Rightarrow> job_event list" where
  "runnable parse known rs = filter (\<lambda>job. known (je_Type job)) (List.map_filter (sqs_job parse) rs)"

lemma runnable_simps [simp]:
  "runnable parse known [] = []"
  "runnable parse known (r # rs) = (case sqs_job parse r of None \<Rightarrow> []
     | Some job \<Rightarrow> if known (je_Type job) then [job] else []) @ runnable parse known rs"
  by (simp_all add: runnable_def map_filter_simps split: option.split)

text \<open>
  What becomes of the \<open>n\<close>-th message when the handlers ran \<open>w\<close> before the batch and the runnable jobs of
  the messages in front: \<open>None\<close> when it is not handled at all.
\<close>

definition outcome ::
  "(string \<Rightarrow> json option) \<Rightarrow> (string \<Rightarrow> bool) \<Rightarrow> (job_event list \<Rightarrow> job_event \<Rightarrow> hresult) \<Rightarrow> job_event list
     \<Rightarrow> sqs_message list \<Rightarrow> nat \<Rightarrow> hresult option" where
  "outcome parse known v w rs n = (case sqs_job parse (rs ! n) of
     Some job \<Rightarrow> if known (je_Type job) then Some (v (w @ runnable parse known (take n rs)) job) else None
   | None \<Rightarrow> None)"

definition panic_of :: "hresult option \<Rightarrow> string option" where
  "panic_of r = (case r of Some (Panicked p) \<Rightarrow> Some p | _ \<Rightarrow> None)"

lemma outcome_Cons:
  "outcome parse known v w (r # rs) 0 = (case sqs_job parse r of
     Some job \<Rightarrow> if known (je_Type job) then Some (v w job) else None | None \<Rightarrow> None)"
  "outcome parse known v w (r # rs) (Suc n) = outcome parse known v (w @ runnable parse known [r]) rs n"
  by (simp_all add: outcome_def split: option.split)

lemma find_map: "find P (map f xs) = map_option f (find (\<lambda>x. P (f x)) xs)"
  by (induction xs) simp_all

lemma upt_0_Suc: "[0..<Suc n] = 0 # map Suc [0..<n]"
  by (simp add: map_Suc_upt upt_conv_Cons del: upt_Suc)

definition with_timeout :: "'w lambda_handler \<Rightarrow> call_ctx \<Rightarrow> call_ctx" where
  "with_timeout h ctx = (if 0 < lh_timeout h then ctx\<lparr>cc_timeouts := lh_timeout h # cc_timeouts ctx\<rparr> else ctx)"

lemma processJob_noting:
  "Lambda_processJob (noting known v h) ctx job w =
     (if known (je_Type job) then (v (with_timeout h ctx) w job, w @ [job])
      else (Returned (Some (PlainErr (''no handler registered for job type: '' @ je_Type job))), w))"
  by (simp add: Lambda_processJob_def noting_def noting_handler_def with_timeout_def)

lemma sqs_loop_noting:
  "sqs_loop parse (noting known v h) ctx fs rs w =
    (let out = outcome parse known (v (with_timeout h ctx)) w rs in
     case find (\<lambda>n. panic_of (out n) \<noteq> None) [0..<length rs] of
       None \<Rightarrow> (Done (fs @ map (\<lambda>n. sm_MessageID (rs ! n))
                  (filter (\<lambda>n. out n \<noteq> Some (Returned None)) [0..<length rs])),
                w @ runnable parse known rs)
     | Some n \<Rightarrow> (Crashed (the (panic_of (out n))), w @ runnable parse known (take (Suc n) rs)))"
proof (induction rs arbitrary: fs w)
  case (Cons r rs)
  show ?case
  proof (cases "sqs_job parse r")
    case None
    then show ?thesis using Cons.IH [of "fs @ [sm_MessageID r]" w]
      by (simp add: sqs_job_def [symmetric] upt_0_Suc find_map filter_map comp_def outcome_Cons panic_of_def Let_def
          split: option.split del: upt_Suc)
  next
    case (Some job)
    note simps = sqs_job_def [symmetric] upt_0_Suc find_map filter_map comp_def outcome_Cons panic_of_def
      Let_def processJob_noting Some
    show ?thesis
    proof (cases "known (je_Type job)")
      case False
      then show ?thesis using Cons.IH [of "fs @ [sm_MessageID r]" w]
        by (simp add: simps split: option.split del: upt_Suc)
    next
      case True
      show ?thesis
      proof (cases "v (with_timeout h ctx) w job")
        case (Panicked p)
        with True show ?thesis by (simp add: simps del: upt_Suc)
      next
        case (Returned e)
        with True show ?thesis
          using Cons.IH [of fs "w @ [job]"] Cons.IH [of "fs @ [sm_MessageID r]" "w @ [job]"]
          by (cases e) (simp_all add: simps split: option.split del: upt_Suc)
      qed
    qed
  qed
qed simp

text \<open>
  C24: A batch response names exactly the messages to retry, in the order of the batch: those whose
  body is not a job, whose type has no handler, or whose handler returned an error; every job
  with a handler is run once, in order, whatever error those before it returned. This holds when no
  handler panics. Otherwise the first panic ends the batch without a response, after the jobs up
  to and including the panicking one. The handlers are functions of the job, of the context and of the
  jobs run before.
\<close>

theorem sqs_partial_failures:
  "let out = outcome parse known (v (with_timeout h ctx)) [] rs;
       result = HandleSQS parse (noting known v h) ctx rs []
   in case find (\<lambda>n. panic_of (out n) \<noteq> None) [0..<length rs] of
       None \<Rightarrow> result = (Done (map (\<lambda>n. sm_MessageID (rs ! n))
          (filter (\<lambda>n. out n \<noteq> Some (Returned None)) [0..<length rs])), runnable parse known rs)
     | Some n \<Rightarrow> result = (Crashed (the (panic_of (out n))), runnable parse known (take (n + 1) rs))"
  by (auto simp: HandleSQS_def sqs_loop_noting Let_def split: option.split)

lemma sqs_loop_panic:
  assumes "sqs_job parse r = Some job" "Lambda_processJob h ctx job w' = (Panicked p, w'')"
    and "sqs_loop parse h ctx fs pre w = (Done fs', w')"
  shows "sqs_loop parse h ctx fs (pre @ r # post) w = (Crashed p, w'')"
  using assms(3)
proof (induction pre arbitrary: fs w)
  case Nil
  then show ?case using assms(1,2) by (simp add: sqs_job_def split: option.splits)
next
  case (Cons q pre)
  from Cons.prems show ?case
    by (auto split: option.splits prod.splits hresult.splits dest: Cons.IH)
qed

text \<open>
  One panicking handler costs the whole batch: there is no response, so the messages before it
  that were done are delivered again, and those after it are not tried.
\<close>

theorem sqs_panic_aborts_batch:
  assumes "HandleSQS parse h ctx pre w = (Done fs, w')" "sqs_job parse r = Some job"
    and "Lambda_processJob h ctx job w' = (Panicked p, w'')"
  shows "HandleSQS parse h ctx (pre @ r # post) w = (Crashed p, w'')"
  using assms(1) by (auto simp: HandleSQS_def split: if_splits
      intro: sqs_loop_panic [OF assms(2,3)] sqs_loop_panic [OF assms(2,3), where pre = "[]" and fs' = "[]", simplified])

subsection \<open>Push\<close>

text \<open>
  A push reply says whether to retry: an invalid request is answered 400 and final, without running
  anything; every error of a handler is answered 200 and retryable, also one the handler
  marked as non-retryable and a missing handler.
\<close>

theorem push_reply_retryable:
  assumes "HandleHTTP read_body h r w = (Done (JsonReply st resp), w')"
  shows "(case pr_Error resp of
       None \<Rightarrow> st = 200 \<and> pr_Status resp = ''completed''
     | Some e \<Rightarrow> pr_Status resp = ''failed'' \<and> pe_Retryable e = (st = 200))
   \<and> (st = 200 \<or> st = 400 \<and> w' = w)"
  using assms
  by (auto simp: HandleHTTP_def failed_response_def completed_response_def
      split: if_splits option.splits prod.splits hresult.splits)

text \<open>
  The wrappers add nothing but their own envelope: Vercel's handler is the HTTP handler with the
  request's id in the context, Cloudflare's is the HTTP handler, and a bare job given to
  \<open>HandleFetchEvent\<close> is answered as the same job pushed in an envelope.
\<close>

theorem serverless_wrappers_agree:
  assumes "read_body (lh_maxBodySize h) (hr_body r) = Some j" "dec_job_event (Some j) = Some job"
    and "read_body (lh_maxBodySize h) b = Some (JObj (fmap_of_list [(''job'', j)]))"
  shows "HandleFetchEvent read_body h r w = HandleHTTP read_body h (r\<lparr>hr_body := b\<rparr>) w
   \<and> Vercel_ServeHTTP read_body h q w = HandleHTTP read_body h
     (if hr_vercelID q = [] then q else q\<lparr>hr_ctx := (hr_ctx q)\<lparr>cc_vercelID := hr_vercelID q\<rparr>\<rparr>) w
   \<and> Cloudflare_ServeHTTP read_body h q w = HandleHTTP read_body h q w"
proof (intro conjI)
  show "Vercel_ServeHTTP read_body h q w = HandleHTTP read_body h
     (if hr_vercelID q = [] then q else q\<lparr>hr_ctx := (hr_ctx q)\<lparr>cc_vercelID := hr_vercelID q\<rparr>\<rparr>) w"
    by (cases "Option.bind (read_body (lh_maxBodySize h) (hr_body q)) dec_push_request")
      (simp_all add: Vercel_ServeHTTP_def HandleHTTP_def Let_def)
  show "Cloudflare_ServeHTTP read_body h q w = HandleHTTP read_body h q w"
    by (simp add: Cloudflare_ServeHTTP_def)
qed (use assms in \<open>auto simp: HandleHTTP_def HandleFetchEvent_def dec_push_request_def\<close>)

theorem push_reply_retryable_witness:
  "\<exists>resp e. fst (HandleHTTP (\<lambda>_ _. Some (JObj (fmap_of_list [(''job'', JObj (fmap_of_list
        [(''id'', JStr ''1''), (''type'', JStr ''a'')]))])))
      (Lambda_Register ''a'' (\<lambda>_ _ w. (Returned (Some (NonRetryableErr (PlainErr ''bad''))), w)) (NewLambdaHandler 0 []))
      \<lparr>hr_method = ''POST'', hr_body = [], hr_vercelID = [], hr_ctx = \<lparr>cc_timeouts = [], cc_vercelID = []\<rparr>\<rparr> ())
    = Done (JsonReply 200 resp) \<and> pr_Error resp = Some e \<and> pe_Retryable e"
proof -
  let ?rd = "\<lambda>_ _. Some (JObj (fmap_of_list [(''job'', JObj (fmap_of_list
        [(''id'', JStr ''1''), (''type'', JStr ''a'')]))]))"
  let ?h = "Lambda_Register ''a'' (\<lambda>_ _ w. (Returned (Some (NonRetryableErr (PlainErr ''bad''))), w))
      (NewLambdaHandler 0 [])"
  let ?r = "\<lparr>hr_method = ''POST'', hr_body = [], hr_vercelID = [], hr_ctx = \<lparr>cc_timeouts = [], cc_vercelID = []\<rparr>\<rparr>"
  have "HandleHTTP ?rd ?h ?r () = (Done (JsonReply 200 (failed_response ''handler_error''
      (err_msg (NonRetryableErr (PlainErr ''bad''))) True)), ())"
    by (simp add: HandleHTTP_def Lambda_Register_def NewLambdaHandler_def Lambda_processJob_def
        dec_push_request_def dec_job_event_def fmlookup_of_list)
  from push_reply_retryable [OF this] this show ?thesis
    by (simp add: failed_response_def)
qed

theorem sqs_panic_aborts_batch_witness:
  "fst (HandleSQS (\<lambda>_. Some (JObj (fmap_of_list [(''type'', JStr ''a'')])))
      (Lambda_Register ''a'' (\<lambda>_ _ w. (Panicked ''boom'', w)) (NewLambdaHandler 0 []))
      \<lparr>cc_timeouts = [], cc_vercelID = []\<rparr>
      [\<lparr>sm_MessageID = ''m'', sm_Body = [], sm_Attributes = fmempty, sm_MD5OfBody = [], sm_EventSourceID = [],
        sm_ReceiptHandle = []\<rparr>] ()) = Crashed ''boom''"
  using sqs_panic_aborts_batch [where parse = "\<lambda>_. Some (JObj (fmap_of_list [(''type'', JStr ''a'')]))"
      and h = "Lambda_Register ''a'' (\<lambda>_ _ w. (Panicked ''boom'', w)) (NewLambdaHandler 0 [])"
      and ctx = "\<lparr>cc_timeouts = [], cc_vercelID = []\<rparr>" and pre = "[]" and w = "()" and fs = "[]" and w' = "()"
      and r = "\<lparr>sm_MessageID = ''m'', sm_Body = [], sm_Attributes = fmempty, sm_MD5OfBody = [],
        sm_EventSourceID = [], sm_ReceiptHandle = []\<rparr>"
      and job = "zero_job_event\<lparr>je_Type := ''a''\<rparr>" and p = "''boom''" and w'' = "()" and post = "[]"]
  by (simp add: HandleSQS_def sqs_job_def dec_job_event_def zero_job_event_def Lambda_processJob_def
      Lambda_Register_def NewLambdaHandler_def fmlookup_of_list)

theorem serverless_wrappers_agree_witness:
  "HandleFetchEvent (\<lambda>_ b. Some (if b = [] then JObj fmempty else JObj (fmap_of_list [(''job'', JObj fmempty)])))
      (NewCloudflareHandler 0 [])
      \<lparr>hr_method = ''POST'', hr_body = [], hr_vercelID = [], hr_ctx = \<lparr>cc_timeouts = [], cc_vercelID = []\<rparr>\<rparr> ()
    = HandleHTTP (\<lambda>_ b. Some (if b = [] then JObj fmempty else JObj (fmap_of_list [(''job'', JObj fmempty)])))
      (NewCloudflareHandler 0 [])
      \<lparr>hr_method = ''POST'', hr_body = ''x'', hr_vercelID = [], hr_ctx = \<lparr>cc_timeouts = [], cc_vercelID = []\<rparr>\<rparr> ()"
  using serverless_wrappers_agree [where b = "''x''"
      and read_body = "\<lambda>_ b. Some (if b = [] then JObj fmempty else JObj (fmap_of_list [(''job'', JObj fmempty)]))"
      and r = "\<lparr>hr_method = ''POST'', hr_body = [], hr_vercelID = [], hr_ctx = \<lparr>cc_timeouts = [], cc_vercelID = []\<rparr>\<rparr>"
      and h = "NewCloudflareHandler 0 []" and w = "()", THEN conjunct1]
  by (simp add: dec_job_event_def)

end
