(* ===== verification/Subscribe.thy ===== *)
theory Subscribe
  imports Client
begin

text \<open>
  Server-sent events (\<open>events.go\<close>, \<open>subscribe.go\<close>): the event constants, the line scanner of
  \<open>bufio\<close> with its limit of 64 KiB, the stream reader, one subscription and the reconnecting
  one. The handler is user code; the reader returns the events it passes to it, in order.
  Whether the context is done before a line is handled is a parameter. The lemmas give the round trip
  of well-formed streams, what an incomplete stream loses, and the pauses and event ids of
  reconnects.
\<close>

subsection \<open>Events\<close>

definition EventJobEnqueued :: string where "EventJobEnqueued = ''job.enqueued''"
definition EventJobStarted :: string where "EventJobStarted = ''job.started''"
definition EventJobCompleted :: string where "EventJobCompleted = ''job.completed''"
definition EventJobFailed :: string where "EventJobFailed = ''job.failed''"
definition EventJobDiscarded :: string where "EventJobDiscarded = ''job.discarded''"
definition EventJobRetrying :: string where "EventJobRetrying = ''job.retrying''"
definition EventJobCancelled :: string where "EventJobCancelled = ''job.cancelled''"
definition EventJobScheduled :: string where "EventJobScheduled = ''job.scheduled''"
definition EventJobExpired :: string where "EventJobExpired = ''job.expired''"
definition EventJobProgress :: string where "EventJobProgress = ''job.progress''"
definition EventWorkerStarted :: string where "EventWorkerStarted = ''worker.started''"
definition EventWorkerStopped :: string where "EventWorkerStopped = ''worker.stopped''"
definition EventWorkerQuiet :: string where "EventWorkerQuiet = ''worker.quiet''"
definition EventWorkerHeartbeat :: string where "EventWorkerHeartbeat = ''worker.heartbeat''"
definition EventWorkflowStarted :: string where "EventWorkflowStarted = ''workflow.started''"
definition EventWorkflowStepCompleted :: string where
  "EventWorkflowStepCompleted = ''workflow.step_completed''"
definition EventWorkflowCompleted :: string where "EventWorkflowCompleted = ''workflow.completed''"
definition EventWorkflowFailed :: string where "EventWorkflowFailed = ''workflow.failed''"
definition EventCronTriggered :: string where "EventCronTriggered = ''cron.triggered''"
definition EventCronSkipped :: string where "EventCronSkipped = ''cron.skipped''"
definition EventQueuePaused :: string where "EventQueuePaused = ''queue.paused''"
definition EventQueueResumed :: string where "EventQueueResumed = ''queue.resumed''"

record ojs_event =
  ev_Type :: string
  ev_Source :: string
  ev_Subject :: string
  ev_Time :: time
  ev_Data :: anymap

subsection \<open>Lines\<close>

definition LF :: char where "LF = CHR 0x0A"
definition CR :: char where "CR = CHR 0x0D"

text \<open>\<open>bufio.MaxScanTokenSize\<close>: a buffer this long without a line end stops the scanner.\<close>

definition max_scan :: nat where "max_scan = 64 * 1024"

definition drop_cr :: "string \<Rightarrow> string" where
  "drop_cr l = (if l \<noteq> [] \<and> last l = CR then butlast l else l)"

text \<open>The lines \<open>Scan\<close> and \<open>Text\<close> give before the end of the input or the error.\<close>

fun scan_lines :: "string \<Rightarrow> string \<Rightarrow> string list" where
  "scan_lines cur [] = (if cur = [] then [] else [drop_cr cur])"
| "scan_lines cur (c # cs) =
     (if c = LF then drop_cr cur # scan_lines [] cs
      else if max_scan \<le> length cur + 1 then []
      else scan_lines (cur @ [c]) cs)"

subsection \<open>The stream reader\<close>

record sse_state =
  ss_eventType :: string
  ss_eventID :: string
  ss_lastEventID :: string
  ss_dataLines :: "string list"

definition sse_init :: sse_state where
  "sse_init = \<lparr>ss_eventType = [], ss_eventID = [], ss_lastEventID = [], ss_dataLines = []\<rparr>"

definition sse_blank :: "time \<Rightarrow> sse_state \<Rightarrow> ojs_event option \<times> sse_state" where
  "sse_blank now s =
     (let s1 = (if ss_dataLines s \<noteq> [] \<and> ss_eventID s \<noteq> [] then s\<lparr>ss_lastEventID := ss_eventID s\<rparr> else s);
          evt = (if ss_dataLines s \<noteq> [] then Some \<lparr>ev_Type = ss_eventType s, ev_Source = ''sse'',
              ev_Subject = [], ev_Time = now, ev_Data = fmap_of_list
                [(''raw'', VStr (join [LF] (ss_dataLines s))), (''id'', VStr (ss_lastEventID s1))]\<rparr>
            else None)
      in (evt, s1\<lparr>ss_eventType := [], ss_eventID := [], ss_dataLines := []\<rparr>))"

definition sse_field :: "string \<Rightarrow> sse_state \<Rightarrow> sse_state" where
  "sse_field line s =
     (if strip_prefix '':'' line \<noteq> None then s
      else case strip_prefix ''event: '' line of
        Some v \<Rightarrow> s\<lparr>ss_eventType := v\<rparr>
      | None \<Rightarrow> (case strip_prefix ''data: '' line of
          Some v \<Rightarrow> s\<lparr>ss_dataLines := ss_dataLines s @ [v]\<rparr>
        | None \<Rightarrow>
            (if line = ''data'' then s\<lparr>ss_dataLines := ss_dataLines s @ [[]]\<rparr>
             else case strip_prefix ''id: '' line of
               Some v \<Rightarrow> s\<lparr>ss_eventID := v\<rparr>
             | None \<Rightarrow> (if line = ''id'' then s\<lparr>ss_eventID := []\<rparr> else s))))"

text \<open>\<open>done k\<close>: the context is done when the \<open>k\<close>-th line is looked at.\<close>

fun read_lines ::
  "(nat \<Rightarrow> bool) \<Rightarrow> (nat \<Rightarrow> time) \<Rightarrow> nat \<Rightarrow> string list \<Rightarrow> sse_state \<Rightarrow> ojs_event list \<times> string" where
  "read_lines done now k [] s = ([], ss_lastEventID s)"
| "read_lines done now k (line # ls) s =
     (if done k then ([], ss_lastEventID s)
      else if line = [] then
        (case sse_blank (now k) s of
           (None, s') \<Rightarrow> read_lines done now (k + 1) ls s'
         | (Some evt, s') \<Rightarrow> (case read_lines done now (k + 1) ls s' of (evs, i) \<Rightarrow> (evt # evs, i)))
      else read_lines done now (k + 1) ls (sse_field line s))"

definition readSSEStream ::
  "(nat \<Rightarrow> bool) \<Rightarrow> (nat \<Rightarrow> time) \<Rightarrow> string \<Rightarrow> ojs_event list \<times> string" where
  "readSSEStream done now body = read_lines done now 0 (scan_lines [] body) sse_init"

subsection \<open>Subscriptions\<close>

definition stream_url :: "transport \<Rightarrow> string \<Rightarrow> string" where
  "stream_url tr channel = tr_baseURL tr @ ''/ojs/v1/events/stream?channel='' @ channel"

definition stream_request :: "transport \<Rightarrow> string \<Rightarrow> string \<Rightarrow> http_request" where
  "stream_request tr channel lastEventID = \<lparr>rq_method = ''GET'', rq_url = stream_url tr channel,
     rq_headers =
       (let h = header_set ''Accept'' ''text/event-stream'' [];
            h = header_set ''Cache-Control'' ''no-cache'' h;
            h = (if lastEventID \<noteq> [] then header_set ''Last-Event-ID'' lastEventID h else h)
        in if tr_authToken tr \<noteq> [] then header_set ''Authorization'' (''Bearer '' @ tr_authToken tr) h else h),
     rq_body = None\<rparr>"

text \<open>
  What the scanner sees of a response's body. When reading fails, that is what arrived before, the
  parameter \<open>part\<close>: the scanner then gives its lines, a last incomplete one too, as at an end.
\<close>

definition body_text :: "(http_response \<Rightarrow> string) \<Rightarrow> http_response \<Rightarrow> string" where
  "body_text part r = (case rs_body r of Inl _ \<Rightarrow> part r | Inr s \<Rightarrow> s)"

text \<open>
  \<open>Subscribe\<close> returns once the connection stands; the stream is read afterwards by a goroutine. The
  result is the error, or the events its handler will be given.
\<close>

definition Subscribe ::
  "env \<Rightarrow> transport \<Rightarrow> (http_response \<Rightarrow> string) \<Rightarrow> (nat \<Rightarrow> bool) \<Rightarrow> (nat \<Rightarrow> time) \<Rightarrow> string \<Rightarrow> trace \<Rightarrow> ojs_event list call" where
  "Subscribe env tr part done now channel t =
     (case env_url_error env (stream_url tr channel) of
        Some e \<Rightarrow> (Inl (Wrapf ''subscribe: '' e), t)
      | None \<Rightarrow> (case http_Do env (stream_request tr channel []) t of
          (Inl e, t') \<Rightarrow> (Inl (Wrapf ''subscribe: '' e), t')
        | (Inr resp, t') \<Rightarrow>
            (if rs_status resp \<noteq> 200 then
               (Inl (PlainErr (''subscribe: server returned '' @ show_int (rs_status resp))), t')
             else (Inr (fst (readSSEStream done now (body_text part resp))), t'))))"

definition SubscribeJob ::
  "env \<Rightarrow> transport \<Rightarrow> (http_response \<Rightarrow> string) \<Rightarrow> (nat \<Rightarrow> bool) \<Rightarrow> (nat \<Rightarrow> time) \<Rightarrow> string \<Rightarrow> trace \<Rightarrow> ojs_event list call" where
  "SubscribeJob env tr part done now jobID t = Subscribe env tr part done now (''job:'' @ jobID) t"

definition SubscribeQueue ::
  "env \<Rightarrow> transport \<Rightarrow> (http_response \<Rightarrow> string) \<Rightarrow> (nat \<Rightarrow> bool) \<Rightarrow> (nat \<Rightarrow> time) \<Rightarrow> string \<Rightarrow> trace \<Rightarrow> ojs_event list call" where
  "SubscribeQueue env tr part done now queue t = Subscribe env tr part done now (''queue:'' @ queue) t"

record once =
  on_eventID :: string
  on_err :: "go_error option"
  on_events :: "ojs_event list"
  on_trace :: trace

definition subscribeOnce ::
  "env \<Rightarrow> transport \<Rightarrow> (http_response \<Rightarrow> string) \<Rightarrow> (nat \<Rightarrow> bool) \<Rightarrow> (nat \<Rightarrow> time) \<Rightarrow> string \<Rightarrow> string \<Rightarrow> trace \<Rightarrow> once" where
  "subscribeOnce env tr part done now channel lastEventID t =
     (case env_url_error env (stream_url tr channel) of
        Some e \<Rightarrow> \<lparr>on_eventID = [], on_err = Some e, on_events = [], on_trace = t\<rparr>
      | None \<Rightarrow> (case http_Do env (stream_request tr channel lastEventID) t of
          (Inl e, t') \<Rightarrow> \<lparr>on_eventID = lastEventID, on_err = Some e, on_events = [], on_trace = t'\<rparr>
        | (Inr resp, t') \<Rightarrow>
            (if rs_status resp \<noteq> 200 then
               \<lparr>on_eventID = lastEventID,
                on_err = Some (PlainErr (''server returned '' @ show_int (rs_status resp))),
                on_events = [], on_trace = t'\<rparr>
             else (case readSSEStream done now (body_text part resp) of (evs, i) \<Rightarrow>
               \<lparr>on_eventID = i, on_err = None, on_events = evs, on_trace = t'\<rparr>))))"

definition initial_backoff :: int where "initial_backoff = 1 * second"
definition max_backoff :: int where "max_backoff = 30 * second"

text \<open>
  The first \<open>n\<close> rounds of the reconnect loop, which ends by itself only with its context: the events
  handed out and the state left.
\<close>

fun reconnect_rounds ::
  "env \<Rightarrow> transport \<Rightarrow> (http_response \<Rightarrow> string) \<Rightarrow> (nat \<Rightarrow> bool) \<Rightarrow> (nat \<Rightarrow> time) \<Rightarrow> string \<Rightarrow> nat \<Rightarrow> int \<Rightarrow> string \<Rightarrow> trace
     \<Rightarrow> ojs_event list \<times> trace" where
  "reconnect_rounds env tr part done now channel 0 backoff lastEventID t = ([], t)"
| "reconnect_rounds env tr part done now channel (Suc n) backoff lastEventID t =
     (let o1 = subscribeOnce env tr part done now channel lastEventID t; t1 = on_trace o1 in
      if env_ctx_err env t1 \<noteq> None then (on_events o1, t1)
      else
        let lastEventID' = (if on_eventID o1 \<noteq> [] then on_eventID o1 else lastEventID);
            backoff1 = (if on_err o1 = None then initial_backoff else backoff);
            t2 = t1 @ [EvSleep backoff1]
        in if env_sleep_err env t1 backoff1 \<noteq> None then (on_events o1, t2)
           else case reconnect_rounds env tr part done now channel n (min (backoff1 * 2) max_backoff) lastEventID' t2 of
             (evs, t3) \<Rightarrow> (on_events o1 @ evs, t3))"

definition SubscribeWithReconnect ::
  "env \<Rightarrow> transport \<Rightarrow> (http_response \<Rightarrow> string) \<Rightarrow> (nat \<Rightarrow> bool) \<Rightarrow> (nat \<Rightarrow> time) \<Rightarrow> string \<Rightarrow> nat \<Rightarrow> trace \<Rightarrow> ojs_event list \<times> trace" where
  "SubscribeWithReconnect env tr part done now channel n t =
     reconnect_rounds env tr part done now channel n initial_backoff [] t"

subsection \<open>Well-formed streams\<close>

definition line_ok :: "string \<Rightarrow> bool" where
  "line_ok l \<longleftrightarrow> LF \<notin> set l \<and> length l < max_scan \<and> (if l = [] then True else last l \<noteq> CR)"

definition as_lines :: "string list \<Rightarrow> string" where
  "as_lines ls = concat (map (\<lambda>l. l @ [LF]) ls)"

lemma scan_line:
  "LF \<notin> set l \<Longrightarrow> length (cur @ l) < max_scan \<Longrightarrow>
   scan_lines cur (l @ LF # rest) = drop_cr (cur @ l) # scan_lines [] rest"
  by (induction l arbitrary: cur) auto

lemma scan_as_lines:
  "list_all line_ok ls \<Longrightarrow> scan_lines [] (as_lines ls @ rest) = ls @ scan_lines [] rest"
proof (induction ls)
  case (Cons l ls)
  then have "scan_lines [] (l @ LF # (as_lines ls @ rest)) = drop_cr l # scan_lines [] (as_lines ls @ rest)"
    using scan_line [of l "[]"] by (simp add: line_ok_def)
  with Cons show ?case by (auto simp: as_lines_def line_ok_def drop_cr_def)
qed (simp add: as_lines_def)

text \<open>An event on the wire: its type and its id, where it has them, and the lines of its data.\<close>

type_synonym wire_event = "string option \<times> string option \<times> string list"

definition field_line :: "string \<Rightarrow> string option \<Rightarrow> string list" where
  "field_line name v = (case v of None \<Rightarrow> [] | Some x \<Rightarrow> [name @ '': '' @ x])"

definition event_lines :: "wire_event \<Rightarrow> string list" where
  "event_lines = (\<lambda>(ty, i, ds). field_line ''event'' ty @ field_line ''id'' i
     @ map (\<lambda>d. ''data: '' @ d) ds @ [[]])"

definition or_empty :: "string option \<Rightarrow> string" where
  "or_empty v = (case v of None \<Rightarrow> [] | Some x \<Rightarrow> x)"

text \<open>
  What the handler should see: the event's own type or none, its own id or the last one
  delivered; nothing of an event without data.
\<close>

fun delivered :: "string \<Rightarrow> wire_event list \<Rightarrow> (string \<times> any option \<times> any option) list" where
  "delivered lastID [] = []"
| "delivered lastID ((ty, i, ds) # es) =
     (if ds = [] then delivered lastID es
      else let l = (if or_empty i = [] then lastID else or_empty i)
           in (or_empty ty, Some (VStr (join [LF] ds)), Some (VStr l)) # delivered l es)"

definition seen :: "ojs_event \<Rightarrow> string \<times> any option \<times> any option" where
  "seen e = (ev_Type e, fmlookup (ev_Data e) ''raw'', fmlookup (ev_Data e) ''id'')"

lemma read_data_lines:
  "read_lines (\<lambda>_. False) now k (map (\<lambda>d. ''data: '' @ d) ds @ ls) s =
   read_lines (\<lambda>_. False) now (k + length ds) ls (s\<lparr>ss_dataLines := ss_dataLines s @ ds\<rparr>)"
  by (induction ds arbitrary: k s) (simp_all add: sse_field_def)

lemma read_header_lines:
  "\<exists>k'. read_lines (\<lambda>_. False) now k (field_line ''event'' ty @ field_line ''id'' i @ ls)
      (sse_init\<lparr>ss_lastEventID := l\<rparr>) =
    read_lines (\<lambda>_. False) now k' ls
      (sse_init\<lparr>ss_lastEventID := l, ss_eventType := or_empty ty, ss_eventID := or_empty i\<rparr>)"
  by (cases ty; cases i; rule exI; simp add: field_line_def or_empty_def sse_field_def sse_init_def)

lemma read_event:
  "\<exists>k'. map seen (fst (read_lines (\<lambda>_. False) now k (event_lines (ty, i, ds) @ ls) (sse_init\<lparr>ss_lastEventID := l\<rparr>))) =
    (let l' = (if ds = [] \<or> or_empty i = [] then l else or_empty i) in
     (if ds = [] then [] else [(or_empty ty, Some (VStr (join [LF] ds)), Some (VStr l'))])
     @ map seen (fst (read_lines (\<lambda>_. False) now k' ls (sse_init\<lparr>ss_lastEventID := l'\<rparr>))))"
proof -
  let ?s = "sse_init\<lparr>ss_lastEventID := l, ss_eventType := or_empty ty, ss_eventID := or_empty i\<rparr>"
  obtain k' where "read_lines (\<lambda>_. False) now k (event_lines (ty, i, ds) @ ls) (sse_init\<lparr>ss_lastEventID := l\<rparr>) =
      read_lines (\<lambda>_. False) now k' (map (\<lambda>d. ''data: '' @ d) ds @ [[]] @ ls) ?s"
    using read_header_lines [of now k ty i "map (\<lambda>d. ''data: '' @ d) ds @ [[]] @ ls" l]
    by (auto simp: event_lines_def)
  also have "\<dots> = read_lines (\<lambda>_. False) now (k' + length ds) ([] # ls) (?s\<lparr>ss_dataLines := ds\<rparr>)"
    using read_data_lines [of now k' ds "[] # ls" ?s] by (simp add: sse_init_def)
  finally show ?thesis
    by (auto simp: sse_blank_def Let_def sse_init_def seen_def split: prod.splits
        intro!: exI [of _ "Suc (k' + length ds)"])
qed

lemma read_no_blank:
  "[] \<notin> set ls \<Longrightarrow> read_lines done now k ls s = ([], ss_lastEventID s)"
proof (induction ls arbitrary: k s)
  case (Cons l ls)
  have "ss_lastEventID (sse_field l s) = ss_lastEventID s"
    by (simp add: sse_field_def split: option.splits)
  with Cons show ?case by (cases "l = []") auto
qed simp

lemma read_events:
  "[] \<notin> set ls \<Longrightarrow>
   map seen (fst (read_lines (\<lambda>_. False) now k (concat (map event_lines es) @ ls)
     (sse_init\<lparr>ss_lastEventID := l\<rparr>))) = delivered l es"
proof (induction es arbitrary: k l)
  case Nil
  then show ?case by (simp add: read_no_blank)
next
  case (Cons e es)
  obtain ty i ds where e: "e = (ty, i, ds)" by (cases e)
  from read_event [of now k ty i ds "concat (map event_lines es) @ ls" l] Cons
  show ?case by (auto simp: e Let_def)
qed

text \<open>
  C23: Events survive the stream. Of a stream of events, each with an \<open>event:\<close> line and an \<open>id:\<close> line or
  without them, the handler gets exactly those that have data, in order: the lines of data joined,
  the event's own type and no other's, and its own id or else the last one delivered. An event whose
  end has not arrived when the stream breaks off is not delivered. The lines are shorter than
  64 KiB and do not end in a carriage return, and the context is not done.
\<close>

theorem sse_stream_roundtrip:
  assumes "list_all line_ok (concat (map event_lines es))" "[] \<notin> set (scan_lines [] tail)"
  shows "map seen (fst (readSSEStream (\<lambda>_. False) now (as_lines (concat (map event_lines es)) @ tail)))
     = delivered [] es"
  using read_events [OF assms(2), of now 0 es "[]"]
  by (simp add: readSSEStream_def scan_as_lines [OF assms(1)] sse_init_def)

subsection \<open>Reconnecting\<close>

lemma http_Do_calm: "calm env \<Longrightarrow> http_Do env r t = (env_server env t r, t @ [EvReq r])"
  by (simp add: http_Do_def calm_def)

text \<open>The rounds against a server that answers every request with the same status and body.\<close>

lemma rounds_refused:
  assumes "calm env" "\<And>t r. \<exists>resp. env_server env t r = Inr resp \<and> rs_status resp \<noteq> 200"
  shows "0 < b \<Longrightarrow> b \<le> max_backoff \<Longrightarrow>
    reconnect_rounds env tr part done now ch n b [] t = ([], t @ concat (map (\<lambda>k.
      [EvReq (stream_request tr ch []), EvSleep (min (b * 2 ^ k) max_backoff)]) [0..<n]))"
proof (induction n arbitrary: b t)
  case (Suc n)
  obtain resp where resp: "env_server env t (stream_request tr ch []) = Inr resp" "rs_status resp \<noteq> 200"
    using assms(2) by blast
  have b2: "0 < min (b * 2) max_backoff" "min (b * 2) max_backoff \<le> max_backoff"
    using Suc.prems by auto
  have pow: "min (min (b * 2) max_backoff * 2 ^ k) max_backoff = min (b * 2 ^ Suc k) max_backoff" for k
  proof (cases "b * 2 \<le> max_backoff")
    case False
    have "max_backoff \<le> max_backoff * 2 ^ k" "b * 2 \<le> b * 2 * 2 ^ k"
      using Suc.prems by (simp_all add: mult_le_cancel_left1 max_backoff_def second_def)
    with False show ?thesis by (simp add: min_def mult.assoc)
  qed (simp add: mult.assoc)
  have "concat (map f [0..<Suc n]) = f 0 @ concat (map (\<lambda>k. f (Suc k)) [0..<n])" for f :: "nat \<Rightarrow> event list"
    by (simp add: map_upt_Suc del: upt_Suc)
  then show ?case
    using Suc.IH [OF b2, of "t @ [EvReq (stream_request tr ch []), EvSleep b]"] Suc.prems assms(1) resp
    by (simp add: subscribeOnce_def http_Do_calm Let_def pow calm_def del: upt_Suc)
qed simp

text \<open>
  The pauses between attempts on a server that refuses double from one second to thirty and stay
  there; every attempt is one request.
\<close>

theorem reconnect_backoff:
  assumes "calm env" "\<And>t r. \<exists>resp. env_server env t r = Inr resp \<and> rs_status resp \<noteq> 200"
  shows "SubscribeWithReconnect env tr part done now ch n [] = ([], concat (map (\<lambda>k.
      [EvReq (stream_request tr ch []), EvSleep (min (2 ^ k * second) (30 * second))]) [0..<n]))"
  using rounds_refused [OF assms, of initial_backoff tr part "done" now ch n "[]"]
  by (simp add: SubscribeWithReconnect_def initial_backoff_def max_backoff_def second_def mult.commute)

lemma scan_too_long:
  "LF \<notin> set l \<Longrightarrow> max_scan \<le> length cur + length l \<Longrightarrow> length cur < max_scan \<Longrightarrow>
   scan_lines cur (l @ rest) = []"
  by (induction l arbitrary: cur) auto

lemma rounds_stuck:
  assumes "calm env" "\<And>t r. \<exists>h. env_server env t r = Inr \<lparr>rs_status = 200, rs_headers = h,
      rs_body = Inr (l @ rest)\<rparr>" "LF \<notin> set l" "max_scan \<le> length l"
  shows "reconnect_rounds env tr part done now ch n b [] t = ([], t @ concat (replicate n
      [EvReq (stream_request tr ch []), EvSleep initial_backoff]))"
proof (induction n arbitrary: b t)
  case (Suc n)
  obtain h where h: "env_server env t (stream_request tr ch []) = Inr \<lparr>rs_status = 200, rs_headers = h,
      rs_body = Inr (l @ rest)\<rparr>" using assms(2) by blast
  have "readSSEStream done now (l @ rest) = ([], [])"
    using scan_too_long [OF assms(3), of "[]"] assms(4)
    by (simp add: readSSEStream_def sse_init_def max_scan_def)
  then show ?case using Suc assms(1) h
    by (simp add: subscribeOnce_def http_Do_calm Let_def calm_def body_text_def)
qed simp

text \<open>
  An event with a line of 64 KiB or more stalls a reconnecting subscription for good: the scanner's
  error is dropped, the connection counts as a success, and as many reconnects as one likes,
  one second apart and each without an event id, deliver nothing.
\<close>

theorem oversized_event_stalls:
  assumes "calm env" "\<And>t r. \<exists>h. env_server env t r = Inr \<lparr>rs_status = 200, rs_headers = h,
      rs_body = Inr (l @ rest)\<rparr>" "LF \<notin> set l" "64 * 1024 \<le> length l"
  shows "SubscribeWithReconnect env tr part done now ch n [] = ([], concat (replicate n
      [EvReq (stream_request tr ch []), EvSleep second]))"
  using rounds_stuck [OF assms(1,2,3), of tr part "done" now ch n initial_backoff "[]"] assms(4)
  by (simp add: SubscribeWithReconnect_def max_scan_def initial_backoff_def)

text \<open>A field without the space after its colon, which the format allows, is not a field here.\<close>

lemma field_without_space_ignored:
  "v = [] \<or> hd v \<noteq> CHR '' '' \<Longrightarrow> sse_field (''data:'' @ v) s = s"
  by (cases v) (auto simp: sse_field_def)

theorem sse_stream_roundtrip_witness:
  "map seen (fst (readSSEStream (\<lambda>_. False) (\<lambda>_. 0) (as_lines (concat (map event_lines
      [(Some ''a'', Some ''7'', [''x'', ''y'']), (Some ''c'', Some ''9'', []), (None, None, [''z''])])) @ ''data: lost''))) =
   [(''a'', Some (VStr (''x'' @ [LF] @ ''y'')), Some (VStr ''7'')), ([], Some (VStr ''z''), Some (VStr ''7''))]"
  using sse_stream_roundtrip [of "[(Some ''a'', Some ''7'', [''x'', ''y'']), (Some ''c'', Some ''9'', []),
      (None, None, [''z''])]" "''data: lost''" "\<lambda>_. 0"]
  by (simp add: event_lines_def field_line_def or_empty_def line_ok_def LF_def CR_def max_scan_def drop_cr_def Let_def)

theorem reconnect_backoff_witness:
  "SubscribeWithReconnect (plain_env (status_server (\<lambda>_. 503)) (\<lambda>_. None))
      (newTransport ''http://h'' zero_client_config) (\<lambda>_. []) (\<lambda>_. False) (\<lambda>_. 0) ''c'' 3 [] = ([], concat (map (\<lambda>k.
      [EvReq (stream_request (newTransport ''http://h'' zero_client_config) ''c'' []),
       EvSleep (min (2 ^ k * second) (30 * second))]) [0..<3]))"
  by (rule reconnect_backoff) (simp_all add: plain_env_def status_server_def calm_def)

theorem oversized_event_stalls_witness:
  "SubscribeWithReconnect (plain_env (\<lambda>_ _. Inr \<lparr>rs_status = 200, rs_headers = [],
        rs_body = Inr (replicate 65536 CHR ''x'' @ [])\<rparr>) (\<lambda>_. None))
      (newTransport ''http://h'' zero_client_config) (\<lambda>_. []) (\<lambda>_. False) (\<lambda>_. 0) ''c'' 2 [] = ([], concat (replicate 2
      [EvReq (stream_request (newTransport ''http://h'' zero_client_config) ''c'' []), EvSleep second]))"
  by (rule oversized_event_stalls [where l = "replicate 65536 CHR ''x''" and rest = "[]"])
    (simp_all add: plain_env_def calm_def LF_def)

end
