(* ===== verification/Fake_Store.thy ===== *)
theory Fake_Store
  imports Validate
begin

text \<open>
  The in-memory store of the package \<open>ojstesting\<close> (\<open>ojstesting/testing.go\<close>): recording enqueues, matching
  and the assertions, and draining with registered handlers. The active store is an \<open>option\<close>; a
  failed assertion is the text given to \<open>t.Errorf\<close>. A handler works on a state \<open>'w\<close> of the
  test. The list order of the counts in a message stands for the order of \<open>range\<close>.
\<close>

subsection \<open>Jobs and criteria\<close>

record fake_job =
  fj_ID :: string
  fj_Type :: string
  fj_Queue :: string
  fj_Args :: "any list"
  fj_Meta :: anymap
  fj_State :: string
  fj_Attempt :: int
  fj_CreatedAt :: time

record match_criteria =
  mc_args :: "any list option"
  mc_queue :: string
  mc_meta :: "anymap option"
  mc_count :: int

type_synonym match_option = "match_criteria \<Rightarrow> match_criteria"

text \<open>Without an argument the variadic \<open>args\<close> is nil.\<close>

definition MatchArgs :: "any list \<Rightarrow> match_option" where
  "MatchArgs args c = c\<lparr>mc_args := (if args = [] then None else Some args)\<rparr>"

definition MatchQueue :: "string \<Rightarrow> match_option" where
  "MatchQueue queue c = c\<lparr>mc_queue := queue\<rparr>"

definition MatchMeta :: "anymap \<Rightarrow> match_option" where
  "MatchMeta meta c = c\<lparr>mc_meta := Some meta\<rparr>"

definition MatchCount :: "int \<Rightarrow> match_option" where
  "MatchCount n c = c\<lparr>mc_count := n\<rparr>"

definition buildCriteria :: "match_option list \<Rightarrow> match_criteria" where
  "buildCriteria opts = foldl (\<lambda>c opt. opt c)
     \<lparr>mc_args = None, mc_queue = [], mc_meta = None, mc_count = 0\<rparr> opts"

text \<open>Texts of JSON are equal when both values marshal to the same tree, or neither marshals.\<close>

definition jsonEqual :: "any \<Rightarrow> any \<Rightarrow> bool" where
  "jsonEqual a b \<longleftrightarrow> marshal a = marshal b"

definition metaContains :: "anymap \<Rightarrow> anymap \<Rightarrow> bool" where
  "metaContains actual expected = fmpred (\<lambda>k v.
     jsonEqual (case fmlookup actual k of None \<Rightarrow> VNil | Some x \<Rightarrow> x) v) expected"

fun filterJobs :: "fake_job list \<Rightarrow> string \<Rightarrow> match_criteria \<Rightarrow> fake_job list" where
  "filterJobs [] jobType c = []"
| "filterJobs (j # js) jobType c =
     (if fj_Type j \<noteq> jobType then filterJobs js jobType c
      else if mc_queue c \<noteq> [] \<and> fj_Queue j \<noteq> mc_queue c then filterJobs js jobType c
      else if (case mc_args c of None \<Rightarrow> False | Some a \<Rightarrow> \<not> jsonEqual (VList (fj_Args j)) (VList a))
        then filterJobs js jobType c
      else if (case mc_meta c of None \<Rightarrow> False | Some m \<Rightarrow> \<not> metaContains (fj_Meta j) m)
        then filterJobs js jobType c
      else j # filterJobs js jobType c)"

subsection \<open>The store\<close>

record 'w fake_store =
  fk_enqueued :: "fake_job list"
  fk_performed :: "fake_job list"
  fk_handlers :: "string \<rightharpoonup> (fake_job \<Rightarrow> 'w \<Rightarrow> bool \<times> 'w)"
  fk_nextID :: nat

text \<open>\<open>Fake\<close> starts with an empty store; a handler answers whether it failed.\<close>

definition new_fake_store :: "'w fake_store" where
  "new_fake_store = \<lparr>fk_enqueued = [], fk_performed = [], fk_handlers = Map.empty, fk_nextID = 0\<rparr>"

definition RegisterHandler ::
  "string \<Rightarrow> (fake_job \<Rightarrow> 'w \<Rightarrow> bool \<times> 'w) \<Rightarrow> 'w fake_store \<Rightarrow> 'w fake_store" where
  "RegisterHandler jobType h s = s\<lparr>fk_handlers := (fk_handlers s)(jobType \<mapsto> h)\<rparr>"

definition RecordEnqueue ::
  "time \<Rightarrow> string \<Rightarrow> any list \<Rightarrow> string \<Rightarrow> anymap \<Rightarrow> 'w fake_store \<Rightarrow> fake_job \<times> 'w fake_store" where
  "RecordEnqueue now jobType args queue meta s =
     (let n = fk_nextID s + 1;
          job = \<lparr>fj_ID = ''fake-'' @ show_padded 6 n, fj_Type = jobType,
            fj_Queue = (if queue = [] then ''default'' else queue), fj_Args = args, fj_Meta = meta,
            fj_State = ''available'', fj_Attempt = 0, fj_CreatedAt = now\<rparr>
      in (job, s\<lparr>fk_nextID := n, fk_enqueued := fk_enqueued s @ [job]\<rparr>))"

definition AllEnqueued :: "'w fake_store option \<Rightarrow> string list \<Rightarrow> fake_job list" where
  "AllEnqueued active jobType = (case active of
     None \<Rightarrow> []
   | Some s \<Rightarrow> (case jobType of
       [] \<Rightarrow> fk_enqueued s
     | ty # _ \<Rightarrow> filter (\<lambda>j. fj_Type j = ty) (fk_enqueued s)))"

definition ClearAll :: "'w fake_store \<Rightarrow> 'w fake_store" where
  "ClearAll s = s\<lparr>fk_enqueued := [], fk_performed := []\<rparr>"

subsection \<open>Fake mode\<close>

text \<open>
  \<open>activeStore\<close> is a pointer: nothing, or the store of one of the tests. \<open>Fake\<close> makes the new store the active one
  and registers the cleanup that runs when its test ends.
\<close>

definition Fake :: "nat \<Rightarrow> nat option \<Rightarrow> nat option" where
  "Fake s activeStore = Some s"

definition Fake_cleanup :: "nat \<Rightarrow> nat option \<Rightarrow> nat option" where
  "Fake_cleanup s activeStore = (if activeStore = Some s then None else activeStore)"

definition GetStore :: "nat option \<Rightarrow> nat option" where
  "GetStore activeStore = activeStore"

text \<open>
  A test's cleanup leaves a later test's store alone, but does not restore the one before: after a nested test
  there is no active store, and its parent's assertions stop it.
\<close>

lemma nested_fake_lost:
  assumes "outer \<noteq> inner"
  shows "GetStore (Fake_cleanup outer (Fake inner (Fake outer None))) = Some inner"
    "GetStore (Fake_cleanup inner (Fake inner (Fake outer None))) = None"
  using assms by (simp_all add: GetStore_def Fake_cleanup_def Fake_def)

subsection \<open>Assertions\<close>

datatype outcome = Passed | Errored string | Fatal string

definition count_types :: "fake_job list \<Rightarrow> nat gomap" where
  "count_types jobs = foldl (\<lambda>m j. gomap_put (fj_Type j)
     (case map_of m (fj_Type j) of None \<Rightarrow> 1 | Some n \<Rightarrow> n + 1) m) [] jobs"

definition describeStore :: "fake_job list \<Rightarrow> string" where
  "describeStore jobs =
     (if jobs = [] then CHR 0x0A # ''  No jobs were enqueued at all.''
      else CHR 0x0A # ''  Enqueued: ''
        @ join '', '' (map (\<lambda>(t, c). t @ '' ('' @ show_nat c @ '')'') (count_types jobs)))"

definition with_store :: "('w fake_store \<Rightarrow> outcome) \<Rightarrow> 'w fake_store option \<Rightarrow> outcome" where
  "with_store f active = (case active of
     None \<Rightarrow> Fatal ''OJS testing: not in fake mode. Call ojstesting.Fake(t) first.''
   | Some s \<Rightarrow> f s)"

definition AssertEnqueued :: "string \<Rightarrow> match_option list \<Rightarrow> 'w fake_store option \<Rightarrow> outcome" where
  "AssertEnqueued jobType opts = with_store (\<lambda>s.
     let criteria = buildCriteria opts; matches = filterJobs (fk_enqueued s) jobType criteria in
     if 0 < mc_count criteria then
       (if int (length matches) \<noteq> mc_count criteria then
          Errored (''AssertEnqueued: expected '' @ show_int (mc_count criteria) @ '' job(s) of type ''
            @ go_quote jobType @ '', found '' @ show_nat (length matches) @ describeStore (fk_enqueued s))
        else Passed)
     else if matches = [] then
       Errored (''AssertEnqueued: expected at least one job of type '' @ go_quote jobType @ '', found none''
         @ describeStore (fk_enqueued s))
     else Passed)"

definition RefuteEnqueued :: "string \<Rightarrow> match_option list \<Rightarrow> 'w fake_store option \<Rightarrow> outcome" where
  "RefuteEnqueued jobType opts = with_store (\<lambda>s.
     let matches = filterJobs (fk_enqueued s) jobType (buildCriteria opts) in
     if matches \<noteq> [] then
       Errored (''RefuteEnqueued: expected no jobs of type '' @ go_quote jobType @ '', found ''
         @ show_nat (length matches))
     else Passed)"

definition AssertPerformed :: "string \<Rightarrow> match_option list \<Rightarrow> 'w fake_store option \<Rightarrow> outcome" where
  "AssertPerformed jobType opts = with_store (\<lambda>s.
     if filterJobs (fk_performed s) jobType (buildCriteria opts) = [] then
       Errored (''AssertPerformed: expected at least one performed job of type '' @ go_quote jobType
         @ '', found none'')
     else Passed)"

definition show_states :: "fake_job list \<Rightarrow> string" where
  "show_states js = ''['' @ join '' '' (map fj_State js) @ '']''"

definition AssertCompleted :: "string \<Rightarrow> match_option list \<Rightarrow> 'w fake_store option \<Rightarrow> outcome" where
  "AssertCompleted jobType opts = with_store (\<lambda>s.
     let matches = filterJobs (fk_performed s) jobType (buildCriteria opts) in
     if length (filter (\<lambda>j. fj_State j = ''completed'') matches) = 0 then
       Errored (''AssertCompleted: expected at least one completed job of type '' @ go_quote jobType
         @ '', got states '' @ show_states matches)
     else Passed)"

definition AssertFailed :: "string \<Rightarrow> match_option list \<Rightarrow> 'w fake_store option \<Rightarrow> outcome" where
  "AssertFailed jobType opts = with_store (\<lambda>s.
     let matches = filterJobs (fk_performed s) jobType (buildCriteria opts) in
     if length (filter (\<lambda>j. fj_State j = ''discarded'') matches) = 0 then
       Errored (''AssertFailed: expected at least one failed job of type '' @ go_quote jobType
         @ '', got states '' @ show_states matches)
     else Passed)"

subsection \<open>Draining\<close>

definition drain_job ::
  "(string \<rightharpoonup> (fake_job \<Rightarrow> 'w \<Rightarrow> bool \<times> 'w)) \<Rightarrow> fake_job \<Rightarrow> 'w \<Rightarrow> fake_job \<times> 'w" where
  "drain_job handlers job w =
     (let active = job\<lparr>fj_State := ''active'', fj_Attempt := wrap64 (fj_Attempt job + 1)\<rparr>
      in case handlers (fj_Type job) of
           None \<Rightarrow> (active\<lparr>fj_State := ''completed''\<rparr>, w)
         | Some h \<Rightarrow> (case h active w of
             (failed, w') \<Rightarrow> (active\<lparr>fj_State := (if failed then ''discarded'' else ''completed'')\<rparr>, w')))"

fun drain_loop ::
  "(string \<rightharpoonup> (fake_job \<Rightarrow> 'w \<Rightarrow> bool \<times> 'w)) \<Rightarrow> fake_job list \<Rightarrow> fake_job list \<Rightarrow> 'w
     \<Rightarrow> fake_job list \<times> fake_job list \<times> 'w" where
  "drain_loop handlers [] performed w = ([], performed, w)"
| "drain_loop handlers (job # jobs) performed w =
     (if fj_State job \<noteq> ''available'' then
        (case drain_loop handlers jobs performed w of (js, p, w') \<Rightarrow> (job # js, p, w'))
      else case drain_job handlers job w of
        (job', w1) \<Rightarrow> (case drain_loop handlers jobs (performed @ [job']) w1 of
           (js, p, w') \<Rightarrow> (job' # js, p, w')))"

definition Drain :: "'w fake_store \<Rightarrow> 'w \<Rightarrow> 'w fake_store \<times> 'w" where
  "Drain s w = (case drain_loop (fk_handlers s) (fk_enqueued s) (fk_performed s) w of
     (js, p, w') \<Rightarrow> (s\<lparr>fk_enqueued := js, fk_performed := p\<rparr>, w'))"

subsection \<open>What the assertions decide\<close>

text \<open>A job meets the criteria.\<close>

definition job_matches :: "string \<Rightarrow> match_criteria \<Rightarrow> fake_job \<Rightarrow> bool" where
  "job_matches jobType c j \<longleftrightarrow> fj_Type j = jobType
     \<and> (mc_queue c = [] \<or> fj_Queue j = mc_queue c)
     \<and> (case mc_args c of None \<Rightarrow> True | Some a \<Rightarrow> jsonEqual (VList (fj_Args j)) (VList a))
     \<and> (case mc_meta c of None \<Rightarrow> True | Some m \<Rightarrow> metaContains (fj_Meta j) m)"

lemma filterJobs_filter: "filterJobs jobs jobType c = filter (job_matches jobType c) jobs"
  by (induction jobs) (auto simp: job_matches_def split: option.splits)

text \<open>
  The assertions decide what they say: \<open>AssertEnqueued\<close> passes exactly when some recorded job
  matches, or when a positive count was asked for and so many do; \<open>RefuteEnqueued\<close> exactly when
  none does; \<open>AssertCompleted\<close> and \<open>AssertFailed\<close> exactly when a matching job was performed and
  ended so. Without an active store they stop the test.
\<close>

theorem fake_assertions_decide:
  "(AssertEnqueued ty opts (Some s) = Passed \<longleftrightarrow>
      (let c = buildCriteria opts; js = filter (job_matches ty c) (fk_enqueued s)
       in if 0 < mc_count c then int (length js) = mc_count c else js \<noteq> []))
   \<and> (RefuteEnqueued ty opts (Some s) = Passed \<longleftrightarrow>
      list_all (\<lambda>j. \<not> job_matches ty (buildCriteria opts) j) (fk_enqueued s))
   \<and> (AssertCompleted ty opts (Some s) = Passed \<longleftrightarrow>
      list_ex (\<lambda>j. job_matches ty (buildCriteria opts) j \<and> fj_State j = ''completed'') (fk_performed s))
   \<and> (AssertFailed ty opts (Some s) = Passed \<longleftrightarrow>
      list_ex (\<lambda>j. job_matches ty (buildCriteria opts) j \<and> fj_State j = ''discarded'') (fk_performed s))
   \<and> AssertEnqueued ty opts (None :: 'w fake_store option) \<noteq> Passed"
  by (auto simp: AssertEnqueued_def RefuteEnqueued_def AssertCompleted_def AssertFailed_def with_store_def
      filterJobs_filter Let_def list_all_iff list_ex_iff filter_empty_conv)

text \<open>
  \<open>MatchArgs\<close> of nothing and \<open>MatchCount\<close> of zero ask for nothing: a test cannot say that a job
  was enqueued without arguments, or by a count that none was.
\<close>

lemma empty_criteria_vacuous:
  "filterJobs jobs ty (MatchArgs [] c) = filterJobs jobs ty (c\<lparr>mc_args := None\<rparr>)
   \<and> buildCriteria [MatchCount 0] = buildCriteria []"
  by (simp add: filterJobs_filter MatchArgs_def MatchCount_def buildCriteria_def)

subsection \<open>What draining does\<close>

text \<open>The job after a drain in which the handlers fail as \<open>fails\<close> says.\<close>

definition drained :: "(fake_job \<Rightarrow> bool) \<Rightarrow> (string \<Rightarrow> bool) \<Rightarrow> fake_job \<Rightarrow> fake_job" where
  "drained fails known job =
     (let active = job\<lparr>fj_State := ''active'', fj_Attempt := wrap64 (fj_Attempt job + 1)\<rparr>
      in active\<lparr>fj_State := (if known (fj_Type job) \<and> fails active then ''discarded'' else ''completed'')\<rparr>)"

abbreviation noting_handlers ::
  "(fake_job \<Rightarrow> bool) \<Rightarrow> (string \<Rightarrow> bool) \<Rightarrow> string \<rightharpoonup> (fake_job \<Rightarrow> string list \<Rightarrow> bool \<times> string list)" where
  "noting_handlers fails known ty \<equiv>
     (if known ty then Some (\<lambda>job w. (fails job, w @ [fj_ID job])) else None)"

lemma drain_loop_noting:
  "drain_loop (noting_handlers fails known) jobs p w =
     (map (\<lambda>j. if fj_State j = ''available'' then drained fails known j else j) jobs,
      p @ map (drained fails known) (filter (\<lambda>j. fj_State j = ''available'') jobs),
      w @ map fj_ID (filter (\<lambda>j. fj_State j = ''available'' \<and> known (fj_Type j)) jobs))"
  by (induction jobs arbitrary: p w) (auto simp: drain_job_def drained_def Let_def)

lemma drain_loop_idle:
  "\<forall>j \<in> set jobs. fj_State j \<noteq> ''available'' \<Longrightarrow> drain_loop h jobs p w = (jobs, p, w)"
  by (induction jobs) simp_all

text \<open>
  A drain runs every available job once, in the order of enqueueing, records it as performed with one
  more attempt, completed or, when its handler failed, discarded, and leaves all others alone;
  a second drain does nothing.
\<close>

theorem drain_runs_available:
  "let h = (\<lambda>ty. if known ty then Some (\<lambda>job w. (fails job, w @ [fj_ID job])) else None);
       avail = filter (\<lambda>j. fj_State j = ''available'') (fk_enqueued s);
       s1 = s\<lparr>fk_handlers := h\<rparr>;
       s2 = s1\<lparr>fk_enqueued := map (\<lambda>j. if fj_State j = ''available'' then drained fails known j else j)
                (fk_enqueued s),
              fk_performed := fk_performed s @ map (drained fails known) avail\<rparr>
   in Drain s1 [] = (s2, map fj_ID (filter (\<lambda>j. known (fj_Type j)) avail)) \<and> Drain s2 w = (s2, w)"
proof -
  have "fj_State (drained fails known j) \<noteq> ''available''" for j
    by (simp add: drained_def Let_def)
  then have "Drain s2 w = (s2, w)" if "fk_enqueued s2 = map (\<lambda>j. if fj_State j = ''available''
      then drained fails known j else j) (fk_enqueued s)" for s2 :: "string list fake_store"
    unfolding Drain_def by (subst drain_loop_idle) (auto simp: that)
  then show ?thesis unfolding Let_def
    by (intro conjI) (simp add: Drain_def drain_loop_noting conj_commute, simp)
qed

end
