(* ===== verification/Fake_Client.thy ===== *)
theory Fake_Client
  imports Fake_Store Client
begin

text \<open>
  The fake server behind \<open>FakeClient\<close> (\<open>ojstesting/client.go\<close>), composed with the real client: the
  handler answers requests from the store, and the server of an \<open>env\<close> is this handler after the
  requests of the history. \<open>print\<close> is the text of a JSON tree. The theorem at the end follows an
  enqueue from the caller to the store and back.
\<close>

subsection \<open>The handlers\<close>

record fake_enqueue_request =
  fe_Type :: string
  fe_Args :: "any list"
  fe_Meta :: anymap
  fe_Queue :: "string option"

definition dec_fake_request :: "json option \<Rightarrow> fake_enqueue_request option" where
  "dec_fake_request d = do {
     m \<leftarrow> obj_members d;
     ty \<leftarrow> dec_string (fmlookup m ''type'');
     args \<leftarrow> dec_list dec_any (fmlookup m ''args'');
     meta \<leftarrow> dec_anymap (fmlookup m ''meta'');
     q \<leftarrow> dec_ptr (\<lambda>o'. Option.bind (obj_members o') (\<lambda>om. dec_string (fmlookup om ''queue'')))
            (fmlookup m ''options'');
     Some \<lparr>fe_Type = ty, fe_Args = args, fe_Meta = meta, fe_Queue = q\<rparr> }"

definition fake_queue :: "fake_enqueue_request \<Rightarrow> string" where
  "fake_queue r = (case fe_Queue r of
     Some q \<Rightarrow> (if q \<noteq> [] then q else ''default'') | None \<Rightarrow> ''default'')"

definition enc_fake_job :: "time_codec \<Rightarrow> fake_job \<Rightarrow> json option" where
  "enc_fake_job tc j = struct_json
     [(''id'', enc_string (fj_ID j)), (''type'', enc_string (fj_Type j)), (''state'', enc_string (fj_State j)),
      (''args'', enc_json (marshal (VList (fj_Args j)))), (''queue'', enc_string (fj_Queue j)),
      (''attempt'', enc_int (fj_Attempt j)), (''max_attempts'', enc_int 3),
      (''created_at'', enc_json (enc_time tc (fj_CreatedAt j)))]"

text \<open>A response that cannot be encoded has an empty body.\<close>

definition fake_response :: "(json \<Rightarrow> string) \<Rightarrow> int \<Rightarrow> json option \<Rightarrow> http_response" where
  "fake_response print status body = \<lparr>rs_status = status,
     rs_headers = [(''Content-Type'', ''application/openjobspec+json'')],
     rs_body = Inr (case body of None \<Rightarrow> [] | Some j \<Rightarrow> print j)\<rparr>"

text \<open>The message of a decoding error is \<open>decode_error\<close>.\<close>

definition invalid_payload :: "string \<Rightarrow> json option" where
  "invalid_payload msg = Some (JObj (fmap_of_list [(''error'', JObj (fmap_of_list
     [(''code'', JStr ''invalid_payload''), (''message'', JStr msg)]))]))"

definition handleEnqueue ::
  "(json \<Rightarrow> string) \<Rightarrow> time_codec \<Rightarrow> string \<Rightarrow> time \<Rightarrow> json option \<Rightarrow> 'w fake_store
     \<Rightarrow> http_response \<times> 'w fake_store" where
  "handleEnqueue print tc decode_error now body s =
     (case Option.bind body (\<lambda>b. dec_fake_request (Some b)) of
        None \<Rightarrow> (fake_response print 400 (invalid_payload decode_error), s)
      | Some req \<Rightarrow> (case RecordEnqueue now (fe_Type req) (fe_Args req) (fake_queue req) (fe_Meta req) s of
          (job, s') \<Rightarrow> (fake_response print 201
             (struct_json [(''job'', enc_json (enc_fake_job tc job))]), s')))"

fun record_all ::
  "time \<Rightarrow> fake_enqueue_request list \<Rightarrow> 'w fake_store \<Rightarrow> fake_job list \<times> 'w fake_store" where
  "record_all now [] s = ([], s)"
| "record_all now (r # rs) s = (case RecordEnqueue now (fe_Type r) (fe_Args r) (fake_queue r) (fe_Meta r) s of
     (job, s1) \<Rightarrow> (case record_all now rs s1 of (jobs, s2) \<Rightarrow> (job # jobs, s2)))"

definition handleBatchEnqueue ::
  "(json \<Rightarrow> string) \<Rightarrow> time_codec \<Rightarrow> string \<Rightarrow> time \<Rightarrow> json option \<Rightarrow> 'w fake_store
     \<Rightarrow> http_response \<times> 'w fake_store" where
  "handleBatchEnqueue print tc decode_error now body s =
     (case Option.bind body (\<lambda>b. Option.bind (obj_members (Some b))
              (\<lambda>m. dec_list dec_fake_request (fmlookup m ''jobs''))) of
        None \<Rightarrow> (fake_response print 400 (invalid_payload decode_error), s)
      | Some reqs \<Rightarrow> (case record_all now reqs s of
          (jobs, s') \<Rightarrow> (fake_response print 201 (struct_json
             [(''jobs'', (if jobs = [] then Some (Some JNull) else enc_json (enc_array (enc_fake_job tc) jobs))),
              (''count'', enc_int (int (length jobs)))]), s')))"

definition fakeHandler ::
  "(json \<Rightarrow> string) \<Rightarrow> time_codec \<Rightarrow> string \<Rightarrow> time \<Rightarrow> string \<Rightarrow> json option \<Rightarrow> 'w fake_store
     \<Rightarrow> http_response \<times> 'w fake_store" where
  "fakeHandler print tc decode_error now path body s =
     (if path = ''/ojs/v1/jobs'' then handleEnqueue print tc decode_error now body s
      else if path = ''/ojs/v1/jobs/batch'' then handleBatchEnqueue print tc decode_error now body s
      else (fake_response print 200 (Some (JObj (fmap_of_list [(''status'', JStr ''ok'')]))), s))"

subsection \<open>The server\<close>

text \<open>The path of a request to the server at \<open>url\<close>, without its query.\<close>

definition request_path :: "string \<Rightarrow> http_request \<Rightarrow> string" where
  "request_path url r = (case strip_prefix url (rq_url r) of
     None \<Rightarrow> [] | Some p \<Rightarrow> takeWhile (\<lambda>c. c \<noteq> CHR ''?'') p)"

record fake_setup =
  fa_print :: "json \<Rightarrow> string"
  fa_times :: time_codec
  fa_error :: string
  fa_clock :: "nat \<Rightarrow> time"
  fa_url :: string

definition fake_serve :: "fake_setup \<Rightarrow> nat \<Rightarrow> http_request \<Rightarrow> 'w fake_store \<Rightarrow> http_response \<times> 'w fake_store" where
  "fake_serve f n r s = fakeHandler (fa_print f) (fa_times f) (fa_error f) (fa_clock f n)
     (request_path (fa_url f) r) (rq_body r) s"

text \<open>\<open>FakeClient\<close>: a client of the server, if there is an active store; \<open>None\<close> where the test is stopped.\<close>

definition FakeClient ::
  "(string \<Rightarrow> go_error + string \<times> string) \<Rightarrow> fake_setup \<Rightarrow> 'w fake_store option \<Rightarrow> client_option list \<Rightarrow> transport option" where
  "FakeClient parse f active opts = (case active of
     None \<Rightarrow> None
   | Some s \<Rightarrow> (case NewClient parse (fa_url f) opts of Inl e \<Rightarrow> None | Inr tr \<Rightarrow> Some tr))"

text \<open>The store after the requests of a history.\<close>

definition store_after :: "fake_setup \<Rightarrow> trace \<Rightarrow> 'w fake_store \<Rightarrow> 'w fake_store" where
  "store_after f t s = foldl (\<lambda>s (n, r). snd (fake_serve f n r s)) s (enumerate 0 (requests t))"

definition fake_server :: "fake_setup \<Rightarrow> 'w fake_store \<Rightarrow> trace \<Rightarrow> http_request \<Rightarrow> go_error + http_response" where
  "fake_server f s t r = Inr (fst (fake_serve f (length (requests t)) r (store_after f t s)))"

lemma store_after_snoc:
  "requests t' = requests t @ [r] \<Longrightarrow>
   store_after f t' s = snd (fake_serve f (length (requests t)) r (store_after f t s))"
  by (simp add: store_after_def enumerate_append_eq)

subsection \<open>From the caller to the store and back\<close>

lemma transport_do_once:
  assumes "calm env" "\<And>req. rq_method req = m \<Longrightarrow> rq_url req = tr_baseURL tr @ path \<Longrightarrow> rq_body req = Some j \<Longrightarrow>
      env_server env t req = Inr \<lparr>rs_status = st, rs_headers = h, rs_body = Inr b\<rparr>"
    and "length b < maxResponseBodyLen" "\<not> shouldRetry (tr_retryConfig tr) st 0"
  shows "\<exists>req. rq_method req = m \<and> rq_url req = tr_baseURL tr @ path \<and> rq_body req = Some j
    \<and> transport_do env tr m path (Some (Some j)) res t = (finish_response env res st h b, t @ [EvReq req])"
proof -
  have "take maxResponseBodyLen b = b" "\<not> maxResponseBodyLen \<le> length b" using assms(3) by simp_all
  then show ?thesis
    using assms(1,2,4)
    by (simp add: transport_do_def do_loop.simps do_attempt_def http_Do_def calm_def Let_def)
qed

lemma dec_list_go:
  "go_value (VList vs) \<Longrightarrow> marshalable (VList vs) \<Longrightarrow>
   dec_list dec_any (Some (to_json (VList vs))) = Some (map as_decoded vs)"
  using those_map_Some [of "map to_json vs" "\<lambda>j. dec_any (Some j)" from_json]
    those_map_Some [of vs "\<lambda>v. dec_any (Some (to_json v))" as_decoded]
  by (simp add: list_all_iff unmarshal_any_def go_value_decodable from_to_json_go comp_def)

lemma enqueue_request_marshalable:
  assumes "enc_enqueue_request tc \<lparr>eq_Type = ty, eq_Args = args, eq_Meta = meta, eq_Schema = [],
      eq_Options = Some w\<rparr> = Some j"
  shows "marshalable (VList args)" "marshalable (VMap meta)"
  using assms
  by (auto simp: enc_enqueue_request_def struct_json_def enc_json_def marshal_def omit_map_def
      simp del: marshalable.simps(7) split: if_splits)

lemma dec_fake_enqueue:
  assumes "enc_enqueue_request tc \<lparr>eq_Type = ty, eq_Args = args, eq_Meta = meta, eq_Schema = [],
      eq_Options = Some w\<rparr> = Some j" "go_value (VList args)" "go_map meta"
  shows "dec_fake_request (Some j) = Some \<lparr>fe_Type = ty, fe_Args = map as_decoded args,
      fe_Meta = as_decoded_map meta, fe_Queue = Some (wo_Queue w)\<rparr>"
proof -
  obtain m where j: "j = JObj m" and m: "list_all (\<lambda>(k, r). r = Some (fmlookup m k))
      [(''type'', enc_string ty), (''args'', enc_json (marshal (VList args))), (''meta'', omit_map meta),
       (''schema'', omit_string []), (''options'', omit_ptr (enc_wire_options tc) (Some w))]"
    by (rule struct_json_lookup [OF assms(1) [unfolded enc_enqueue_request_def]]) simp_all
  obtain wj where wj: "enc_wire_options tc w = Some wj" "fmlookup m ''options'' = Some wj"
    using m by (cases "enc_wire_options tc w") (simp_all add: enc_json_def)
  obtain wm where wm: "wj = JObj wm" "omit_string (wo_Queue w) = Some (fmlookup wm ''queue'')"
    by (rule struct_json_lookup [OF wj(1) [unfolded enc_wire_options_def]]) auto
  have "fmlookup m ''args'' = Some (to_json (VList args))"
    using m enqueue_request_marshalable(1) [OF assms(1)]
    by (auto simp: enc_json_def marshal_def simp del: marshalable.simps to_json.simps)
  then have "dec_list dec_any (fmlookup m ''args'') = Some (map as_decoded args)"
    by (simp only: dec_list_go [OF assms(2) enqueue_request_marshalable(1) [OF assms(1)]])
  moreover have "dec_string (fmlookup m ''type'') = Some ty" "dec_anymap (fmlookup m ''meta'') = Some (as_decoded_map meta)"
    "dec_string (fmlookup wm ''queue'') = Some (wo_Queue w)"
    using m wm(2) assms(3) by (simp_all only: dec_enc dec_omit_map_go list.pred_inject prod.case)
  ultimately show ?thesis
    using wj(2) wm(1) by (simp add: dec_fake_request_def j)
qed

lemma dec_fake_response:
  assumes "struct_json [(''job'', enc_json (enc_fake_job tc job))] = Some resp" "time_codec_ok tc"
    and "fj_Args job = argsToWire a" "native_map a" "in_int64 (fj_Attempt job)"
  shows "\<exists>j. dec_job_response tc resp = Some j \<and> job_ID j = fj_ID job \<and> job_Type j = fj_Type job
    \<and> job_State j = fj_State job \<and> job_Queue j = fj_Queue job \<and> job_Args j = a \<and> job_Attempt j = fj_Attempt job"
proof -
  obtain jj where jj: "enc_fake_job tc job = Some jj" "resp = JObj (fmap_of_list [(''job'', jj)])"
    using assms(1) by (cases "enc_fake_job tc job") (auto simp: struct_json_def enc_json_def)
  let ?fs = "[(''id'', enc_string (fj_ID job)), (''type'', enc_string (fj_Type job)),
      (''state'', enc_string (fj_State job)), (''args'', enc_json (marshal (VList (fj_Args job)))),
      (''queue'', enc_string (fj_Queue job)), (''attempt'', enc_int (fj_Attempt job)),
      (''max_attempts'', enc_int 3), (''created_at'', enc_json (enc_time tc (fj_CreatedAt job)))]"
  have fs: "struct_json ?fs = Some jj" using jj(1) by (simp add: enc_fake_job_def)
  obtain m where m: "jj = JObj m" "list_all (\<lambda>(k, r). r = Some (fmlookup m k)) ?fs"
    by (rule struct_json_lookup [OF fs]) simp_all
  note mm = m(2) [unfolded list.pred_inject prod.case]
  have other: "fmlookup m k = None" if "k \<notin> fst ` set ?fs" for k
    using struct_json_absent [OF fs [unfolded m(1)] that] .
  have args: "fmlookup m ''args'' = Some (to_json (VList (argsToWire a)))"
    using mm assms(3) json_native_marshalable [OF args_native [OF assms(4)]]
    by (simp add: enc_json_def marshal_def del: marshalable.simps to_json.simps)
  have dargs: "decode_args (fmlookup m ''args'') = Some (argsToWire a)"
    unfolding args by (rule decode_args_native [OF assms(4)])
  obtain tj where tj: "enc_time tc (fj_CreatedAt job) = Some tj" "fmlookup m ''created_at'' = Some tj"
    using mm by (cases "enc_time tc (fj_CreatedAt job)") (simp_all add: enc_json_def)
  have created: "dec_ptr (dec_time tc) (fmlookup m ''created_at'') = Some (Some (fj_CreatedAt job))"
    using dec_enc_time [OF assms(2) tj(1)] tj(2) by (cases tj) auto
  have fields: "dec_string (fmlookup m ''id'') = Some (fj_ID job)" "dec_string (fmlookup m ''type'') = Some (fj_Type job)"
    "dec_string (fmlookup m ''state'') = Some (fj_State job)" "dec_string (fmlookup m ''queue'') = Some (fj_Queue job)"
    using mm by (simp_all only: dec_enc)
  have ints: "dec_int (fmlookup m ''attempt'') = Some (fj_Attempt job)" "dec_int (fmlookup m ''max_attempts'') = Some 3"
    using mm assms(5) by (auto intro!: dec_enc_int simp: in_int64_def)
  have absent: "fmlookup m ''priority'' = None" "fmlookup m ''timeout_ms'' = None" "fmlookup m ''tags'' = None"
    "fmlookup m ''meta'' = None" "fmlookup m ''result'' = None" "fmlookup m ''error'' = None"
    "fmlookup m ''enqueued_at'' = None" "fmlookup m ''started_at'' = None" "fmlookup m ''completed_at'' = None"
    "fmlookup m ''cancelled_at'' = None" "fmlookup m ''discarded_at'' = None" "fmlookup m ''scheduled_at'' = None"
    "fmlookup m ''expires_at'' = None" "fmlookup m ''previous_state'' = None"
    by (simp_all add: other)
  show ?thesis
    by (simp add: dec_job_response_def jj(2) fmlookup_of_list Job_UnmarshalJSON_def m(1) fields ints absent dargs
        created)
qed

lemma metaContains_refl [simp]: "metaContains m m"
  by (auto simp: metaContains_def jsonEqual_def fmpred_iff)

text \<open>What the fake server makes of an enqueue.\<close>

lemma fake_enqueue_served:
  assumes "rq_url r = fa_url f @ ''/ojs/v1/jobs''" "rq_body r = Some j"
    and "dec_fake_request (Some j) = Some \<lparr>fe_Type = ty, fe_Args = args, fe_Meta = meta, fe_Queue = Some q\<rparr>"
    and "RecordEnqueue (fa_clock f n) ty args q meta s = (job, s')"
  shows "fake_serve f n r s = (fake_response (fa_print f) 201
     (struct_json [(''job'', enc_json (enc_fake_job (fa_times f) job))]), s')"
proof -
  have "strip_prefix (fa_url f) (rq_url r) = Some ''/ojs/v1/jobs''"
    using assms(1) by (simp add: strip_prefix_iff)
  then have "request_path (fa_url f) r = ''/ojs/v1/jobs''" by (simp add: request_path_def)
  moreover have "RecordEnqueue (fa_clock f n) ty args (if q \<noteq> [] then q else ''default'') meta s = (job, s')"
    using assms(4) by (auto simp: RecordEnqueue_def Let_def)
  ultimately show ?thesis
    using assms(2,3) by (simp add: fake_serve_def fakeHandler_def handleEnqueue_def fake_queue_def)
qed

text \<open>
  C22: What a program enqueues through the real client and \<open>FakeClient\<close> is what the store records and what
  the program gets back. For a valid type and queue and whatever arguments and metadata can be marshalled, one
  request is sent and one job is recorded, with the type, the wire form of the arguments, the metadata and
  the queue (\<open>default\<close> for none); the caller gets that job's id with its arguments, and an
  assertion that asks for just this job passes. The values of arguments and metadata are those that JSON
  decoding makes of the caller's: a Go \<open>int\<close> is recorded as a \<open>float64\<close>, a \<open>[]string\<close> as a list. The context is
  not done, the codec of instants reads back what it writes, and the text of the response is not empty, parses
  back to what was printed and is below 10 MB.
\<close>

theorem fake_client_end_to_end:
  assumes env: "calm env" "env_server env = fake_server f s" "env_times env = fa_times f"
      "time_codec_ok (fa_times f)" "tr_baseURL tr = fa_url f"
    and cfg: "cfg = resolveEnqueueConfig (env_now env t) opts" "type_ok ty" "queue_ok (cfg_queue cfg)"
    and body: "enc_enqueue_request (env_times env) \<lparr>eq_Type = ty, eq_Args = argsToWire a, eq_Meta = cfg_meta cfg,
        eq_Schema = [], eq_Options = Some (buildWireOptions cfg)\<rparr> = Some j"
      "go_map a" "go_map (cfg_meta cfg)"
    and job: "fst (RecordEnqueue (fa_clock f (length (requests t))) ty (argsToWire (as_decoded_map a)) (cfg_queue cfg)
        (as_decoded_map (cfg_meta cfg)) (store_after f t s)) = job"
    and resp: "struct_json [(''job'', enc_json (enc_fake_job (fa_times f) job))] = Some resp"
      "env_parse_json env (fa_print f resp) = Some resp" "fa_print f resp \<noteq> []"
      "length (fa_print f resp) < maxResponseBodyLen"
  shows "\<exists>r x. Enqueue env tr ty a opts t = (Inr x, t @ [EvReq r])
    \<and> job_ID x = fj_ID job \<and> job_Type x = ty \<and> job_Args x = as_decoded_map a
    \<and> job_Queue x = (if cfg_queue cfg = [] then ''default'' else cfg_queue cfg)
    \<and> (case store_after f (t @ [EvReq r]) s of s' \<Rightarrow>
        fk_enqueued s' = fk_enqueued (store_after f t s) @ [job]
        \<and> AssertEnqueued ty [MatchArgs (argsToWire (as_decoded_map a)), MatchQueue (job_Queue x),
            MatchMeta (as_decoded_map (cfg_meta cfg))] (Some s') = Passed)"
proof -
  let ?a = "as_decoded_map a" and ?meta = "as_decoded_map (cfg_meta cfg)"
  let ?s = "store_after f t s" and ?n = "length (requests t)"
  obtain s' where rec: "RecordEnqueue (fa_clock f ?n) ty (argsToWire ?a) (cfg_queue cfg) ?meta ?s = (job, s')"
    using job by (metis prod.collapse)
  have args: "marshalable (VList (argsToWire a))" "go_value (VList (argsToWire a))"
    "map as_decoded (argsToWire a) = argsToWire ?a"
    using enqueue_request_marshalable(1) [OF body(1)] body(2) argsToWire_as_decoded [of a]
    by (simp_all add: argsToWire_def go_map_def)
  have native: "native_map ?a"
    using as_decoded_native [OF args(2,1)] by (cases "a = fmempty") (simp_all add: argsToWire_def native_map_def as_decoded_map_def)
  have dec: "dec_fake_request (Some j) = Some \<lparr>fe_Type = ty, fe_Args = argsToWire ?a, fe_Meta = ?meta,
      fe_Queue = Some (cfg_queue cfg)\<rparr>"
    using dec_fake_enqueue [OF body(1) args(2) body(3)] args(3) by (simp add: buildWireOptions_def)
  have serve: "fake_serve f ?n r ?s = (fake_response (fa_print f) 201 (Some resp), s')"
    if "rq_url r = tr_baseURL tr @ ''/ojs/v1/jobs''" "rq_body r = Some j" for r
    using fake_enqueue_served [OF _ that(2) dec rec] that(1) env(5) resp(1) by simp
  have once: "\<exists>r. rq_method r = ''POST'' \<and> rq_url r = tr_baseURL tr @ ''/ojs/v1/jobs'' \<and> rq_body r = Some j
      \<and> transport_do env tr ''POST'' ''/ojs/v1/jobs'' (Some (Some j)) res t =
        (finish_response env res 201 [(''Content-Type'', ''application/openjobspec+json'')] (fa_print f resp), t @ [EvReq r])"
    for res :: "job target"
    by (rule transport_do_once [OF env(1) _ resp(4)])
      (simp_all add: env(2) fake_server_def serve fake_response_def shouldRetry_def)
  let ?into = "Into zero_job (dec_job_response (env_times env))"
  from once [of ?into] obtain r where r: "rq_url r = tr_baseURL tr @ ''/ojs/v1/jobs''" "rq_body r = Some j"
      "transport_do env tr ''POST'' ''/ojs/v1/jobs'' (Some (Some j)) ?into t =
        (finish_response env ?into 201 [(''Content-Type'', ''application/openjobspec+json'')] (fa_print f resp), t @ [EvReq r])"
    by blast
  have fields: "fj_Type job = ty" "fj_Args job = argsToWire ?a" "fj_Attempt job = 0" "fj_Meta job = ?meta"
    "fj_Queue job = (if cfg_queue cfg = [] then ''default'' else cfg_queue cfg)"
    "fk_enqueued s' = fk_enqueued ?s @ [job]"
    using rec by (auto simp: RecordEnqueue_def Let_def)
  obtain x where x: "dec_job_response (fa_times f) resp = Some x" "job_ID x = fj_ID job" "job_Type x = ty"
      "job_Queue x = fj_Queue job" "job_Args x = ?a"
    using dec_fake_response [OF resp(1) env(4) fields(2) native] fields(1,3) by (auto simp: in_int64_def)
  have sent: "Enqueue env tr ty a opts t = (Inr x, t @ [EvReq r])"
    using cfg validateEnqueueParams_iff [of ty "argsToWire a"] validateQueue_iff [of "cfg_queue cfg"] r(3) body(1)
      x(1) env(3) resp(2,3)
    by (simp add: Enqueue_def Let_def basePath_def transport_post_def finish_response_def)
  have store: "store_after f (t @ [EvReq r]) s = s'"
    by (subst store_after_snoc [where t = t and r = r]) (simp_all add: serve r)
  have "AssertEnqueued ty [MatchArgs (argsToWire ?a), MatchQueue (fj_Queue job), MatchMeta ?meta] (Some s')
      = Passed"
    using fields
    by (simp add: AssertEnqueued_def with_store_def filterJobs_filter buildCriteria_def MatchArgs_def
        MatchQueue_def MatchMeta_def job_matches_def jsonEqual_def Let_def)
  then show ?thesis using sent x fields store by (intro exI [of _ r] exI [of _ x]) simp
qed

theorem fake_client_end_to_end_witness:
  "\<exists>env x r. Enqueue env (newTransport ''http://h'' zero_client_config) ''a'' fmempty [] [] = (Inr x, [EvReq r])
     \<and> job_ID x = ''fake-000001''"
proof -
  let ?tr = "newTransport ''http://h'' zero_client_config"
  let ?f = "\<lparr>fa_print = (\<lambda>_. ''R''), fa_times = decimal_codec, fa_error = [], fa_clock = (\<lambda>_. 7), fa_url = ''http://h''\<rparr>"
  let ?job = "fst (RecordEnqueue 7 ''a'' [] ''default'' fmempty (new_fake_store :: unit fake_store))"
  obtain resp where resp: "struct_json [(''job'', enc_json (enc_fake_job decimal_codec ?job))] = Some resp"
    by (simp add: struct_json_def enc_fake_job_def RecordEnqueue_def Let_def enc_json_def marshal_def enc_string_def
        enc_int_def enc_time_def decimal_codec_def)
  let ?env = "(plain_env (fake_server ?f (new_fake_store :: unit fake_store)) (\<lambda>_. Some resp))\<lparr>env_times := decimal_codec\<rparr>"
  let ?cfg = "resolveEnqueueConfig (env_now ?env []) []"
  have cfg: "cfg_queue ?cfg = ''default''" "cfg_meta ?cfg = fmempty"
    by (simp_all add: resolveEnqueueConfig_def default_enqueue_config_def)
  obtain j where j: "enc_enqueue_request (env_times ?env) \<lparr>eq_Type = ''a'', eq_Args = argsToWire fmempty,
      eq_Meta = cfg_meta ?cfg, eq_Schema = [], eq_Options = Some (buildWireOptions ?cfg)\<rparr> = Some j"
    by (simp add: enc_enqueue_request_def enc_wire_options_def struct_json_def enc_string_def enc_json_def
        marshal_def omit_string_def omit_int_def omit_strings_def omit_map_def argsToWire_def buildWireOptions_def
        resolveEnqueueConfig_def default_enqueue_config_def)
  have ok: "type_ok ''a''" "queue_ok (cfg_queue ?cfg)" unfolding cfg by code_simp+
  have env: "calm ?env" "tr_baseURL ?tr = ''http://h''"
    by (simp_all add: calm_def plain_env_def newTransport_def trim_right_def)
  have job: "fst (RecordEnqueue (fa_clock ?f (length (requests []))) ''a'' (argsToWire (as_decoded_map fmempty)) (cfg_queue ?cfg)
      (as_decoded_map (cfg_meta ?cfg)) (store_after ?f [] (new_fake_store :: unit fake_store))) = ?job"
    unfolding cfg by (simp add: store_after_def argsToWire_def)
  have srv: "env_server ?env = fake_server ?f (new_fake_store :: unit fake_store)" "env_times ?env = fa_times ?f"
    "time_codec_ok (fa_times ?f)" "tr_baseURL ?tr = fa_url ?f"
    by (simp_all add: plain_env_def decimal_codec_ok env(2))
  have nat: "go_map fmempty" "go_map (cfg_meta ?cfg)" unfolding cfg by simp_all
  have re: "struct_json [(''job'', enc_json (enc_fake_job (fa_times ?f) ?job))] = Some resp" using resp by simp
  have pr: "env_parse_json ?env (fa_print ?f resp) = Some resp" "fa_print ?f resp \<noteq> []"
      "length (fa_print ?f resp) < maxResponseBodyLen"
    by (simp_all add: plain_env_def maxResponseBodyLen_def)
  from fake_client_end_to_end [OF env(1) srv refl ok j nat job re pr]
  have "\<exists>r x. Enqueue ?env ?tr ''a'' fmempty [] [] = (Inr x, [] @ [EvReq r]) \<and> job_ID x = fj_ID ?job"
    by blast
  moreover have "fj_ID ?job = ''fake-000001''" by code_simp
  ultimately show ?thesis by (simp only: append_Nil) blast
qed

end
