(* ===== verification/Ml_Resources.thy ===== *)
theory Ml_Resources
  imports Options Go_Errors
begin

text \<open>
  Machine-learning extensions of enqueueing (\<open>ml.go\<close>): resource requirements with their builder and
  validation, the options that put extension structs into a job's metadata, and reading back the last
  checkpoint. A struct stored in metadata is represented by the map of the members its JSON has,
  which is all the server sees of it. \<open>%f\<close> is written out over the rationals.
\<close>

subsection \<open>Values\<close>

text \<open>\<open>%f\<close>: six decimals, rounded to even.\<close>

definition show_f6 :: "f64 \<Rightarrow> string" where
  "show_f6 f = (case f of
     NaN \<Rightarrow> ''NaN'' | PInf \<Rightarrow> ''+Inf'' | NInf \<Rightarrow> ''-Inf''
   | Fin x \<Rightarrow> (let n = nat (rne (\<bar>x\<bar> * 1000000)) in
       (if x < 0 then ''-'' else []) @ show_nat (n div 1000000) @ ''.'' @ show_padded 6 (n mod 1000000)))"

text \<open>A struct with \<open>omitempty\<close> members, as a map.\<close>

definition vstruct :: "(string \<times> any option) list \<Rightarrow> any" where
  "vstruct fs = VMap (fmap_of_list (List.map_filter (\<lambda>(k, v). map_option (\<lambda>x. (k, x)) v) fs))"

definition vs :: "string \<Rightarrow> any option" where "vs s = (if s = [] then None else Some (VStr s))"
definition vi :: "int \<Rightarrow> any option" where "vi i = (if i = 0 then None else Some (VInt i))"
definition vf :: "f64 \<Rightarrow> any option" where "vf f = (if f = Fin 0 then None else Some (VFloat f))"
definition vstrs :: "string list \<Rightarrow> any option" where "vstrs ss = (if ss = [] then None else Some (VStrs ss))"

subsection \<open>Resource requirements\<close>

record ml_resources =
  ml_Accelerator :: string
  ml_GPUType :: string
  ml_GPUCount :: int
  ml_GPUMemoryGB :: f64
  ml_GPUComputeCapability :: string
  ml_GPUInterconnect :: string
  ml_MemoryGB :: f64
  ml_CPUCores :: int
  ml_StorageGB :: f64
  ml_ShmSizeGB :: f64
  ml_TPUType :: string
  ml_TPUTopology :: string
  ml_TPUChipCount :: int
  ml_ModelID :: string
  ml_ModelVersion :: string
  ml_ModelProvider :: string
  ml_ModelChecksum :: string
  ml_ModelFormat :: string
  ml_MaxTokens :: int
  ml_MaxBatchSize :: int
  ml_TimeoutSeconds :: int
  ml_PriorityClass :: string
  ml_Runtime :: string
  ml_Precision :: string
  ml_DistributedStrategy :: string

definition NewMLResources :: ml_resources where
  "NewMLResources = \<lparr>ml_Accelerator = [], ml_GPUType = [], ml_GPUCount = 0, ml_GPUMemoryGB = Fin 0,
     ml_GPUComputeCapability = [], ml_GPUInterconnect = [], ml_MemoryGB = Fin 0, ml_CPUCores = 0,
     ml_StorageGB = Fin 0, ml_ShmSizeGB = Fin 0, ml_TPUType = [], ml_TPUTopology = [],
     ml_TPUChipCount = 0, ml_ModelID = [], ml_ModelVersion = [], ml_ModelProvider = [],
     ml_ModelChecksum = [], ml_ModelFormat = [], ml_MaxTokens = 0, ml_MaxBatchSize = 0,
     ml_TimeoutSeconds = 0, ml_PriorityClass = [], ml_Runtime = [], ml_Precision = [],
     ml_DistributedStrategy = []\<rparr>"

definition WithAccelerator :: "string \<Rightarrow> ml_resources \<Rightarrow> ml_resources" where
  "WithAccelerator x r = r\<lparr>ml_Accelerator := x\<rparr>"

definition WithGPUType :: "string \<Rightarrow> ml_resources \<Rightarrow> ml_resources" where
  "WithGPUType x r = r\<lparr>ml_GPUType := x\<rparr>"

definition WithGPUCount :: "int \<Rightarrow> ml_resources \<Rightarrow> ml_resources" where
  "WithGPUCount x r = r\<lparr>ml_GPUCount := x\<rparr>"

definition WithGPUMemoryGB :: "f64 \<Rightarrow> ml_resources \<Rightarrow> ml_resources" where
  "WithGPUMemoryGB x r = r\<lparr>ml_GPUMemoryGB := x\<rparr>"

definition WithGPUComputeCapability :: "string \<Rightarrow> ml_resources \<Rightarrow> ml_resources" where
  "WithGPUComputeCapability x r = r\<lparr>ml_GPUComputeCapability := x\<rparr>"

definition WithGPUInterconnect :: "string \<Rightarrow> ml_resources \<Rightarrow> ml_resources" where
  "WithGPUInterconnect x r = r\<lparr>ml_GPUInterconnect := x\<rparr>"

definition WithMemoryGB :: "f64 \<Rightarrow> ml_resources \<Rightarrow> ml_resources" where
  "WithMemoryGB x r = r\<lparr>ml_MemoryGB := x\<rparr>"

definition WithCPUCores :: "int \<Rightarrow> ml_resources \<Rightarrow> ml_resources" where
  "WithCPUCores x r = r\<lparr>ml_CPUCores := x\<rparr>"

definition WithStorageGB :: "f64 \<Rightarrow> ml_resources \<Rightarrow> ml_resources" where
  "WithStorageGB x r = r\<lparr>ml_StorageGB := x\<rparr>"

definition WithShmSizeGB :: "f64 \<Rightarrow> ml_resources \<Rightarrow> ml_resources" where
  "WithShmSizeGB x r = r\<lparr>ml_ShmSizeGB := x\<rparr>"

definition WithTPUType :: "string \<Rightarrow> ml_resources \<Rightarrow> ml_resources" where
  "WithTPUType x r = r\<lparr>ml_TPUType := x\<rparr>"

definition WithTPUTopology :: "string \<Rightarrow> ml_resources \<Rightarrow> ml_resources" where
  "WithTPUTopology x r = r\<lparr>ml_TPUTopology := x\<rparr>"

definition WithTPUChipCount :: "int \<Rightarrow> ml_resources \<Rightarrow> ml_resources" where
  "WithTPUChipCount x r = r\<lparr>ml_TPUChipCount := x\<rparr>"

definition WithModelID :: "string \<Rightarrow> ml_resources \<Rightarrow> ml_resources" where
  "WithModelID x r = r\<lparr>ml_ModelID := x\<rparr>"

definition WithModelVersion :: "string \<Rightarrow> ml_resources \<Rightarrow> ml_resources" where
  "WithModelVersion x r = r\<lparr>ml_ModelVersion := x\<rparr>"

definition WithModelProvider :: "string \<Rightarrow> ml_resources \<Rightarrow> ml_resources" where
  "WithModelProvider x r = r\<lparr>ml_ModelProvider := x\<rparr>"

definition WithModelChecksum :: "string \<Rightarrow> ml_resources \<Rightarrow> ml_resources" where
  "WithModelChecksum x r = r\<lparr>ml_ModelChecksum := x\<rparr>"

definition WithModelFormat :: "string \<Rightarrow> ml_resources \<Rightarrow> ml_resources" where
  "WithModelFormat x r = r\<lparr>ml_ModelFormat := x\<rparr>"

definition WithMaxTokens :: "int \<Rightarrow> ml_resources \<Rightarrow> ml_resources" where
  "WithMaxTokens x r = r\<lparr>ml_MaxTokens := x\<rparr>"

definition WithMaxBatchSize :: "int \<Rightarrow> ml_resources \<Rightarrow> ml_resources" where
  "WithMaxBatchSize x r = r\<lparr>ml_MaxBatchSize := x\<rparr>"

definition WithTimeoutSeconds :: "int \<Rightarrow> ml_resources \<Rightarrow> ml_resources" where
  "WithTimeoutSeconds x r = r\<lparr>ml_TimeoutSeconds := x\<rparr>"

definition WithPriorityClass :: "string \<Rightarrow> ml_resources \<Rightarrow> ml_resources" where
  "WithPriorityClass x r = r\<lparr>ml_PriorityClass := x\<rparr>"

definition WithRuntime :: "string \<Rightarrow> ml_resources \<Rightarrow> ml_resources" where
  "WithRuntime x r = r\<lparr>ml_Runtime := x\<rparr>"

definition WithPrecision :: "string \<Rightarrow> ml_resources \<Rightarrow> ml_resources" where
  "WithPrecision x r = r\<lparr>ml_Precision := x\<rparr>"

definition WithDistributedStrategy :: "string \<Rightarrow> ml_resources \<Rightarrow> ml_resources" where
  "WithDistributedStrategy x r = r\<lparr>ml_DistributedStrategy := x\<rparr>"

definition ml_resources_value :: "ml_resources \<Rightarrow> any" where
  "ml_resources_value r = vstruct
    [(''ext_ml_accelerator'', vs (ml_Accelerator r)),
     (''ext_ml_gpu_type'', vs (ml_GPUType r)),
     (''ext_ml_gpu_count'', vi (ml_GPUCount r)),
     (''ext_ml_gpu_memory_gb'', vf (ml_GPUMemoryGB r)),
     (''ext_ml_gpu_compute_capability'', vs (ml_GPUComputeCapability r)),
     (''ext_ml_gpu_interconnect'', vs (ml_GPUInterconnect r)),
     (''ext_ml_memory_gb'', vf (ml_MemoryGB r)),
     (''ext_ml_cpu_cores'', vi (ml_CPUCores r)),
     (''ext_ml_storage_gb'', vf (ml_StorageGB r)),
     (''ext_ml_shm_size_gb'', vf (ml_ShmSizeGB r)),
     (''ext_ml_tpu_type'', vs (ml_TPUType r)),
     (''ext_ml_tpu_topology'', vs (ml_TPUTopology r)),
     (''ext_ml_tpu_chip_count'', vi (ml_TPUChipCount r)),
     (''ext_ml_model_id'', vs (ml_ModelID r)),
     (''ext_ml_model_version'', vs (ml_ModelVersion r)),
     (''ext_ml_model_provider'', vs (ml_ModelProvider r)),
     (''ext_ml_model_checksum'', vs (ml_ModelChecksum r)),
     (''ext_ml_model_format'', vs (ml_ModelFormat r)),
     (''ext_ml_max_tokens'', vi (ml_MaxTokens r)),
     (''ext_ml_max_batch_size'', vi (ml_MaxBatchSize r)),
     (''ext_ml_timeout_seconds'', vi (ml_TimeoutSeconds r)),
     (''ext_ml_priority_class'', vs (ml_PriorityClass r)),
     (''ext_ml_runtime'', vs (ml_Runtime r)),
     (''ext_ml_precision'', vs (ml_Precision r)),
     (''ext_ml_distributed_strategy'', vs (ml_DistributedStrategy r))]"

text \<open>The checks in order: a condition that is refused, and the message.\<close>

fun first_error :: "(bool \<times> string) list \<Rightarrow> go_error option" where
  "first_error [] = None"
| "first_error ((bad, msg) # cs) = (if bad then Some (PlainErr msg) else first_error cs)"

definition MLResources_Validate :: "ml_resources \<Rightarrow> go_error option" where
  "MLResources_Validate r = first_error
    [(ml_GPUCount r < 0, ''ojs: gpu_count must be non-negative, got '' @ show_int (ml_GPUCount r)),
     (f64_less (ml_GPUMemoryGB r) (Fin 0), ''ojs: gpu_memory_gb must be non-negative, got '' @ show_f6 (ml_GPUMemoryGB r)),
     (f64_less (ml_MemoryGB r) (Fin 0), ''ojs: memory_gb must be non-negative, got '' @ show_f6 (ml_MemoryGB r)),
     (ml_CPUCores r < 0, ''ojs: cpu_cores must be non-negative, got '' @ show_int (ml_CPUCores r)),
     (f64_less (ml_StorageGB r) (Fin 0), ''ojs: storage_gb must be non-negative, got '' @ show_f6 (ml_StorageGB r)),
     (f64_less (ml_ShmSizeGB r) (Fin 0), ''ojs: shm_size_gb must be non-negative, got '' @ show_f6 (ml_ShmSizeGB r)),
     (f64_less (Fin 0) (ml_GPUMemoryGB r) \<and> ml_GPUCount r = 0, ''ojs: gpu_memory_gb requires gpu_count > 0''),
     (ml_GPUType r \<noteq> [] \<and> ml_GPUCount r = 0, ''ojs: gpu_type requires gpu_count > 0''),
     (ml_GPUComputeCapability r \<noteq> [] \<and> ml_GPUCount r = 0, ''ojs: gpu_compute_capability requires gpu_count > 0''),
     (ml_GPUInterconnect r \<noteq> [] \<and> ml_GPUCount r < 2, ''ojs: gpu_interconnect requires gpu_count >= 2''),
     (ml_TPUChipCount r < 0, ''ojs: tpu_chip_count must be non-negative, got '' @ show_int (ml_TPUChipCount r)),
     (ml_TPUTopology r \<noteq> [] \<and> ml_TPUType r = [], ''ojs: tpu_topology requires tpu_type to be set''),
     (ml_MaxTokens r < 0, ''ojs: max_tokens must be non-negative, got '' @ show_int (ml_MaxTokens r)),
     (ml_MaxBatchSize r < 0, ''ojs: max_batch_size must be non-negative, got '' @ show_int (ml_MaxBatchSize r)),
     (ml_TimeoutSeconds r < 0, ''ojs: timeout_seconds must be non-negative, got '' @ show_int (ml_TimeoutSeconds r)),
     (ml_Accelerator r = ''tpu'' \<and> 0 < ml_GPUCount r, ''ojs: accelerator=tpu is incompatible with gpu_count > 0''),
     (ml_Accelerator r = ''cpu'' \<and> (0 < ml_GPUCount r \<or> 0 < ml_TPUChipCount r),
        ''ojs: accelerator=cpu is incompatible with gpu_count or tpu_chip_count > 0'')]"

subsection \<open>Extensions in the metadata\<close>

definition put_meta :: "string \<Rightarrow> any \<Rightarrow> enqueue_option" where
  "put_meta k v = (\<lambda>now c. c\<lparr>cfg_meta := fmupd k v (cfg_meta c)\<rparr>)"

definition WithMLResources :: "ml_resources \<Rightarrow> enqueue_option" where
  "WithMLResources res = put_meta ''ext_ml_resources'' (ml_resources_value res)"

definition AffinityIn :: string where "AffinityIn = ''In''"
definition AffinityNotIn :: string where "AffinityNotIn = ''NotIn''"
definition AffinityExists :: string where "AffinityExists = ''Exists''"
definition AffinityDoesNotExist :: string where "AffinityDoesNotExist = ''DoesNotExist''"
definition AffinityGt :: string where "AffinityGt = ''Gt''"
definition AffinityGte :: string where "AffinityGte = ''Gte''"
definition AffinityLt :: string where "AffinityLt = ''Lt''"
definition AffinityLte :: string where "AffinityLte = ''Lte''"

record affinity_rule =
  af_Key :: string
  af_Operator :: string
  af_Values :: "string list"

record weighted_affinity_rule = affinity_rule +
  af_Weight :: int

record affinity =
  af_Required :: "affinity_rule list"
  af_Preferred :: "weighted_affinity_rule list"

definition affinity_value :: "affinity \<Rightarrow> any" where
  "affinity_value a = vstruct
    [(''required'', if af_Required a = [] then None else Some (VList (map (\<lambda>r. vstruct
        [(''key'', Some (VStr (af_Key r))), (''operator'', Some (VStr (af_Operator r))), (''values'', vstrs (af_Values r))])
        (af_Required a)))),
     (''preferred'', if af_Preferred a = [] then None else Some (VList (map (\<lambda>r. vstruct
        [(''key'', Some (VStr (af_Key r))), (''operator'', Some (VStr (af_Operator r))), (''values'', vstrs (af_Values r)),
         (''weight'', vi (af_Weight r))]) (af_Preferred a))))]"

definition WithAffinity :: "affinity \<Rightarrow> enqueue_option" where
  "WithAffinity aff = put_meta ''ext_affinity'' (affinity_value aff)"

definition WithNodeSelector :: "(string, string) fmap \<Rightarrow> enqueue_option" where
  "WithNodeSelector labels = put_meta ''ext_node_selector'' (VMap (fmmap VStr labels))"

record checkpoint_config =
  ck_Enabled :: bool
  ck_IntervalSec :: int
  ck_StorageURI :: string
  ck_MaxCheckpoints :: int

definition WithCheckpointing :: "checkpoint_config \<Rightarrow> enqueue_option" where
  "WithCheckpointing cfg = put_meta ''ext_checkpoint'' (vstruct
    [(''enabled'', Some (VBool (ck_Enabled cfg))), (''interval_s'', vi (ck_IntervalSec cfg)),
     (''storage_uri'', vs (ck_StorageURI cfg)), (''max_checkpoints'', vi (ck_MaxCheckpoints cfg))])"

record preemption_policy =
  pp_Preemptible :: bool
  pp_GracePeriodSec :: int
  pp_CheckpointOnPreempt :: bool

definition WithPreemptionPolicy :: "preemption_policy \<Rightarrow> enqueue_option" where
  "WithPreemptionPolicy p = put_meta ''ext_preemption'' (vstruct
    [(''preemptible'', Some (VBool (pp_Preemptible p))), (''grace_period_s'', vi (pp_GracePeriodSec p)),
     (''checkpoint_on_preempt'', if pp_CheckpointOnPreempt p then Some (VBool True) else None)])"

record resource_reservation =
  rv_ReservationID :: string
  rv_TimeoutSeconds :: int

definition WithResourceReservation :: "resource_reservation \<Rightarrow> enqueue_option" where
  "WithResourceReservation r = put_meta ''ext_reservation'' (vstruct
    [(''reservation_id'', Some (VStr (rv_ReservationID r))), (''timeout_seconds'', vi (rv_TimeoutSeconds r))])"

subsection \<open>The last checkpoint\<close>

record ml_checkpoint =
  cp_JobID :: string
  cp_Epoch :: int
  cp_Step :: int
  cp_Loss :: f64
  cp_StorageKey :: string
  cp_CreatedAt :: string
  cp_Data :: anymap

definition ml_checkpoint_value :: "ml_checkpoint \<Rightarrow> any" where
  "ml_checkpoint_value cp = vstruct
    [(''job_id'', Some (VStr (cp_JobID cp))), (''epoch'', vi (cp_Epoch cp)), (''step'', vi (cp_Step cp)),
     (''loss'', vf (cp_Loss cp)), (''storage_key'', vs (cp_StorageKey cp)), (''created_at'', vs (cp_CreatedAt cp)),
     (''data'', if cp_Data cp = fmempty then None else Some (VMap (cp_Data cp)))]"

text \<open>The type assertions: a member of another type leaves the zero value.\<close>

definition as_string :: "any option \<Rightarrow> string" where
  "as_string v = (case v of Some (VStr s) \<Rightarrow> s | _ \<Rightarrow> [])"

definition as_float :: "any option \<Rightarrow> f64" where
  "as_float v = (case v of Some (VFloat f) \<Rightarrow> f | _ \<Rightarrow> Fin 0)"

definition GetLastCheckpoint :: "job \<Rightarrow> ml_checkpoint option" where
  "GetLastCheckpoint j = (case fmlookup (job_Meta j) ''last_checkpoint'' of
     Some (VMap m) \<Rightarrow> Some \<lparr>
       cp_JobID = as_string (fmlookup m ''job_id''),
       cp_Epoch = (case fmlookup m ''epoch'' of Some (VFloat f) \<Rightarrow> f64_to_int64 f | _ \<Rightarrow> 0),
       cp_Step = (case fmlookup m ''step'' of Some (VFloat f) \<Rightarrow> f64_to_int64 f | _ \<Rightarrow> 0),
       cp_Loss = as_float (fmlookup m ''loss''),
       cp_StorageKey = as_string (fmlookup m ''storage_key''),
       cp_CreatedAt = as_string (fmlookup m ''created_at''),
       cp_Data = (case fmlookup m ''data'' of Some (VMap d) \<Rightarrow> d | _ \<Rightarrow> fmempty)\<rparr>
   | _ \<Rightarrow> None)"

subsection \<open>Worker capabilities\<close>

record gpu_capability =
  gc_Count :: int
  gc_Type :: string
  gc_MemoryGB :: f64
  gc_ComputeCapability :: string
  gc_Interconnect :: string

record tpu_capability =
  tc_Type :: string
  tc_Topology :: string
  tc_ChipCount :: int

record loaded_model =
  lm_ModelID :: string
  lm_ModelVersion :: string
  lm_ModelFormat :: string

record worker_capabilities =
  wk_Accelerator :: string
  wk_GPU :: "gpu_capability option"
  wk_TPU :: "tpu_capability option"
  wk_CPUCores :: int
  wk_MemoryGB :: f64
  wk_StorageGB :: f64
  wk_ShmSizeGB :: f64
  wk_Models :: "loaded_model list"
  wk_Runtimes :: "string list"
  wk_Labels :: "(string, string) fmap"

text \<open>The worker's configuration with the field that this option sets.\<close>

record capable_worker_config = worker_config +
  wc_capabilities :: "worker_capabilities option"

definition WithWorkerCapabilities ::
  "worker_capabilities \<Rightarrow> capable_worker_config \<Rightarrow> capable_worker_config" where
  "WithWorkerCapabilities cap c = c\<lparr>wc_capabilities := Some cap\<rparr>"

subsection \<open>A checkpoint survives the server\<close>

text \<open>Lookups in a struct's members.\<close>

abbreviation vfields :: "(string \<times> any option) list \<Rightarrow> anymap" where
  "vfields fs \<equiv> fmap_of_list (List.map_filter (\<lambda>(k, v). map_option (\<lambda>x. (k, x)) v) fs)"

lemma lookup_vfields [simp]:
  "fmlookup (vfields []) q = None"
  "fmlookup (vfields ((k, v) # fs)) q =
     (if q = k \<and> v \<noteq> None then v else fmlookup (vfields fs) q)"
  by (auto simp: map_filter_simps fmlookup_of_list split: option.splits)

lemma vstruct_members:
  "list_all (\<lambda>(k, v). pred_option marshalable v) fs \<Longrightarrow> marshalable (vstruct fs)"
  "list_all (\<lambda>(k, v). pred_option go_value v) fs \<Longrightarrow> go_value (vstruct fs)"
  unfolding vstruct_def
  by (fastforce simp: fmpred_iff fmlookup_of_list List.map_filter_def list_all_iff pred_option_def
      dest!: map_of_SomeD split: option.splits)+

lemma vstruct_member_marshalable:
  "marshalable (vstruct fs) \<Longrightarrow> fmlookup (vfields fs) k = Some v \<Longrightarrow> marshalable v"
  by (auto simp: vstruct_def dest!: fmpredD)

lemma small_int_float:
  assumes "\<bar>n\<bar> \<le> 2 ^ 53"
  shows "f64_of_rat (of_int n) = Fin (of_int n)" "f64_to_int64 (Fin (of_int n)) = n"
  using f64_of_int_small [OF assms] assms by (auto simp: f64_of_int_def rat_trunc_def in_int64_def)

lemma small_in_int64: "\<bar>n\<bar> \<le> 2 ^ 53 \<Longrightarrow> in_int64 n"
  by (auto simp: in_int64_def)

lemma rat_trunc_of_int [simp]: "rat_trunc (of_int n) = n"
  by (simp add: rat_trunc_def)

lemma checkpoint_marshalable:
  "marshalable (ml_checkpoint_value cp)
     \<longleftrightarrow> marshalable (VFloat (cp_Loss cp)) \<and> marshalable (VMap (cp_Data cp))" (is "?m \<longleftrightarrow> ?l \<and> ?d")
proof
  assume m: ?m
  note member = vstruct_member_marshalable [OF m [unfolded ml_checkpoint_value_def]]
  have ?l using member [of "''loss''" "VFloat (cp_Loss cp)"] by (cases "cp_Loss cp = Fin 0") (simp_all add: vs_def vi_def vf_def)
  moreover have ?d
    using member [of "''data''" "VMap (cp_Data cp)"] by (cases "cp_Data cp = fmempty") (simp_all add: vs_def vi_def vf_def)
  ultimately show "?l \<and> ?d" ..
next
  assume "?l \<and> ?d"
  then show ?m
    unfolding ml_checkpoint_value_def
    by (intro vstruct_members) (simp add: vs_def vi_def vf_def del: marshalable.simps(4,8))
qed

lemma checkpoint_go_value:
  assumes "in_int64 (cp_Epoch cp)" "in_int64 (cp_Step cp)" "go_value (VFloat (cp_Loss cp))" "go_map (cp_Data cp)"
  shows "go_value (ml_checkpoint_value cp)"
  unfolding ml_checkpoint_value_def
  by (intro vstruct_members) (use assms in \<open>simp add: vs_def vi_def vf_def go_map_def del: go_value.simps(4,8)\<close>)

text \<open>
  C25: a checkpoint that a worker saved comes back when the job is delivered again: if a
  \<open>Checkpoint\<close> is marshalled, stored by the server under \<open>last_checkpoint\<close> in a job's metadata and decoded with
  the job, \<open>GetLastCheckpoint\<close> returns it with every member: ids, epoch, step, loss, storage key and
  creation time unchanged, the values of \<open>Data\<close> as JSON decoding makes them (a Go \<open>int\<close> in it is
  a \<open>float64\<close> then). Only a checkpoint with a number that is not finite, as its loss or in its
  data, cannot be marshalled. The epoch and the step travel as JSON numbers that are decoded into a
  \<open>float64\<close>, so they must not exceed \<open>2^53\<close>.
\<close>

theorem ml_checkpoint_roundtrip:
  assumes "\<bar>cp_Epoch cp\<bar> \<le> 2 ^ 53" "\<bar>cp_Step cp\<bar> \<le> 2 ^ 53" "go_value (VFloat (cp_Loss cp))"
    and "go_map (cp_Data cp)"
  shows "case marshal (ml_checkpoint_value cp) of
      None \<Rightarrow> \<not> (marshalable (VFloat (cp_Loss cp)) \<and> marshalable (VMap (cp_Data cp)))
    | Some j \<Rightarrow> \<exists>v. unmarshal_any j = Some v
        \<and> GetLastCheckpoint (job\<lparr>job_Meta := fmupd ''last_checkpoint'' v m\<rparr>)
          = Some (cp\<lparr>cp_Data := as_decoded_map (cp_Data cp)\<rparr>)"
proof (cases "marshalable (ml_checkpoint_value cp)")
  case False
  then have "marshal (ml_checkpoint_value cp) = None" by (simp add: marshal_def)
  with False show ?thesis unfolding checkpoint_marshalable by (simp only: option.case simp_thms)
next
  case True
  note go = checkpoint_go_value [OF small_in_int64 [OF assms(1)] small_in_int64 [OF assms(2)] assms(3,4)]
  have floats: "f64_to_int64 (f64_of_int (cp_Epoch cp)) = cp_Epoch cp" "f64_to_int64 (f64_of_int (cp_Step cp)) = cp_Step cp"
    using small_int_float [OF assms(1)] small_int_float [OF assms(2)] by (simp_all add: f64_of_int_def)
  have "GetLastCheckpoint (job\<lparr>job_Meta := fmupd ''last_checkpoint'' (as_decoded (ml_checkpoint_value cp)) m\<rparr>)
      = Some (cp\<lparr>cp_Data := as_decoded_map (cp_Data cp)\<rparr>)"
    unfolding ml_checkpoint_value_def vstruct_def GetLastCheckpoint_def
    by (cases cp) (use floats in
        \<open>simp add: vs_def vi_def vf_def as_string_def as_float_def as_decoded_map_def\<close>)
  with True go_value_decodable [OF go True] from_to_json_go [OF go True] show ?thesis
    by (simp add: marshal_def unmarshal_any_def)
qed

definition sample_checkpoint :: ml_checkpoint where
  "sample_checkpoint = \<lparr>cp_JobID = ''j1'', cp_Epoch = 12, cp_Step = 4000, cp_Loss = Fin (1 / 4),
     cp_StorageKey = ''s3://b/k'', cp_CreatedAt = [],
     cp_Data = fmap_of_list [(''seed'', VInt 7)]\<rparr>"

theorem ml_checkpoint_roundtrip_witness:
  "\<exists>v. Option.bind (marshal (ml_checkpoint_value sample_checkpoint)) unmarshal_any = Some v
    \<and> GetLastCheckpoint (zero_job\<lparr>job_Meta := fmupd ''last_checkpoint'' v fmempty\<rparr>)
      = Some (sample_checkpoint\<lparr>cp_Data := as_decoded_map (cp_Data sample_checkpoint)\<rparr>)"
proof -
  have "f64_rep (1 / 4 :: rat)"
    unfolding f64_rep_def by (intro exI [of _ 1] exI [of _ "-2"]) simp
  then have loss: "go_value (VFloat (cp_Loss sample_checkpoint))"
    by (simp add: sample_checkpoint_def f64_of_rat_rep f64_limit_def)
  have ok: "\<bar>cp_Epoch sample_checkpoint\<bar> \<le> 2 ^ 53" "\<bar>cp_Step sample_checkpoint\<bar> \<le> 2 ^ 53"
    "go_map (cp_Data sample_checkpoint)"
    by (simp_all add: sample_checkpoint_def) (simp add: go_map_def in_int64_def)
  have "marshalable (VFloat (cp_Loss sample_checkpoint))" "marshalable (VMap (cp_Data sample_checkpoint))"
    by (simp_all add: sample_checkpoint_def)
  with ml_checkpoint_roundtrip [OF ok(1,2) loss ok(3), where job = zero_job and m = fmempty] show ?thesis
    by (auto split: option.splits)
qed

end
