(* ===== verification/Ml_Package.thy ===== *)
theory Ml_Package
  imports Ml_Resources
begin

text \<open>
  The package \<open>ml\<close> (\<open>ml/ml.go\<close>): resource requirements, model references, checkpoint, preemption
  and compute settings as enqueue options that put plain maps into a job's metadata, with their
  validation. The package is independent of \<open>ml.go\<close>, which does the same under other keys; the last
  part relates the two validations and shows which options compose.
\<close>

subsection \<open>Constants\<close>

definition GPUNvidiaA100 :: string where "GPUNvidiaA100 = ''nvidia-a100''"
definition GPUNvidiaH100 :: string where "GPUNvidiaH100 = ''nvidia-h100''"
definition GPUNvidiaH200 :: string where "GPUNvidiaH200 = ''nvidia-h200''"
definition GPUNvidiaT4 :: string where "GPUNvidiaT4 = ''nvidia-t4''"
definition GPUNvidiaL4 :: string where "GPUNvidiaL4 = ''nvidia-l4''"
definition GPUNvidiaL40S :: string where "GPUNvidiaL40S = ''nvidia-l40s''"
definition GPUNvidiaV100 :: string where "GPUNvidiaV100 = ''nvidia-v100''"
definition GPUNvidiaA10G :: string where "GPUNvidiaA10G = ''nvidia-a10g''"
definition GPUNvidiaB200 :: string where "GPUNvidiaB200 = ''nvidia-b200''"
definition GPUAmdMI250 :: string where "GPUAmdMI250 = ''amd-mi250''"
definition GPUAmdMI300X :: string where "GPUAmdMI300X = ''amd-mi300x''"
definition GPUGoogleTPUv5 :: string where "GPUGoogleTPUv5 = ''google-tpu-v5''"

definition TPUv4 :: string where "TPUv4 = ''v4''"
definition TPUv5e :: string where "TPUv5e = ''v5e''"
definition TPUv5p :: string where "TPUv5p = ''v5p''"
definition TPUv6e :: string where "TPUv6e = ''v6e''"

definition PrecisionFP32 :: string where "PrecisionFP32 = ''fp32''"
definition PrecisionFP16 :: string where "PrecisionFP16 = ''fp16''"
definition PrecisionBF16 :: string where "PrecisionBF16 = ''bf16''"
definition PrecisionFP8 :: string where "PrecisionFP8 = ''fp8''"
definition PrecisionINT8 :: string where "PrecisionINT8 = ''int8''"
definition PrecisionINT4 :: string where "PrecisionINT4 = ''int4''"

definition RuntimePyTorch :: string where "RuntimePyTorch = ''pytorch''"
definition RuntimeTensorFlow :: string where "RuntimeTensorFlow = ''tensorflow''"
definition RuntimeONNX :: string where "RuntimeONNX = ''onnx''"
definition RuntimeTriton :: string where "RuntimeTriton = ''triton''"
definition RuntimeVLLM :: string where "RuntimeVLLM = ''vllm''"
definition RuntimeTGI :: string where "RuntimeTGI = ''tgi''"
definition RuntimeCustom :: string where "RuntimeCustom = ''custom''"

definition StrategyNone :: string where "StrategyNone = ''none''"
definition StrategyDataParallel :: string where "StrategyDataParallel = ''data_parallel''"
definition StrategyTensorParallel :: string where "StrategyTensorParallel = ''tensor_parallel''"
definition StrategyPipelineParallel :: string where "StrategyPipelineParallel = ''pipeline_parallel''"
definition StrategyFSDP :: string where "StrategyFSDP = ''fsdp''"
definition StrategyDeepSpeed :: string where "StrategyDeepSpeed = ''deepspeed''"

definition InterconnectNVLink :: string where "InterconnectNVLink = ''nvlink''"
definition InterconnectPCIe :: string where "InterconnectPCIe = ''pcie''"
definition InterconnectAny :: string where "InterconnectAny = ''any''"

subsection \<open>Requirements\<close>

record gpu_requirements =
  gr_Type :: string
  gr_Count :: int
  gr_MemoryGB :: f64
  gr_ComputeCapability :: string
  gr_Interconnect :: string

record tpu_requirements =
  tr_Type :: string
  tr_Topology :: string
  tr_ChipCount :: int

record cpu_requirements =
  cr_Cores :: int

record resource_requirements =
  rr_GPU :: "gpu_requirements option"
  rr_TPU :: "tpu_requirements option"
  rr_CPU :: "cpu_requirements option"
  rr_MemoryGB :: f64
  rr_StorageGB :: f64
  rr_ShmSizeGB :: f64

definition no_requirements :: resource_requirements where
  "no_requirements = \<lparr>rr_GPU = None, rr_TPU = None, rr_CPU = None, rr_MemoryGB = Fin 0,
     rr_StorageGB = Fin 0, rr_ShmSizeGB = Fin 0\<rparr>"

record model_reference =
  mr_Name :: string
  mr_Version :: string
  mr_Registry :: string
  mr_Checksum :: string
  mr_Format :: string

record checkpoint_settings =
  cs_Enabled :: bool
  cs_IntervalSec :: int
  cs_StorageURI :: string
  cs_MaxCheckpoints :: int

record preemption_config =
  pc_Preemptible :: bool
  pc_GracePeriodSec :: int
  pc_CheckpointOnPreempt :: bool

record compute_config =
  cc_Runtime :: string
  cc_Precision :: string
  cc_DistributedStrategy :: string
  cc_MaxTokens :: int
  cc_MaxBatchSize :: int

subsection \<open>Maps on the wire\<close>

text \<open>Members set only where the code's condition holds: a text that is not empty, a positive number.\<close>

definition some_str :: "string \<Rightarrow> any option" where
  "some_str s = (if s \<noteq> [] then Some (VStr s) else None)"
definition pos_int :: "int \<Rightarrow> any option" where
  "pos_int n = (if 0 < n then Some (VInt n) else None)"
definition pos_float :: "f64 \<Rightarrow> any option" where
  "pos_float f = (if f64_less (Fin 0) f then Some (VFloat f) else None)"

definition toResourceMap :: "resource_requirements \<Rightarrow> any" where
  "toResourceMap req = vstruct
    [(''gpu'', map_option (\<lambda>g. vstruct [(''count'', Some (VInt (gr_Count g))), (''type'', some_str (gr_Type g)),
        (''memory_gb'', pos_float (gr_MemoryGB g)), (''compute_capability'', some_str (gr_ComputeCapability g)),
        (''interconnect'', some_str (gr_Interconnect g))]) (rr_GPU req)),
     (''tpu'', map_option (\<lambda>t. vstruct [(''type'', some_str (tr_Type t)), (''topology'', some_str (tr_Topology t)),
        (''chip_count'', pos_int (tr_ChipCount t))]) (rr_TPU req)),
     (''cpu'', map_option (\<lambda>c. vstruct [(''cores'', Some (VInt (cr_Cores c)))]) (rr_CPU req)),
     (''memory_gb'', pos_float (rr_MemoryGB req)), (''storage_gb'', pos_float (rr_StorageGB req)),
     (''shm_size_gb'', pos_float (rr_ShmSizeGB req))]"

definition toModelMap :: "model_reference \<Rightarrow> any" where
  "toModelMap ref = vstruct
    [(''name'', Some (VStr (mr_Name ref))), (''version'', some_str (mr_Version ref)),
     (''registry'', some_str (mr_Registry ref)), (''checksum'', some_str (mr_Checksum ref)),
     (''format'', some_str (mr_Format ref))]"

subsection \<open>Options\<close>

definition WithResources :: "resource_requirements \<Rightarrow> enqueue_option" where
  "WithResources req = WithMeta (fmap_of_list [(''resources'', toResourceMap req)])"

definition WithGPU :: "string \<Rightarrow> int \<Rightarrow> f64 \<Rightarrow> enqueue_option" where
  "WithGPU gpuType count memoryGB = WithResources (no_requirements\<lparr>rr_GPU := Some
     \<lparr>gr_Type = gpuType, gr_Count = count, gr_MemoryGB = memoryGB, gr_ComputeCapability = [],
      gr_Interconnect = []\<rparr>\<rparr>)"

definition WithGPUFull :: "string \<Rightarrow> int \<Rightarrow> f64 \<Rightarrow> string \<Rightarrow> string \<Rightarrow> enqueue_option" where
  "WithGPUFull gpuType count memoryGB computeCapability interconnect = WithResources
     (no_requirements\<lparr>rr_GPU := Some \<lparr>gr_Type = gpuType, gr_Count = count, gr_MemoryGB = memoryGB,
        gr_ComputeCapability = computeCapability, gr_Interconnect = interconnect\<rparr>\<rparr>)"

definition WithTPU :: "string \<Rightarrow> string \<Rightarrow> int \<Rightarrow> enqueue_option" where
  "WithTPU tpuType topology chipCount = WithResources (no_requirements\<lparr>rr_TPU := Some
     \<lparr>tr_Type = tpuType, tr_Topology = topology, tr_ChipCount = chipCount\<rparr>\<rparr>)"

definition WithModel :: "model_reference \<Rightarrow> enqueue_option" where
  "WithModel ref = WithMeta (fmap_of_list [(''model'', toModelMap ref)])"

definition WithCheckpoint :: "checkpoint_settings \<Rightarrow> enqueue_option" where
  "WithCheckpoint cfg = WithMeta (fmap_of_list [(''checkpoint'', vstruct
     [(''enabled'', Some (VBool (cs_Enabled cfg))), (''interval_s'', pos_int (cs_IntervalSec cfg)),
      (''storage_uri'', some_str (cs_StorageURI cfg)), (''max_checkpoints'', pos_int (cs_MaxCheckpoints cfg))])])"

definition WithPreemption :: "preemption_config \<Rightarrow> enqueue_option" where
  "WithPreemption cfg = WithMeta (fmap_of_list [(''preemption'', vstruct
     [(''preemptible'', Some (VBool (pc_Preemptible cfg))), (''grace_period_s'', pos_int (pc_GracePeriodSec cfg)),
      (''checkpoint_on_preempt'', if pc_CheckpointOnPreempt cfg then Some (VBool True) else None)])])"

definition WithCompute :: "compute_config \<Rightarrow> enqueue_option" where
  "WithCompute cfg = WithMeta (fmap_of_list [(''compute'', vstruct
     [(''runtime'', some_str (cc_Runtime cfg)), (''precision'', some_str (cc_Precision cfg)),
      (''distributed_strategy'', some_str (cc_DistributedStrategy cfg)),
      (''max_tokens'', pos_int (cc_MaxTokens cfg)), (''max_batch_size'', pos_int (cc_MaxBatchSize cfg))])])"

subsection \<open>Validation\<close>

definition gpu_checks :: "gpu_requirements \<Rightarrow> (bool \<times> string) list" where
  "gpu_checks g =
    [(gr_Count g < 0, ''ml: gpu count must be non-negative, got '' @ show_int (gr_Count g)),
     (f64_less (gr_MemoryGB g) (Fin 0), ''ml: gpu memory_gb must be non-negative, got '' @ show_f6 (gr_MemoryGB g)),
     (f64_less (Fin 0) (gr_MemoryGB g) \<and> gr_Count g = 0, ''ml: gpu memory_gb requires count > 0''),
     (gr_Type g \<noteq> [] \<and> gr_Count g = 0, ''ml: gpu type requires count > 0''),
     (gr_ComputeCapability g \<noteq> [] \<and> gr_Count g = 0, ''ml: gpu compute_capability requires count > 0''),
     (gr_Interconnect g \<noteq> [] \<and> gr_Count g < 2, ''ml: gpu interconnect requires count >= 2'')]"

definition tpu_checks :: "tpu_requirements \<Rightarrow> (bool \<times> string) list" where
  "tpu_checks t =
    [(tr_ChipCount t < 0, ''ml: tpu chip_count must be non-negative, got '' @ show_int (tr_ChipCount t)),
     (tr_Topology t \<noteq> [] \<and> tr_Type t = [], ''ml: tpu topology requires type to be set'')]"

definition ValidateResources :: "resource_requirements \<Rightarrow> go_error option" where
  "ValidateResources req = first_error
    ((case rr_GPU req of Some g \<Rightarrow> gpu_checks g | None \<Rightarrow> [])
     @ (case rr_TPU req of Some t \<Rightarrow> tpu_checks t | None \<Rightarrow> [])
     @ (case rr_CPU req of Some c \<Rightarrow>
          [(cr_Cores c < 0, ''ml: cpu cores must be non-negative, got '' @ show_int (cr_Cores c))] | None \<Rightarrow> [])
     @ [(f64_less (rr_MemoryGB req) (Fin 0), ''ml: memory_gb must be non-negative, got '' @ show_f6 (rr_MemoryGB req)),
        (f64_less (rr_StorageGB req) (Fin 0), ''ml: storage_gb must be non-negative, got '' @ show_f6 (rr_StorageGB req)),
        (f64_less (rr_ShmSizeGB req) (Fin 0), ''ml: shm_size_gb must be non-negative, got '' @ show_f6 (rr_ShmSizeGB req))])"

definition ValidateModel :: "model_reference \<Rightarrow> go_error option" where
  "ValidateModel ref = (if mr_Name ref = [] then Some (PlainErr ''ml: model name is required'') else None)"

definition ValidateCheckpoint :: "checkpoint_settings \<Rightarrow> go_error option" where
  "ValidateCheckpoint cfg = first_error
    [(cs_IntervalSec cfg < 0, ''ml: checkpoint interval_s must be non-negative, got '' @ show_int (cs_IntervalSec cfg)),
     (cs_MaxCheckpoints cfg < 0,
      ''ml: checkpoint max_checkpoints must be non-negative, got '' @ show_int (cs_MaxCheckpoints cfg))]"

subsection \<open>The two validations agree\<close>

text \<open>The requirements in the terms of \<open>ml.go\<close>, where an absent part is one of zero values.\<close>

definition flat_requirements :: "resource_requirements \<Rightarrow> ml_resources" where
  "flat_requirements req = NewMLResources\<lparr>
     ml_GPUType := (case rr_GPU req of Some g \<Rightarrow> gr_Type g | None \<Rightarrow> []),
     ml_GPUCount := (case rr_GPU req of Some g \<Rightarrow> gr_Count g | None \<Rightarrow> 0),
     ml_GPUMemoryGB := (case rr_GPU req of Some g \<Rightarrow> gr_MemoryGB g | None \<Rightarrow> Fin 0),
     ml_GPUComputeCapability := (case rr_GPU req of Some g \<Rightarrow> gr_ComputeCapability g | None \<Rightarrow> []),
     ml_GPUInterconnect := (case rr_GPU req of Some g \<Rightarrow> gr_Interconnect g | None \<Rightarrow> []),
     ml_TPUType := (case rr_TPU req of Some t \<Rightarrow> tr_Type t | None \<Rightarrow> []),
     ml_TPUTopology := (case rr_TPU req of Some t \<Rightarrow> tr_Topology t | None \<Rightarrow> []),
     ml_TPUChipCount := (case rr_TPU req of Some t \<Rightarrow> tr_ChipCount t | None \<Rightarrow> 0),
     ml_CPUCores := (case rr_CPU req of Some c \<Rightarrow> cr_Cores c | None \<Rightarrow> 0),
     ml_MemoryGB := rr_MemoryGB req, ml_StorageGB := rr_StorageGB req, ml_ShmSizeGB := rr_ShmSizeGB req\<rparr>"

lemma first_error_none:
  "first_error [] = None \<longleftrightarrow> True"
  "first_error ((bad, msg) # cs) = None \<longleftrightarrow> \<not> bad \<and> first_error cs = None"
  "first_error (cs @ cs') = None \<longleftrightarrow> first_error cs = None \<and> first_error cs' = None"
  by (simp, simp, induction cs rule: first_error.induct) simp_all

lemmas accepted_iff = ValidateResources_def MLResources_Validate_def gpu_checks_def tpu_checks_def
  first_error_none

lemma accepts_gpu:
  "first_error (gpu_checks g) = None \<longleftrightarrow> 0 \<le> gr_Count g \<and> \<not> f64_less (gr_MemoryGB g) (Fin 0)
    \<and> (gr_Count g = 0 \<longrightarrow> \<not> f64_less (Fin 0) (gr_MemoryGB g) \<and> gr_Type g = [] \<and> gr_ComputeCapability g = [])
    \<and> (gr_Interconnect g = [] \<or> 2 \<le> gr_Count g)"
  unfolding accepted_iff by (simp add: not_less) blast

lemma accepts_tpu:
  "first_error (tpu_checks t) = None \<longleftrightarrow> 0 \<le> tr_ChipCount t \<and> (tr_Type t = [] \<longrightarrow> tr_Topology t = [])"
  unfolding accepted_iff by (simp add: not_less) blast

lemma accepts_flat:
  assumes "ml_Accelerator r = []" "ml_MaxTokens r = 0" "ml_MaxBatchSize r = 0" "ml_TimeoutSeconds r = 0"
  shows "MLResources_Validate r = None \<longleftrightarrow> (0 \<le> ml_GPUCount r \<and> \<not> f64_less (ml_GPUMemoryGB r) (Fin 0)
    \<and> (ml_GPUCount r = 0 \<longrightarrow> \<not> f64_less (Fin 0) (ml_GPUMemoryGB r) \<and> ml_GPUType r = []
      \<and> ml_GPUComputeCapability r = [])
    \<and> (ml_GPUInterconnect r = [] \<or> 2 \<le> ml_GPUCount r))
    \<and> (0 \<le> ml_TPUChipCount r \<and> (ml_TPUType r = [] \<longrightarrow> ml_TPUTopology r = []))
    \<and> 0 \<le> ml_CPUCores r \<and> \<not> f64_less (ml_MemoryGB r) (Fin 0)
    \<and> \<not> f64_less (ml_StorageGB r) (Fin 0) \<and> \<not> f64_less (ml_ShmSizeGB r) (Fin 0)"
  using assms unfolding accepted_iff by (simp add: not_less) blast

text \<open>
  C26: The two independent validators of resource requirements accept the same ones:
  \<open>ml.ValidateResources\<close> reports no error exactly when \<open>MLResources.Validate\<close> reports none on the same
  requirements written flat, for every combination of absent parts.
\<close>

theorem ml_validators_agree:
  "ValidateResources req = None \<longleftrightarrow> MLResources_Validate (flat_requirements req) = None"
proof -
  have "ValidateResources req = None \<longleftrightarrow>
      (case rr_GPU req of Some g \<Rightarrow> first_error (gpu_checks g) = None | None \<Rightarrow> True)
      \<and> (case rr_TPU req of Some t \<Rightarrow> first_error (tpu_checks t) = None | None \<Rightarrow> True)
      \<and> (case rr_CPU req of Some c \<Rightarrow> 0 \<le> cr_Cores c | None \<Rightarrow> True)
      \<and> \<not> f64_less (rr_MemoryGB req) (Fin 0) \<and> \<not> f64_less (rr_StorageGB req) (Fin 0)
      \<and> \<not> f64_less (rr_ShmSizeGB req) (Fin 0)"
    unfolding ValidateResources_def first_error_none
    by (simp add: first_error_none not_less split: option.split del: first_error.simps(2))
  also have "\<dots> \<longleftrightarrow> MLResources_Validate (flat_requirements req) = None"
    by (subst accepts_flat)
      (simp_all add: flat_requirements_def NewMLResources_def accepts_gpu accepts_tpu split: option.split)
  finally show ?thesis .
qed

subsection \<open>Composition of the options\<close>

text \<open>
  Requirements do not add up: after \<open>WithGPU\<close> followed by \<open>WithTPU\<close> the job's \<open>resources\<close> name
  the TPU only, whatever options came before, because each shorthand replaces the whole entry. Options
  under different keys do keep each other: a model reference given before is still there.
\<close>

theorem ml_requirements_replaced:
  "fmlookup (cfg_meta (resolveEnqueueConfig now (opts @ [WithModel ref, WithGPU gt n mem, WithTPU tt tp k])))
      ''resources'' =
    Some (vstruct [(''tpu'', Some (vstruct [(''type'', some_str tt), (''topology'', some_str tp),
      (''chip_count'', pos_int k)]))])
    \<and> fmlookup (cfg_meta (resolveEnqueueConfig now (opts @ [WithModel ref, WithGPU gt n mem, WithTPU tt tp k])))
      ''model'' = Some (toModelMap ref)"
  by (simp add: resolveEnqueueConfig_def WithModel_def WithGPU_def WithTPU_def WithResources_def
      WithMeta_def toResourceMap_def no_requirements_def pos_float_def vstruct_def List.map_filter_def)

end
