(* ===== verification/Agent.thy ===== *)
theory Agent
  imports Client
begin

text \<open>
  The client of the agent API (\<open>agent/agent.go\<close>): forks, merges, pauses, resumes and replays of an
  agent's job. Each call is one request without retries; three statuses have sentinel errors.
  The outside is the record \<open>env\<close> of the transport. \<open>first\<close> is \<open>Decoder.Decode\<close> of a text, which
  reads the first JSON value.
\<close>

subsection \<open>Data\<close>

text \<open>The sentinels of the package beside the errors of the rest of the SDK.\<close>

datatype agent_error = ErrAgentNotFound | ErrBranchConflict | ErrAgentNotPaused | AgentErr go_error

definition MergeOurs :: string where "MergeOurs = ''ours''"
definition MergeTheirs :: string where "MergeTheirs = ''theirs''"
definition MergeUnion :: string where "MergeUnion = ''union''"

record fork_options =
  fo_AtTurn :: int
  fo_BranchName :: string

record fork_result =
  fr_BranchID :: string
  fr_ContentID :: string

record merge_options =
  mo_BranchA :: string
  mo_BranchB :: string
  mo_Strategy :: string

record merge_result =
  mg_MergedID :: string
  mg_Conflicts :: "string list"

record resume_decision =
  rd_Approved :: bool
  rd_Comment :: string
  rd_Metadata :: anymap

record replay_options =
  ro_FromTurn :: int
  ro_MockProviders :: "(string, string) fmap"

record divergence =
  dv_Turn :: int
  dv_Expected :: string
  dv_Actual :: string

record replay_result =
  rp_Steps :: int
  rp_Divergences :: "divergence list"

subsection \<open>JSON\<close>

definition enc_fork_options :: "fork_options \<Rightarrow> json option" where
  "enc_fork_options o1 = struct_json
     [(''at_turn'', enc_int (fo_AtTurn o1)), (''branch_name'', enc_string (fo_BranchName o1))]"

definition dec_fork_result :: "json \<Rightarrow> fork_result option" where
  "dec_fork_result j = Option.bind (obj_members (Some j)) (\<lambda>m.
     Option.bind (dec_string (fmlookup m ''branch_id'')) (\<lambda>b.
     Option.bind (dec_string (fmlookup m ''content_id'')) (\<lambda>c.
     Some \<lparr>fr_BranchID = b, fr_ContentID = c\<rparr>)))"

definition enc_merge_options :: "merge_options \<Rightarrow> json option" where
  "enc_merge_options o1 = struct_json
     [(''branch_a'', enc_string (mo_BranchA o1)), (''branch_b'', enc_string (mo_BranchB o1)),
      (''strategy'', enc_string (mo_Strategy o1))]"

definition dec_merge_result :: "json \<Rightarrow> merge_result option" where
  "dec_merge_result j = Option.bind (obj_members (Some j)) (\<lambda>m.
     Option.bind (dec_string (fmlookup m ''merged_id'')) (\<lambda>i.
     Option.bind (dec_list dec_string (fmlookup m ''conflicts'')) (\<lambda>cs.
     Some \<lparr>mg_MergedID = i, mg_Conflicts = cs\<rparr>)))"

definition enc_pause :: "string \<Rightarrow> json option" where
  "enc_pause reason = struct_json [(''reason'', enc_string reason)]"

definition enc_resume_decision :: "resume_decision \<Rightarrow> json option" where
  "enc_resume_decision d = struct_json
     [(''approved'', enc_bool (rd_Approved d)), (''comment'', enc_string (rd_Comment d)),
      (''metadata'', enc_json (marshal (VMap (rd_Metadata d))))]"

definition enc_replay_options :: "replay_options \<Rightarrow> json option" where
  "enc_replay_options o1 = struct_json
     [(''from_turn'', enc_int (ro_FromTurn o1)),
      (''mock_providers'', enc_json (Some (JObj (fmmap JStr (ro_MockProviders o1)))))]"

definition dec_divergence :: "json option \<Rightarrow> divergence option" where
  "dec_divergence d = Option.bind (obj_members d) (\<lambda>m.
     Option.bind (dec_int (fmlookup m ''turn'')) (\<lambda>n.
     Option.bind (dec_string (fmlookup m ''expected'')) (\<lambda>e.
     Option.bind (dec_string (fmlookup m ''actual'')) (\<lambda>a.
     Some \<lparr>dv_Turn = n, dv_Expected = e, dv_Actual = a\<rparr>))))"

definition dec_replay_result :: "json \<Rightarrow> replay_result option" where
  "dec_replay_result j = Option.bind (obj_members (Some j)) (\<lambda>m.
     Option.bind (dec_int (fmlookup m ''steps'')) (\<lambda>n.
     Option.bind (dec_list dec_divergence (fmlookup m ''divergences'')) (\<lambda>ds.
     Some \<lparr>rp_Steps = n, rp_Divergences = ds\<rparr>)))"

subsection \<open>The client\<close>

record agent_client =
  ag_baseURL :: string
  ag_httpClient :: http_client

type_synonym agent_option = "agent_client \<Rightarrow> agent_client"

definition Agent_WithHTTPClient :: "http_client \<Rightarrow> agent_option" where
  "Agent_WithHTTPClient hc a = a\<lparr>ag_httpClient := hc\<rparr>"

text \<open>\<open>parse\<close> is \<open>url.Parse\<close>: an error, or the scheme and the host; \<open>dflt\<close> is \<open>http.DefaultClient\<close>.\<close>

definition NewAgentClient ::
  "(string \<Rightarrow> go_error + string \<times> string) \<Rightarrow> http_client \<Rightarrow> string \<Rightarrow> agent_option list \<Rightarrow> go_error + agent_client" where
  "NewAgentClient parse dflt baseURL opts =
     (if baseURL = [] then Inl (PlainErr ''ojs: base URL must not be empty'')
      else case parse baseURL of
        Inl e \<Rightarrow> Inl (Wrapf ''ojs: invalid base URL: '' e)
      | Inr (scheme, host) \<Rightarrow>
          (if scheme \<noteq> ''http'' \<and> scheme \<noteq> ''https'' then
             Inl (PlainErr (''ojs: unsupported scheme '' @ go_quote scheme @ '', must be http or https''))
           else Inr (fold (\<lambda>o1 c. o1 c) opts \<lparr>ag_baseURL = baseURL, ag_httpClient = dflt\<rparr>)))"

type_synonym 'a agent_call = "(agent_error + 'a) \<times> trace"

text \<open>A result of another status than success, if it is one.\<close>

definition agent_status :: "int \<Rightarrow> agent_error option" where
  "agent_status status =
     (if status = 404 then Some ErrAgentNotFound
      else if status = 409 then Some ErrBranchConflict
      else if status = 422 then Some ErrAgentNotPaused
      else if status < 200 \<or> 300 \<le> status then
        Some (AgentErr (PlainErr (''ojs: unexpected status '' @ show_int status)))
      else None)"

definition agent_result ::
  "env \<Rightarrow> (string \<Rightarrow> json option) \<Rightarrow> 'a target \<Rightarrow> http_response \<Rightarrow> agent_error + 'a" where
  "agent_result env first result resp = (case agent_status (rs_status resp) of
     Some e \<Rightarrow> Inl e
   | None \<Rightarrow> (case result of
       Discard z \<Rightarrow> Inr z
     | Into z dec \<Rightarrow> (case rs_body resp of
         Inl e \<Rightarrow> Inl (AgentErr (Wrapf ''ojs: failed to decode response: '' e))
       | Inr body \<Rightarrow> (case Option.bind (first body) dec of
           None \<Rightarrow> Inl (AgentErr (Wrapf ''ojs: failed to decode response: '' (env_json_error env body)))
         | Some r \<Rightarrow> Inr r))))"

definition agent_request :: "agent_client \<Rightarrow> string \<Rightarrow> string \<Rightarrow> json \<Rightarrow> http_request" where
  "agent_request c meth path j = \<lparr>rq_method = meth, rq_url = ag_baseURL c @ path,
     rq_headers = header_set ''Content-Type'' ''application/json'' [], rq_body = Some j\<rparr>"

definition doJSON ::
  "env \<Rightarrow> (string \<Rightarrow> json option) \<Rightarrow> agent_client \<Rightarrow> string \<Rightarrow> string \<Rightarrow> json option \<Rightarrow> 'a target \<Rightarrow> trace
     \<Rightarrow> 'a agent_call" where
  "doJSON env first c meth path body result t = (case body of
     None \<Rightarrow> (Inl (AgentErr (Wrapf ''ojs: failed to marshal request body: '' (env_marshal_error env))), t)
   | Some j \<Rightarrow> (case env_url_error env (ag_baseURL c @ path) of
       Some e \<Rightarrow> (Inl (AgentErr (Wrapf ''ojs: failed to create request: '' e)), t)
     | None \<Rightarrow> (case http_Do env (agent_request c meth path j) t of
         (Inl e, t1) \<Rightarrow> (Inl (AgentErr (Wrapf ''ojs: request failed: '' e)), t1)
       | (Inr resp, t1) \<Rightarrow> (agent_result env first result resp, t1))))"

definition agent_path :: "string \<Rightarrow> string \<Rightarrow> string" where
  "agent_path jobID op = ''/v1/agent/jobs/'' @ jobID @ ''/'' @ op"

definition Agent_Fork ::
  "env \<Rightarrow> (string \<Rightarrow> json option) \<Rightarrow> agent_client \<Rightarrow> string \<Rightarrow> fork_options \<Rightarrow> trace \<Rightarrow> fork_result agent_call" where
  "Agent_Fork env first c jobID opts t = doJSON env first c ''POST'' (agent_path jobID ''fork'')
     (enc_fork_options opts) (Into \<lparr>fr_BranchID = [], fr_ContentID = []\<rparr> dec_fork_result) t"

definition Agent_Merge ::
  "env \<Rightarrow> (string \<Rightarrow> json option) \<Rightarrow> agent_client \<Rightarrow> string \<Rightarrow> merge_options \<Rightarrow> trace \<Rightarrow> merge_result agent_call" where
  "Agent_Merge env first c jobID opts t = doJSON env first c ''POST'' (agent_path jobID ''merge'')
     (enc_merge_options opts) (Into \<lparr>mg_MergedID = [], mg_Conflicts = []\<rparr> dec_merge_result) t"

definition Agent_Pause ::
  "env \<Rightarrow> (string \<Rightarrow> json option) \<Rightarrow> agent_client \<Rightarrow> string \<Rightarrow> string \<Rightarrow> trace \<Rightarrow> unit agent_call" where
  "Agent_Pause env first c jobID reason t = doJSON env first c ''POST'' (agent_path jobID ''pause'')
     (enc_pause reason) (Discard ()) t"

definition Agent_Resume ::
  "env \<Rightarrow> (string \<Rightarrow> json option) \<Rightarrow> agent_client \<Rightarrow> string \<Rightarrow> resume_decision \<Rightarrow> trace \<Rightarrow> unit agent_call" where
  "Agent_Resume env first c jobID decision t = doJSON env first c ''POST'' (agent_path jobID ''resume'')
     (enc_resume_decision decision) (Discard ()) t"

definition Agent_Replay ::
  "env \<Rightarrow> (string \<Rightarrow> json option) \<Rightarrow> agent_client \<Rightarrow> string \<Rightarrow> replay_options \<Rightarrow> trace \<Rightarrow> replay_result agent_call" where
  "Agent_Replay env first c jobID opts t = doJSON env first c ''POST'' (agent_path jobID ''replay'')
     (enc_replay_options opts) (Into \<lparr>rp_Steps = 0, rp_Divergences = []\<rparr> dec_replay_result) t"

subsection \<open>What the calls do\<close>

lemma doJSON_calm:
  assumes "calm env" "env_server env t (agent_request c meth path j) = Inr resp"
  shows "doJSON env first c meth path (Some j) result t =
    (agent_result env first result resp, t @ [EvReq (agent_request c meth path j)])"
  using assms by (simp add: doJSON_def http_Do_def calm_def)

lemma agent_request_url [simp]: "rq_url (agent_request c meth path j) = ag_baseURL c @ path"
  by (simp add: agent_request_def)

text \<open>
  A decision for a paused agent is sent once, whatever the answer, and the caller can tell what
  became of it: success exactly for the statuses 200 to 299, and one sentinel each for an unknown
  job (404), a conflict (409) and an agent that is not paused (422). In contrast to the transport
  of the client, 429 and 503 are not retried.
\<close>

theorem agent_resume_outcome:
  assumes "calm env" "enc_resume_decision d = Some j"
    and "env_server env t (agent_request c ''POST'' (agent_path jid ''resume'') j) = Inr resp"
  shows "\<exists>r. Agent_Resume env first c jid d t =
      (r, t @ [EvReq (agent_request c ''POST'' (agent_path jid ''resume'') j)])
    \<and> (r = Inr () \<longleftrightarrow> 200 \<le> rs_status resp \<and> rs_status resp < 300)
    \<and> (r = Inl ErrAgentNotFound \<longleftrightarrow> rs_status resp = 404)
    \<and> (r = Inl ErrBranchConflict \<longleftrightarrow> rs_status resp = 409)
    \<and> (r = Inl ErrAgentNotPaused \<longleftrightarrow> rs_status resp = 422)"
  using assms
  by (auto simp: Agent_Resume_def doJSON_calm agent_result_def agent_status_def)

text \<open>
  The job id is put into the URL as it is: forking with an id that ends in \<open>/pause?\<close> sends a
  request to the path of \<open>Pause\<close>, so an id from outside chooses the operation.
\<close>

theorem agent_id_chooses_operation:
  assumes "calm env" "env_server env t (agent_request c ''POST'' (agent_path (jid @ ''/pause?'') ''fork'') j) = Inr resp"
    and "enc_fork_options opts = Some j"
  shows "\<exists>q. snd (Agent_Fork env first c (jid @ ''/pause?'') opts t) = t @ [EvReq q]
    \<and> rq_method q = ''POST'' \<and> rq_url q = ag_baseURL c @ agent_path jid ''pause'' @ ''?/fork''"
  using assms
  by (simp add: Agent_Fork_def doJSON_calm agent_request_def) (simp add: agent_path_def)

text \<open>What a server sends for a replay.\<close>

definition enc_replay_result :: "replay_result \<Rightarrow> json" where
  "enc_replay_result r = JObj (fmap_of_list [(''steps'', JNum (of_int (rp_Steps r))),
     (''divergences'', JArr (map (\<lambda>d. JObj (fmap_of_list [(''turn'', JNum (of_int (dv_Turn d))),
        (''expected'', JStr (dv_Expected d)), (''actual'', JStr (dv_Actual d))])) (rp_Divergences r)))])"

lemma dec_enc_replay_result:
  assumes "in_int64 (rp_Steps r)" "list_all (\<lambda>d. in_int64 (dv_Turn d)) (rp_Divergences r)"
  shows "dec_replay_result (enc_replay_result r) = Some r"
proof -
  have "dec_list dec_divergence (Some (JArr (map (\<lambda>d. JObj (fmap_of_list [(''turn'', JNum (of_int (dv_Turn d))),
      (''expected'', JStr (dv_Expected d)), (''actual'', JStr (dv_Actual d))])) (rp_Divergences r))))
    = Some (rp_Divergences r)"
    using assms(2) by (intro dec_list_map) (auto simp: dec_divergence_def list_all_iff)
  then show ?thesis
    using assms(1) by (simp add: dec_replay_result_def enc_replay_result_def del: dec_list.simps)
qed

text \<open>
  A replay's report reaches the caller whole: every divergence of a reply with the status 200, in
  order, with its turn and both outputs, whether the replay diverged or not.
\<close>

theorem agent_replay_report:
  assumes "calm env" "enc_replay_options opts = Some j"
    and "env_server env t (agent_request c ''POST'' (agent_path jid ''replay'') j) =
      Inr \<lparr>rs_status = 200, rs_headers = h, rs_body = Inr body\<rparr>"
    and "first body = Some (enc_replay_result r)"
    and "in_int64 (rp_Steps r)" "list_all (\<lambda>d. in_int64 (dv_Turn d)) (rp_Divergences r)"
  shows "fst (Agent_Replay env first c jid opts t) = Inr r"
  using assms
  by (simp add: Agent_Replay_def doJSON_calm agent_result_def agent_status_def dec_enc_replay_result)

subsection \<open>Witnesses\<close>

definition sample_agent :: agent_client where
  "sample_agent = \<lparr>ag_baseURL = ''http://h'', ag_httpClient = SharedDefaultClient\<rparr>"

definition status_env :: "int \<Rightarrow> env" where
  "status_env s = plain_env (\<lambda>_ _. Inr \<lparr>rs_status = s, rs_headers = [], rs_body = Inr ''x''\<rparr>) (\<lambda>_. None)"

lemma status_env [simp]:
  "calm (status_env s)"
  "env_server (status_env s) t q = Inr \<lparr>rs_status = s, rs_headers = [], rs_body = Inr ''x''\<rparr>"
  by (simp only: status_env_def calm_plain_env) (simp add: status_env_def plain_env_def)

theorem agent_resume_outcome_witness:
  "fst (Agent_Resume (status_env 422) (\<lambda>_. None) sample_agent ''j'' \<lparr>rd_Approved = True, rd_Comment = [],
    rd_Metadata = fmempty\<rparr> []) = Inl ErrAgentNotPaused"
proof -
  let ?d = "\<lparr>rd_Approved = True, rd_Comment = [], rd_Metadata = fmempty\<rparr>"
  obtain j where j: "enc_resume_decision ?d = Some j"
    by (simp add: enc_resume_decision_def struct_json_def enc_bool_def enc_string_def enc_json_def marshal_def)
  from agent_resume_outcome [OF status_env(1) j status_env(2),
      where c = sample_agent and jid = "''j''" and first = "\<lambda>_. None" and t = "[]" and s1 = 422]
  show ?thesis by auto
qed

theorem agent_id_chooses_operation_witness:
  "\<exists>q. snd (Agent_Fork (status_env 200) (\<lambda>_. None) sample_agent ''j1/pause?'' \<lparr>fo_AtTurn = 0, fo_BranchName = []\<rparr> [])
      = [EvReq q] \<and> rq_url q = ''http://h/v1/agent/jobs/j1/pause?/fork''"
proof -
  let ?o = "\<lparr>fo_AtTurn = 0, fo_BranchName = []\<rparr>"
  obtain j where j: "enc_fork_options ?o = Some j"
    by (simp add: enc_fork_options_def struct_json_def enc_int_def enc_string_def)
  from agent_id_chooses_operation [OF status_env(1) status_env(2) j,
      where c = sample_agent and jid = "''j1''" and first = "\<lambda>_. None" and t = "[]"]
  show ?thesis by (auto simp: sample_agent_def agent_path_def)
qed

theorem agent_replay_report_witness:
  "fst (Agent_Replay (status_env 200) (\<lambda>_. Some (enc_replay_result \<lparr>rp_Steps = 3, rp_Divergences =
      [\<lparr>dv_Turn = 1, dv_Expected = ''a'', dv_Actual = ''b''\<rparr>]\<rparr>)) sample_agent ''j'' \<lparr>ro_FromTurn = 0,
      ro_MockProviders = fmempty\<rparr> [])
    = Inr \<lparr>rp_Steps = 3, rp_Divergences = [\<lparr>dv_Turn = 1, dv_Expected = ''a'', dv_Actual = ''b''\<rparr>]\<rparr>"
proof -
  obtain j where j: "enc_replay_options \<lparr>ro_FromTurn = 0, ro_MockProviders = fmempty\<rparr> = Some j"
    by (simp add: enc_replay_options_def struct_json_def enc_int_def enc_json_def)
  show ?thesis
    by (rule agent_replay_report [OF status_env(1) j status_env(2)]) (simp_all add: in_int64_def)
qed

end
