(* ===== verification/Attest.thy ===== *)
theory Attest
  imports Client
begin

text \<open>
  Attestations (\<open>attest/attest.go\<close>): the interface \<open>Attestor\<close> as a locale, with its law that a
  receipt of an attestation verifies, and the five implementations. Ed25519 and SHA-256 are the
  record \<open>crypto\<close>, a parameter; its one law, that a signature of a message verifies under the key's
  public part, is a hypothesis where it is used. Keys and digests have the sizes the
  packages prescribe. Hexadecimal text is written out.
\<close>

type_synonym bytes = "8 word list"

subsection \<open>Data\<close>

definition QuoteTypeAWSNitro :: string where "QuoteTypeAWSNitro = ''aws-nitro-v1''"
definition QuoteTypeIntelTDX :: string where "QuoteTypeIntelTDX = ''intel-tdx-v4''"
definition QuoteTypeAMDSEVSNP :: string where "QuoteTypeAMDSEVSNP = ''amd-sev-snp-v2''"
definition QuoteTypePQCOnly :: string where "QuoteTypePQCOnly = ''pqc-only''"
definition QuoteTypeNone :: string where "QuoteTypeNone = ''none''"

definition AlgorithmEd25519 :: string where "AlgorithmEd25519 = ''ed25519''"
definition AlgorithmMLDSA65 :: string where "AlgorithmMLDSA65 = ''ml-dsa-65''"
definition AlgorithmHybridEdMLDSA :: string where "AlgorithmHybridEdMLDSA = ''hybrid:Ed25519+ML-DSA-65''"

record attest_input =
  ai_JobID :: string
  ai_JobType :: string
  ai_ArgsHash :: string
  ai_ResultHash :: string
  ai_Timestamp :: time

record quote =
  qt_Type :: string
  qt_Evidence :: bytes
  qt_Nonce :: string
  qt_IssuedAt :: time

record jurisdiction =
  ju_Region :: string
  ju_Datacenter :: string
  ju_Prover :: string

record model_fingerprint =
  mf_SHA256 :: string
  mf_RegistryURL :: string

record signature =
  sg_Algorithm :: string
  sg_Value :: string
  sg_KeyID :: string

record attest_result =
  at_Quote :: "quote option"
  at_Jurisdiction :: "jurisdiction option"
  at_ModelFingerprint :: "model_fingerprint option"
  at_Signature :: signature

record receipt =
  rc_JobID :: string
  rc_Quote :: "quote option"
  rc_Jurisdiction :: "jurisdiction option"
  rc_ModelFingerprint :: "model_fingerprint option"
  rc_Signature :: signature
  rc_IssuedAt :: time

text \<open>
  The errors of the package: the sentinel, a wrapped error of \<open>hex.DecodeString\<close>, kept as the data it
  carries, and plain ones.
\<close>

datatype hex_error = InvalidByte char | OddLength

datatype attest_error = ErrNotAvailable | BadSignatureHex hex_error | AttestErr go_error

subsection \<open>Hexadecimal text\<close>

text \<open>\<open>hex.EncodeToString\<close> is \<open>hex_bytes\<close>; \<open>hex.DecodeString\<close> takes both cases.\<close>

definition from_hex :: "char \<Rightarrow> 8 word option" where
  "from_hex c = (let n = of_char c :: nat in
     if 48 \<le> n \<and> n \<le> 57 then Some (of_nat (n - 48))
     else if 97 \<le> n \<and> n \<le> 102 then Some (of_nat (n - 87))
     else if 65 \<le> n \<and> n \<le> 70 then Some (of_nat (n - 55)) else None)"

text \<open>Go reports the first bad character, and an odd length only if there is none.\<close>

fun hex_decode :: "string \<Rightarrow> hex_error + bytes" where
  "hex_decode [] = Inr []"
| "hex_decode [c] = (case from_hex c of
     None \<Rightarrow> Inl (InvalidByte c)
   | Some _ \<Rightarrow> Inl OddLength)"
| "hex_decode (c # d # cs) = (case (from_hex c, from_hex d) of
     (None, _) \<Rightarrow> Inl (InvalidByte c)
   | (_, None) \<Rightarrow> Inl (InvalidByte d)
   | (Some h, Some l) \<Rightarrow> (case hex_decode cs of
       Inl e \<Rightarrow> Inl e
     | Inr bs \<Rightarrow> Inr ((push_bit 4 h OR l) # bs)))"

lemma all_less_numeral_iff:
  "(\<forall>n < numeral k. P n) \<longleftrightarrow> list_all P [0..<numeral k]"
  by (auto simp: list_all_iff)

lemma from_hex_char: "d < 16 \<Longrightarrow> from_hex (hex_char d) = Some d"
proof -
  assume "d < 16"
  then have d: "unat d < 16" by (simp add: word_less_nat_alt)
  have "\<forall>n < 16. from_hex (''0123456789abcdef'' ! n) = Some (of_nat n)"
    by (simp add: all_less_numeral_iff upt_rec from_hex_def)
  with d have "from_hex (''0123456789abcdef'' ! unat d) = Some (of_nat (unat d))" by blast
  then show ?thesis by (simp add: hex_char_def)
qed

lemma hex_nibbles:
  fixes b :: "8 word"
  shows "drop_bit 4 b < 16" "b AND 0x0F < 16" "push_bit 4 (drop_bit 4 b) OR (b AND 0x0F) = b"
proof -
  show "drop_bit 4 b < 16"
    using unsigned_less [of b, where ?'a = nat]
    by (simp add: word_less_nat_alt unat_drop_bit_eq drop_bit_eq_div unat_div)
  have "b AND mask 4 < 2 ^ 4" by (rule and_mask_less') simp
  then show "b AND 0x0F < 16" by (simp add: mask_eq_exp_minus_1)
  have "push_bit 4 (drop_bit 4 b) OR (b AND mask 4) = b"
    by (rule bit_word_eqI) (auto simp: bit_simps)
  then show "push_bit 4 (drop_bit 4 b) OR (b AND 0x0F) = b"
    by (simp add: mask_eq_exp_minus_1)
qed

lemma hex_decode_bytes [simp]: "hex_decode (hex_bytes bs) = Inr bs"
  by (induction bs) (simp_all add: hex_bytes_def hex_byte_def from_hex_char hex_nibbles)

subsection \<open>The interface\<close>

record attestor_ops =
  att_Name :: string
  att_Attest :: "attest_input \<Rightarrow> attest_error + attest_result"
  att_Verify :: "receipt \<Rightarrow> attest_error option"

text \<open>
  The contract: a receipt that carries the quote and the signature of an attestation verifies.
\<close>

locale attestor =
  fixes a :: attestor_ops
  assumes verifies: "att_Attest a e = Inr r \<Longrightarrow> rc_Quote c = at_Quote r \<Longrightarrow>
    rc_Signature c = at_Signature r \<Longrightarrow> att_Verify a c = None"
begin

text \<open>What is not in the quote or the signature is not attested.\<close>

lemma other_members_free:
  "att_Attest a e = Inr r \<Longrightarrow> att_Verify a \<lparr>rc_JobID = jid, rc_Quote = at_Quote r, rc_Jurisdiction = ju,
     rc_ModelFingerprint = mf, rc_Signature = at_Signature r, rc_IssuedAt = t\<rparr> = None"
  by (rule verifies) simp_all

end

subsection \<open>No attestation\<close>

definition NoneAttestor_Attest :: "attest_input \<Rightarrow> attest_error + attest_result" where
  "NoneAttestor_Attest e = Inr \<lparr>at_Quote = Some \<lparr>qt_Type = QuoteTypeNone, qt_Evidence = [], qt_Nonce = [],
       qt_IssuedAt = ai_Timestamp e\<rparr>, at_Jurisdiction = None, at_ModelFingerprint = None,
     at_Signature = \<lparr>sg_Algorithm = AlgorithmEd25519, sg_Value = [], sg_KeyID = []\<rparr>\<rparr>"

definition NewNoneAttestor :: attestor_ops where
  "NewNoneAttestor = \<lparr>att_Name = ''none'', att_Attest = NoneAttestor_Attest, att_Verify = (\<lambda>_. None)\<rparr>"

interpretation none_attestor: attestor NewNoneAttestor
  by unfold_locales (simp add: NewNoneAttestor_def)

subsection \<open>Signed in software\<close>

text \<open>\<open>Sign\<close>, the public part of a private key, \<open>Verify\<close> and \<open>sha256.Sum256\<close>.\<close>

record 'k crypto =
  cr_sign :: "'k \<Rightarrow> bytes \<Rightarrow> bytes"
  cr_public :: "'k \<Rightarrow> 'k"
  cr_verify :: "'k \<Rightarrow> bytes \<Rightarrow> bytes \<Rightarrow> bool"
  cr_sha256 :: "bytes \<Rightarrow> bytes"

definition signs :: "'k crypto \<Rightarrow> bool" where
  "signs cr \<longleftrightarrow> (\<forall>k m. cr_verify cr (cr_public cr k) m (cr_sign cr k m))"

definition to_bytes :: "string \<Rightarrow> bytes" where
  "to_bytes s = map of_char s"

text \<open>
  The three writes into the hash follow one another; a timestamp without a text writes nothing. The text
  is a function of the instant: the zone that \<open>MarshalText\<close> writes with a \<open>time.Time\<close> is not
  represented, so the timestamps of one model are all in one zone.
\<close>

definition attestDigest :: "'k crypto \<Rightarrow> time_codec \<Rightarrow> attest_input \<Rightarrow> bytes" where
  "attestDigest cr tc e =
     (let ts = (case format_time tc (ai_Timestamp e) of None \<Rightarrow> [] | Some s \<Rightarrow> to_bytes s)
      in cr_sha256 cr (to_bytes (ai_ArgsHash e) @ to_bytes (ai_ResultHash e) @ ts))"

definition PQCOnlyAttestor_Attest ::
  "'k crypto \<Rightarrow> time_codec \<Rightarrow> 'k \<Rightarrow> string \<Rightarrow> attest_input \<Rightarrow> attest_error + attest_result" where
  "PQCOnlyAttestor_Attest cr tc privateKey keyID e =
     (let digest = attestDigest cr tc e; sig = cr_sign cr privateKey digest
      in Inr \<lparr>at_Quote = Some \<lparr>qt_Type = QuoteTypePQCOnly, qt_Evidence = digest,
           qt_Nonce = hex_bytes (take 16 digest), qt_IssuedAt = ai_Timestamp e\<rparr>,
         at_Jurisdiction = None, at_ModelFingerprint = None,
         at_Signature = \<lparr>sg_Algorithm = AlgorithmEd25519, sg_Value = hex_bytes sig, sg_KeyID = keyID\<rparr>\<rparr>)"

definition PQCOnlyAttestor_Verify :: "'k crypto \<Rightarrow> 'k \<Rightarrow> receipt \<Rightarrow> attest_error option" where
  "PQCOnlyAttestor_Verify cr privateKey c = (case rc_Quote c of
     None \<Rightarrow> Some (AttestErr (PlainErr ''attest: receipt has no quote''))
   | Some q \<Rightarrow> (case hex_decode (sg_Value (rc_Signature c)) of
       Inl e \<Rightarrow> Some (BadSignatureHex e)
     | Inr sig \<Rightarrow> (if \<not> cr_verify cr (cr_public cr privateKey) (qt_Evidence q) sig
         then Some (AttestErr (PlainErr ''attest: Ed25519 signature verification failed'')) else None)))"

definition NewPQCOnlyAttestor :: "'k crypto \<Rightarrow> time_codec \<Rightarrow> 'k \<Rightarrow> string \<Rightarrow> attestor_ops" where
  "NewPQCOnlyAttestor cr tc privateKey keyID = \<lparr>att_Name = ''pqc-only'',
     att_Attest = PQCOnlyAttestor_Attest cr tc privateKey keyID,
     att_Verify = PQCOnlyAttestor_Verify cr privateKey\<rparr>"

lemma pqc_attestor: "signs cr \<Longrightarrow> attestor (NewPQCOnlyAttestor cr tc k i)"
  by unfold_locales
    (auto simp: NewPQCOnlyAttestor_def PQCOnlyAttestor_Attest_def PQCOnlyAttestor_Verify_def signs_def Let_def)

subsection \<open>Hardware, not available\<close>

definition NewNitroAttestor :: attestor_ops where
  "NewNitroAttestor = \<lparr>att_Name = ''aws-nitro'', att_Attest = (\<lambda>_. Inl ErrNotAvailable),
     att_Verify = (\<lambda>_. Some ErrNotAvailable)\<rparr>"

definition NewTDXAttestor :: attestor_ops where
  "NewTDXAttestor = \<lparr>att_Name = ''intel-tdx'', att_Attest = (\<lambda>_. Inl ErrNotAvailable),
     att_Verify = (\<lambda>_. Some ErrNotAvailable)\<rparr>"

definition NewSEVAttestor :: attestor_ops where
  "NewSEVAttestor = \<lparr>att_Name = ''amd-sev-snp'', att_Attest = (\<lambda>_. Inl ErrNotAvailable),
     att_Verify = (\<lambda>_. Some ErrNotAvailable)\<rparr>"

interpretation nitro_attestor: attestor NewNitroAttestor
  by unfold_locales (simp add: NewNitroAttestor_def)

interpretation tdx_attestor: attestor NewTDXAttestor
  by unfold_locales (simp add: NewTDXAttestor_def)

interpretation sev_attestor: attestor NewSEVAttestor
  by unfold_locales (simp add: NewSEVAttestor_def)

subsection \<open>What a receipt proves\<close>

text \<open>
  What the software attestor signs, it verifies: the receipt made of the quote and the signature
  of an attestation passes, whatever its other members say; and a receipt passes only with a
  signature text that is hexadecimal and signs the evidence.
\<close>

theorem attestation_verifies:
  assumes "signs cr"
  shows "\<exists>r. att_Attest (NewPQCOnlyAttestor cr tc k i) e = Inr r
      \<and> att_Verify (NewPQCOnlyAttestor cr tc k i) \<lparr>rc_JobID = ai_JobID e, rc_Quote = at_Quote r,
          rc_Jurisdiction = ju, rc_ModelFingerprint = mf, rc_Signature = at_Signature r, rc_IssuedAt = t\<rparr> = None
    \<and> (att_Verify (NewPQCOnlyAttestor cr tc k i) c = None \<longleftrightarrow>
        (\<exists>q sig. rc_Quote c = Some q \<and> hex_decode (sg_Value (rc_Signature c)) = Inr sig
          \<and> cr_verify cr (cr_public cr k) (qt_Evidence q) sig))"
proof -
  obtain r where r: "att_Attest (NewPQCOnlyAttestor cr tc k i) e = Inr r"
    by (simp add: NewPQCOnlyAttestor_def PQCOnlyAttestor_Attest_def Let_def)
  have ok: "att_Verify (NewPQCOnlyAttestor cr tc k i) \<lparr>rc_JobID = ai_JobID e, rc_Quote = at_Quote r,
      rc_Jurisdiction = ju, rc_ModelFingerprint = mf, rc_Signature = at_Signature r, rc_IssuedAt = t\<rparr> = None"
    by (rule attestor.other_members_free [OF pqc_attestor [OF assms] r])
  have iff: "att_Verify (NewPQCOnlyAttestor cr tc k i) c = None \<longleftrightarrow>
        (\<exists>q sig. rc_Quote c = Some q \<and> hex_decode (sg_Value (rc_Signature c)) = Inr sig
          \<and> cr_verify cr (cr_public cr k) (qt_Evidence q) sig)"
    by (auto simp: NewPQCOnlyAttestor_def PQCOnlyAttestor_Verify_def split: option.splits sum.splits if_splits)
  show ?thesis by (intro exI [of _ r] conjI r ok iff)
qed

text \<open>
  C33: A receipt does not say which job it is about: the job's id and type enter neither the digest nor
  the check, so an attestation of one job verifies as the receipt of any other; and since the two
  hashes are joined without a separator, moving characters from one to the other leaves the
  attestation unchanged.
\<close>

theorem attestation_names_no_job:
  assumes "signs cr" "att_Attest (NewPQCOnlyAttestor cr tc k i) e = Inr r"
    and "ai_ArgsHash e @ ai_ResultHash e = ai_ArgsHash e' @ ai_ResultHash e'" "ai_Timestamp e = ai_Timestamp e'"
  shows "att_Verify (NewPQCOnlyAttestor cr tc k i) \<lparr>rc_JobID = other, rc_Quote = at_Quote r,
      rc_Jurisdiction = ju, rc_ModelFingerprint = mf, rc_Signature = at_Signature r, rc_IssuedAt = t\<rparr> = None
    \<and> att_Attest (NewPQCOnlyAttestor cr tc k i) e' = Inr r"
proof
  show "att_Verify (NewPQCOnlyAttestor cr tc k i) \<lparr>rc_JobID = other, rc_Quote = at_Quote r,
      rc_Jurisdiction = ju, rc_ModelFingerprint = mf, rc_Signature = at_Signature r, rc_IssuedAt = t\<rparr> = None"
    using attestor.other_members_free [OF pqc_attestor [OF assms(1)] assms(2)] .
  have "to_bytes (ai_ArgsHash e) @ to_bytes (ai_ResultHash e) @ ts =
      to_bytes (ai_ArgsHash e') @ to_bytes (ai_ResultHash e') @ ts" for ts
    using arg_cong [OF assms(3), of to_bytes] by (simp add: to_bytes_def)
  then have "attestDigest cr tc e = attestDigest cr tc e'"
    by (simp only: attestDigest_def Let_def assms(4))
  then show "att_Attest (NewPQCOnlyAttestor cr tc k i) e' = Inr r"
    using assms(2,4) by (simp add: NewPQCOnlyAttestor_def PQCOnlyAttestor_Attest_def)
qed

text \<open>A crypto that signs with the key and the message themselves.\<close>

definition toy_crypto :: "bytes crypto" where
  "toy_crypto = \<lparr>cr_sign = (\<lambda>k m. k @ m), cr_public = (\<lambda>k. k), cr_verify = (\<lambda>k m s. s = k @ m),
     cr_sha256 = (\<lambda>m. m)\<rparr>"

lemma toy_crypto_signs: "signs toy_crypto"
  by (simp add: signs_def toy_crypto_def)

theorem attestation_verifies_witness:
  "\<exists>r. att_Attest (NewPQCOnlyAttestor toy_crypto \<lparr>format_time = (\<lambda>_. None), parse_time = (\<lambda>_. None)\<rparr> [1] ''k'')
      \<lparr>ai_JobID = ''j'', ai_JobType = ''t'', ai_ArgsHash = ''ab'', ai_ResultHash = ''c'', ai_Timestamp = 5\<rparr> = Inr r
    \<and> att_Verify (NewPQCOnlyAttestor toy_crypto \<lparr>format_time = (\<lambda>_. None), parse_time = (\<lambda>_. None)\<rparr> [1] ''k'')
      \<lparr>rc_JobID = ''j'', rc_Quote = at_Quote r, rc_Jurisdiction = None, rc_ModelFingerprint = None,
       rc_Signature = at_Signature r, rc_IssuedAt = 6\<rparr> = None"
  using attestation_verifies [OF toy_crypto_signs, where
      e = "\<lparr>ai_JobID = ''j'', ai_JobType = ''t'', ai_ArgsHash = ''ab'', ai_ResultHash = ''c'', ai_Timestamp = 5\<rparr>"]
  by fastforce

theorem attestation_names_no_job_witness:
  "\<exists>r. att_Attest (NewPQCOnlyAttestor toy_crypto \<lparr>format_time = (\<lambda>_. None), parse_time = (\<lambda>_. None)\<rparr> [1] ''k'')
      \<lparr>ai_JobID = ''other'', ai_JobType = ''u'', ai_ArgsHash = ''a'', ai_ResultHash = ''bc'', ai_Timestamp = 5\<rparr> = Inr r
    \<and> att_Attest (NewPQCOnlyAttestor toy_crypto \<lparr>format_time = (\<lambda>_. None), parse_time = (\<lambda>_. None)\<rparr> [1] ''k'')
      \<lparr>ai_JobID = ''j'', ai_JobType = ''t'', ai_ArgsHash = ''ab'', ai_ResultHash = ''c'', ai_Timestamp = 5\<rparr> = Inr r"
proof -
  let ?a = "NewPQCOnlyAttestor toy_crypto \<lparr>format_time = (\<lambda>_. None), parse_time = (\<lambda>_. None)\<rparr> [1] ''k''"
  let ?e = "\<lparr>ai_JobID = ''j'', ai_JobType = ''t'', ai_ArgsHash = ''ab'', ai_ResultHash = ''c'', ai_Timestamp = 5\<rparr>"
  obtain r where r: "att_Attest ?a ?e = Inr r"
    by (simp add: NewPQCOnlyAttestor_def PQCOnlyAttestor_Attest_def Let_def)
  with attestation_names_no_job [OF toy_crypto_signs r, where
      e' = "\<lparr>ai_JobID = ''other'', ai_JobType = ''u'', ai_ArgsHash = ''a'', ai_ResultHash = ''bc'', ai_Timestamp = 5\<rparr>"]
  show ?thesis by auto
qed

end
