(* ===== verification/Encryption.thy ===== *)
theory Encryption
  imports Middleware_Chain
begin

text \<open>
  Encryption of arguments (\<open>middleware/encryption/encryption.go\<close>): \<open>EncryptArgs\<close> before a job is enqueued and
  \<open>EncryptMiddleware\<close> in the worker. Key providers are a locale, interpreted on the static one. AES-GCM
  is the pair of \<open>ce_seal\<close> and \<open>ce_open\<close> in the record \<open>crypt_env\<close>, a parameter; its two laws are
  hypotheses where they are used: opening undoes sealing under the same key and nonce (\<open>opens\<close>), and
  opens nothing but what was sealed (\<open>authentic\<close>). Base64 is written out. Bytes are Go strings.
\<close>

subsection \<open>Base64\<close>

text \<open>The alphabet: upper case, lower case, digits, plus and slash.\<close>

definition b64_char :: "nat \<Rightarrow> char" where
  "b64_char n = (if n < 26 then char_of (n + 65) else if n < 52 then char_of (n + 71)
     else if n < 62 then char_of (n - 4) else if n = 62 then CHR ''+'' else CHR ''/'')"

definition b64_value :: "char \<Rightarrow> nat option" where
  "b64_value c = (let n = of_char c :: nat in
     if 65 \<le> n \<and> n \<le> 90 then Some (n - 65)
     else if 97 \<le> n \<and> n \<le> 122 then Some (n - 71)
     else if 48 \<le> n \<and> n \<le> 57 then Some (n + 4)
     else if c = CHR ''+'' then Some 62 else if c = CHR ''/'' then Some 63 else None)"

definition byte :: "nat \<Rightarrow> char" where "byte n = char_of (n mod 256)"

fun b64_encode :: "string \<Rightarrow> string" where
  "b64_encode [] = []"
| "b64_encode [a] =
     [b64_char (of_char a div 4), b64_char (of_char a mod 4 * 16), CHR ''='', CHR ''='']"
| "b64_encode [a, b] =
     [b64_char (of_char a div 4), b64_char (of_char a mod 4 * 16 + of_char b div 16),
      b64_char (of_char b mod 16 * 4), CHR ''='']"
| "b64_encode (a # b # c # cs) =
     b64_char (of_char a div 4) # b64_char (of_char a mod 4 * 16 + of_char b div 16)
       # b64_char (of_char b mod 16 * 4 + of_char c div 64) # b64_char (of_char c mod 64) # b64_encode cs"

text \<open>
  Four characters at a time; padding only at the end; the bits that a padded group has in excess are
  not looked at. Line ends are skipped before.
\<close>

fun b64_groups :: "string \<Rightarrow> string option" where
  "b64_groups [] = Some []"
| "b64_groups (a # b # c # d # cs) =
     (case (b64_value a, b64_value b) of
        (Some x, Some y) \<Rightarrow>
          (if c = CHR ''='' then
             (if d = CHR ''='' \<and> cs = [] then Some [byte (x * 4 + y div 16)] else None)
           else case b64_value c of
             None \<Rightarrow> None
           | Some z \<Rightarrow>
              (if d = CHR ''='' then
                 (if cs = [] then Some [byte (x * 4 + y div 16), byte (y mod 16 * 16 + z div 4)] else None)
               else case b64_value d of
                 None \<Rightarrow> None
               | Some w \<Rightarrow> map_option (\<lambda>r. byte (x * 4 + y div 16) # byte (y mod 16 * 16 + z div 4)
                     # byte (z mod 4 * 64 + w) # r) (b64_groups cs)))
      | _ \<Rightarrow> None)"
| "b64_groups _ = None"

definition b64_decode :: "string \<Rightarrow> string option" where
  "b64_decode s = b64_groups (filter (\<lambda>c. c \<noteq> CHR 0x0A \<and> c \<noteq> CHR 0x0D) s)"

lemma b64_table:
  assumes "n < 64"
  shows "b64_value (b64_char n) = Some n" "b64_char n \<noteq> CHR ''=''" "b64_char n \<noteq> CHR 0x0A"
    "b64_char n \<noteq> CHR 0x0D"
proof -
  show v: "b64_value (b64_char n) = Some n"
    using assms by (auto simp: b64_char_def b64_value_def Let_def)
  have "b64_value CHR ''='' = None" "b64_value CHR 0x0A = None" "b64_value CHR 0x0D = None"
    by (simp_all add: b64_value_def)
  with v show "b64_char n \<noteq> CHR ''=''" "b64_char n \<noteq> CHR 0x0A" "b64_char n \<noteq> CHR 0x0D"
    by auto
qed

lemma char_bound: "(of_char (c :: char) :: nat) < 256"
  using of_char_mod_256 [of c, where ?'a = nat] by (metis mod_less_divisor zero_less_numeral)

lemma byte_of_char [simp]: "byte (of_char c) = c"
  by (simp add: byte_def)

lemma b64_digits:
  fixes a b :: nat
  assumes "a < 256" "b < 256"
  shows "a mod 4 * 16 + b div 16 < 64" "a mod 16 * 4 + b div 64 < 64"
proof -
  have "b div 16 < 16" "b div 64 < 4" "a mod 4 < 4" "a mod 16 < 16" using assms by simp_all
  then show "a mod 4 * 16 + b div 16 < 64" "a mod 16 * 4 + b div 64 < 64" by linarith+
qed

lemma b64_digit:
  fixes a :: nat
  shows "a < 256 \<Longrightarrow> a div 4 < 64" "a mod 4 * 16 < 64" "a mod 16 * 4 < 64"
  using mod_less_divisor [of 4 a] mod_less_divisor [of 16 a] by linarith+

lemma b64_high:
  fixes b :: nat
  assumes "b < 256"
  shows "b div 16 div 16 = 0" "b div 16 mod 16 = b div 16" "b div 64 div 4 = 0" "b div 64 mod 4 = b div 64"
proof -
  have "b div 16 < 16" "b div 64 < 4" using assms by simp_all
  then show "b div 16 div 16 = 0" "b div 16 mod 16 = b div 16" "b div 64 div 4 = 0" "b div 64 mod 4 = b div 64"
    by (simp_all only: div_less mod_less)
qed

lemma b64_groups_encode: "b64_groups (b64_encode s) = Some s"
  by (induction s rule: b64_encode.induct)
    (simp_all add: b64_table b64_digits b64_digit b64_high char_bound)

lemma b64_encode_no_line_ends:
  "filter (\<lambda>c. c \<noteq> CHR 0x0A \<and> c \<noteq> CHR 0x0D) (b64_encode s) = b64_encode s"
  by (induction s rule: b64_encode.induct) (simp_all add: b64_table b64_digits b64_digit char_bound)

lemma b64_roundtrip [simp]: "b64_decode (b64_encode s) = Some s"
  by (simp add: b64_decode_def b64_encode_no_line_ends b64_groups_encode)

subsection \<open>Keys\<close>

definition MetaKeyEncodings :: string where "MetaKeyEncodings = ''ojs.codec.encodings''"
definition MetaKeyKeyID :: string where "MetaKeyKeyID = ''ojs.codec.key_id''"
definition EncodingBinaryEncrypted :: string where "EncodingBinaryEncrypted = ''binary/encrypted''"
definition ArgsKeyEncoded :: string where "ArgsKeyEncoded = ''ojs_encoded''"
definition LegacyMetaKeyEncrypted :: string where "LegacyMetaKeyEncrypted = ''ojs.encryption.encrypted''"
definition LegacyMetaKeyAlgorithm :: string where "LegacyMetaKeyAlgorithm = ''ojs.encryption.algorithm''"
definition LegacyMetaKeyKeyID :: string where "LegacyMetaKeyKeyID = ''ojs.encryption.key_id''"
definition MetaKeyEncrypted :: string where "MetaKeyEncrypted = LegacyMetaKeyEncrypted"
definition MetaKeyAlgorithm :: string where "MetaKeyAlgorithm = LegacyMetaKeyAlgorithm"

lemmas encryption_keys = MetaKeyEncodings_def MetaKeyKeyID_def EncodingBinaryEncrypted_def
  ArgsKeyEncoded_def LegacyMetaKeyEncrypted_def LegacyMetaKeyAlgorithm_def LegacyMetaKeyKeyID_def

record key_provider =
  kp_GetKey :: "string \<Rightarrow> go_error + string"
  kp_CurrentKeyID :: string

record static_key_provider =
  sk_keyID :: string
  sk_key :: string

definition NewStaticKeyProvider :: "string \<Rightarrow> string \<Rightarrow> go_error + static_key_provider" where
  "NewStaticKeyProvider keyID key =
     (if length key \<noteq> 32 then Inl (PlainErr (''key must be 32 bytes for AES-256 (got ''
        @ show_nat (length key) @ '')''))
      else Inr \<lparr>sk_keyID = keyID, sk_key = key\<rparr>)"

definition Static_GetKey :: "static_key_provider \<Rightarrow> string \<Rightarrow> go_error + string" where
  "Static_GetKey p keyID =
     (if keyID \<noteq> sk_keyID p then Inl (PlainErr (''unknown key ID: '' @ keyID)) else Inr (sk_key p))"

definition StaticKeyProvider :: "static_key_provider \<Rightarrow> key_provider" where
  "StaticKeyProvider p = \<lparr>kp_GetKey = Static_GetKey p, kp_CurrentKeyID = sk_keyID p\<rparr>"

subsection \<open>Encryption\<close>

text \<open>
  The cipher, the random source (\<open>nonce\<close> is what it gives for one call), the JSON parser and the text of
  a base64 error.
\<close>

record crypt_env =
  ce_seal :: "string \<Rightarrow> string \<Rightarrow> string \<Rightarrow> string"
  ce_open :: "string \<Rightarrow> string \<Rightarrow> string \<Rightarrow> go_error + string"
  ce_parse :: "string \<Rightarrow> json option"
  ce_b64_error :: "string \<Rightarrow> go_error"

definition gcm_nonce_size :: nat where "gcm_nonce_size = 12"

text \<open>\<open>aes.NewCipher\<close> refuses keys of another size; \<open>NewGCM\<close> takes every AES cipher.\<close>

definition NewCipher :: "string \<Rightarrow> go_error option" where
  "NewCipher key = (if length key \<in> {16, 24, 32} then None
     else Some (PlainErr (''crypto/aes: invalid key size '' @ show_nat (length key))))"

definition Encrypt :: "crypt_env \<Rightarrow> go_error + string \<Rightarrow> string \<Rightarrow> string \<Rightarrow> go_error + string" where
  "Encrypt ce nonce key plaintext = (case NewCipher key of
     Some e \<Rightarrow> Inl e
   | None \<Rightarrow> (case nonce of
       Inl e \<Rightarrow> Inl e
     | Inr n \<Rightarrow> Inr (n @ ce_seal ce key n plaintext)))"

definition Decrypt :: "crypt_env \<Rightarrow> string \<Rightarrow> string \<Rightarrow> go_error + string" where
  "Decrypt ce key ciphertext = (case NewCipher key of
     Some e \<Rightarrow> Inl e
   | None \<Rightarrow> (if length ciphertext < gcm_nonce_size then Inl (PlainErr ''ciphertext too short'')
       else ce_open ce key (take gcm_nonce_size ciphertext) (drop gcm_nonce_size ciphertext)))"

definition EncryptArgs ::
  "crypt_env \<Rightarrow> go_error + string \<Rightarrow> key_provider \<Rightarrow> string \<Rightarrow> go_error + (any \<times> anymap)" where
  "EncryptArgs ce nonce p args = (case kp_GetKey p (kp_CurrentKeyID p) of
     Inl e \<Rightarrow> Inl e
   | Inr key \<Rightarrow> (case Encrypt ce nonce key args of
       Inl e \<Rightarrow> Inl (Wrapf ''encryption failed: '' e)
     | Inr ciphertext \<Rightarrow> Inr
        (VMap (fmap_of_list [(ArgsKeyEncoded, VBool True), (''data'', VStr (b64_encode ciphertext))]),
         fmap_of_list [(MetaKeyEncodings, VStrs [EncodingBinaryEncrypted]),
           (MetaKeyKeyID, VStr (kp_CurrentKeyID p))])))"

subsection \<open>Decryption in the worker\<close>

definition hasEncryptionEncoding :: "any \<Rightarrow> bool" where
  "hasEncryptionEncoding v = (case v of
     VList es \<Rightarrow> list_ex (\<lambda>e. e = VStr EncodingBinaryEncrypted) es
   | VStrs ss \<Rightarrow> EncodingBinaryEncrypted \<in> set ss
   | _ \<Rightarrow> False)"

definition meta_string :: "anymap \<Rightarrow> string \<Rightarrow> string" where
  "meta_string meta k = (case fmlookup meta k of Some (VStr s) \<Rightarrow> s | _ \<Rightarrow> [])"

definition detectEncryption :: "anymap \<Rightarrow> string option" where
  "detectEncryption meta =
     (if (case fmlookup meta MetaKeyEncodings of Some v \<Rightarrow> hasEncryptionEncoding v | None \<Rightarrow> False)
      then Some (meta_string meta MetaKeyKeyID)
      else if fmlookup meta LegacyMetaKeyEncrypted = Some (VBool True)
      then Some (meta_string meta LegacyMetaKeyKeyID)
      else None)"

definition extractEncryptedData :: "any \<Rightarrow> string option" where
  "extractEncryptedData arg = (case arg of
     VMap m \<Rightarrow> (if fmlookup m ArgsKeyEncoded = Some (VBool True)
       then (case fmlookup m ''data'' of Some (VStr d) \<Rightarrow> Some d | _ \<Rightarrow> None) else None)
   | VStr s \<Rightarrow> Some s
   | _ \<Rightarrow> None)"

definition restore_args :: "crypt_env \<Rightarrow> string \<Rightarrow> job_context \<Rightarrow> job_context" where
  "restore_args ce plaintext ctx = (case Option.bind (ce_parse ce plaintext) (\<lambda>j. dec_anymap (Some j)) of
     Some decoded \<Rightarrow> ctx\<lparr>jc_Job := (jc_Job ctx)\<lparr>job_Args := decoded\<rparr>\<rparr>
   | None \<Rightarrow> ctx)"

definition EncryptMiddleware :: "crypt_env \<Rightarrow> key_provider \<Rightarrow> 'w middleware" where
  "EncryptMiddleware ce p ctx next w = (case detectEncryption (job_Meta (jc_Job ctx)) of
     None \<Rightarrow> next ctx w
   | Some keyID \<Rightarrow> (case kp_GetKey p keyID of
       Inl e \<Rightarrow> (Returned (Some (Wrapf (''encryption key '' @ keyID @ '' not found: '') e)), w)
     | Inr key \<Rightarrow> (case job_RawArgs (jc_Job ctx) of
         [] \<Rightarrow> next ctx w
       | arg # _ \<Rightarrow> (case extractEncryptedData arg of
           None \<Rightarrow> next ctx w
         | Some encrypted \<Rightarrow> (case b64_decode encrypted of
             None \<Rightarrow> (Returned (Some (Wrapf ''base64 decode error: '' (ce_b64_error ce encrypted))), w)
           | Some ciphertext \<Rightarrow> (case Decrypt ce key ciphertext of
               Inl e \<Rightarrow> (Returned (Some (Wrapf ''decryption failed: '' e)), w)
             | Inr plaintext \<Rightarrow> next (restore_args ce plaintext ctx) w))))))"

subsection \<open>What the worker's handler sees\<close>

text \<open>The contract of a key store: its current key is one of its keys, and of the size of AES-256.\<close>

locale key_store =
  fixes ops :: "'s \<Rightarrow> key_provider" and made :: "'s \<Rightarrow> bool"
  assumes current_key: "made s \<Longrightarrow> \<exists>key. kp_GetKey (ops s) (kp_CurrentKeyID (ops s)) = Inr key \<and> length key = 32"

definition opens :: "crypt_env \<Rightarrow> bool" where
  "opens ce \<longleftrightarrow> (\<forall>k n m. length n = gcm_nonce_size \<longrightarrow> ce_open ce k n (ce_seal ce k n m) = Inr m)"


lemma Decrypt_Encrypt:
  assumes "opens ce" "length key = 32" "length n = gcm_nonce_size"
  shows "Encrypt ce (Inr n) key plaintext = Inr (n @ ce_seal ce key n plaintext)"
    "Decrypt ce key (n @ ce_seal ce key n plaintext) = Inr plaintext"
  using assms by (simp_all add: Encrypt_def Decrypt_def NewCipher_def opens_def)

lemma detect_wire_meta:
  "detectEncryption (fmadd m (fmmap (\<lambda>v. from_json (to_json v)) (fmap_of_list
      [(MetaKeyEncodings, VStrs [EncodingBinaryEncrypted]), (MetaKeyKeyID, VStr kid)]))) = Some kid"
  by (simp add: detectEncryption_def hasEncryptionEncoding_def meta_string_def encryption_keys)

lemma extract_wire_args:
  "extractEncryptedData (from_json (to_json (VMap (fmap_of_list
      [(ArgsKeyEncoded, VBool True), (''data'', VStr s)])))) = Some s"
  by (simp add: extractEncryptedData_def encryption_keys)

context key_store
begin

text \<open>Encrypted, enqueued and fetched: the middleware runs the handler on the plaintext.\<close>

lemma encrypted_then_decrypted:
  assumes "made s" "opens ce" "length n = gcm_nonce_size"
  obtains ea meta where "EncryptArgs ce (Inr n) (ops s) plaintext = Inr (ea, meta)"
    "\<And>ctx other next w. job_RawArgs (jc_Job ctx) = [from_json (to_json ea)] \<Longrightarrow>
      job_Meta (jc_Job ctx) = fmadd other (fmmap (\<lambda>v. from_json (to_json v)) meta) \<Longrightarrow>
      EncryptMiddleware ce (ops s) ctx next (w :: 'w) = next (restore_args ce plaintext ctx) w"
proof -
  from current_key [OF assms(1)] obtain key where
    key: "kp_GetKey (ops s) (kp_CurrentKeyID (ops s)) = Inr key" "length key = 32" by blast
  note coded = Decrypt_Encrypt [OF assms(2) key(2) assms(3)]
  let ?ct = "n @ ce_seal ce key n plaintext"
  show thesis
  proof
    show "EncryptArgs ce (Inr n) (ops s) plaintext = Inr
       (VMap (fmap_of_list [(ArgsKeyEncoded, VBool True), (''data'', VStr (b64_encode ?ct))]),
        fmap_of_list [(MetaKeyEncodings, VStrs [EncodingBinaryEncrypted]),
           (MetaKeyKeyID, VStr (kp_CurrentKeyID (ops s)))])"
      by (simp add: EncryptArgs_def key coded)
    fix ctx :: job_context and other "next" and w :: 'w
    assume raw: "job_RawArgs (jc_Job ctx) = [from_json (to_json
        (VMap (fmap_of_list [(ArgsKeyEncoded, VBool True), (''data'', VStr (b64_encode ?ct))])))]"
      and meta: "job_Meta (jc_Job ctx) = fmadd other (fmmap (\<lambda>v. from_json (to_json v))
        (fmap_of_list [(MetaKeyEncodings, VStrs [EncodingBinaryEncrypted]),
           (MetaKeyKeyID, VStr (kp_CurrentKeyID (ops s)))]))"
    have "detectEncryption (job_Meta (jc_Job ctx)) = Some (kp_CurrentKeyID (ops s))"
      unfolding meta by (rule detect_wire_meta)
    moreover from raw extract_wire_args [of "b64_encode ?ct"]
    obtain arg where "job_RawArgs (jc_Job ctx) = [arg]" "extractEncryptedData arg = Some (b64_encode ?ct)"
      by blast
    ultimately show "EncryptMiddleware ce (ops s) ctx next w = next (restore_args ce plaintext ctx) w"
      by (simp add: EncryptMiddleware_def key coded)
  qed
qed

end

interpretation static_keys: key_store StaticKeyProvider "\<lambda>s. \<exists>kid key. NewStaticKeyProvider kid key = Inr s"
  by unfold_locales
    (auto simp: StaticKeyProvider_def NewStaticKeyProvider_def Static_GetKey_def split: if_splits)

text \<open>
  C28: Encryption is transparent to a handler: arguments encrypted with a static key, sent as the job's only
  wire argument with the metadata \<open>EncryptArgs\<close> returns, and delivered again through JSON, reach the
  handler as the members of the plaintext object, whatever other metadata the job has. The plaintext is a
  JSON object whose numbers fit into \<open>float64\<close>.
\<close>

theorem encryption_roundtrip:
  assumes "NewStaticKeyProvider kid key = Inr s" "opens ce" "length n = gcm_nonce_size"
    and "ce_parse ce plaintext = Some (JObj m)" "decodable (JObj m)"
  shows "\<exists>ea meta. EncryptArgs ce (Inr n) (StaticKeyProvider s) plaintext = Inr (ea, meta)
    \<and> (\<forall>ctx. EncryptMiddleware ce (StaticKeyProvider s)
          (ctx\<lparr>jc_Job := j\<lparr>job_RawArgs := [from_json (to_json ea)],
             job_Meta := fmadd other (fmmap (\<lambda>v. from_json (to_json v)) meta)\<rparr>\<rparr>) h (w :: 'w)
        = h (ctx\<lparr>jc_Job := j\<lparr>job_RawArgs := [from_json (to_json ea)],
             job_Meta := fmadd other (fmmap (\<lambda>v. from_json (to_json v)) meta),
             job_Args := fmmap from_json m\<rparr>\<rparr>) w)"
proof -
  from assms(1) have "\<exists>kid key. NewStaticKeyProvider kid key = Inr s" by blast
  from static_keys.encrypted_then_decrypted [OF this assms(2,3), where plaintext = plaintext and 'w = 'w]
  obtain ea meta where e: "EncryptArgs ce (Inr n) (StaticKeyProvider s) plaintext = Inr (ea, meta)"
    "\<And>ctx other next w. job_RawArgs (jc_Job ctx) = [from_json (to_json ea)] \<Longrightarrow>
      job_Meta (jc_Job ctx) = fmadd other (fmmap (\<lambda>v. from_json (to_json v)) meta) \<Longrightarrow>
      EncryptMiddleware ce (StaticKeyProvider s) ctx next (w :: 'w) = next (restore_args ce plaintext ctx) w"
    by blast
  show ?thesis
    by (intro exI conjI allI, rule e(1), subst e(2))
      (use assms(4,5) in \<open>simp_all add: restore_args_def\<close>)
qed





text \<open>
  Arguments that are not a JSON object, such as the array they are on the wire, are encrypted
  without complaint but never restored: the handler is called on the ciphertext.
\<close>

theorem array_args_stay_encrypted:
  assumes "NewStaticKeyProvider kid key = Inr s" "opens ce" "length n = gcm_nonce_size"
    and "ce_parse ce plaintext = Some (JArr js)"
  shows "\<exists>ea meta. EncryptArgs ce (Inr n) (StaticKeyProvider s) plaintext = Inr (ea, meta)
    \<and> (\<forall>ctx. job_RawArgs (jc_Job ctx) = [from_json (to_json ea)] \<and>
        job_Meta (jc_Job ctx) = fmmap (\<lambda>v. from_json (to_json v)) meta \<longrightarrow>
        EncryptMiddleware ce (StaticKeyProvider s) ctx h (w :: 'w) = h ctx w)"
proof -
  from assms(1) have "\<exists>kid key. NewStaticKeyProvider kid key = Inr s" by blast
  from static_keys.encrypted_then_decrypted [OF this assms(2,3), where plaintext = plaintext and 'w = 'w]
  obtain ea meta where e: "EncryptArgs ce (Inr n) (StaticKeyProvider s) plaintext = Inr (ea, meta)"
    "\<And>ctx other next w. job_RawArgs (jc_Job ctx) = [from_json (to_json ea)] \<Longrightarrow>
      job_Meta (jc_Job ctx) = fmadd other (fmmap (\<lambda>v. from_json (to_json v)) meta) \<Longrightarrow>
      EncryptMiddleware ce (StaticKeyProvider s) ctx next (w :: 'w) = next (restore_args ce plaintext ctx) w"
    by blast
  have "restore_args ce plaintext ctx = ctx" for ctx :: job_context
    by (simp add: restore_args_def assms(4))
  with e(1) e(2) [where other = fmempty] show ?thesis by auto
qed

text \<open>A cipher that appends the key.\<close>

definition toy_crypt :: "json \<Rightarrow> crypt_env" where
  "toy_crypt j = \<lparr>ce_seal = (\<lambda>k n m. m @ k), ce_open = (\<lambda>k n c. if drop (length c - length k) c = k
       then Inr (take (length c - length k) c) else Inl (PlainErr ''cipher: message authentication failed'')),
     ce_parse = (\<lambda>_. Some j), ce_b64_error = (\<lambda>_. PlainErr ''illegal base64 data'')\<rparr>"

lemma toy_crypt_opens [simp]: "opens (toy_crypt j)"
  by (simp add: opens_def toy_crypt_def)


abbreviation toy_nonce :: string where "toy_nonce \<equiv> replicate 12 CHR ''n''"

lemma toy_keys: "NewStaticKeyProvider ''k1'' (replicate 32 CHR ''k'') =
    Inr \<lparr>sk_keyID = ''k1'', sk_key = replicate 32 CHR ''k''\<rparr>" "length toy_nonce = gcm_nonce_size"
  by (simp_all add: NewStaticKeyProvider_def gcm_nonce_size_def)

theorem encryption_roundtrip_witness:
  "\<exists>ea meta. EncryptArgs (toy_crypt (JObj (fmap_of_list [(''a'', JBool True)]))) (Inr toy_nonce)
      (StaticKeyProvider \<lparr>sk_keyID = ''k1'', sk_key = replicate 32 CHR ''k''\<rparr>) ''secret'' = Inr (ea, meta)"
  using encryption_roundtrip [OF toy_keys(1) toy_crypt_opens [of "JObj (fmap_of_list [(''a'', JBool True)])"]
      toy_keys(2), where plaintext = "''secret''" and m = "fmap_of_list [(''a'', JBool True)]"]
  by (fastforce simp: toy_crypt_def)


theorem array_args_stay_encrypted_witness:
  "\<exists>ea meta. EncryptArgs (toy_crypt (JArr [JNull])) (Inr toy_nonce)
      (StaticKeyProvider \<lparr>sk_keyID = ''k1'', sk_key = replicate 32 CHR ''k''\<rparr>) ''[null]'' = Inr (ea, meta)
    \<and> EncryptMiddleware (toy_crypt (JArr [JNull])) (StaticKeyProvider \<lparr>sk_keyID = ''k1'', sk_key = replicate 32 CHR ''k''\<rparr>)
        (NewJobContextForTest (zero_job\<lparr>job_Meta := fmmap (\<lambda>v. from_json (to_json v)) meta,
          job_RawArgs := [from_json (to_json ea)]\<rparr>)) (\<lambda>ctx w. (Returned None, job_Args (jc_Job ctx))) fmempty
      = (Returned None, fmempty)"
proof -
  from array_args_stay_encrypted [OF toy_keys(1) toy_crypt_opens [of "JArr [JNull]"] toy_keys(2),
      where plaintext = "''[null]''" and js = "[JNull]"
        and h = "\<lambda>ctx w. (Returned None, job_Args (jc_Job ctx))" and w = fmempty]
  obtain ea meta where e: "EncryptArgs (toy_crypt (JArr [JNull])) (Inr toy_nonce)
      (StaticKeyProvider \<lparr>sk_keyID = ''k1'', sk_key = replicate 32 CHR ''k''\<rparr>) ''[null]'' = Inr (ea, meta)"
    "\<And>ctx. job_RawArgs (jc_Job ctx) = [from_json (to_json ea)] \<Longrightarrow>
      job_Meta (jc_Job ctx) = fmmap (\<lambda>v. from_json (to_json v)) meta \<Longrightarrow>
      EncryptMiddleware (toy_crypt (JArr [JNull])) (StaticKeyProvider \<lparr>sk_keyID = ''k1'', sk_key = replicate 32 CHR ''k''\<rparr>)
        ctx (\<lambda>ctx w. (Returned None, job_Args (jc_Job ctx))) fmempty = (Returned None, job_Args (jc_Job ctx))"
    by (auto simp: toy_crypt_def)
  show ?thesis
    by (intro exI conjI, rule e(1), subst e(2)) (simp_all add: NewJobContextForTest_def zero_job_def)
qed

end
