(* ===== verification/Recorder.thy ===== *)
theory Recorder
  imports Go_Errors
begin

text \<open>
  Execution traces (\<open>recorder/recorder.go\<close>, \<open>recorder/middleware.go\<close>): a recorder of calls and the wrappers
  that record every call of a function. The wrapped function may use the recorder itself, so it
  works on the recorder and the rest of the world together, and it may panic. How a JSON tree and
  a Go value are printed, the clock and the frames of the call stack are parameters. A nil slice
  and an empty one differ in JSON, so the recorder says which it has.
\<close>

subsection \<open>The recorder\<close>

record source_map =
  sm_GitSHA :: string
  sm_FilePath :: string
  sm_Line :: int

record trace_entry =
  te_FuncName :: string
  te_Args :: string
  te_Result :: string
  te_DurationMs :: int
  te_SourceMap :: "source_map option"
  te_Timestamp :: time
  te_Error :: string

text \<open>\<open>None\<close>: the slice is nil.\<close>

record recorder =
  re_entries :: "trace_entry list option"

definition NewRecorder :: recorder where "NewRecorder = \<lparr>re_entries = None\<rparr>"

definition Trace :: "recorder \<Rightarrow> trace_entry list" where
  "Trace r = (case re_entries r of None \<Rightarrow> [] | Some es \<Rightarrow> es)"

record printer =
  pt_json :: "json \<Rightarrow> string"
  pt_value :: "any \<Rightarrow> string"

definition safeMarshal :: "printer \<Rightarrow> any \<Rightarrow> string" where
  "safeMarshal p v = (case marshal v of None \<Rightarrow> pt_value p v | Some j \<Rightarrow> pt_json p j)"

definition append_entry :: "trace_entry \<Rightarrow> recorder \<Rightarrow> recorder" where
  "append_entry e r = r\<lparr>re_entries := Some (Trace r @ [e])\<rparr>"

definition RecordCall ::
  "printer \<Rightarrow> time \<Rightarrow> string \<Rightarrow> any \<Rightarrow> any \<Rightarrow> int \<Rightarrow> recorder \<Rightarrow> recorder" where
  "RecordCall p now funcName args result durationMs = append_entry
     \<lparr>te_FuncName = (if funcName = [] then ''<unknown>'' else funcName), te_Args = safeMarshal p args,
      te_Result = safeMarshal p result, te_DurationMs = (if durationMs < 0 then 0 else durationMs),
      te_SourceMap = None, te_Timestamp = now, te_Error = []\<rparr>"

definition RecordError ::
  "printer \<Rightarrow> time \<Rightarrow> string \<Rightarrow> any \<Rightarrow> go_error option \<Rightarrow> int \<Rightarrow> recorder \<Rightarrow> recorder" where
  "RecordError p now funcName args err durationMs = append_entry
     \<lparr>te_FuncName = (if funcName = [] then ''<unknown>'' else funcName), te_Args = safeMarshal p args,
      te_Result = [], te_DurationMs = (if durationMs < 0 then 0 else durationMs),
      te_SourceMap = None, te_Timestamp = now,
      te_Error = (case err of None \<Rightarrow> [] | Some e \<Rightarrow> err_msg e)\<rparr>"

definition AttachSourceMap :: "string \<Rightarrow> string \<Rightarrow> int \<Rightarrow> recorder \<Rightarrow> recorder" where
  "AttachSourceMap gitSHA filePath line r =
     (if gitSHA = [] then r
      else if Trace r = [] then r
      else r\<lparr>re_entries := Some (butlast (Trace r) @ [(last (Trace r))\<lparr>te_SourceMap := Some
        \<lparr>sm_GitSHA = gitSHA, sm_FilePath = filePath, sm_Line = line\<rparr>\<rparr>])\<rparr>)"

definition Len :: "recorder \<Rightarrow> nat" where "Len r = length (Trace r)"

definition Reset :: "recorder \<Rightarrow> recorder" where
  "Reset r = r\<lparr>re_entries := map_option (\<lambda>_. []) (re_entries r)\<rparr>"

definition enc_source_map :: "source_map \<Rightarrow> json option" where
  "enc_source_map s = struct_json [(''git_sha'', enc_string (sm_GitSHA s)), (''file_path'', enc_string (sm_FilePath s)),
     (''line'', enc_int (sm_Line s))]"

definition enc_trace_entry :: "time_codec \<Rightarrow> trace_entry \<Rightarrow> json option" where
  "enc_trace_entry tc e = struct_json
     [(''func_name'', enc_string (te_FuncName e)), (''args'', enc_string (te_Args e)),
      (''result'', enc_string (te_Result e)), (''duration_ms'', enc_int (te_DurationMs e)),
      (''source_map'', omit_ptr enc_source_map (te_SourceMap e)),
      (''timestamp'', enc_json (enc_time tc (te_Timestamp e))), (''error'', omit_string (te_Error e))]"

definition Recorder_MarshalJSON :: "time_codec \<Rightarrow> recorder \<Rightarrow> json option" where
  "Recorder_MarshalJSON tc r = (case re_entries r of
     None \<Rightarrow> Some JNull
   | Some es \<Rightarrow> map_option JArr (those (map (enc_trace_entry tc) es)))"

subsection \<open>The wrappers\<close>

datatype 'r fresult = FReturned 'r "go_error option" | FPanicked string

type_synonym ('a, 'r, 'w) func = "'a \<Rightarrow> recorder \<times> 'w \<Rightarrow> 'r fresult \<times> recorder \<times> 'w"

text \<open>\<open>runtime.Caller(2)\<close>: the third frame from the top of the stack, the caller of \<open>Caller\<close> being the first.\<close>

definition callerName :: "string list \<Rightarrow> string" where
  "callerName stack = (case drop 2 stack of f # _ \<Rightarrow> f | [] \<Rightarrow> ''handler'')"

definition pkg :: string where "pkg = ''github.com/openjobspec/ojs-go-sdk/recorder.''"

record 'w clock =
  ck_now :: "'w \<Rightarrow> time"

text \<open>Both wrappers' common part; \<open>frames\<close> are those between \<open>callerName\<close> and the wrapper's caller.\<close>

definition recorded ::
  "printer \<Rightarrow> 'w clock \<Rightarrow> ('a \<Rightarrow> any) \<Rightarrow> ('r \<Rightarrow> any) \<Rightarrow> string list \<Rightarrow> ('a, 'r, 'w) func \<Rightarrow> ('a, 'r, 'w) func" where
  "recorded p ck enc_a enc_r stack fn args st =
     (let funcName = callerName stack; start = ck_now ck (snd st) in
      case fn args st of
        (FPanicked v, st1) \<Rightarrow> (FPanicked v, st1)
      | (FReturned result err, rec1, w1) \<Rightarrow>
          (let dur = go_div (ck_now ck w1 - start) 1000000 in
           case err of
             Some e \<Rightarrow> (FReturned result err, RecordError p (ck_now ck w1) funcName (enc_a args) (Some e) dur rec1, w1)
           | None \<Rightarrow> (FReturned result err, RecordCall p (ck_now ck w1) funcName (enc_a args) (enc_r result) dur rec1, w1)))"

definition recordExecution ::
  "printer \<Rightarrow> 'w clock \<Rightarrow> string list \<Rightarrow> (any, any, 'w) func \<Rightarrow> (any, any, 'w) func" where
  "recordExecution p ck stack fn = recorded p ck id id ((pkg @ ''callerName'') # (pkg @ ''recordExecution'') # stack) fn"

text \<open>
  The frame of the wrapper's closure has the name \<open>closure\<close>: \<open>recorder.Middleware.func1\<close>, or one
  under the function that called \<open>Middleware\<close> where the compiler inlined it.
\<close>

definition Recorder_Middleware ::
  "printer \<Rightarrow> 'w clock \<Rightarrow> string \<Rightarrow> string list \<Rightarrow> (any, any, 'w) func \<Rightarrow> (any, any, 'w) func" where
  "Recorder_Middleware p ck closure callers fn = recordExecution p ck (closure # callers) fn"

definition TypedMiddleware ::
  "printer \<Rightarrow> 'w clock \<Rightarrow> ('a \<Rightarrow> any) \<Rightarrow> ('r \<Rightarrow> any) \<Rightarrow> string \<Rightarrow> string list \<Rightarrow> ('a, 'r, 'w) func
     \<Rightarrow> ('a, 'r, 'w) func" where
  "TypedMiddleware p ck enc_a enc_r closure callers fn =
     recorded p ck enc_a enc_r ((pkg @ ''callerName'') # closure # callers) fn"

subsection \<open>What is recorded\<close>

lemma Trace_append [simp]: "Trace (append_entry e r) = Trace r @ [e]"
  by (simp add: append_entry_def Trace_def)

lemma Trace_ops [simp]:
  "Trace NewRecorder = []" "Trace (Reset r) = []"
  "map (te_SourceMap_update (\<lambda>_. None)) (Trace (AttachSourceMap g f l r)) = map (te_SourceMap_update (\<lambda>_. None)) (Trace r)"
proof -
  show "Trace NewRecorder = []" by (simp add: Trace_def NewRecorder_def)
  show "Trace (Reset r) = []" by (simp add: Trace_def Reset_def split: option.splits)
  show "map (te_SourceMap_update (\<lambda>_. None)) (Trace (AttachSourceMap g f l r)) = map (te_SourceMap_update (\<lambda>_. None)) (Trace r)"
    by (cases "Trace r" rule: rev_cases) (simp_all add: AttachSourceMap_def, simp add: Trace_def)
qed

text \<open>
  What a wrapper owes: the outcome and the world of the bare run, and one entry after those the run
  recorded itself when it returned, none when it panicked.
\<close>

fun records_call ::
  "printer \<Rightarrow> ('a \<Rightarrow> any) \<Rightarrow> ('r \<Rightarrow> any) \<Rightarrow> string \<Rightarrow> 'a \<Rightarrow> 'r fresult \<times> recorder \<times> 'w
     \<Rightarrow> 'r fresult \<times> recorder \<times> 'w \<Rightarrow> bool" where
  "records_call p enc_a enc_r name args (bare, rec0, w0) (res, rec1, w1) \<longleftrightarrow> res = bare \<and> w1 = w0
     \<and> (case bare of
          FPanicked v \<Rightarrow> rec1 = rec0
        | FReturned r err \<Rightarrow> (\<exists>e. Trace rec1 = Trace rec0 @ [e]
            \<and> te_FuncName e = (if name = [] then ''<unknown>'' else name)
            \<and> te_Args e = safeMarshal p (enc_a args) \<and> 0 \<le> te_DurationMs e
            \<and> te_Result e = (case err of None \<Rightarrow> safeMarshal p (enc_r r) | Some x \<Rightarrow> [])
            \<and> te_Error e = (case err of None \<Rightarrow> [] | Some x \<Rightarrow> err_msg x)))"

lemma recorded_records:
  "records_call p enc_a enc_r (callerName stack) args (fn args st)
     (recorded p ck enc_a enc_r stack fn args st)"
  by (cases "fn args st")
    (auto simp: recorded_def Let_def RecordCall_def RecordError_def split: fresult.split option.split)

text \<open>
  C32: Recording is transparent: a function under either wrapper returns or panics exactly as it does
  unwrapped and leaves the same world; if it returned, one entry follows those it recorded itself, with
  its arguments, a duration that is not negative, the printed result when it returned no error and
  the error's text when it did; if it panicked, nothing is added. The name recorded by \<open>Middleware\<close> is
  that of the wrapper's own closure, whatever function it wraps and whoever calls it; the one
  recorded by \<open>TypedMiddleware\<close> is that of the function that calls the wrapped one. Neither is the
  wrapped function's.
\<close>

theorem recording_transparent:
  "records_call p id id closure args (fn args st) (Recorder_Middleware p ck closure callers fn args st)
   \<and> records_call p enc_a enc_r (case callers of [] \<Rightarrow> ''handler'' | caller # _ \<Rightarrow> caller) targs
       (tfn targs st) (TypedMiddleware p ck enc_a enc_r closure callers tfn targs st)"
proof
  show "records_call p id id closure args (fn args st) (Recorder_Middleware p ck closure callers fn args st)"
    using recorded_records [of p id id "(pkg @ ''callerName'') # (pkg @ ''recordExecution'') # closure # callers" args fn st ck]
    by (simp add: Recorder_Middleware_def recordExecution_def callerName_def)
  show "records_call p enc_a enc_r (case callers of [] \<Rightarrow> ''handler'' | caller # _ \<Rightarrow> caller) targs
       (tfn targs st) (TypedMiddleware p ck enc_a enc_r closure callers tfn targs st)"
    using recorded_records [of p enc_a enc_r "(pkg @ ''callerName'') # closure # callers" targs tfn st ck]
    by (cases callers) (simp_all add: TypedMiddleware_def callerName_def)
qed

text \<open>An empty trace is exported as \<open>null\<close> by a fresh recorder and as an empty array after a reset.\<close>

lemma empty_trace_exports:
  "Recorder_MarshalJSON tc NewRecorder = Some JNull"
  "Recorder_MarshalJSON tc (Reset (append_entry e r)) = Some (JArr [])"
  by (simp_all add: Recorder_MarshalJSON_def NewRecorder_def Reset_def append_entry_def)

end
