(* ===== verification/Telemetry.thy ===== *)
theory Telemetry
  imports Client Middleware_Chain
begin

text \<open>
  Logging, tracing and metrics (\<open>middleware/logging.go\<close>, \<open>middleware/otel/\<close>). Loggers and OpenTelemetry are not
  part of the repository: what the code calls of them are the fields of the records \<open>logger\<close>, \<open>otel\<close> and
  \<open>meter\<close>, arbitrary functions on the state of the world. A span is named by the context it was
  started in. The SDK's side is modelled whole: what is logged when, which spans are opened and
  how they end, and how a trace context travels in a job's metadata.
\<close>

subsection \<open>Logging\<close>

datatype attr = AStr string string | AInt string int | AFloat string f64 | AStrs string "string list"

datatype level = LevelDebug | LevelInfo | LevelError

record 'w logger =
  lg_LogAttrs :: "level \<Rightarrow> string \<Rightarrow> attr list \<Rightarrow> 'w \<Rightarrow> 'w"
  lg_now :: "'w \<Rightarrow> time"

text \<open>\<open>float64(d.Microseconds()) / 1000.0\<close>\<close>

definition duration_ms :: "int \<Rightarrow> f64" where
  "duration_ms d = (case f64_of_int (go_div d 1000) of Fin x \<Rightarrow> f64_of_rat (x / 1000) | f \<Rightarrow> f)"

definition Logging :: "'w logger \<Rightarrow> 'w middleware" where
  "Logging lg ctx next w =
     (let attrs = [AStr ''job.type'' (job_Type (jc_Job ctx)), AStr ''job.id'' (job_ID (jc_Job ctx)),
            AStr ''job.queue'' (jc_Queue ctx), AInt ''job.attempt'' (jc_Attempt ctx)];
          w1 = lg_LogAttrs lg LevelDebug ''job started'' attrs w;
          start = lg_now lg w1
      in case next ctx w1 of
           (Panicked r, w2) \<Rightarrow> (Panicked r, w2)
         | (Returned err, w2) \<Rightarrow>
             (let attrs = attrs @ [AFloat ''duration_ms'' (duration_ms (lg_now lg w2 - start))] in
              case err of
                Some e \<Rightarrow> (Returned err, lg_LogAttrs lg LevelError ''job failed'' (attrs @ [AStr ''error'' (err_msg e)]) w2)
              | None \<Rightarrow> (Returned err, lg_LogAttrs lg LevelInfo ''job completed'' attrs w2)))"

subsection \<open>Spans\<close>

datatype span_kind = SpanKindInternal | SpanKindProducer | SpanKindConsumer

datatype span_call =
    SetError string
  | SetOk
  | RecordError go_error
  | SetAttributes "attr list"
  | End

text \<open>The tracer and the propagator; carriers are maps from strings to strings.\<close>

type_synonym carrier = "(string, string) fmap"

record ('c, 'w) otel =
  ot_Start :: "'c \<Rightarrow> string \<Rightarrow> span_kind \<Rightarrow> attr list \<Rightarrow> 'w \<Rightarrow> 'c \<times> 'w"
  ot_span :: "'c \<Rightarrow> span_call \<Rightarrow> 'w \<Rightarrow> 'w"
  ot_Inject :: "'c \<Rightarrow> carrier"
  ot_Extract :: "'c \<Rightarrow> carrier \<Rightarrow> 'c"

definition span_calls :: "('c, 'w) otel \<Rightarrow> 'c \<Rightarrow> span_call list \<Rightarrow> 'w \<Rightarrow> 'w" where
  "span_calls ot c cs w = fold (ot_span ot c) cs w"

text \<open>The options: a provider of one's own, or the global one.\<close>

record 'p otel_config =
  oc_tracerProvider :: "'p option"
  oc_meterProvider :: "'p option"

definition WithTracerProvider :: "'p \<Rightarrow> 'p otel_config \<Rightarrow> 'p otel_config" where
  "WithTracerProvider tp c = c\<lparr>oc_tracerProvider := Some tp\<rparr>"

definition WithMeterProvider :: "'p \<Rightarrow> 'p otel_config \<Rightarrow> 'p otel_config" where
  "WithMeterProvider mp c = c\<lparr>oc_meterProvider := Some mp\<rparr>"

definition resolve_tracer :: "'p \<Rightarrow> ('p otel_config \<Rightarrow> 'p otel_config) list \<Rightarrow> 'p" where
  "resolve_tracer global opts =
     (case oc_tracerProvider (fold (\<lambda>opt c. opt c) opts \<lparr>oc_tracerProvider = None, oc_meterProvider = None\<rparr>) of
        Some tp \<Rightarrow> tp | None \<Rightarrow> global)"

definition jobAttributes :: "job_context \<Rightarrow> attr list" where
  "jobAttributes ctx = [AStr ''ojs.job.type'' (job_Type (jc_Job ctx)), AStr ''ojs.job.id'' (job_ID (jc_Job ctx)),
     AStr ''ojs.job.queue'' (jc_Queue ctx), AInt ''ojs.job.attempt'' (jc_Attempt ctx)]"

text \<open>
  The common part of both worker middlewares: a span around the handler, which ends also when the handler
  panics. \<open>c0\<close> is the context the span is started in.
\<close>

definition consumer_span :: "('c, 'w) otel \<Rightarrow> 'c \<Rightarrow> string \<Rightarrow> 'w middleware" where
  "consumer_span ot c0 name ctx next w =
     (let (c, w1) = ot_Start ot c0 name SpanKindConsumer (jobAttributes ctx) w
      in case next ctx w1 of
           (Panicked r, w2) \<Rightarrow> (Panicked r, span_calls ot c [End] w2)
         | (Returned (Some e), w2) \<Rightarrow>
             (Returned (Some e), span_calls ot c [SetError (err_msg e), RecordError e, End] w2)
         | (Returned None, w2) \<Rightarrow> (Returned None, span_calls ot c [SetOk, End] w2))"

definition Tracing :: "('c, 'w) otel \<Rightarrow> 'c \<Rightarrow> 'w middleware" where
  "Tracing ot c0 ctx next w = consumer_span ot c0 (''ojs.job '' @ job_Type (jc_Job ctx)) ctx next w"

text \<open>The strings among the members of \<open>otel_context\<close>.\<close>

fun as_str :: "any \<Rightarrow> string option" where
  "as_str (VStr s) = Some s"
| "as_str _ = None"

definition extracted_carrier :: "anymap \<Rightarrow> carrier" where
  "extracted_carrier m = fmmap (\<lambda>v. the (as_str v)) (fmfilter (\<lambda>k. Option.bind (fmlookup m k) as_str \<noteq> None) m)"

definition parent_context :: "('c, 'w) otel \<Rightarrow> 'c \<Rightarrow> anymap \<Rightarrow> 'c" where
  "parent_context ot c0 meta = (case fmlookup meta ''otel_context'' of
     Some (VMap m) \<Rightarrow> ot_Extract ot c0 (extracted_carrier m)
   | _ \<Rightarrow> c0)"

definition TracingWithPropagation :: "('c, 'w) otel \<Rightarrow> 'c \<Rightarrow> 'w middleware" where
  "TracingWithPropagation ot c0 ctx next w = consumer_span ot (parent_context ot c0 (job_Meta (jc_Job ctx)))
     (''ojs.process '' @ job_Type (jc_Job ctx)) ctx next w"

subsection \<open>Metrics\<close>

record 'w meter =
  mt_Add :: "string \<Rightarrow> int \<Rightarrow> attr list \<Rightarrow> 'w \<Rightarrow> 'w"
  mt_Record :: "string \<Rightarrow> f64 \<Rightarrow> attr list \<Rightarrow> 'w \<Rightarrow> 'w"
  mt_now :: "'w \<Rightarrow> time"

definition Otel_Metrics :: "'w meter \<Rightarrow> 'w middleware" where
  "Otel_Metrics mt ctx next w =
     (let attrs = [AStr ''ojs.job.type'' (job_Type (jc_Job ctx)), AStr ''ojs.job.queue'' (jc_Queue ctx)];
          w1 = mt_Add mt ''ojs.job.started'' 1 attrs w;
          start = mt_now mt w1
      in case next ctx w1 of
           (Panicked r, w2) \<Rightarrow> (Panicked r, w2)
         | (Returned err, w2) \<Rightarrow>
             (let w3 = mt_Record mt ''ojs.job.duration'' (duration_ms (mt_now mt w2 - start)) attrs w2
              in (Returned err, mt_Add mt (if err \<noteq> None then ''ojs.job.failed'' else ''ojs.job.completed'') 1 attrs w3)))"

subsection \<open>The traced client\<close>

text \<open>The SDK's trace of requests and the world of the tracer go side by side.\<close>

definition spanned :: "('c, 'w) otel \<Rightarrow> 'c \<Rightarrow> bool \<Rightarrow> ('a \<Rightarrow> attr list) \<Rightarrow> 'a call \<Rightarrow> 'w \<Rightarrow> 'a call \<times> 'w" where
  "spanned ot c record attrs result w = (case result of
     (Inl e, t) \<Rightarrow> ((Inl e, t), span_calls ot c ([SetError (err_msg e)] @ (if record then [RecordError e] else []) @ [End]) w)
   | (Inr x, t) \<Rightarrow> ((Inr x, t), span_calls ot c ((if attrs x = [] then [] else [SetAttributes (attrs x)]) @ [SetOk, End]) w))"

definition inject_option :: "carrier \<Rightarrow> enqueue_option list" where
  "inject_option carrier = (if carrier = fmempty then []
     else [WithMeta (fmap_of_list [(''otel_context'', VMap (fmmap VStr carrier))])])"

definition Traced_Enqueue ::
  "('c, 'w) otel \<Rightarrow> 'c \<Rightarrow> env \<Rightarrow> transport \<Rightarrow> string \<Rightarrow> args \<Rightarrow> enqueue_option list \<Rightarrow> trace \<Rightarrow> 'w \<Rightarrow> job call \<times> 'w" where
  "Traced_Enqueue ot c0 env tr jobType args opts t w =
     (let (c, w1) = ot_Start ot c0 (''ojs.enqueue '' @ jobType) SpanKindProducer [AStr ''ojs.job.type'' jobType] w
      in spanned ot c True (\<lambda>j. [AStr ''ojs.job.id'' (job_ID j)])
           (Enqueue env tr jobType args (opts @ inject_option (ot_Inject ot c)) t) w1)"

text \<open>With an error the jobs are dropped, also those of a partial failure.\<close>

definition Traced_EnqueueBatch ::
  "('c, 'w) otel \<Rightarrow> 'c \<Rightarrow> env \<Rightarrow> transport \<Rightarrow> job_request list \<Rightarrow> trace \<Rightarrow> 'w
     \<Rightarrow> ((job list \<times> go_error option) \<times> trace) \<times> 'w" where
  "Traced_EnqueueBatch ot c0 env tr rs t w =
     (let (c, w1) = ot_Start ot c0 ''ojs.enqueue_batch'' SpanKindProducer [AInt ''ojs.batch.size'' (int (length rs))] w
      in case EnqueueBatch env tr rs t of
           ((jobs, Some e), t1) \<Rightarrow> ((([], Some e), t1), span_calls ot c [SetError (err_msg e), RecordError e, End] w1)
         | ((jobs, None), t1) \<Rightarrow> (((jobs, None), t1),
             span_calls ot c [SetAttributes [AInt ''ojs.batch.count'' (int (length jobs))], SetOk, End] w1))"

definition Traced_GetJob ::
  "('c, 'w) otel \<Rightarrow> 'c \<Rightarrow> env \<Rightarrow> transport \<Rightarrow> string \<Rightarrow> trace \<Rightarrow> 'w \<Rightarrow> job call \<times> 'w" where
  "Traced_GetJob ot c0 env tr jid t w =
     (let (c, w1) = ot_Start ot c0 ''ojs.get_job'' SpanKindInternal [AStr ''ojs.job.id'' jid] w
      in spanned ot c False (\<lambda>_. []) (GetJob env tr jid t) w1)"

definition Traced_CancelJob ::
  "('c, 'w) otel \<Rightarrow> 'c \<Rightarrow> env \<Rightarrow> transport \<Rightarrow> string \<Rightarrow> trace \<Rightarrow> 'w \<Rightarrow> job call \<times> 'w" where
  "Traced_CancelJob ot c0 env tr jid t w =
     (let (c, w1) = ot_Start ot c0 ''ojs.cancel_job'' SpanKindInternal [AStr ''ojs.job.id'' jid] w
      in spanned ot c False (\<lambda>_. []) (CancelJob env tr jid t) w1)"

subsection \<open>Transparency\<close>

text \<open>
  A middleware that calls the handler once, on the context it was given, and returns what it returned; what
  it does before and after is up to it.
\<close>

definition observes :: "'w middleware \<Rightarrow> bool" where
  "observes m \<longleftrightarrow> (\<exists>before. \<forall>ctx h w. m ctx h w =
     (case h ctx (before ctx w) of (r, w1) \<Rightarrow> (r, snd (m ctx (\<lambda>_ _. (r, w1)) w))))"

lemma observesI:
  assumes "\<And>ctx h w. m ctx h w = (case h ctx (before ctx w) of (r, w1) \<Rightarrow> (r, snd (m ctx (\<lambda>_ _. (r, w1)) w)))"
  shows "observes m"
  unfolding observes_def using assms by blast

lemmas observer_cases = prod.split hresult.split option.split

lemma observers:
  "observes (Logging lg)" "observes (Tracing ot c)" "observes (TracingWithPropagation ot c)"
  "observes (Otel_Metrics mt)"
proof -
  show "observes (Logging lg)"
    by (rule observesI [where before = "\<lambda>ctx w. lg_LogAttrs lg LevelDebug ''job started''
        [AStr ''job.type'' (job_Type (jc_Job ctx)), AStr ''job.id'' (job_ID (jc_Job ctx)),
         AStr ''job.queue'' (jc_Queue ctx), AInt ''job.attempt'' (jc_Attempt ctx)] w"])
      (simp add: Logging_def Let_def split: observer_cases)
  show "observes (Tracing ot c)"
    by (rule observesI [where before = "\<lambda>ctx w. snd (ot_Start ot c (''ojs.job '' @ job_Type (jc_Job ctx))
        SpanKindConsumer (jobAttributes ctx) w)"])
      (simp add: Tracing_def consumer_span_def split: observer_cases)
  show "observes (TracingWithPropagation ot c)"
    by (rule observesI [where before = "\<lambda>ctx w. snd (ot_Start ot (parent_context ot c (job_Meta (jc_Job ctx)))
        (''ojs.process '' @ job_Type (jc_Job ctx)) SpanKindConsumer (jobAttributes ctx) w)"])
      (simp add: TracingWithPropagation_def consumer_span_def split: observer_cases)
  show "observes (Otel_Metrics mt)"
    by (rule observesI [where before = "\<lambda>ctx w. mt_Add mt ''ojs.job.started'' 1
        [AStr ''ojs.job.type'' (job_Type (jc_Job ctx)), AStr ''ojs.job.queue'' (jc_Queue ctx)] w"])
      (simp add: Otel_Metrics_def Let_def split: observer_cases)
qed

lemma observed_result:
  assumes "observes m"
  obtains before where "\<And>h w. fst (m ctx h w) = fst (h ctx (before w))"
  using assms unfolding observes_def by (metis (no_types, lifting) case_prod_beta fst_conv)

lemma observing_chain:
  "list_all (\<lambda>m. observes (nm_fn m)) c \<Longrightarrow> \<exists>before. \<forall>w. fst (chain_then c h ctx w) = fst (h ctx (before w))"
proof (induction c)
  case Nil
  then show ?case by (intro exI [of _ id]) simp
next
  case (Cons m c)
  then obtain b1 where b1: "\<And>w. fst (chain_then c h ctx w) = fst (h ctx (b1 w))" by auto
  from Cons.prems obtain b2 where "\<And>h w. fst (nm_fn m ctx h w) = fst (h ctx (b2 w))"
    using observed_result [of "nm_fn m" ctx] by auto
  with b1 show ?case by (intro exI [of _ "b1 \<circ> b2"]) simp
qed

text \<open>
  C31: Observing does not interfere: under any chain of logging, tracing with or without propagation, and
  OpenTelemetry metrics, in any order and number, a job ends with the error or the panic its handler ends with,
  called on the unchanged context.
\<close>

theorem observers_transparent:
  assumes "set (map nm_fn c) \<subseteq> {Logging lg, Tracing ot c0, TracingWithPropagation ot c0, Otel_Metrics mt}"
  shows "\<exists>before. \<forall>w. fst (chain_then c h ctx w) = fst (h ctx (before w))"
proof (rule observing_chain)
  show "list_all (\<lambda>m. observes (nm_fn m)) c"
    using assms by (auto simp: list_all_iff observers)
qed

theorem observers_transparent_witness:
  "\<exists>before. \<forall>w. fst (chain_then
      [\<lparr>nm_name = ''log'', nm_fn = Logging \<lparr>lg_LogAttrs = (\<lambda>l s as w. w @ [s]), lg_now = (\<lambda>_. 0)\<rparr>\<rparr>,
       \<lparr>nm_name = ''metrics'', nm_fn = Otel_Metrics \<lparr>mt_Add = (\<lambda>s n as w. w @ [s]), mt_Record = (\<lambda>s d as w. w @ [s]),
         mt_now = (\<lambda>_. 0)\<rparr>\<rparr>]
      (\<lambda>_ w. (Panicked ''boom'', w @ [''run''])) (NewJobContextForTest zero_job) w)
    = fst ((\<lambda>_ w. (Panicked ''boom'', w @ [''run''])) (NewJobContextForTest zero_job) (before w))"
  by (rule observers_transparent [where lg = "\<lparr>lg_LogAttrs = (\<lambda>l s as w. w @ [s]), lg_now = (\<lambda>_. 0)\<rparr>"
      and mt = "\<lparr>mt_Add = (\<lambda>s n as w. w @ [s]), mt_Record = (\<lambda>s d as w. w @ [s]), mt_now = (\<lambda>_. 0)\<rparr>"]) simp

subsection \<open>A trace context travels with the job\<close>

lemma extracted_strings [simp]: "extracted_carrier (fmmap VStr m) = m"
proof (rule fmap_ext)
  fix k
  show "fmlookup (extracted_carrier (fmmap VStr m)) k = fmlookup m k"
    by (cases "fmlookup m k") (simp_all add: extracted_carrier_def)
qed

lemma string_map_json [simp]: "from_json (to_json (VMap (fmmap VStr m))) = VMap (fmmap VStr m)"
  by (simp add: fmap.map_comp comp_def)

text \<open>
  C30: Traces are joined across the queue: a job enqueued through the traced client is enqueued as by the
  client itself with one more option, and if the propagator injects anything, that very carrier
  comes out in the worker: when the job's metadata, as sent and decoded again, reaches
  \<open>TracingWithPropagation\<close>, the span is started in the context extracted from it, whatever
  metadata the caller set.
\<close>

theorem trace_context_travels:
  assumes "ot_Start ot c0 (''ojs.enqueue '' @ ty) SpanKindProducer [AStr ''ojs.job.type'' ty] w = (c, w1)"
    and "ot_Inject ot c \<noteq> fmempty"
    and "cfg = resolveEnqueueConfig now (opts @ inject_option (ot_Inject ot c))"
    and "job_Meta (jc_Job ctx) = fmmap (\<lambda>v. from_json (to_json v)) (cfg_meta cfg)"
  shows "fst (Traced_Enqueue ot c0 env tr ty a opts t w) = Enqueue env tr ty a (opts @ inject_option (ot_Inject ot c)) t
    \<and> TracingWithPropagation ot c1 ctx h v = consumer_span ot (ot_Extract ot c1 (ot_Inject ot c))
        (''ojs.process '' @ job_Type (jc_Job ctx)) ctx h v"
proof
  show "fst (Traced_Enqueue ot c0 env tr ty a opts t w) = Enqueue env tr ty a (opts @ inject_option (ot_Inject ot c)) t"
    using assms(1) by (simp add: Traced_Enqueue_def spanned_def split: prod.split sum.split)
  have "fmlookup (cfg_meta cfg) ''otel_context'' = Some (VMap (fmmap VStr (ot_Inject ot c)))"
    using assms(2,3) by (simp add: inject_option_def resolveEnqueueConfig_def WithMeta_def)
  then have "fmlookup (job_Meta (jc_Job ctx)) ''otel_context'' = Some (VMap (fmmap VStr (ot_Inject ot c)))"
    using assms(4) by (simp del: from_json.simps to_json.simps)
  then show "TracingWithPropagation ot c1 ctx h v = consumer_span ot (ot_Extract ot c1 (ot_Inject ot c))
        (''ojs.process '' @ job_Type (jc_Job ctx)) ctx h v"
    by (simp add: TracingWithPropagation_def parent_context_def)
qed

text \<open>
  A traced batch carries no trace context: it sends what the client sends for the same requests,
  whatever the propagator would inject, and when the server reports a partial failure the caller
  gets no jobs, not those that were enqueued.
\<close>

theorem traced_batch_drops_context_and_jobs:
  "snd (fst (Traced_EnqueueBatch ot c0 env tr rs t w)) = snd (EnqueueBatch env tr rs t)
   \<and> snd (fst (fst (Traced_EnqueueBatch ot c0 env tr rs t w))) = snd (fst (EnqueueBatch env tr rs t))
   \<and> fst (fst (fst (Traced_EnqueueBatch ot c0 env tr rs t w))) =
      (case snd (fst (EnqueueBatch env tr rs t)) of None \<Rightarrow> fst (fst (EnqueueBatch env tr rs t)) | Some e \<Rightarrow> [])"
  by (simp add: Traced_EnqueueBatch_def split: prod.split option.split)

text \<open>A tracer whose contexts are carriers.\<close>

definition carrier_otel :: "carrier \<Rightarrow> (carrier, nat) otel" where
  "carrier_otel m = \<lparr>ot_Start = (\<lambda>c name k as w. (m, w + 1)), ot_span = (\<lambda>_ _ w. w), ot_Inject = (\<lambda>c. c),
     ot_Extract = (\<lambda>_ m. m)\<rparr>"

theorem trace_context_travels_witness:
  "TracingWithPropagation (carrier_otel (fmap_of_list [(''traceparent'', ''00-1-2-01'')])) fmempty
      (NewJobContextForTest (zero_job\<lparr>job_Meta := fmmap (\<lambda>v. from_json (to_json v)) (cfg_meta (resolveEnqueueConfig 0
        (inject_option (fmap_of_list [(''traceparent'', ''00-1-2-01'')]))))\<rparr>)) (\<lambda>_ w. (Returned None, w)) 0
    = consumer_span (carrier_otel (fmap_of_list [(''traceparent'', ''00-1-2-01'')]))
        (fmap_of_list [(''traceparent'', ''00-1-2-01'')]) ''ojs.process ''
      (NewJobContextForTest (zero_job\<lparr>job_Meta := fmmap (\<lambda>v. from_json (to_json v)) (cfg_meta (resolveEnqueueConfig 0
        (inject_option (fmap_of_list [(''traceparent'', ''00-1-2-01'')]))))\<rparr>)) (\<lambda>_ w. (Returned None, w)) 0"
proof -
  let ?m = "fmap_of_list [(''traceparent'', ''00-1-2-01'')]"
  let ?ctx = "NewJobContextForTest (zero_job\<lparr>job_Meta := fmmap (\<lambda>v. from_json (to_json v)) (cfg_meta
      (resolveEnqueueConfig 0 (inject_option ?m)))\<rparr>)"
  have inj: "ot_Inject (carrier_otel ?m) ?m = ?m" "ot_Extract (carrier_otel ?m) c1 x = x" for c1 x
    by (simp_all add: carrier_otel_def)
  have "job_Type (jc_Job ?ctx) = []" by (simp add: NewJobContextForTest_def zero_job_def)
  moreover have "fmlookup ?m ''traceparent'' \<noteq> None" by simp
  then have "?m \<noteq> fmempty" by (metis fmempty_lookup)
  ultimately show ?thesis
    using trace_context_travels [of "carrier_otel ?m" fmempty "''t''" 0 ?m 1 _ 0 "[]" ?ctx] inj
    by (simp add: carrier_otel_def NewJobContextForTest_def)
qed

end
