(* ===== verification/Grpc_Transport.thy ===== *)
theory Grpc_Transport
  imports Go_Errors
begin

text \<open>
  The gRPC transport (\<open>grpc/transport.go\<close>). The generated service client, the connection and the conversion
  to protobuf values are not part of the repository: the record \<open>rpc\<close> holds the client's answer to a
  call, which may depend on every call before it, and the two conversions. What the transport does to the
  outside is a trace of calls, each with the metadata it carries. Type variables stand for the
  generated types: \<open>'v\<close> values, \<open>'s\<close> structs, \<open>'j\<close> jobs, \<open>'h\<close> health, \<open>'st\<close> worker states.
\<close>

subsection \<open>Calls\<close>

record enqueue_opts =
  eo_Queue :: string
  eo_Priority :: int
  eo_Tags :: "string list"

datatype ('v, 's) grpc_request =
    EnqueueRequest string "'v list" "enqueue_opts option"
  | GetJobRequest string
  | CancelJobRequest string
  | HealthRequest
  | FetchRequest "string list" int string
  | AckRequest string "'s option"
  | NackRequest string string string bool
  | HeartbeatRequest string string

datatype ('j, 'h, 'st) grpc_response =
    JobResponse "'j option"
  | HealthResponse 'h
  | FetchResponse "'j list"
  | EmptyResponse
  | HeartbeatResponse 'st

type_synonym metadata = "(string \<times> string) list"

type_synonym ('v, 's) grpc_trace = "(metadata \<times> ('v, 's) grpc_request) list"

record ('v, 's, 'j, 'h, 'st) rpc =
  rpc_call :: "('v, 's) grpc_trace \<Rightarrow> metadata \<Rightarrow> ('v, 's) grpc_request \<Rightarrow> go_error + ('j, 'h, 'st) grpc_response"
  rpc_NewValue :: "any \<Rightarrow> go_error + 'v"
  rpc_NewStruct :: "anymap \<Rightarrow> go_error + 's"
  rpc_unspecified :: 'st

subsection \<open>The transport\<close>

text \<open>\<open>'d\<close>: dial options and connections of the gRPC package.\<close>

record 'd grpc_options =
  go_auth :: string
  go_dialOpts :: "'d list"

definition Grpc_WithAuth :: "string \<Rightarrow> 'd grpc_options \<Rightarrow> 'd grpc_options" where
  "Grpc_WithAuth token o1 = o1\<lparr>go_auth := token\<rparr>"

definition WithDialOptions :: "'d list \<Rightarrow> 'd grpc_options \<Rightarrow> 'd grpc_options" where
  "WithDialOptions opts o1 = o1\<lparr>go_dialOpts := go_dialOpts o1 @ opts\<rparr>"

definition grpc_config :: "('d grpc_options \<Rightarrow> 'd grpc_options) list \<Rightarrow> 'd grpc_options" where
  "grpc_config opts = fold (\<lambda>o1 cfg. o1 cfg) opts \<lparr>go_auth = [], go_dialOpts = []\<rparr>"

record 'c grpc_transport =
  gt_conn :: 'c
  gt_auth :: string

text \<open>\<open>new\<close> is \<open>grpc.NewClient\<close>, \<open>insecure\<close> the option for transport credentials without security.\<close>

definition Dial ::
  "(string \<Rightarrow> 'd list \<Rightarrow> go_error + 'c) \<Rightarrow> 'd \<Rightarrow> string \<Rightarrow> ('d grpc_options \<Rightarrow> 'd grpc_options) list
     \<Rightarrow> go_error + 'c grpc_transport" where
  "Dial new insecure addr opts =
     (let cfg = grpc_config opts;
          dialOpts = (if go_dialOpts cfg = [] then [insecure] else go_dialOpts cfg)
      in case new addr dialOpts of
           Inl e \<Rightarrow> Inl (Wrapf (''ojsgrpc: dial '' @ addr @ '': '') e)
         | Inr conn \<Rightarrow> Inr \<lparr>gt_conn = conn, gt_auth = go_auth cfg\<rparr>)"

definition FromConn :: "'c \<Rightarrow> ('d grpc_options \<Rightarrow> 'd grpc_options) list \<Rightarrow> 'c grpc_transport" where
  "FromConn conn opts = \<lparr>gt_conn = conn, gt_auth = go_auth (grpc_config opts)\<rparr>"

definition grpc_ctx :: "'c grpc_transport \<Rightarrow> metadata \<Rightarrow> metadata" where
  "grpc_ctx t md = (if gt_auth t \<noteq> [] then md @ [(''authorization'', ''Bearer '' @ gt_auth t)] else md)"

text \<open>One call: the answer, and the trace with the call added. \<open>md\<close> is what the caller's context has.\<close>

definition invoke ::
  "('v, 's, 'j, 'h, 'st) rpc \<Rightarrow> 'c grpc_transport \<Rightarrow> metadata \<Rightarrow> ('v, 's) grpc_request \<Rightarrow> ('v, 's) grpc_trace
     \<Rightarrow> (go_error + ('j, 'h, 'st) grpc_response) \<times> ('v, 's) grpc_trace" where
  "invoke rpc t md req tr = (rpc_call rpc tr (grpc_ctx t md) req, tr @ [(grpc_ctx t md, req)])"

subsection \<open>Operations\<close>

text \<open>The getters of the generated responses: another response has the zero value of the field.\<close>

fun resp_job :: "('j, 'h, 'st) grpc_response \<Rightarrow> 'j option" where
  "resp_job (JobResponse j) = j"
| "resp_job _ = None"

fun resp_jobs :: "('j, 'h, 'st) grpc_response \<Rightarrow> 'j list" where
  "resp_jobs (FetchResponse js) = js"
| "resp_jobs _ = []"

fun toStructList :: "('v, 's, 'j, 'h, 'st) rpc \<Rightarrow> any list \<Rightarrow> go_error + 'v list" where
  "toStructList rpc [] = Inr []"
| "toStructList rpc (a # as) = (case rpc_NewValue rpc a of
     Inl e \<Rightarrow> Inl e
   | Inr v \<Rightarrow> (case toStructList rpc as of Inl e \<Rightarrow> Inl e | Inr vs \<Rightarrow> Inr (v # vs)))"

definition job_of_answer :: "(go_error + ('j, 'h, 'st) grpc_response) \<Rightarrow> go_error + 'j option" where
  "job_of_answer r = (case r of Inl e \<Rightarrow> Inl e | Inr resp \<Rightarrow> Inr (resp_job resp))"

definition Grpc_Enqueue ::
  "('v, 's, 'j, 'h, 'st) rpc \<Rightarrow> 'c grpc_transport \<Rightarrow> metadata \<Rightarrow> string \<Rightarrow> any list \<Rightarrow> enqueue_opts option
     \<Rightarrow> ('v, 's) grpc_trace \<Rightarrow> (go_error + 'j option) \<times> ('v, 's) grpc_trace" where
  "Grpc_Enqueue rpc t md jobType args opts tr = (case toStructList rpc args of
     Inl e \<Rightarrow> (Inl (Wrapf ''ojsgrpc: marshal args: '' e), tr)
   | Inr vs \<Rightarrow> (case invoke rpc t md (EnqueueRequest jobType vs opts) tr of (r, tr1) \<Rightarrow> (job_of_answer r, tr1)))"

definition Grpc_GetJob ::
  "('v, 's, 'j, 'h, 'st) rpc \<Rightarrow> 'c grpc_transport \<Rightarrow> metadata \<Rightarrow> string \<Rightarrow> ('v, 's) grpc_trace
     \<Rightarrow> (go_error + 'j option) \<times> ('v, 's) grpc_trace" where
  "Grpc_GetJob rpc t md jid tr = (case invoke rpc t md (GetJobRequest jid) tr of (r, tr1) \<Rightarrow> (job_of_answer r, tr1))"

definition Grpc_CancelJob ::
  "('v, 's, 'j, 'h, 'st) rpc \<Rightarrow> 'c grpc_transport \<Rightarrow> metadata \<Rightarrow> string \<Rightarrow> ('v, 's) grpc_trace
     \<Rightarrow> (go_error + 'j option) \<times> ('v, 's) grpc_trace" where
  "Grpc_CancelJob rpc t md jid tr =
     (case invoke rpc t md (CancelJobRequest jid) tr of (r, tr1) \<Rightarrow> (job_of_answer r, tr1))"

definition Grpc_Health ::
  "('v, 's, 'j, 'h, 'st) rpc \<Rightarrow> 'c grpc_transport \<Rightarrow> metadata \<Rightarrow> ('v, 's) grpc_trace
     \<Rightarrow> (go_error + ('j, 'h, 'st) grpc_response) \<times> ('v, 's) grpc_trace" where
  "Grpc_Health rpc t md tr = invoke rpc t md HealthRequest tr"

text \<open>\<open>int32(count)\<close> keeps the low 32 bits.\<close>

definition wrap32 :: "int \<Rightarrow> int" where
  "wrap32 x = (x + 2 ^ 31) mod 2 ^ 32 - 2 ^ 31"

definition Grpc_Fetch ::
  "('v, 's, 'j, 'h, 'st) rpc \<Rightarrow> 'c grpc_transport \<Rightarrow> metadata \<Rightarrow> string list \<Rightarrow> int \<Rightarrow> string
     \<Rightarrow> ('v, 's) grpc_trace \<Rightarrow> (go_error + 'j list) \<times> ('v, 's) grpc_trace" where
  "Grpc_Fetch rpc t md queues count workerID tr =
     (case invoke rpc t md (FetchRequest queues (wrap32 count) workerID) tr of
        (Inl e, tr1) \<Rightarrow> (Inl e, tr1)
      | (Inr resp, tr1) \<Rightarrow> (Inr (resp_jobs resp), tr1))"

text \<open>\<open>None\<close> for a nil result; one that cannot be converted is left out.\<close>

definition ack_result :: "('v, 's, 'j, 'h, 'st) rpc \<Rightarrow> anymap option \<Rightarrow> 's option" where
  "ack_result rpc result = (case result of
     None \<Rightarrow> None
   | Some m \<Rightarrow> (case rpc_NewStruct rpc m of Inl _ \<Rightarrow> None | Inr s \<Rightarrow> Some s))"

definition error_of_answer :: "(go_error + 'a) \<Rightarrow> go_error option" where
  "error_of_answer r = (case r of Inl e \<Rightarrow> Some e | Inr _ \<Rightarrow> None)"

definition Grpc_Ack ::
  "('v, 's, 'j, 'h, 'st) rpc \<Rightarrow> 'c grpc_transport \<Rightarrow> metadata \<Rightarrow> string \<Rightarrow> anymap option
     \<Rightarrow> ('v, 's) grpc_trace \<Rightarrow> go_error option \<times> ('v, 's) grpc_trace" where
  "Grpc_Ack rpc t md jobID result tr =
     (case invoke rpc t md (AckRequest jobID (ack_result rpc result)) tr of (r, tr1) \<Rightarrow> (error_of_answer r, tr1))"

definition Grpc_Nack ::
  "('v, 's, 'j, 'h, 'st) rpc \<Rightarrow> 'c grpc_transport \<Rightarrow> metadata \<Rightarrow> string \<Rightarrow> string \<Rightarrow> string \<Rightarrow> bool
     \<Rightarrow> ('v, 's) grpc_trace \<Rightarrow> go_error option \<times> ('v, 's) grpc_trace" where
  "Grpc_Nack rpc t md jobID code message retryable tr =
     (case invoke rpc t md (NackRequest jobID code message retryable) tr of (r, tr1) \<Rightarrow> (error_of_answer r, tr1))"

definition Grpc_Heartbeat ::
  "('v, 's, 'j, 'h, 'st) rpc \<Rightarrow> 'c grpc_transport \<Rightarrow> metadata \<Rightarrow> string \<Rightarrow> string
     \<Rightarrow> ('v, 's) grpc_trace \<Rightarrow> ('st \<times> go_error option) \<times> ('v, 's) grpc_trace" where
  "Grpc_Heartbeat rpc t md hid workerID tr =
     (case invoke rpc t md (HeartbeatRequest hid workerID) tr of
        (Inl e, tr1) \<Rightarrow> ((rpc_unspecified rpc, Some e), tr1)
      | (Inr (HeartbeatResponse s), tr1) \<Rightarrow> ((s, None), tr1)
      | (Inr _, tr1) \<Rightarrow> ((rpc_unspecified rpc, None), tr1))"

subsection \<open>Properties\<close>

text \<open>A call of the transport, in any of its operations.\<close>

datatype grpc_op = OpEnqueue string "any list" "enqueue_opts option" | OpGet string | OpCancel string | OpHealth
  | OpFetch "string list" int string | OpAck string "anymap option" | OpNack string string string bool
  | OpHeartbeat string string

fun run_op :: "('v, 's, 'j, 'h, 'st) rpc \<Rightarrow> 'c grpc_transport \<Rightarrow> metadata \<Rightarrow> grpc_op \<Rightarrow> ('v, 's) grpc_trace
     \<Rightarrow> ('v, 's) grpc_trace" where
  "run_op rpc t md (OpEnqueue ty args opts) tr = snd (Grpc_Enqueue rpc t md ty args opts tr)"
| "run_op rpc t md (OpGet jid) tr = snd (Grpc_GetJob rpc t md jid tr)"
| "run_op rpc t md (OpCancel jid) tr = snd (Grpc_CancelJob rpc t md jid tr)"
| "run_op rpc t md OpHealth tr = snd (Grpc_Health rpc t md tr)"
| "run_op rpc t md (OpFetch qs n w) tr = snd (Grpc_Fetch rpc t md qs n w tr)"
| "run_op rpc t md (OpAck jid r) tr = snd (Grpc_Ack rpc t md jid r tr)"
| "run_op rpc t md (OpNack jid c m r) tr = snd (Grpc_Nack rpc t md jid c m r tr)"
| "run_op rpc t md (OpHeartbeat i w) tr = snd (Grpc_Heartbeat rpc t md i w tr)"

lemma run_op_one_call:
  "run_op rpc t md op tr = tr \<or> (\<exists>q. run_op rpc t md op tr = tr @ [(grpc_ctx t md, q)])"
  by (cases op)
    (auto simp: Grpc_Enqueue_def Grpc_GetJob_def Grpc_CancelJob_def Grpc_Health_def Grpc_Fetch_def Grpc_Ack_def
      Grpc_Nack_def Grpc_Heartbeat_def invoke_def split: sum.split prod.split grpc_response.split)

definition run_ops :: "('v, 's, 'j, 'h, 'st) rpc \<Rightarrow> 'c grpc_transport \<Rightarrow> (metadata \<times> grpc_op) list
     \<Rightarrow> ('v, 's) grpc_trace" where
  "run_ops rpc t ops = fold (\<lambda>(md, op). run_op rpc t md op) ops []"

text \<open>
  C34: Every call is authorized and none is repeated: whatever operations a program makes on a transport with
  a token, each makes at most one call, and every call ends its metadata with that token as bearer.
\<close>

theorem grpc_calls_authorized:
  assumes "gt_auth t \<noteq> []"
  shows "length (run_ops rpc t ops) \<le> length ops
    \<and> list_all (\<lambda>(md, q). md \<noteq> [] \<and> last md = (''authorization'', ''Bearer '' @ gt_auth t)) (run_ops rpc t ops)"
proof (induction ops rule: rev_induct)
  case Nil
  show ?case by (simp add: run_ops_def)
next
  case (snoc o1 ops)
  obtain md op where o1: "o1 = (md, op)" by (cases o1)
  have "run_ops rpc t (ops @ [o1]) = run_op rpc t md op (run_ops rpc t ops)"
    by (simp add: run_ops_def o1)
  with run_op_one_call [of rpc t md op "run_ops rpc t ops"] snoc assms show ?case
    by (auto simp: grpc_ctx_def)
qed

text \<open>
  A result that protobuf cannot represent is lost without a trace: the job is acknowledged as if its
  handler had returned no result, and the caller is told that all went well. A \<open>Fetch\<close> that asks
  for more jobs than an \<open>int32\<close> holds asks for another number.
\<close>

theorem grpc_ack_loses_result:
  assumes "rpc_NewStruct rpc m = Inl e"
    and "rpc_call rpc tr (grpc_ctx t md) (AckRequest jid None) = Inr resp"
  shows "Grpc_Ack rpc t md jid (Some m) tr = (None, tr @ [(grpc_ctx t md, AckRequest jid None)])
    \<and> Grpc_Ack rpc t md jid (Some m) tr = Grpc_Ack rpc t md jid None tr
    \<and> snd (Grpc_Fetch rpc t md qs (2 ^ 32 + 1) w tr) = snd (Grpc_Fetch rpc t md qs 1 w tr)"
proof -
  have "wrap32 (2 ^ 32 + 1) = wrap32 1" by (simp add: wrap32_def)
  then show ?thesis
    using assms by (simp add: Grpc_Ack_def ack_result_def invoke_def error_of_answer_def Grpc_Fetch_def
        split: sum.split)
qed

definition sample_rpc :: "(any, anymap, job, unit, string) rpc" where
  "sample_rpc = \<lparr>rpc_call = (\<lambda>_ _ _. Inr EmptyResponse), rpc_NewValue = Inr,
     rpc_NewStruct = (\<lambda>m. if m = fmempty then Inr m else Inl (PlainErr ''proto: invalid type'')), rpc_unspecified = []\<rparr>"

theorem grpc_calls_authorized_witness:
  "list_all (\<lambda>(md, q). md \<noteq> [] \<and> last md = (''authorization'', ''Bearer tok''))
      (run_ops sample_rpc (FromConn () [Grpc_WithAuth ''tok'']) [([], OpGet ''j''), ([], OpHealth)])"
  using grpc_calls_authorized [of "FromConn () [Grpc_WithAuth ''tok'']" sample_rpc "[([], OpGet ''j''), ([], OpHealth)]"]
  by (simp add: FromConn_def grpc_config_def Grpc_WithAuth_def)

theorem grpc_ack_loses_result_witness:
  "Grpc_Ack sample_rpc (FromConn () []) [] ''j'' (Some (fmap_of_list [(''ch'', VNil)])) [] =
     (None, [([], AckRequest ''j'' None)])"
proof -
  have ne: "fmap_of_list [(''ch'', VNil)] \<noteq> fmempty"
    by (metis fmempty_lookup fmlookup_of_list map_of_Cons_code(2) option.distinct(1))
  have "rpc_NewStruct sample_rpc (fmap_of_list [(''ch'', VNil)]) = Inl (PlainErr ''proto: invalid type'')"
    using ne by (simp add: sample_rpc_def del: fmap_of_list_simps)
  from grpc_ack_loses_result [OF this, of "[]" "FromConn () []" "[]" "''j''" EmptyResponse] show ?thesis
    by (simp add: sample_rpc_def grpc_ctx_def FromConn_def grpc_config_def del: fmap_of_list_simps)
qed

end
