(* ===== verification/Spec2Isabelle.thy ===== *)
theory Spec2Isabelle
  imports Durable_Store Federation Durable Worker_Loop Workflow Queue_Schema Error_Catalog
    Serverless Subscribe Fake_Client Ml_Package Agent Attest Encryption Recorder Telemetry Grpc_Transport
begin

text \<open>
  A model of the OJS Go SDK (\<open>ojs-go-sdk\<close>): the client and worker library of the Open Job
  Specification. A client turns calls into HTTP requests of a job server; a worker fetches
  jobs, runs handlers through a middleware chain and reports the results. The theories, from
  the bottom up, and the code under \<open>src/\<close> they model:

  \<^item> \<open>Go_Prelude\<close>, \<open>Float64\<close>, \<open>Json\<close>: the Go notions the code is written with. Maps whose iteration
    order matters are lists of pairs, 64-bit arithmetic wraps, \<open>float64\<close> is rounding to nearest
    even over the rationals, JSON is a tree with the rules of \<open>encoding/json\<close> per Go type.
  \<^item> \<open>Job\<close> (\<open>job.go\<close>), \<open>Go_Errors\<close> (\<open>errors.go\<close>), \<open>Error_Catalog\<close> (\<open>error_codes.go\<close>): data and errors.
    The lemmas give the JSON round trip of jobs, with what decoding makes of Go values (\<open>as_decoded\<close>),
    and what \<open>errors.Is\<close> and retryability answer.
  \<^item> \<open>Regexp\<close>, \<open>Validate\<close> (\<open>validate.go\<close>): a derivative matcher for the two patterns, and an
    equivalent description of the names accepted.
  \<^item> \<open>Options\<close> (\<open>options.go\<close>, \<open>retry.go\<close>, \<open>enqueue_export.go\<close>): functional options as setters with the
    locales \<open>config_field\<close> and \<open>setter_field\<close>; retry policies on the wire.
  \<^item> \<open>Transport\<close> (\<open>transport.go\<close>, \<open>rate_limiter.go\<close>): one request with its retries. The outside (server,
    clock, randomness, contexts, parsers) is a record \<open>env\<close> of functions of the history of requests and
    pauses (\<open>trace\<close>); a call maps a trace to a result and a longer trace. The loop is a
    \<open>function\<close> whose measure is the retries left, so it returns for every outside.
  \<^item> \<open>Client\<close>, \<open>Queue_Schema\<close> (\<open>client.go\<close>, \<open>queue.go\<close>, \<open>schema.go\<close>, \<open>progress.go\<close>), \<open>Workflow\<close>
    (\<open>workflow.go\<close>): one definition per call; the lemmas say what is sent, when nothing is sent, and
    that the steps of a workflow form an acyclic order.
  \<^item> \<open>Middleware_Chain\<close> (\<open>middleware.go\<close>, \<open>middleware/recovery.go\<close>, \<open>middleware/metrics.go\<close>), \<open>Worker\<close> and
    \<open>Worker_Loop\<close> (\<open>worker.go\<close>, \<open>typed.go\<close>): handlers with panics as values, the processing and
    reporting of one job, and the start, fetch, dispatch and drain loops as a step relation
    \<open>wstep\<close> over a system state, with invariants over its reachable states.
  \<^item> \<open>Durable\<close> (\<open>durable.go\<close>), \<open>Durable_Store\<close> (\<open>middleware/durable\<close>): replay logs, and checkpoint
    stores with their contract as the locale \<open>checkpoint_store\<close>.
  \<^item> \<open>Federation_Routing\<close>, \<open>Federation\<close> (\<open>federation/\<close>): routing strategies (locales \<open>routing_strategy\<close>
    and \<open>total_strategy\<close>), health checks, circuit breaker and routed calls.
  \<^item> \<open>Subscribe\<close> (\<open>events.go\<close>, \<open>subscribe.go\<close>): the event-stream reader, over the lines a scanner gives,
    and the reconnecting subscription. \<open>n\<close> rounds of it are a function of \<open>n\<close>: the loop itself
    does not end, so every theorem is about any number of rounds.
  \<^item> \<open>Serverless\<close> (\<open>serverless/\<close>): SQS batches, HTTP push and direct calls; a panic that reaches the
    caller is a result of its own (\<open>Crashed\<close>).
  \<^item> \<open>Fake_Store\<close>, \<open>Fake_Client\<close> (\<open>ojstesting/\<close>): the store for tests, its assertions, and the fake server,
    which is put in the place of the outside of the real client.
  \<^item> \<open>Ml_Resources\<close> (\<open>ml.go\<close>), \<open>Ml_Package\<close> (\<open>ml/ml.go\<close>): requirements in metadata; the two validators are
    shown to agree, and checkpoints to survive the server.
  \<^item> \<open>Encryption\<close> (\<open>middleware/encryption\<close>): encrypting arguments and the middleware that decrypts them; base64 is
    written out and proved to round-trip, AES-GCM is a parameter with two laws, key providers are the
    locale \<open>key_store\<close>.
  \<^item> \<open>Telemetry\<close> (\<open>middleware/logging.go\<close>, \<open>middleware/otel\<close>): observing middlewares and the traced client over
    parameters for logger, tracer and meter; a trace context is shown to reach the worker.
  \<^item> \<open>Recorder\<close> (\<open>recorder/\<close>), \<open>Attest\<close> (\<open>attest/\<close>, with the locale \<open>attestor\<close>), \<open>Agent\<close> (\<open>agent/\<close>), \<open>Grpc_Transport\<close>
    (\<open>grpc/\<close>): execution traces, attestations, the client of the agent API, and the transport over the
    generated gRPC client, which is a parameter.

  Modelling decisions. Times are integers (nanoseconds), printed and parsed by a codec that is a
  parameter. JSON objects forget the order of their keys and the spelling of numbers; nil and empty maps
  are one. The clock is read once where options are resolved. Context deadlines are part of
  \<open>env\<close>. No loop needs fuel: recursion is on data or on the retries left.

  Where a definition says less, or allows more, than the code. Strings are valid UTF-8: that
  \<open>encoding/json\<close> rewrites other bytes is not modelled. A request counts once: redirects that \<open>net/http\<close>
  follows inside a call belong to the server's answer. The steps of the circuit breaker on one
  region (\<open>recordFailure\<close>, \<open>checkRegion\<close>) are atomic, while the code stores their fields one by one. \<open>Start\<close>
  of the worker may return in the model while a last heartbeat is still in flight, which the code
  waits for. The text of an attested timestamp is a function of the instant, so all are in one
  time zone.

  Cryptography (AES-GCM, Ed25519, SHA-256), OpenTelemetry, the generated gRPC client and protobuf values
  are parameters; the laws the code relies on are hypotheses of the theorems that use them, and each
  such theorem has an instance with a concrete parameter.

  Not modelled: package documentation and the example programs, which hold no logic of the library;
  the log records of the client, worker and serverless handlers, which no code reads; accessors that hand
  out what another package made (\<open>Close\<close> and \<open>Client\<close> of the gRPC transport, \<open>Unwrap\<close> of the traced client).
\<close>

end
